(* ===== verification/Prelude.thy ===== *)
theory Prelude
  imports Main "HOL-Library.Word" "HOL-Library.Monad_Syntax" "HOL-Library.Sublist"
    "HOL-Library.Multiset"
begin

text \<open>
  Shared vocabulary of the development: the machine types of the C code, the theorem
  collections the component theories fill, and generic facts on options, lists and words.

  A fallible operation has an option type and is written in \<^verbatim>\<open>do\<close> notation. \<^verbatim>\<open>None\<close> means
  that the C code has no defined result there: it would read or write outside an object,
  follow a NULL pointer, overflow a signed counter, or not return. Return codes of the code
  (0, -1, TRUE, FALSE) are ordinary values.
\<close>

unbundle bit_operations_syntax

type_synonym u8 = "8 word"
type_synonym u16 = "16 word"
type_synonym u32 = "32 word"

text \<open>C characters are bytes. A string literal of the source is the list of its bytes,
  without the terminating NUL.\<close>

type_synonym bytes = "u8 list"

abbreviation lit :: "string \<Rightarrow> bytes" where
  "lit s \<equiv> map of_char s"

abbreviation TRUE :: u8 where "TRUE \<equiv> 1"
abbreviation FALSE :: u8 where "FALSE \<equiv> 0"

named_theorems run_simps "definitions of the operations, unfolded when an operation is run"
named_theorems frame_simps "what an operation leaves unchanged"
named_theorems own_simps "effect of an operation on buffer ownership"
named_theorems cmd_simps "layout of the HCI command packets"

lemmas option_conv = Option.bind_eq_Some_conv Option.bind_eq_None_conv

lemma bind_SomeE:
  assumes "Option.bind m f = Some y"
  obtains x where "m = Some x" and "f x = Some y"
  using assms by (cases m) auto

lemma bind_not_None:
  assumes "m = Some x" and "f x \<noteq> None"
  shows "Option.bind m f \<noteq> None"
  using assms by simp

definition ensure :: "bool \<Rightarrow> unit option" where
  "ensure b = (if b then Some () else None)"

lemma ensure_simps [simp]:
  "ensure True = Some ()" "ensure False = None"
  "ensure b = Some u \<longleftrightarrow> b" "ensure b = None \<longleftrightarrow> \<not> b"
  by (simp_all add: ensure_def)

definition nth_opt :: "'a list \<Rightarrow> nat \<Rightarrow> 'a option" where
  "nth_opt xs i = (if i < length xs then Some (xs ! i) else None)"

lemma nth_opt_Some [simp]: "nth_opt xs i = Some x \<longleftrightarrow> i < length xs \<and> xs ! i = x"
  by (auto simp: nth_opt_def)

lemma nth_opt_None [simp]: "nth_opt xs i = None \<longleftrightarrow> length xs \<le> i"
  by (auto simp: nth_opt_def)

lemma list_update_same_value [simp]: "xs ! i = a \<Longrightarrow> xs[i := a] = xs"
  by auto

lemma takeWhile_append_stop:
  "\<forall>x\<in>set xs. P x \<Longrightarrow> \<not> P y \<Longrightarrow> takeWhile P (xs @ y # zs) = xs"
  by (induction xs) auto

lemma takeWhile_id: "\<forall>x\<in>set xs. P x \<Longrightarrow> takeWhile P xs = xs"
  by (induction xs) auto

lemma length_takeWhile_less: "\<exists>x\<in>set xs. \<not> P x \<Longrightarrow> length (takeWhile P xs) < length xs"
  by (induction xs) auto

lemma drop_takeWhile: "drop (length (takeWhile P xs)) xs = dropWhile P xs"
  by (induction xs) auto

lemma multiset_remove_add [simp]: "add_mset x M - {#x#} = M"
  by simp

text \<open>Little-endian conversions of the stream macros of hardware.c.\<close>

definition le16 :: "u16 \<Rightarrow> bytes" where
  "le16 u = [ucast u, ucast (drop_bit 8 u)]"

definition le32 :: "u32 \<Rightarrow> bytes" where
  "le32 u = [ucast u, ucast (drop_bit 8 u), ucast (drop_bit 16 u), ucast (drop_bit 24 u)]"

definition u16_of :: "u8 \<Rightarrow> u8 \<Rightarrow> u16" where
  "u16_of b0 b1 = ucast b0 + push_bit 8 (ucast b1)"

lemma length_le [simp]: "length (le16 u) = 2" "length (le32 v) = 4"
  by (simp_all add: le16_def le32_def)

lemma ucast_add_push_bit:
  "(ucast (b0 :: u8) :: u16) + push_bit 8 (ucast (b1 :: u8)) = ucast b0 OR push_bit 8 (ucast b1)"
proof (rule disjunctive_add)
  fix n
  show "\<not> bit (ucast b0 :: u16) n \<or> \<not> bit (push_bit 8 (ucast b1) :: u16) n"
    by (auto simp: bit_simps dest: bit_imp_le_length)
qed

text \<open>Writing a 16-bit value with UINT16_TO_STREAM and reading it back with
  STREAM_TO_UINT16 gives the value.\<close>

lemma u16_of_le16: "u16_of (le16 u ! 0) (le16 u ! 1) = u"
proof -
  have "ucast (ucast u :: u8) OR push_bit 8 (ucast (ucast (drop_bit 8 u) :: u8)) = u"
    by (rule bit_word_eqI) (auto simp: bit_simps)
  then show ?thesis
    by (simp add: u16_of_def le16_def ucast_add_push_bit)
qed

end
