(* ===== verification/CLib.thy ===== *)
theory CLib
  imports Prelude
begin

text \<open>
  The part of the C library the code uses, on memory blocks. A block is the list of the bytes
  of an object; a store beyond its end is \<^verbatim>\<open>None\<close>. A C string in a block is the bytes before
  the first NUL, and has no defined value in a block without one.
\<close>

section \<open>Blocks\<close>

definition store :: "nat \<Rightarrow> bytes \<Rightarrow> bytes \<Rightarrow> bytes option" where
  "store off bs blk =
     (if off + length bs \<le> length blk
      then Some (take off blk @ bs @ drop (off + length bs) blk) else None)"

lemma store_0: "length bs \<le> length blk \<Longrightarrow> store 0 bs blk = Some (bs @ drop (length bs) blk)"
  by (simp add: store_def)

lemma store_Some_iff:
  "store off bs blk = Some blk' \<longleftrightarrow>
     off + length bs \<le> length blk \<and> blk' = take off blk @ bs @ drop (off + length bs) blk"
  by (auto simp: store_def)

lemma store_length: "store off bs blk = Some blk' \<Longrightarrow> length blk' = length blk"
  by (auto simp: store_Some_iff)

lemma store_take: "store off bs blk = Some blk' \<Longrightarrow> take off blk' = take off blk"
  by (auto simp: store_Some_iff)

lemma store_read: "store off bs blk = Some blk' \<Longrightarrow> take (length bs) (drop off blk') = bs"
  by (auto simp: store_Some_iff)

definition memset :: "nat \<Rightarrow> bytes \<Rightarrow> bytes option" where
  "memset n blk = store 0 (replicate n 0) blk"

section \<open>Strings\<close>

definition cstr :: "bytes \<Rightarrow> bytes" where
  "cstr blk = takeWhile (\<lambda>b. b \<noteq> 0) blk"

definition terminated :: "bytes \<Rightarrow> bool" where
  "terminated blk \<longleftrightarrow> 0 \<in> set blk"

definition no_nul :: "bytes \<Rightarrow> bool" where
  "no_nul s \<longleftrightarrow> 0 \<notin> set s"

definition strlen :: "bytes \<Rightarrow> nat option" where
  "strlen blk = (if terminated blk then Some (length (cstr blk)) else None)"

definition strcpy :: "bytes \<Rightarrow> bytes \<Rightarrow> bytes option" where
  "strcpy blk s = store 0 (s @ [0]) blk"

definition strcat :: "bytes \<Rightarrow> bytes \<Rightarrow> bytes option" where
  "strcat blk s = do { n \<leftarrow> strlen blk; store n (s @ [0]) blk }"

text \<open>\<^verbatim>\<open>strncpy(dst, s, n)\<close> stores exactly n bytes: s cut at n, then padded with NULs.\<close>

definition strncpy_bytes :: "bytes \<Rightarrow> nat \<Rightarrow> bytes" where
  "strncpy_bytes s n = take n s @ replicate (n - length s) 0"

definition toupper :: "u8 \<Rightarrow> u8" where
  "toupper c = (if 97 \<le> c \<and> c \<le> 122 then c - 32 else c)"

definition isdigit :: "u8 \<Rightarrow> bool" where
  "isdigit c \<longleftrightarrow> 48 \<le> c \<and> c \<le> 57"

definition isspace :: "u8 \<Rightarrow> bool" where
  "isspace c \<longleftrightarrow> c = 32 \<or> (9 \<le> c \<and> c \<le> 13)"

lemma cstr_no_nul [simp]: "no_nul (cstr blk)"
  by (auto simp: no_nul_def cstr_def dest: set_takeWhileD)

lemma cstr_append_nul [simp]: "no_nul s \<Longrightarrow> cstr (s @ 0 # rest) = s"
  unfolding cstr_def no_nul_def by (rule takeWhile_append_stop) auto

lemma no_nul_simps [simp]:
  "no_nul []" "no_nul (a # s) \<longleftrightarrow> a \<noteq> 0 \<and> no_nul s"
  "no_nul (s @ t) \<longleftrightarrow> no_nul s \<and> no_nul t"
  by (auto simp: no_nul_def)

lemma no_nul_take: "no_nul s \<Longrightarrow> no_nul (take n s)"
  by (auto simp: no_nul_def dest: in_set_takeD)

lemma no_nul_drop: "no_nul s \<Longrightarrow> no_nul (drop n s)"
  by (auto simp: no_nul_def dest: in_set_dropD)

lemma terminated_append_nul [simp]: "terminated (s @ 0 # rest)"
  by (simp add: terminated_def)

lemma strlen_append_nul [simp]: "no_nul s \<Longrightarrow> strlen (s @ 0 # rest) = Some (length s)"
  by (simp add: strlen_def)

lemma cstr_length_less: "terminated blk \<Longrightarrow> length (cstr blk) < length blk"
  unfolding cstr_def terminated_def by (rule length_takeWhile_less) auto

lemma terminated_split:
  assumes "terminated blk"
  obtains rest where "blk = cstr blk @ 0 # rest"
proof -
  have "length (cstr blk) < length blk"
    using assms by (rule cstr_length_less)
  then have "blk = cstr blk @ (blk ! length (cstr blk)) # drop (Suc (length (cstr blk))) blk"
    unfolding cstr_def
    by (metis append_take_drop_id Cons_nth_drop_Suc takeWhile_eq_take)
  moreover have "blk ! length (cstr blk) = 0"
    using \<open>length (cstr blk) < length blk\<close> unfolding cstr_def
    by (metis (mono_tags, lifting) nth_length_takeWhile)
  ultimately show thesis using that by metis
qed

lemma strcpy_Some_iff:
  "strcpy blk s = Some blk' \<longleftrightarrow>
     length s < length blk \<and> blk' = s @ 0 # drop (Suc (length s)) blk"
  by (auto simp: strcpy_def store_Some_iff)

lemma strcpy_result: "no_nul s \<Longrightarrow> strcpy blk s = Some blk' \<Longrightarrow> cstr blk' = s \<and> terminated blk'"
  by (auto simp: strcpy_Some_iff)

lemma strcat_append_nul:
  assumes "no_nul s"
  shows "strcat (s @ 0 # rest) t =
           (if length t \<le> length rest then Some (s @ t @ 0 # drop (length t) rest) else None)"
  using assms by (auto simp: strcat_def store_def)

lemma strncpy_bytes_length [simp]: "length (strncpy_bytes s n) = n"
  by (simp add: strncpy_bytes_def)

lemma toupper_eq_0 [simp]: "toupper c = 0 \<longleftrightarrow> c = 0"
proof (cases "97 \<le> c \<and> c \<le> 122")
  case True
  then have "c - 32 \<noteq> 0" and "c \<noteq> 0" by (auto simp: word_le_nat_alt)
  with True show ?thesis by (simp add: toupper_def)
next
  case False
  then have "toupper c = c" by (simp only: toupper_def if_False)
  then show ?thesis by simp
qed

lemma toupper_0 [simp]: "toupper 0 = 0" "0 = toupper c \<longleftrightarrow> c = 0"
  by (simp, metis toupper_eq_0)

lemma toupper_idem [simp]: "toupper (toupper c) = toupper c"
proof (cases "97 \<le> c \<and> c \<le> 122")
  case True
  then have "unat (c - 32) = unat c - 32" and "unat c \<le> 122"
    by (auto simp: word_le_nat_alt unat_sub)
  then have "\<not> 97 \<le> c - 32"
    by (simp add: word_le_nat_alt)
  with True show ?thesis by (simp add: toupper_def)
next
  case False
  then have "toupper c = c" by (simp only: toupper_def if_False)
  then show ?thesis by simp
qed

lemma cstr_map_toupper: "cstr (map toupper blk) = map toupper (cstr blk)"
  by (induction blk) (auto simp: cstr_def)

section \<open>Searching and splitting\<close>

text \<open>\<^verbatim>\<open>strstr\<close>: the offset of the first occurrence of the needle.\<close>

fun strstr :: "bytes \<Rightarrow> bytes \<Rightarrow> nat option" where
  "strstr [] n = (if n = [] then Some 0 else None)"
| "strstr (c # s) n = (if prefix n (c # s) then Some 0 else map_option Suc (strstr s n))"

lemma strstr_Some:
  "strstr s n = Some k \<Longrightarrow> prefix n (drop k s) \<and> k + length n \<le> length s"
proof (induction s arbitrary: k)
  case Nil
  then show ?case by (auto split: if_splits)
next
  case (Cons c s)
  then show ?case by (auto split: if_splits dest: prefix_length_le)
qed

lemma strstr_first: "strstr s n = Some k \<Longrightarrow> j < k \<Longrightarrow> \<not> prefix n (drop j s)"
proof (induction s arbitrary: k j)
  case (Cons c s)
  then show ?case by (cases j) (auto split: if_splits)
qed (auto split: if_splits)

lemma strstr_None: "strstr s n = None \<Longrightarrow> \<not> prefix n (drop j s)"
proof (induction s arbitrary: j)
  case (Cons c s)
  then show ?case by (cases j) (auto split: if_splits)
qed (auto split: if_splits)

lemma strstr_isSubstring: "strstr s n \<noteq> None \<longleftrightarrow> sublist n s"
proof
  assume "strstr s n \<noteq> None"
  then obtain k where "strstr s n = Some k" by auto
  then have "prefix n (drop k s)" by (simp add: strstr_Some)
  then obtain r where "drop k s = n @ r" by (auto simp: prefix_def)
  then have "s = take k s @ n @ r" by (metis append_take_drop_id)
  then show "sublist n s" unfolding sublist_def by blast
next
  assume "sublist n s"
  then obtain p r where s: "s = p @ n @ r" by (auto simp: sublist_def)
  then have "prefix n (drop (length p) s)" by simp
  then show "strstr s n \<noteq> None" by (metis strstr_None)
qed

text \<open>One \<^verbatim>\<open>strtok\<close> call on the text left of the previous one: the next token and what
  follows the delimiter that ended it.\<close>

definition strtok :: "bytes \<Rightarrow> bytes \<Rightarrow> (bytes \<times> bytes) option" where
  "strtok delims s =
     (let s1 = dropWhile (\<lambda>c. c \<in> set delims) s in
      if s1 = [] then None
      else Some (takeWhile (\<lambda>c. c \<notin> set delims) s1,
                 drop 1 (dropWhile (\<lambda>c. c \<notin> set delims) s1)))"

lemma strtok_token:
  assumes "strtok delims s = Some (tok, rest)"
  shows "tok \<noteq> []" and "\<forall>c\<in>set tok. c \<notin> set delims" and "length tok + length rest \<le> length s"
    and "set tok \<subseteq> set s"
proof -
  define s1 where "s1 = dropWhile (\<lambda>c. c \<in> set delims) s"
  from assms have ne: "s1 \<noteq> []"
    and tok: "tok = takeWhile (\<lambda>c. c \<notin> set delims) s1"
    and rest: "rest = drop 1 (dropWhile (\<lambda>c. c \<notin> set delims) s1)"
    by (auto simp: strtok_def Let_def s1_def split: if_splits)
  have "hd s1 \<notin> set delims"
    using ne unfolding s1_def by (rule hd_dropWhile)
  with ne show "tok \<noteq> []" unfolding tok by (cases s1) auto
  show "\<forall>c\<in>set tok. c \<notin> set delims" unfolding tok by (auto dest: set_takeWhileD)
  have "length tok + length (dropWhile (\<lambda>c. c \<notin> set delims) s1) = length s1"
    unfolding tok by (metis length_append takeWhile_dropWhile_id)
  moreover have "length s1 \<le> length s" unfolding s1_def by (rule length_dropWhile_le)
  ultimately show "length tok + length rest \<le> length s" unfolding rest by simp
  show "set tok \<subseteq> set s" unfolding tok s1_def
    by (auto dest!: set_takeWhileD set_dropWhileD)
qed

text \<open>\<^verbatim>\<open>fgets(line, n + 1, f)\<close>: at most n bytes of the stream, up to and with a newline.\<close>

fun take_line :: "nat \<Rightarrow> bytes \<Rightarrow> bytes \<times> bytes" where
  "take_line 0 s = ([], s)"
| "take_line (Suc n) [] = ([], [])"
| "take_line (Suc n) (c # s) =
     (if c = 10 then ([c], s) else (case take_line n s of (l, r) \<Rightarrow> (c # l, r)))"

definition fgets :: "nat \<Rightarrow> bytes \<Rightarrow> (bytes \<times> bytes) option" where
  "fgets n s = (if s = [] then None else Some (take_line n s))"

lemma take_line_append: "take_line n s = (l, r) \<Longrightarrow> s = l @ r \<and> length l \<le> n"
  by (induction n s arbitrary: l r rule: take_line.induct)
    (auto split: if_splits prod.splits)

lemma take_line_progress: "s \<noteq> [] \<Longrightarrow> take_line (Suc n) s = (l, r) \<Longrightarrow> l \<noteq> []"
  by (cases s) (auto split: if_splits prod.splits)

lemma fgets_less: "fgets (Suc n) s = Some (l, r) \<Longrightarrow> length r < length s"
  by (auto simp: fgets_def split: if_splits dest: take_line_append take_line_progress)
    (metis length_append length_greater_0_conv less_add_same_cancel2 take_line_append
      take_line_progress)

text \<open>\<^verbatim>\<open>atoi\<close>: white space, a sign, digits; no defined value outside \<^verbatim>\<open>int\<close>.\<close>

fun digits_val :: "int \<Rightarrow> bytes \<Rightarrow> int" where
  "digits_val acc [] = acc"
| "digits_val acc (c # s) =
     (if isdigit c then digits_val (10 * acc + (uint c - 48)) s else acc)"

definition atoi :: "bytes \<Rightarrow> int option" where
  "atoi s =
     (let s1 = dropWhile isspace s;
          v = (case s1 of
                 [] \<Rightarrow> 0
               | c # r \<Rightarrow> if c = 45 then - digits_val 0 r
                        else if c = 43 then digits_val 0 r else digits_val 0 s1)
      in if - (2 ^ 31) \<le> v \<and> v < 2 ^ 31 then Some v else None)"

text \<open>The decimal text of a number, as \<^verbatim>\<open>%d\<close> prints it.\<close>

fun decimal :: "nat \<Rightarrow> bytes" where
  "decimal n = (if n < 10 then [of_nat (48 + n)] else decimal (n div 10) @ [of_nat (48 + n mod 10)])"

declare decimal.simps [simp del]

lemma decimal_length: "n < 10 ^ k \<Longrightarrow> 0 < k \<Longrightarrow> length (decimal n) \<le> k"
proof (induction n arbitrary: k rule: decimal.induct)
  case (1 n)
  show ?case
  proof (cases "n < 10")
    case True
    with "1.prems" show ?thesis by (subst decimal.simps) simp
  next
    case False
    with "1.prems" obtain j where k: "k = Suc j" "0 < j"
      by (cases k; cases "k = 1") auto
    with "1.prems" have "n div 10 < 10 ^ j" by simp
    with "1.IH" False k(2) have "length (decimal (n div 10)) \<le> j" by blast
    with False k show ?thesis by (subst decimal.simps) simp
  qed
qed

lemma digit_nonzero: "d < 10 \<Longrightarrow> (of_nat (48 + d) :: u8) \<noteq> 0"
  by (auto simp: word_of_nat_eq_0_iff dest: dvd_imp_le simp del: of_nat_add)

lemma decimal_no_nul: "no_nul (decimal n)"
proof (induction n rule: decimal.induct)
  case (1 n)
  then show ?case
    using digit_nonzero [of n] digit_nonzero [of "n mod 10"]
    by (subst decimal.simps) (auto simp del: of_nat_add)
qed

end
