(* ===== verification/BuildConfig.thy ===== *)
theory BuildConfig
  imports CLib
begin

text \<open>
  The build-time configuration. Every macro of bt_vendor_nordic.h, userial_vendor.h and upio.c
  that selects code or gives a value is a field, and every operation of the development takes
  the configuration as an argument, so that each \<^verbatim>\<open>#if\<close> of the code is a branch of the model.
  \<^verbatim>\<open>default_cfg\<close> holds the values of the \<^verbatim>\<open>#ifndef\<close> blocks of the headers, \<^verbatim>\<open>nordic_cfg\<close>
  the ones include/vnd_nordic.txt overrides. Debug switches have no field: they only guard log
  output.
\<close>

record lib_cfg =
  VENDOR_LIB_RUNTIME_TUNING_ENABLED :: bool
  VENDOR_LIB_CONF_FILE :: bytes
  BLUETOOTH_UART_DEVICE_PORT :: bytes
  FW_PATCHFILE_LOCATION :: bytes
  UART_TARGET_BAUD_RATE :: u32
  FW_PATCH_SETTLEMENT_DELAY_MS :: u32
  USE_CONTROLLER_BDADDR :: bool
  USE_BLUETOOTH_BCM4343 :: bool
  HW_END_WITH_HCI_RESET :: bool
  BRCM_A2DP_OFFLOAD :: bool

record lpm_cfg = lib_cfg +
  LPM_SLEEP_MODE :: u8
  LPM_IDLE_THRESHOLD :: u8
  LPM_HC_IDLE_THRESHOLD :: u8
  LPM_BT_WAKE_POLARITY :: u8
  LPM_HOST_WAKE_POLARITY :: u8
  LPM_ALLOW_HOST_SLEEP_DURING_SCO :: u8
  LPM_COMBINE_SLEEP_MODE_AND_LPM :: u8
  LPM_ENABLE_UART_TXD_TRI_STATE :: u8
  LPM_PULSED_HOST_WAKE :: u8
  LPM_IDLE_TIMEOUT_MULTIPLE :: u32
  BT_WAKE_VIA_USERIAL_IOCTL :: bool
  BT_WAKE_USERIAL_LDISC :: bool
  BT_WAKE_VIA_PROC :: bool
  BT_WAKE_VIA_PROC_NOTIFY_DEASSERT :: bool
  N_BRCM_HCI :: nat
  VENDOR_LPM_PROC_NODE :: bytes
  VENDOR_BTWRITE_PROC_NODE :: bytes
  PROC_BTWRITE_TIMER_TIMEOUT_MS :: nat
  USERIAL_IOCTL_BT_WAKE_ASSERT :: nat
  USERIAL_IOCTL_BT_WAKE_DEASSERT :: nat
  USERIAL_IOCTL_BT_WAKE_GET_ST :: nat

record sco_cfg = lpm_cfg +
  SCO_CFG_INCLUDED :: bool
  SCO_USE_I2S_INTERFACE :: bool
  SCO_WBS_SAMPLE_RATE :: int
  SCO_I2SPCM_IF_MODE :: u8
  SCO_I2SPCM_IF_ROLE :: u8
  SCO_I2SPCM_IF_SAMPLE_RATE :: u8
  SCO_I2SPCM_IF_CLOCK_RATE :: u8
  SCO_I2SPCM_IF_CLOCK_RATE4WBS :: u8

record buildcfg = sco_cfg +
  SCO_PCM_ROUTING :: u8
  SCO_PCM_IF_CLOCK_RATE :: u8
  SCO_PCM_IF_FRAME_TYPE :: u8
  SCO_PCM_IF_SYNC_MODE :: u8
  SCO_PCM_IF_CLOCK_MODE :: u8
  PCM_DATA_FMT_SHIFT_MODE :: u8
  PCM_DATA_FMT_FILL_BITS :: u8
  PCM_DATA_FMT_FILL_METHOD :: u8
  PCM_DATA_FMT_FILL_NUM :: u8
  PCM_DATA_FMT_JUSTIFY_MODE :: u8

definition default_cfg :: buildcfg where
  "default_cfg = \<lparr>
     VENDOR_LIB_RUNTIME_TUNING_ENABLED = False,
     VENDOR_LIB_CONF_FILE = lit ''/etc/bluetooth/bt_vendor.conf'',
     BLUETOOTH_UART_DEVICE_PORT = lit ''/dev/ttyO1'',
     FW_PATCHFILE_LOCATION = lit ''/vendor/firmware/'',
     UART_TARGET_BAUD_RATE = 3000000,
     FW_PATCH_SETTLEMENT_DELAY_MS = 0,
     USE_CONTROLLER_BDADDR = False,
     USE_BLUETOOTH_BCM4343 = False,
     HW_END_WITH_HCI_RESET = False,
     BRCM_A2DP_OFFLOAD = False,
     LPM_SLEEP_MODE = 1,
     LPM_IDLE_THRESHOLD = 1,
     LPM_HC_IDLE_THRESHOLD = 1,
     LPM_BT_WAKE_POLARITY = 1,
     LPM_HOST_WAKE_POLARITY = 1,
     LPM_ALLOW_HOST_SLEEP_DURING_SCO = 1,
     LPM_COMBINE_SLEEP_MODE_AND_LPM = 1,
     LPM_ENABLE_UART_TXD_TRI_STATE = 0,
     LPM_PULSED_HOST_WAKE = 0,
     LPM_IDLE_TIMEOUT_MULTIPLE = 10,
     BT_WAKE_VIA_USERIAL_IOCTL = False,
     BT_WAKE_USERIAL_LDISC = False,
     BT_WAKE_VIA_PROC = False,
     BT_WAKE_VIA_PROC_NOTIFY_DEASSERT = False,
     N_BRCM_HCI = 25,
     VENDOR_LPM_PROC_NODE = lit ''/proc/bluetooth/sleep/lpm'',
     VENDOR_BTWRITE_PROC_NODE = lit ''/proc/bluetooth/sleep/btwrite'',
     PROC_BTWRITE_TIMER_TIMEOUT_MS = 8000,
     USERIAL_IOCTL_BT_WAKE_ASSERT = 0x8003,
     USERIAL_IOCTL_BT_WAKE_DEASSERT = 0x8004,
     USERIAL_IOCTL_BT_WAKE_GET_ST = 0x8005,
     SCO_CFG_INCLUDED = True,
     SCO_USE_I2S_INTERFACE = False,
     SCO_WBS_SAMPLE_RATE = 1,
     SCO_I2SPCM_IF_MODE = 1,
     SCO_I2SPCM_IF_ROLE = 1,
     SCO_I2SPCM_IF_SAMPLE_RATE = 0,
     SCO_I2SPCM_IF_CLOCK_RATE = 1,
     SCO_I2SPCM_IF_CLOCK_RATE4WBS = 2,
     SCO_PCM_ROUTING = 0,
     SCO_PCM_IF_CLOCK_RATE = 4,
     SCO_PCM_IF_FRAME_TYPE = 0,
     SCO_PCM_IF_SYNC_MODE = 0,
     SCO_PCM_IF_CLOCK_MODE = 0,
     PCM_DATA_FMT_SHIFT_MODE = 0,
     PCM_DATA_FMT_FILL_BITS = 0,
     PCM_DATA_FMT_FILL_METHOD = 3,
     PCM_DATA_FMT_FILL_NUM = 0,
     PCM_DATA_FMT_JUSTIFY_MODE = 0 \<rparr>"

definition nordic_cfg :: buildcfg where
  "nordic_cfg = default_cfg
    \<lparr> BLUETOOTH_UART_DEVICE_PORT := lit ''/dev/ttymxc0'',
      FW_PATCHFILE_LOCATION := lit ''/vendor/firmware/brcm'',
      VENDOR_LIB_CONF_FILE := lit ''/vendor/etc/bluetooth/bt_vendor.conf'',
      LPM_IDLE_TIMEOUT_MULTIPLE := 5,
      SCO_USE_I2S_INTERFACE := False,
      LPM_SLEEP_MODE := 0,
      UART_TARGET_BAUD_RATE := 1000000 \<rparr>"

text \<open>Sizes of the parameter arrays, which no configuration changes.\<close>

definition SCO_I2SPCM_PARAM_SIZE :: nat where "SCO_I2SPCM_PARAM_SIZE = 4"
definition SCO_PCM_PARAM_SIZE :: nat where "SCO_PCM_PARAM_SIZE = 5"
definition PCM_DATA_FORMAT_PARAM_SIZE :: nat where "PCM_DATA_FORMAT_PARAM_SIZE = 5"

lemmas param_sizes [simp] =
  SCO_I2SPCM_PARAM_SIZE_def SCO_PCM_PARAM_SIZE_def PCM_DATA_FORMAT_PARAM_SIZE_def

end
