(* ===== verification/Platform.thy ===== *)
theory Platform
  imports BuildConfig
begin

text \<open>
  What lies outside the library: the operating system, and the host stack that hands over its
  callbacks (\<^verbatim>\<open>bt_vendor_callbacks_t\<close>). Both are the environment \<^verbatim>\<open>env\<close>, a record of
  functions from the history of calls and the arguments of the next call to its result, so that
  any behaviour that depends on the past can be expressed. The library's calls are logged in
  order in the field \<^verbatim>\<open>trace\<close> of the state, which every component extends by its own fields.

  Constants that bt_vendor_lib.h, bt_hci_bdroid.h and esco_parameters.h define are fields of the
  environment too: those headers belong to the host stack.
\<close>

section \<open>Data that crosses the boundary\<close>

datatype oflag = O_RDONLY | O_WRONLY | O_RDWR

text \<open>The termios speed symbols the code uses; B0 is the speed of a zeroed termios.\<close>

datatype tcio =
  B0 | B600 | B1200 | B9600 | B19200 | B57600 | B115200 | B230400 | B460800 | B921600 |
  B1000000 | B2000000 | B3000000 | B4000000

record termios =
  c_iflag :: u32
  c_oflag :: u32
  c_cflag :: u32
  c_lflag :: u32
  c_ispeed :: tcio
  c_ospeed :: tcio

datatype itimer = ArmTimer nat nat | DisarmTimer | IndeterminateTimer

datatype sleep_result = Slept | SleepInterrupted nat nat | SleepFailed

text \<open>HC_BT_HDR with the memory behind it. \<^verbatim>\<open>hb_id\<close> is the address the host stack's
  allocator returned, \<^verbatim>\<open>hb_data\<close> the block from \<^verbatim>\<open>p_buf + 1\<close> to the end of the allocation.\<close>

record hc_hdr =
  hb_id :: nat
  hb_event :: u16
  hb_len :: u16
  hb_offset :: u16
  hb_layer :: u16
  hb_data :: bytes

text \<open>The completion callbacks the library passes to \<^verbatim>\<open>xmit_cb\<close>.\<close>

datatype cback =
  CB_hw_config | CB_hw_lpm_ctrl | CB_hw_sco_i2spcm_cfg | CB_hw_set_MSBC_codec |
  CB_hw_set_CVSD_codec | CB_hw_epilog

datatype op_result = BT_VND_OP_RESULT_SUCCESS | BT_VND_OP_RESULT_FAIL

datatype event =
    OpenEv bytes oflag int
  | ReadEv int nat "bytes option"
  | WriteEv int bytes bool
  | CloseEv int
  | IoctlEv int nat "nat option"
  | TcflushEv int
  | TcgetattrEv int
  | TcsetattrEv int termios
  | OpendirEv bytes bool
  | ClosedirEv
  | FopenEv bytes bool
  | FcloseEv
  | NanosleepEv nat nat
  | TimerCreateEv "nat option"
  | TimerDeleteEv nat
  | TimerSettimeEv nat itimer
  | AllocEv nat "nat option"
  | DeallocEv nat
  | XmitEv u16 hc_hdr cback u8
  | FwcfgCbEv op_result
  | ScocfgCbEv op_result
  | LpmCbEv op_result
  | AudioStateCbEv op_result
  | EpilogCbEv op_result

record env =
  os_open :: "event list \<Rightarrow> bytes \<Rightarrow> oflag \<Rightarrow> int"
  os_read :: "event list \<Rightarrow> int \<Rightarrow> nat \<Rightarrow> bytes option"
  os_write :: "event list \<Rightarrow> int \<Rightarrow> bytes \<Rightarrow> bool"
  os_dir :: "event list \<Rightarrow> bytes \<Rightarrow> bytes list option"
  os_file :: "event list \<Rightarrow> bytes \<Rightarrow> bytes option"
  os_tcgetattr :: "event list \<Rightarrow> int \<Rightarrow> termios option"
  os_nanosleep :: "event list \<Rightarrow> nat \<Rightarrow> nat \<Rightarrow> sleep_result"
  os_timer_create :: "event list \<Rightarrow> nat option"
  os_property :: "bytes \<Rightarrow> bytes option"
  hc_alloc_addr :: "event list \<Rightarrow> nat \<Rightarrow> nat option"
  hc_stale :: "event list \<Rightarrow> nat \<Rightarrow> u8"
  hc_xmit_result :: "event list \<Rightarrow> u16 \<Rightarrow> hc_hdr \<Rightarrow> cback \<Rightarrow> u8"
  a2dp_execute :: "event list \<Rightarrow> bool \<Rightarrow> int"
  BT_HC_HDR_SIZE :: nat
  MSG_STACK_TO_HC_HCI_CMD :: u16
  SCO_CODEC_NONE :: u16
  SCO_CODEC_CVSD :: u16
  SCO_CODEC_MSBC :: u16
  BT_VND_PWR_ON :: int
  BT_VND_LPM_WAKE_ASSERT :: u8
  CH_MAX :: nat

text \<open>Documented behaviour of the environment that some properties rely on.\<close>

definition xmit_returns_bool :: "env \<Rightarrow> bool" where
  "xmit_returns_bool E \<longleftrightarrow>
     (\<forall>tr opc b cb. hc_xmit_result E tr opc b cb = FALSE \<or> hc_xmit_result E tr opc b cb = TRUE)"

definition open_returns_fd :: "env \<Rightarrow> bool" where
  "open_returns_fd E \<longleftrightarrow> (\<forall>tr p fl. - 1 \<le> os_open E tr p fl)"

text \<open>What the host stack and the system may answer to a call, whatever has happened before.\<close>

definition xmit_answers :: "env \<Rightarrow> u16 \<Rightarrow> hc_hdr \<Rightarrow> u8 \<Rightarrow> bool" where
  "xmit_answers E opc b r \<longleftrightarrow> (\<exists>tr. r = hc_xmit_result E tr opc b CB_hw_config)"

definition alloc_answers :: "env \<Rightarrow> nat \<Rightarrow> nat option \<Rightarrow> bool" where
  "alloc_answers E n a \<longleftrightarrow> (\<exists>tr. a = hc_alloc_addr E tr n)"

definition open_answers :: "env \<Rightarrow> bytes \<Rightarrow> int \<Rightarrow> bool" where
  "open_answers E p fd \<longleftrightarrow> (\<exists>tr. fd = os_open E tr p O_RDONLY)"

text \<open>A host stack with memory that accepts every command.\<close>

definition accepting_host :: "env \<Rightarrow> bool" where
  "accepting_host E \<longleftrightarrow> (\<forall>tr n. hc_alloc_addr E tr n \<noteq> None)
     \<and> (\<forall>tr opc b cb. hc_xmit_result E tr opc b cb = TRUE)"

lemma answers_sane:
  "xmit_answers E opc b r \<Longrightarrow> xmit_returns_bool E \<Longrightarrow> r = TRUE \<or> r = FALSE"
  "open_answers E p fd \<Longrightarrow> open_returns_fd E \<Longrightarrow> - 1 \<le> fd"
  "xmit_answers E opc b r \<Longrightarrow> accepting_host E \<Longrightarrow> r = TRUE"
  "alloc_answers E n a \<Longrightarrow> accepting_host E \<Longrightarrow> a \<noteq> None"
  by (auto simp: xmit_answers_def xmit_returns_bool_def open_answers_def open_returns_fd_def
        alloc_answers_def accepting_host_def)

definition sleep_remainder_smaller :: "env \<Rightarrow> bool" where
  "sleep_remainder_smaller E \<longleftrightarrow>
     (\<forall>tr s ns s' ns'. os_nanosleep E tr s ns = SleepInterrupted s' ns' \<longrightarrow>
        s' * 1000000000 + ns' < s * 1000000000 + ns)"

text \<open>A concrete environment for witnesses: every call succeeds, files and directories are
  empty, addresses are never reused.\<close>

definition sample_env :: env where
  "sample_env = \<lparr>
     os_open = (\<lambda>tr p fl. 7),
     os_read = (\<lambda>tr fd n. Some []),
     os_write = (\<lambda>tr fd bs. True),
     os_dir = (\<lambda>tr p. Some []),
     os_file = (\<lambda>tr p. None),
     os_tcgetattr = (\<lambda>tr fd. None),
     os_nanosleep = (\<lambda>tr s ns. Slept),
     os_timer_create = (\<lambda>tr. Some 1),
     os_property = (\<lambda>k. None),
     hc_alloc_addr = (\<lambda>tr n. Some (1000 + length tr)),
     hc_stale = (\<lambda>tr i. 0xA5),
     hc_xmit_result = (\<lambda>tr opc b cb. TRUE),
     a2dp_execute = (\<lambda>tr start. 0),
     BT_HC_HDR_SIZE = 8,
     MSG_STACK_TO_HC_HCI_CMD = 0x2000,
     SCO_CODEC_NONE = 0,
     SCO_CODEC_CVSD = 1,
     SCO_CODEC_MSBC = 2,
     BT_VND_PWR_ON = 1,
     BT_VND_LPM_WAKE_ASSERT = 0,
     CH_MAX = 4 \<rparr>"

text \<open>One whose host stack refuses every command.\<close>

definition refusing_env :: env where
  "refusing_env = sample_env\<lparr>hc_xmit_result := \<lambda>tr opc b cb. FALSE\<rparr>"

lemma sample_env_sane [simp]:
  "xmit_returns_bool sample_env" "open_returns_fd sample_env" "sleep_remainder_smaller sample_env"
  by (simp_all add: sample_env_def xmit_returns_bool_def open_returns_fd_def
        sleep_remainder_smaller_def)

lemma sample_env_accepts: "accepting_host sample_env"
  by (simp add: sample_env_def accepting_host_def)

section \<open>The call log and the logged calls\<close>

definition zero_termios :: termios where
  "zero_termios = \<lparr>c_iflag = 0, c_oflag = 0, c_cflag = 0, c_lflag = 0, c_ispeed = B0, c_ospeed = B0\<rparr>"

record os =
  trace :: "event list"

definition log :: "event \<Rightarrow> 'a os_scheme \<Rightarrow> 'a os_scheme" where
  "log e w = w\<lparr>trace := trace w @ [e]\<rparr>"

definition sys_open :: "env \<Rightarrow> bytes \<Rightarrow> oflag \<Rightarrow> 'a os_scheme \<Rightarrow> int \<times> 'a os_scheme" where
  "sys_open E path fl w = (let fd = os_open E (trace w) path fl in (fd, log (OpenEv path fl fd) w))"

text \<open>\<^verbatim>\<open>read\<close> returns at most the number of bytes asked for; \<^verbatim>\<open>None\<close> is the result -1.\<close>

definition sys_read :: "env \<Rightarrow> int \<Rightarrow> nat \<Rightarrow> 'a os_scheme \<Rightarrow> bytes option \<times> 'a os_scheme" where
  "sys_read E fd n w =
     (let r = map_option (take n) (os_read E (trace w) fd n) in (r, log (ReadEv fd n r) w))"

text \<open>\<^verbatim>\<open>write\<close>: whether the result is not negative.\<close>

definition sys_write :: "env \<Rightarrow> int \<Rightarrow> bytes \<Rightarrow> 'a os_scheme \<Rightarrow> bool \<times> 'a os_scheme" where
  "sys_write E fd bs w = (let r = os_write E (trace w) fd bs in (r, log (WriteEv fd bs r) w))"

definition property_get :: "env \<Rightarrow> bytes \<Rightarrow> bytes \<Rightarrow> bytes" where
  "property_get E key dflt = (case os_property E key of None \<Rightarrow> dflt | Some v \<Rightarrow> v)"

lemma trace_log [simp]: "trace (log e w) = trace w @ [e]"
  by (simp add: log_def)

text \<open>The state differs only by calls added to the log.\<close>

definition only_logs :: "'a os_scheme \<Rightarrow> 'a os_scheme \<Rightarrow> bool" where
  "only_logs w w' \<longleftrightarrow> (\<exists>s. w' = w\<lparr>trace := trace w @ s\<rparr>)"

lemma only_logs_refl [intro, simp]: "only_logs w w"
  by (auto simp: only_logs_def intro: exI [of _ "[]"])

lemma only_logs_log [simp]: "only_logs v w \<Longrightarrow> only_logs v (log e w)"
  by (auto simp: only_logs_def log_def)

lemma only_logs_trans: "only_logs w w1 \<Longrightarrow> only_logs w1 w2 \<Longrightarrow> only_logs w w2"
  by (auto simp: only_logs_def)

lemmas sys_simps [run_simps] = sys_open_def sys_read_def sys_write_def Let_def

section \<open>An order on line speeds\<close>

text \<open>Bits per second a speed symbol stands for (termios(3)).\<close>

fun tcio_rate :: "tcio \<Rightarrow> u32" where
  "tcio_rate B0 = 0"
| "tcio_rate B600 = 600"
| "tcio_rate B1200 = 1200"
| "tcio_rate B9600 = 9600"
| "tcio_rate B19200 = 19200"
| "tcio_rate B57600 = 57600"
| "tcio_rate B115200 = 115200"
| "tcio_rate B230400 = 230400"
| "tcio_rate B460800 = 460800"
| "tcio_rate B921600 = 921600"
| "tcio_rate B1000000 = 1000000"
| "tcio_rate B2000000 = 2000000"
| "tcio_rate B3000000 = 3000000"
| "tcio_rate B4000000 = 4000000"

lemma tcio_rate_inject [simp]: "tcio_rate a = tcio_rate b \<longleftrightarrow> a = b"
  by (cases a; cases b) auto

instantiation tcio :: linorder
begin

definition less_eq_tcio :: "tcio \<Rightarrow> tcio \<Rightarrow> bool" where
  "less_eq_tcio a b \<longleftrightarrow> tcio_rate a \<le> tcio_rate b"

definition less_tcio :: "tcio \<Rightarrow> tcio \<Rightarrow> bool" where
  "less_tcio a b \<longleftrightarrow> tcio_rate a < tcio_rate b"

instance
  by standard (auto simp: less_eq_tcio_def less_tcio_def less_le)

end

end
