(* ===== verification/Resources.thy ===== *)
theory Resources
  imports Platform
begin

text \<open>
  Ownership of buffers and file descriptors, read off the call log. The library owns a buffer
  from the moment the host stack's allocator returns it, or hands it to a completion callback,
  until the library frees it or \<^verbatim>\<open>xmit_cb\<close> accepts it. Freeing or transmitting a buffer the
  library does not own makes the account undefined, so a defined account excludes double frees
  and uses after transfer, and an account that ends where it began excludes leaks.
\<close>

section \<open>Accounts\<close>

fun account :: "('m \<Rightarrow> event \<Rightarrow> 'm option) \<Rightarrow> 'm \<Rightarrow> event list \<Rightarrow> 'm option" where
  "account st m [] = Some m"
| "account st m (e # es) = do { m \<leftarrow> st m e; account st m es }"

lemma account_append: "account st m (xs @ ys) = do { m \<leftarrow> account st m xs; account st m ys }"
  by (induction xs arbitrary: m) (auto split: Option.bind_splits)

fun own_step :: "nat multiset \<Rightarrow> event \<Rightarrow> nat multiset option" where
  "own_step M (AllocEv n p) = Some (case p of None \<Rightarrow> M | Some b \<Rightarrow> add_mset b M)"
| "own_step M (DeallocEv b) = (if b \<in># M then Some (M - {#b#}) else None)"
| "own_step M (XmitEv opc b cb r) =
     (if hb_id b \<in># M then Some (if r = FALSE then M else M - {#hb_id b#}) else None)"
| "own_step M _ = Some M"

fun fd_step :: "int multiset \<Rightarrow> event \<Rightarrow> int multiset option" where
  "fd_step M (OpenEv p fl fd) = Some (if fd < 0 then M else add_mset fd M)"
| "fd_step M (CloseEv fd) = (if fd \<in># M then Some (M - {#fd#}) else None)"
| "fd_step M _ = Some M"

fun timer_step :: "nat multiset \<Rightarrow> event \<Rightarrow> nat multiset option" where
  "timer_step M (TimerCreateEv t) = Some (case t of None \<Rightarrow> M | Some i \<Rightarrow> add_mset i M)"
| "timer_step M (TimerDeleteEv i) = (if i \<in># M then Some (M - {#i#}) else None)"
| "timer_step M _ = Some M"

fun is_timer :: "event \<Rightarrow> bool" where
  "is_timer (TimerCreateEv t) = True"
| "is_timer (TimerDeleteEv i) = True"
| "is_timer _ = False"

lemma timer_neutral:
  "is_timer e \<Longrightarrow> own_step M e = Some M" "is_timer e \<Longrightarrow> fd_step N e = Some N"
  "\<not> is_timer e \<Longrightarrow> timer_step K e = Some K"
  by (cases e; simp)+

text \<open>A step of the library takes the account from one value to another.\<close>

definition owns :: "nat multiset \<Rightarrow> 'a os_scheme \<Rightarrow> nat multiset \<Rightarrow> 'a os_scheme \<Rightarrow> bool" where
  "owns M w M' w' \<longleftrightarrow> (\<exists>s. trace w' = trace w @ s \<and> account own_step M s = Some M')"

definition holds_fds :: "int multiset \<Rightarrow> 'a os_scheme \<Rightarrow> int multiset \<Rightarrow> 'a os_scheme \<Rightarrow> bool" where
  "holds_fds M w M' w' \<longleftrightarrow> (\<exists>s. trace w' = trace w @ s \<and> account fd_step M s = Some M')"

definition holds_timers :: "nat multiset \<Rightarrow> 'a os_scheme \<Rightarrow> nat multiset \<Rightarrow> 'a os_scheme \<Rightarrow> bool" where
  "holds_timers M w M' w' \<longleftrightarrow> (\<exists>s. trace w' = trace w @ s \<and> account timer_step M s = Some M')"

lemma owns_refl [own_simps, intro]: "owns M w M w"
  by (auto simp: owns_def intro: exI [of _ "[]"])

lemma holds_fds_refl [own_simps, intro]: "holds_fds M w M w"
  by (auto simp: holds_fds_def intro: exI [of _ "[]"])

lemma owns_trans: "owns M w M1 w1 \<Longrightarrow> owns M1 w1 M2 w2 \<Longrightarrow> owns M w M2 w2"
  by (fastforce simp: owns_def account_append)

lemma holds_fds_trans: "holds_fds M w M1 w1 \<Longrightarrow> holds_fds M1 w1 M2 w2 \<Longrightarrow> holds_fds M w M2 w2"
  by (fastforce simp: holds_fds_def account_append)

lemma holds_timers_refl [own_simps, intro]: "holds_timers M w M w"
  by (auto simp: holds_timers_def intro: exI [of _ "[]"])

lemma holds_timers_trans: "holds_timers M w M1 w1 \<Longrightarrow> holds_timers M1 w1 M2 w2 \<Longrightarrow> holds_timers M w M2 w2"
  by (fastforce simp: holds_timers_def account_append)

text \<open>Only the log matters.\<close>

lemma owns_cong: "trace w' = trace w'' \<Longrightarrow> owns M w M' w' \<longleftrightarrow> owns M w M' w''"
  by (simp add: owns_def)

lemma owns_cong_left: "trace w = trace v \<Longrightarrow> owns M w M' w' \<longleftrightarrow> owns M v M' w'"
  by (simp add: owns_def)

lemma holds_fds_cong: "trace w' = trace w'' \<Longrightarrow> holds_fds M w M' w' \<longleftrightarrow> holds_fds M w M' w''"
  by (simp add: holds_fds_def)

lemma owns_log: "own_step M e = Some M' \<Longrightarrow> owns M w M' (log e w)"
  by (simp add: owns_def)

lemma holds_fds_log: "fd_step M e = Some M' \<Longrightarrow> holds_fds M w M' (log e w)"
  by (simp add: holds_fds_def)

lemma owns_by_trace:
  "trace w' = trace w @ s \<Longrightarrow> account own_step M s = Some M' \<Longrightarrow> owns M w M' w'"
  by (auto simp: owns_def)

lemma holds_fds_by_trace:
  "trace w' = trace w @ s \<Longrightarrow> account fd_step M s = Some M' \<Longrightarrow> holds_fds M w M' w'"
  by (auto simp: holds_fds_def)

lemma holds_timers_by_trace:
  "trace w' = trace w @ s \<Longrightarrow> account timer_step M s = Some M' \<Longrightarrow> holds_timers M w M' w'"
  by (auto simp: holds_timers_def)

text \<open>Calls after which every account is as before.\<close>

definition neutral :: "event list \<Rightarrow> bool" where
  "neutral es \<longleftrightarrow> (\<forall>M. account own_step M es = Some M) \<and> (\<forall>N. account fd_step N es = Some N)
     \<and> (\<forall>K. account timer_step K es = Some K)"

lemma neutral_append: "neutral es \<Longrightarrow> neutral fs \<Longrightarrow> neutral (es @ fs)"
  by (simp add: neutral_def account_append)

text \<open>A step that only adds calls of a given kind to the log.\<close>

definition logs_only :: "(event \<Rightarrow> bool) \<Rightarrow> 'a os_scheme \<Rightarrow> 'a os_scheme \<Rightarrow> bool" where
  "logs_only P w w' \<longleftrightarrow> (\<exists>s. w' = w\<lparr>trace := trace w @ s\<rparr> \<and> list_all P s)"

lemma logs_only_refl [simp]: "logs_only P w w"
  by (auto simp: logs_only_def intro: exI [of _ "[]"])

lemma logs_only_step: "P e \<Longrightarrow> logs_only P (log e w) w' \<Longrightarrow> logs_only P w w'"
  unfolding logs_only_def log_def
  by (elim exE conjE, rule_tac x = "[e] @ s" in exI) auto

lemma logs_only_log [simp]: "P e \<Longrightarrow> logs_only P w (log e w)"
  by (rule logs_only_step [of P e]) simp_all

lemma logs_only_trace:
  assumes "logs_only P w w'"
  obtains s where "w' = w\<lparr>trace := trace w @ s\<rparr>" and "list_all P s"
  using assms by (auto simp: logs_only_def)

lemma account_neutral: "\<forall>e\<in>set s. st M e = Some M \<Longrightarrow> account st M s = Some M"
  by (induction s) auto

lemma account_timerless: "list_all (\<lambda>e. \<not> is_timer e) s \<Longrightarrow> account timer_step M s = Some M"
  by (auto simp: list_all_iff intro!: account_neutral timer_neutral(3))

lemma account_timers:
  "list_all is_timer s \<Longrightarrow> account own_step M s = Some M" "list_all is_timer s \<Longrightarrow> account fd_step N s = Some N"
  by (auto simp: list_all_iff intro!: account_neutral timer_neutral)

lemma logs_only_owns: "logs_only P w w' \<Longrightarrow> (\<And>e. P e \<Longrightarrow> own_step M e = Some M) \<Longrightarrow> owns M w M w'"
  by (auto simp: logs_only_def owns_def list_all_iff intro!: account_neutral)

lemma logs_only_fds: "logs_only P w w' \<Longrightarrow> (\<And>e. P e \<Longrightarrow> fd_step M e = Some M) \<Longrightarrow> holds_fds M w M w'"
  by (auto simp: logs_only_def holds_fds_def list_all_iff intro!: account_neutral)

definition is_sleep :: "event \<Rightarrow> bool" where
  "is_sleep e \<longleftrightarrow> (case e of NanosleepEv _ _ \<Rightarrow> True | _ \<Rightarrow> False)"

definition is_dir_call :: "event \<Rightarrow> bool" where
  "is_dir_call e \<longleftrightarrow> (case e of OpendirEv _ _ \<Rightarrow> True | ClosedirEv \<Rightarrow> True | _ \<Rightarrow> False)"

lemma kind_neutral [simp]:
  "is_sleep e \<Longrightarrow> own_step M e = Some M" "is_sleep e \<Longrightarrow> fd_step N e = Some N"
  "is_dir_call e \<Longrightarrow> own_step M e = Some M" "is_dir_call e \<Longrightarrow> fd_step N e = Some N"
  by (cases e; simp add: is_sleep_def is_dir_call_def)+

lemma kind_simps [simp]:
  "is_sleep (NanosleepEv a b)" "is_dir_call (OpendirEv p ok)" "is_dir_call ClosedirEv"
  by (simp_all add: is_sleep_def is_dir_call_def)

section \<open>Significant calls\<close>

text \<open>Calls that do not touch an account and report nothing to the host stack are calm. The
  effects of a step are its other calls, in order: all accounts can be read off them.\<close>

definition calm :: "event \<Rightarrow> bool" where
  "calm e \<longleftrightarrow> (case e of OpenEv _ _ _ \<Rightarrow> False | CloseEv _ \<Rightarrow> False | AllocEv _ _ \<Rightarrow> False
     | DeallocEv _ \<Rightarrow> False | XmitEv _ _ _ _ \<Rightarrow> False | FwcfgCbEv _ \<Rightarrow> False | ScocfgCbEv _ \<Rightarrow> False
     | LpmCbEv _ \<Rightarrow> False | AudioStateCbEv _ \<Rightarrow> False | EpilogCbEv _ \<Rightarrow> False
     | TimerCreateEv _ \<Rightarrow> False | TimerDeleteEv _ \<Rightarrow> False | _ \<Rightarrow> True)"

definition effects :: "'a os_scheme \<Rightarrow> 'a os_scheme \<Rightarrow> event list \<Rightarrow> bool" where
  "effects w w' es \<longleftrightarrow> (\<exists>s. trace w' = trace w @ s \<and> filter (\<lambda>e. \<not> calm e) s = es)"

lemma calm_simps [simp]:
  "\<not> calm (OpenEv p fl fd)" "\<not> calm (CloseEv fd)" "\<not> calm (AllocEv n a)" "\<not> calm (DeallocEv d)"
  "\<not> calm (XmitEv opc b cb r)" "\<not> calm (FwcfgCbEv q)" "\<not> calm (ScocfgCbEv q)" "\<not> calm (LpmCbEv q)"
  "\<not> calm (AudioStateCbEv q)" "\<not> calm (EpilogCbEv q)" "calm (ReadEv fd n bs)"
  "calm (TcsetattrEv fd t)" "calm (TcflushEv fd)" "calm (IoctlEv fd k v)"
  "calm (WriteEv fd out ok)" "\<not> calm (TimerCreateEv tm)" "\<not> calm (TimerDeleteEv tid)"
  "calm (TimerSettimeEv tid spec)" "calm (TcgetattrEv fd)"
  by (simp_all add: calm_def)

lemma calm_neutral:
  "calm e \<Longrightarrow> own_step M e = Some M" "calm e \<Longrightarrow> fd_step N e = Some N" "calm e \<Longrightarrow> timer_step K e = Some K"
  by (cases e; simp add: calm_def)+

lemma calm_kinds: "is_sleep e \<Longrightarrow> calm e" "is_dir_call e \<Longrightarrow> calm e"
  by (cases e; simp add: calm_def is_sleep_def is_dir_call_def)+

lemma account_filter:
  assumes "\<And>e M. calm e \<Longrightarrow> st M e = Some M"
  shows "account st M (filter (\<lambda>e. \<not> calm e) s) = account st M s"
  by (induction s arbitrary: M) (auto simp: assms split: Option.bind_splits)

lemma effects_refl [simp, intro]: "effects w w []"
  by (simp add: effects_def)

lemma effects_trans: "effects w w1 es1 \<Longrightarrow> effects w1 w2 es2 \<Longrightarrow> effects w w2 (es1 @ es2)"
  by (auto simp: effects_def)

lemma effects_quiet: "logs_only P w w' \<Longrightarrow> (\<And>e. P e \<Longrightarrow> calm e) \<Longrightarrow> effects w w' []"
  by (auto simp: logs_only_def effects_def list_all_iff filter_empty_conv)

lemma effects_log: "effects w v es \<Longrightarrow> effects w (log e v) (if calm e then es else es @ [e])"
  by (auto simp: effects_def)

lemma effects_cong: "trace v = trace w \<Longrightarrow> trace v' = trace w' \<Longrightarrow> effects v v' es \<longleftrightarrow> effects w w' es"
  by (simp add: effects_def)

lemma effects_same: "trace v' = trace v \<Longrightarrow> effects w v es \<Longrightarrow> effects w v' es"
  by (simp add: effects_def)

lemma effects_owns: "effects w w' es \<Longrightarrow> account own_step M es = Some M' \<Longrightarrow> owns M w M' w'"
  by (auto simp: effects_def owns_def account_filter calm_neutral)

lemma effects_fds: "effects w w' es \<Longrightarrow> account fd_step M es = Some M' \<Longrightarrow> holds_fds M w M' w'"
  by (auto simp: effects_def holds_fds_def account_filter calm_neutral)

lemma effects_timers:
  "effects w w' es \<Longrightarrow> account timer_step M es = Some M' \<Longrightarrow> holds_timers M w M' w'"
  by (auto simp: effects_def holds_timers_def account_filter calm_neutral)

text \<open>A step that gives back whatever it takes.\<close>

definition balanced :: "'a os_scheme \<Rightarrow> 'a os_scheme \<Rightarrow> bool" where
  "balanced w w' \<longleftrightarrow> (\<exists>es. effects w w' es \<and> neutral es)"

lemma balanced_fds: "balanced w w' \<Longrightarrow> holds_fds M w M w'"
  by (auto simp: balanced_def neutral_def intro: effects_fds)

lemma balanced_owns: "balanced w w' \<Longrightarrow> owns M w M w'"
  by (auto simp: balanced_def neutral_def intro: effects_owns)

lemma balanced_trans: "balanced w w1 \<Longrightarrow> balanced w1 w2 \<Longrightarrow> balanced w w2"
  unfolding balanced_def by (blast intro: effects_trans neutral_append)

lemma balanced_same: "trace w' = trace w \<Longrightarrow> balanced w w'"
  by (auto simp: balanced_def neutral_def effects_def intro: exI [of _ "[]"])

lemma balanced_refl [simp]: "balanced w w"
  by (simp add: balanced_same)

section \<open>Completion events\<close>

text \<open>A command-complete event as the host stack delivers it to a completion callback: the
  event buffer's address and its payload, the bytes from \<^verbatim>\<open>p_evt_buf + 1\<close> on.\<close>

record evt =
  ev_id :: nat
  ev_payload :: bytes

definition evt_status :: "evt \<Rightarrow> u8 option" where
  "evt_status e = nth_opt (ev_payload e) 5"

definition evt_opcode :: "evt \<Rightarrow> u16 option" where
  "evt_opcode e = do { b0 \<leftarrow> nth_opt (ev_payload e) 3; b1 \<leftarrow> nth_opt (ev_payload e) 4;
                       Some (u16_of b0 b1) }"

lemma evt_status_defined: "6 \<le> length (ev_payload e) \<Longrightarrow> evt_status e = Some (ev_payload e ! 5)"
  by (simp add: evt_status_def)

lemma evt_opcode_defined:
  "6 \<le> length (ev_payload e) \<Longrightarrow>
     evt_opcode e = Some (u16_of (ev_payload e ! 3) (ev_payload e ! 4))"
  by (simp add: evt_opcode_def nth_opt_def)

text \<open>Delivering events one after the other to a handler.\<close>

primrec deliver :: "(evt \<Rightarrow> 'w \<Rightarrow> 'w option) \<Rightarrow> evt list \<Rightarrow> 'w \<Rightarrow> 'w option" where
  "deliver h [] w = Some w"
| "deliver h (e # es) w = do { w \<leftarrow> h e w; deliver h es w }"

text \<open>
  The contract of a completion callback: when it is ready (the host stack's callbacks are
  registered), it consumes the event buffer, keeps no other buffer, and stays ready.
\<close>

locale event_handler =
  fixes handle :: "evt \<Rightarrow> 'a os_scheme \<Rightarrow> 'a os_scheme option"
    and ready :: "'a os_scheme \<Rightarrow> bool"
  assumes handle_owns: "ready w \<Longrightarrow> handle e w = Some w' \<Longrightarrow> owns (add_mset (ev_id e) M) w M w'"
    and handle_ready: "ready w \<Longrightarrow> handle e w = Some w' \<Longrightarrow> ready w'"
begin

lemma deliver_ready: "ready w \<Longrightarrow> deliver handle es w = Some w' \<Longrightarrow> ready w'"
  by (induction es arbitrary: w) (auto elim!: bind_SomeE intro: handle_ready)

text \<open>However many events are delivered, each event buffer is freed exactly once and nothing
  else is kept or freed.\<close>

lemma deliver_owns:
  "ready w \<Longrightarrow> deliver handle es w = Some w' \<Longrightarrow> owns (mset (map ev_id es) + M) w M w'"
proof (induction es arbitrary: w)
  case Nil
  then show ?case by auto
next
  case (Cons e es)
  from Cons.prems(2) obtain w1 where h: "handle e w = Some w1"
    and d: "deliver handle es w1 = Some w'"
    by (auto elim!: bind_SomeE)
  have "owns (add_mset (ev_id e) (mset (map ev_id es) + M)) w (mset (map ev_id es) + M) w1"
    using Cons.prems(1) h by (rule handle_owns)
  moreover have "owns (mset (map ev_id es) + M) w1 M w'"
    using handle_ready [OF Cons.prems(1) h] d by (rule Cons.IH)
  ultimately show ?case by (auto intro: owns_trans)
qed

end

text \<open>Requests of the same kind one after the other.\<close>

primrec perform :: "('p \<Rightarrow> 'w \<Rightarrow> 'w option) \<Rightarrow> 'p list \<Rightarrow> 'w \<Rightarrow> 'w option" where
  "perform f [] w = Some w"
| "perform f (x # xs) w = do { w \<leftarrow> f x w; perform f xs w }"

text \<open>A library operation that is neutral on buffers: what it allocates it frees or hands over.\<close>

locale neutral_operation =
  fixes operate :: "'p \<Rightarrow> 'a os_scheme \<Rightarrow> 'a os_scheme option"
    and able :: "'a os_scheme \<Rightarrow> bool"
  assumes operate_owns: "able w \<Longrightarrow> operate x w = Some w' \<Longrightarrow> owns M w M w'"
    and operate_able: "able w \<Longrightarrow> operate x w = Some w' \<Longrightarrow> able w'"
begin

lemma perform_owns: "able w \<Longrightarrow> perform operate xs w = Some w' \<Longrightarrow> owns M w M w' \<and> able w'"
proof (induction xs arbitrary: w)
  case (Cons x xs)
  then obtain w1 where "operate x w = Some w1" "perform operate xs w1 = Some w'"
    by (auto elim!: bind_SomeE)
  with Cons.IH [of w1] operate_owns [of w x w1 M] operate_able Cons.prems(1) show ?case
    by (blast intro: owns_trans)
qed auto

end

end
