(* ===== verification/Userial.thy ===== *)
theory Userial
  imports Resources
begin

text \<open>
  userial_vendor.c: the serial port of the controller. State: the control block
  \<^verbatim>\<open>vnd_userial\<close>. Operations: the translation of USERIAL baud symbols, open, close, change of
  speed, BT_WAKE over ioctl, and the configuration entry for the port name.
\<close>

section \<open>Constants\<close>

abbreviation USERIAL_BAUD_300 :: u8 where "USERIAL_BAUD_300 \<equiv> 0"
abbreviation USERIAL_BAUD_600 :: u8 where "USERIAL_BAUD_600 \<equiv> 1"
abbreviation USERIAL_BAUD_1200 :: u8 where "USERIAL_BAUD_1200 \<equiv> 2"
abbreviation USERIAL_BAUD_2400 :: u8 where "USERIAL_BAUD_2400 \<equiv> 3"
abbreviation USERIAL_BAUD_9600 :: u8 where "USERIAL_BAUD_9600 \<equiv> 4"
abbreviation USERIAL_BAUD_19200 :: u8 where "USERIAL_BAUD_19200 \<equiv> 5"
abbreviation USERIAL_BAUD_57600 :: u8 where "USERIAL_BAUD_57600 \<equiv> 6"
abbreviation USERIAL_BAUD_115200 :: u8 where "USERIAL_BAUD_115200 \<equiv> 7"
abbreviation USERIAL_BAUD_230400 :: u8 where "USERIAL_BAUD_230400 \<equiv> 8"
abbreviation USERIAL_BAUD_460800 :: u8 where "USERIAL_BAUD_460800 \<equiv> 9"
abbreviation USERIAL_BAUD_921600 :: u8 where "USERIAL_BAUD_921600 \<equiv> 10"
abbreviation USERIAL_BAUD_1M :: u8 where "USERIAL_BAUD_1M \<equiv> 11"
abbreviation USERIAL_BAUD_1_5M :: u8 where "USERIAL_BAUD_1_5M \<equiv> 12"
abbreviation USERIAL_BAUD_2M :: u8 where "USERIAL_BAUD_2M \<equiv> 13"
abbreviation USERIAL_BAUD_3M :: u8 where "USERIAL_BAUD_3M \<equiv> 14"
abbreviation USERIAL_BAUD_4M :: u8 where "USERIAL_BAUD_4M \<equiv> 15"
abbreviation USERIAL_BAUD_AUTO :: u8 where "USERIAL_BAUD_AUTO \<equiv> 16"

abbreviation USERIAL_STOPBITS_1 :: u16 where "USERIAL_STOPBITS_1 \<equiv> 1"
abbreviation USERIAL_STOPBITS_1_5 :: u16 where "USERIAL_STOPBITS_1_5 \<equiv> 2"
abbreviation USERIAL_STOPBITS_2 :: u16 where "USERIAL_STOPBITS_2 \<equiv> 4"
abbreviation USERIAL_PARITY_NONE :: u16 where "USERIAL_PARITY_NONE \<equiv> 8"
abbreviation USERIAL_PARITY_EVEN :: u16 where "USERIAL_PARITY_EVEN \<equiv> 16"
abbreviation USERIAL_PARITY_ODD :: u16 where "USERIAL_PARITY_ODD \<equiv> 32"
abbreviation USERIAL_DATABITS_5 :: u16 where "USERIAL_DATABITS_5 \<equiv> 64"
abbreviation USERIAL_DATABITS_6 :: u16 where "USERIAL_DATABITS_6 \<equiv> 128"
abbreviation USERIAL_DATABITS_7 :: u16 where "USERIAL_DATABITS_7 \<equiv> 256"
abbreviation USERIAL_DATABITS_8 :: u16 where "USERIAL_DATABITS_8 \<equiv> 512"

text \<open>The termios mode bits, with the values of the generic Linux ABI (asm-generic/termbits.h).\<close>

abbreviation CS5 :: u8 where "CS5 \<equiv> 0"
abbreviation CS6 :: u8 where "CS6 \<equiv> 0x10"
abbreviation CS7 :: u8 where "CS7 \<equiv> 0x20"
abbreviation CS8 :: u8 where "CS8 \<equiv> 0x30"
abbreviation CSTOPB :: u8 where "CSTOPB \<equiv> 0x40"
abbreviation PARENB :: u16 where "PARENB \<equiv> 0x100"
abbreviation PARODD :: u16 where "PARODD \<equiv> 0x200"
abbreviation CRTSCTS :: u32 where "CRTSCTS \<equiv> 0x80000000"

text \<open>cfmakeraw(3): clears the input, output and local processing flags, selects eight data bits
  and no parity.\<close>

definition cfmakeraw :: "termios \<Rightarrow> termios" where
  "cfmakeraw t = t\<lparr>
     c_iflag := c_iflag t AND NOT 0x5EB,
     c_oflag := c_oflag t AND NOT 1,
     c_lflag := c_lflag t AND NOT 0x804B,
     c_cflag := (c_cflag t AND NOT 0x130) OR 0x30 \<rparr>"

section \<open>State\<close>

definition VND_PORT_NAME_MAXLEN :: nat where "VND_PORT_NAME_MAXLEN = 256"

record vnd_userial_cb_t =
  us_fd :: int
  us_termios :: termios
  us_port_name :: bytes

record tUSERIAL_CFG =
  uc_fmt :: u16
  uc_baud :: u8

datatype userial_vendor_ioctl_op_t =
  USERIAL_OP_ASSERT_BT_WAKE | USERIAL_OP_DEASSERT_BT_WAKE | USERIAL_OP_GET_BT_WAKE_STATE |
  USERIAL_OP_NOP

record us_world = os +
  vnd_userial :: vnd_userial_cb_t

abbreviation set_us_fd :: "int \<Rightarrow> 'a us_world_scheme \<Rightarrow> 'a us_world_scheme" where
  "set_us_fd fd w \<equiv> w\<lparr>vnd_userial := (vnd_userial w)\<lparr>us_fd := fd\<rparr>\<rparr>"

abbreviation set_us_termios :: "termios \<Rightarrow> 'a us_world_scheme \<Rightarrow> 'a us_world_scheme" where
  "set_us_termios t w \<equiv> w\<lparr>vnd_userial := (vnd_userial w)\<lparr>us_termios := t\<rparr>\<rparr>"

abbreviation fd_of :: "'a us_world_scheme \<Rightarrow> int" where
  "fd_of w \<equiv> us_fd (vnd_userial w)"

abbreviation termios_of :: "'a us_world_scheme \<Rightarrow> termios" where
  "termios_of w \<equiv> us_termios (vnd_userial w)"

section \<open>Operations\<close>

definition userial_to_tcio_baud :: "u8 \<Rightarrow> u8 \<times> tcio" where
  "userial_to_tcio_baud cfg_baud =
     (if cfg_baud = USERIAL_BAUD_115200 then (TRUE, B115200)
      else if cfg_baud = USERIAL_BAUD_4M then (TRUE, B4000000)
      else if cfg_baud = USERIAL_BAUD_3M then (TRUE, B3000000)
      else if cfg_baud = USERIAL_BAUD_2M then (TRUE, B2000000)
      else if cfg_baud = USERIAL_BAUD_1M then (TRUE, B1000000)
      else if cfg_baud = USERIAL_BAUD_921600 then (TRUE, B921600)
      else if cfg_baud = USERIAL_BAUD_460800 then (TRUE, B460800)
      else if cfg_baud = USERIAL_BAUD_230400 then (TRUE, B230400)
      else if cfg_baud = USERIAL_BAUD_57600 then (TRUE, B57600)
      else if cfg_baud = USERIAL_BAUD_19200 then (TRUE, B19200)
      else if cfg_baud = USERIAL_BAUD_9600 then (TRUE, B9600)
      else if cfg_baud = USERIAL_BAUD_1200 then (TRUE, B1200)
      else if cfg_baud = USERIAL_BAUD_600 then (TRUE, B600)
      else (FALSE, B115200))"

text \<open>TIOCSETD of the generic Linux ABI.\<close>

definition TIOCSETD :: nat where "TIOCSETD = 0x5423"

definition userial_ioctl_init_bt_wake :: "buildcfg \<Rightarrow> int \<Rightarrow> 'a us_world_scheme \<Rightarrow> 'a us_world_scheme" where
  "userial_ioctl_init_bt_wake C fd w =
     (let w = (if BT_WAKE_USERIAL_LDISC C
               then log (IoctlEv (fd_of w) TIOCSETD (Some (N_BRCM_HCI C))) w else w);
          w = log (IoctlEv fd (USERIAL_IOCTL_BT_WAKE_ASSERT C) None) w
      in log (IoctlEv fd (USERIAL_IOCTL_BT_WAKE_GET_ST C) None) w)"

definition userial_vendor_init :: "buildcfg \<Rightarrow> 'a us_world_scheme \<Rightarrow> 'a us_world_scheme" where
  "userial_vendor_init C w =
     w\<lparr>vnd_userial := (vnd_userial w)
         \<lparr>us_fd := - 1,
          us_port_name := take (VND_PORT_NAME_MAXLEN - 1) (BLUETOOTH_UART_DEVICE_PORT C)\<rparr>\<rparr>"

text \<open>The three format tests of \<^verbatim>\<open>userial_vendor_open\<close>; \<^verbatim>\<open>None\<close> is its early return -1.\<close>

definition fmt_data_bits :: "u16 \<Rightarrow> u8 option" where
  "fmt_data_bits fmt =
     (if fmt AND USERIAL_DATABITS_8 \<noteq> 0 then Some CS8
      else if fmt AND USERIAL_DATABITS_7 \<noteq> 0 then Some CS7
      else if fmt AND USERIAL_DATABITS_6 \<noteq> 0 then Some CS6
      else if fmt AND USERIAL_DATABITS_5 \<noteq> 0 then Some CS5
      else None)"

definition fmt_parity :: "u16 \<Rightarrow> u16 option" where
  "fmt_parity fmt =
     (if fmt AND USERIAL_PARITY_NONE \<noteq> 0 then Some 0
      else if fmt AND USERIAL_PARITY_EVEN \<noteq> 0 then Some PARENB
      else if fmt AND USERIAL_PARITY_ODD \<noteq> 0 then Some (PARENB OR PARODD)
      else None)"

definition fmt_stop_bits :: "u16 \<Rightarrow> u8 option" where
  "fmt_stop_bits fmt =
     (if fmt AND USERIAL_STOPBITS_1 \<noteq> 0 then Some 0
      else if fmt AND USERIAL_STOPBITS_2 \<noteq> 0 then Some CSTOPB
      else None)"

text \<open>The mode settings on a freshly opened port. A failing \<^verbatim>\<open>tcgetattr\<close> leaves the termios
  of the control block as it was: the code does not look at the result.\<close>

definition userial_setup_port :: "env \<Rightarrow> u8 \<Rightarrow> tcio \<Rightarrow> 'a us_world_scheme \<Rightarrow> 'a us_world_scheme" where
  "userial_setup_port E stop_bits baud w =
     (let fd = fd_of w;
          w = log (TcflushEv fd) w;
          t = (case os_tcgetattr E (trace w) fd of None \<Rightarrow> termios_of w | Some t \<Rightarrow> t);
          w = log (TcgetattrEv fd) w;
          t = cfmakeraw t;
          t = t\<lparr>c_cflag := c_cflag t OR (CRTSCTS OR ucast stop_bits)\<rparr>;
          w = log (TcflushEv fd) (log (TcsetattrEv fd t) w);
          w = log (TcflushEv fd) (log (TcsetattrEv fd t) w);
          w = log (TcflushEv fd) w;
          t = t\<lparr>c_ospeed := baud\<rparr>;
          t = t\<lparr>c_ispeed := baud\<rparr>
      in log (TcsetattrEv fd t) (set_us_termios t w))"

definition userial_vendor_open ::
  "buildcfg \<Rightarrow> env \<Rightarrow> tUSERIAL_CFG \<Rightarrow> 'a us_world_scheme \<Rightarrow> int \<times> 'a us_world_scheme" where
  "userial_vendor_open C E p_cfg w =
     (let w = set_us_fd (- 1) w; (ok, baud) = userial_to_tcio_baud (uc_baud p_cfg) in
      if ok = FALSE then (- 1, w)
      else case fmt_data_bits (uc_fmt p_cfg) of None \<Rightarrow> (- 1, w)
      | Some data_bits \<Rightarrow>
        (case fmt_parity (uc_fmt p_cfg) of None \<Rightarrow> (- 1, w)
         | Some parity \<Rightarrow>
           (case fmt_stop_bits (uc_fmt p_cfg) of None \<Rightarrow> (- 1, w)
            | Some stop_bits \<Rightarrow>
              (let (fd, w) = sys_open E (us_port_name (vnd_userial w)) O_RDWR w;
                   w = set_us_fd fd w
               in if fd = - 1 then (- 1, w)
                  else
                    let w = userial_setup_port E stop_bits baud w;
                        w = (if BT_WAKE_VIA_USERIAL_IOCTL C
                             then userial_ioctl_init_bt_wake C (fd_of w) w else w)
                    in (fd_of w, w)))))"

definition userial_vendor_close :: "buildcfg \<Rightarrow> 'a us_world_scheme \<Rightarrow> 'a us_world_scheme" where
  "userial_vendor_close C w =
     (if fd_of w = - 1 then w
      else
        let w = (if BT_WAKE_VIA_USERIAL_IOCTL C
                 then log (IoctlEv (fd_of w) (USERIAL_IOCTL_BT_WAKE_DEASSERT C) None) w else w);
            w = log (TcflushEv (fd_of w)) w;
            w = log (CloseEv (fd_of w)) w
        in set_us_fd (- 1) w)"

definition userial_vendor_set_baud :: "u8 \<Rightarrow> 'a us_world_scheme \<Rightarrow> 'a us_world_scheme" where
  "userial_vendor_set_baud userial_baud w =
     (let (_, tcio_baud) = userial_to_tcio_baud userial_baud;
          t = (termios_of w)\<lparr>c_ospeed := tcio_baud\<rparr>;
          t = t\<lparr>c_ispeed := tcio_baud\<rparr>
      in log (TcsetattrEv (fd_of w) t) (set_us_termios t w))"

definition userial_vendor_ioctl ::
  "buildcfg \<Rightarrow> userial_vendor_ioctl_op_t \<Rightarrow> 'a us_world_scheme \<Rightarrow> 'a us_world_scheme" where
  "userial_vendor_ioctl C oper w =
     (if \<not> BT_WAKE_VIA_USERIAL_IOCTL C then w
      else case oper of
        USERIAL_OP_ASSERT_BT_WAKE \<Rightarrow> log (IoctlEv (fd_of w) (USERIAL_IOCTL_BT_WAKE_ASSERT C) None) w
      | USERIAL_OP_DEASSERT_BT_WAKE \<Rightarrow> log (IoctlEv (fd_of w) (USERIAL_IOCTL_BT_WAKE_DEASSERT C) None) w
      | USERIAL_OP_GET_BT_WAKE_STATE \<Rightarrow> log (IoctlEv (fd_of w) (USERIAL_IOCTL_BT_WAKE_GET_ST C) None) w
      | _ \<Rightarrow> w)"

text \<open>\<^verbatim>\<open>strcpy\<close> into the 256-byte array: no defined result for a longer value.\<close>

definition userial_set_port :: "bytes \<Rightarrow> bytes \<Rightarrow> int \<Rightarrow> 'a us_world_scheme \<Rightarrow> (int \<times> 'a us_world_scheme) option" where
  "userial_set_port p_conf_name p_conf_value param w =
     do { _ \<leftarrow> ensure (length p_conf_value < VND_PORT_NAME_MAXLEN);
          Some (0, w\<lparr>vnd_userial := (vnd_userial w)\<lparr>us_port_name := p_conf_value\<rparr>\<rparr>) }"

section \<open>What every operation keeps\<close>

lemma us_frame [simp]:
  "us_world.more (log e w) = us_world.more w"
  "vnd_userial (log e w) = vnd_userial w"
  by (simp_all add: log_def)

lemma us_more_log [simp]: "(log e w)\<lparr>vnd_userial := v\<rparr> = log e (w\<lparr>vnd_userial := v\<rparr>)"
  by (simp add: log_def)

lemma setup_port_frame [frame_simps]:
  "fd_of (userial_setup_port E sb b w) = fd_of w"
  "us_port_name (vnd_userial (userial_setup_port E sb b w)) = us_port_name (vnd_userial w)"
  "us_world.more (userial_setup_port E sb b w) = us_world.more w"
  by (simp_all add: userial_setup_port_def Let_def frame_simps)

lemma ioctl_init_frame [frame_simps]:
  "vnd_userial (userial_ioctl_init_bt_wake C fd w) = vnd_userial w"
  "us_world.more (userial_ioctl_init_bt_wake C fd w) = us_world.more w"
  by (simp_all add: userial_ioctl_init_bt_wake_def Let_def frame_simps)

lemma set_baud_frame [frame_simps]:
  "fd_of (userial_vendor_set_baud b w) = fd_of w"
  "us_port_name (vnd_userial (userial_vendor_set_baud b w)) = us_port_name (vnd_userial w)"
  "us_world.more (userial_vendor_set_baud b w) = us_world.more w"
  by (simp_all add: userial_vendor_set_baud_def Let_def frame_simps split: prod.splits)

lemma ioctl_frame [frame_simps]:
  "vnd_userial (userial_vendor_ioctl C op w) = vnd_userial w"
  "us_world.more (userial_vendor_ioctl C op w) = us_world.more w"
  by (simp_all add: userial_vendor_ioctl_def frame_simps
        split: userial_vendor_ioctl_op_t.splits)

section \<open>The port's life\<close>

lemmas userial_parts = userial_setup_port_def userial_ioctl_init_bt_wake_def

lemma setup_port_trace:
  "\<exists>t1 t2. trace (userial_setup_port E sb b w) = trace w @
     [TcflushEv (fd_of w), TcgetattrEv (fd_of w), TcsetattrEv (fd_of w) t1, TcflushEv (fd_of w),
      TcsetattrEv (fd_of w) t1, TcflushEv (fd_of w), TcflushEv (fd_of w), TcsetattrEv (fd_of w) t2]"
  by (simp add: userial_setup_port_def Let_def)

lemma setup_port_fds: "holds_fds M w M (userial_setup_port E sb b w)"
proof -
  obtain t1 t2 where "trace (userial_setup_port E sb b w) = trace w @
     [TcflushEv (fd_of w), TcgetattrEv (fd_of w), TcsetattrEv (fd_of w) t1, TcflushEv (fd_of w),
      TcsetattrEv (fd_of w) t1, TcflushEv (fd_of w), TcflushEv (fd_of w), TcsetattrEv (fd_of w) t2]"
    using setup_port_trace by blast
  then show ?thesis by (rule holds_fds_by_trace) simp
qed

lemma ioctl_init_fds: "holds_fds M w M (userial_ioctl_init_bt_wake C fd w)"
  by (auto simp: userial_ioctl_init_bt_wake_def Let_def holds_fds_def)

text \<open>The successful path of \<^verbatim>\<open>userial_vendor_open\<close>, from the four tests on.\<close>

lemma open_success:
  assumes "fmt_data_bits (uc_fmt p) = Some d" and "fmt_parity (uc_fmt p) = Some q"
    and "fmt_stop_bits (uc_fmt p) = Some sb" and "userial_to_tcio_baud (uc_baud p) = (TRUE, b)"
    and "os_open E (trace w) (us_port_name (vnd_userial w)) O_RDWR = fd" and "fd \<noteq> - 1"
  shows "userial_vendor_open C E p w =
    (let w1 = userial_setup_port E sb b
                (set_us_fd fd (log (OpenEv (us_port_name (vnd_userial w)) O_RDWR fd) w))
     in (fd, if BT_WAKE_VIA_USERIAL_IOCTL C then userial_ioctl_init_bt_wake C fd w1 else w1))"
  using assms by (simp add: userial_vendor_open_def sys_open_def Let_def frame_simps)

text \<open>Every other path returns -1 and leaves the port marked closed.\<close>

lemma open_failure:
  assumes "fmt_data_bits (uc_fmt p) = None \<or> fmt_parity (uc_fmt p) = None
     \<or> fmt_stop_bits (uc_fmt p) = None \<or> fst (userial_to_tcio_baud (uc_baud p)) = FALSE"
  shows "userial_vendor_open C E p w = (- 1, set_us_fd (- 1) w)"
  using assms
  by (cases "userial_to_tcio_baud (uc_baud p)")
    (auto simp: userial_vendor_open_def Let_def split: option.splits)

lemma open_no_device:
  assumes "os_open E (trace w) (us_port_name (vnd_userial w)) O_RDWR = - 1"
  shows "fst (userial_vendor_open C E p w) = - 1
    \<and> fd_of (snd (userial_vendor_open C E p w)) = - 1
    \<and> holds_fds M w M (snd (userial_vendor_open C E p w))"
  using assms
  by (auto simp: userial_vendor_open_def sys_open_def Let_def frame_simps holds_fds_def
        split: option.splits prod.splits)

lemma tcio_baud_flag: "fst (userial_to_tcio_baud b) = TRUE \<or> fst (userial_to_tcio_baud b) = FALSE"
  by (simp add: userial_to_tcio_baud_def)

lemma open_cases:
  obtains (refused) "userial_vendor_open C E p w = (- 1, set_us_fd (- 1) w)"
  | (no_device) "os_open E (trace w) (us_port_name (vnd_userial w)) O_RDWR = - 1"
  | (opened) d q sb b fd where "fmt_data_bits (uc_fmt p) = Some d" "fmt_parity (uc_fmt p) = Some q"
      "fmt_stop_bits (uc_fmt p) = Some sb" "userial_to_tcio_baud (uc_baud p) = (TRUE, b)"
      "os_open E (trace w) (us_port_name (vnd_userial w)) O_RDWR = fd" "fd \<noteq> - 1"
proof -
  obtain ok b where ob: "userial_to_tcio_baud (uc_baud p) = (ok, b)" by fastforce
  then have flag: "ok = TRUE \<or> ok = FALSE" using tcio_baud_flag [of "uc_baud p"] by simp
  show thesis
  proof (cases "fmt_data_bits (uc_fmt p) = None \<or> fmt_parity (uc_fmt p) = None
      \<or> fmt_stop_bits (uc_fmt p) = None \<or> ok = FALSE")
    case True
    then show thesis using ob by (intro refused open_failure) auto
  next
    case False
    then show thesis using ob flag no_device opened by fastforce
  qed
qed

lemma open_fd: "userial_vendor_open C E p w = (r, w') \<Longrightarrow> fd_of w' = r"
proof (cases rule: open_cases [of C E p w])
  case no_device
  then show "userial_vendor_open C E p w = (r, w') \<Longrightarrow> fd_of w' = r"
    using open_no_device [OF no_device, of C p] by simp
next
  case (opened d q sb b fd)
  then show "userial_vendor_open C E p w = (r, w') \<Longrightarrow> fd_of w' = r"
    using open_success [OF opened, of C] by (auto simp: Let_def frame_simps)
qed auto

lemma open_more: "userial_vendor_open C E p w = (r, w') \<Longrightarrow> us_world.more w' = us_world.more w"
proof (cases rule: open_cases [of C E p w])
  case no_device
  then show "userial_vendor_open C E p w = (r, w') \<Longrightarrow> us_world.more w' = us_world.more w"
    by (auto simp: userial_vendor_open_def sys_open_def Let_def split: option.splits prod.splits if_splits)
next
  case (opened d q sb b fd)
  then show "userial_vendor_open C E p w = (r, w') \<Longrightarrow> us_world.more w' = us_world.more w"
    using open_success [OF opened, of C] by (auto simp: Let_def frame_simps)
qed auto

lemma open_holds_fds:
  assumes "open_returns_fd E" and "userial_vendor_open C E p w = (r, w')"
  shows "holds_fds M w (if r = - 1 then M else add_mset r M) w'"
proof (cases rule: open_cases [of C E p w])
  case refused
  with assms(2) show ?thesis by (auto simp: holds_fds_def)
next
  case no_device
  with assms(2) show ?thesis using open_no_device [OF no_device, of C p M] by simp
next
  case (opened d q sb b fd)
  define w0 where "w0 = set_us_fd fd (log (OpenEv (us_port_name (vnd_userial w)) O_RDWR fd) w)"
  have "- 1 \<le> fd" using assms(1) opened(5) by (auto simp: open_returns_fd_def)
  then have "holds_fds M w (add_mset fd M) w0"
    using opened(6) by (simp add: w0_def holds_fds_def)
  then have "holds_fds M w (add_mset fd M) (userial_setup_port E sb b w0)"
    using setup_port_fds by (rule holds_fds_trans)
  moreover from this have
    "holds_fds M w (add_mset fd M) (userial_ioctl_init_bt_wake C fd (userial_setup_port E sb b w0))"
    using ioctl_init_fds by (rule holds_fds_trans)
  ultimately show ?thesis
    using open_success [OF opened, of C] assms(2) opened(6)
    by (auto simp: w0_def Let_def split: if_splits)
qed

lemma close_frame [frame_simps]:
  "us_port_name (vnd_userial (userial_vendor_close C w)) = us_port_name (vnd_userial w)"
  "us_termios (vnd_userial (userial_vendor_close C w)) = us_termios (vnd_userial w)"
  "us_world.more (userial_vendor_close C w) = us_world.more w"
  by (simp_all add: userial_vendor_close_def Let_def frame_simps)

lemma close_fd: "fd_of (userial_vendor_close C w) = - 1"
  by (simp add: userial_vendor_close_def Let_def)

lemma close_holds_fds:
  "fd_of w \<noteq> - 1 \<Longrightarrow> holds_fds (add_mset (fd_of w) M) w M (userial_vendor_close C w)"
  by (auto simp: userial_vendor_close_def Let_def holds_fds_def frame_simps)

lemma close_idle: "fd_of w = - 1 \<Longrightarrow> userial_vendor_close C w = w"
  by (simp add: userial_vendor_close_def)

text \<open>
  The contract its clients rely on: the recorded descriptor is the one that is open, and closing
  gives it back.
\<close>

locale port_lifecycle =
  fixes popen :: "'a os_scheme \<Rightarrow> int \<times> 'a os_scheme"
    and pclose :: "'a os_scheme \<Rightarrow> 'a os_scheme"
    and pfd :: "'a os_scheme \<Rightarrow> int"
    and sane :: bool
  assumes popen_fd: "popen w = (r, w') \<Longrightarrow> pfd w' = r"
    and popen_holds: "sane \<Longrightarrow> popen w = (r, w') \<Longrightarrow>
           holds_fds M w (if r = - 1 then M else add_mset r M) w'"
    and pclose_fd: "pfd (pclose w) = - 1"
    and pclose_holds: "pfd w \<noteq> - 1 \<Longrightarrow> holds_fds (add_mset (pfd w) M) w M (pclose w)"
    and pclose_idle: "pfd w = - 1 \<Longrightarrow> pclose w = w"
begin

lemma pclose_idem: "pclose (pclose w) = pclose w"
  by (rule pclose_idle) (rule pclose_fd)

lemma pclose_any: "holds_fds (if pfd w = - 1 then M else add_mset (pfd w) M) w M (pclose w)"
  using pclose_holds [of w M] pclose_idle [of w] by (auto simp: holds_fds_refl)

text \<open>Opening, any use of the port that keeps its descriptors, and closing is balanced.\<close>

lemma session_balanced:
  assumes "sane" and "popen w = (r, w1)" and "\<And>N. holds_fds N w1 N w2" and "pfd w2 = r"
  shows "holds_fds M w M (pclose w2)"
proof -
  define N where "N = (if r = - 1 then M else add_mset r M)"
  have "holds_fds M w N w1"
    using popen_holds [OF assms(1,2), of M] by (simp only: N_def)
  moreover have "holds_fds N w1 N w2" by (rule assms(3))
  moreover have "holds_fds N w2 M (pclose w2)"
    using pclose_any [of w2 M] assms(4) by (simp only: N_def)
  ultimately show ?thesis by (blast intro: holds_fds_trans)
qed

end

interpretation port: port_lifecycle
  "userial_vendor_open C E p" "userial_vendor_close C" fd_of "open_returns_fd E"
  by unfold_locales
    (simp_all add: open_fd close_fd close_idle open_holds_fds close_holds_fds split del: if_split)

section \<open>Properties\<close>

lemma setup_port_termios:
  "\<exists>t. termios_of (userial_setup_port E sb b w) = (cfmakeraw t)
          \<lparr>c_cflag := c_cflag (cfmakeraw t) OR (CRTSCTS OR ucast sb), c_ospeed := b, c_ispeed := b\<rparr>"
  by (simp add: userial_setup_port_def Let_def) blast

text \<open>The settings written to a device so far, in order.\<close>

fun settings_of :: "event list \<Rightarrow> (int \<times> termios) list" where
  "settings_of [] = []"
| "settings_of (TcsetattrEv fd t # es) = (fd, t) # settings_of es"
| "settings_of (e # es) = settings_of es"

lemma settings_append [simp]: "settings_of (es @ fs) = settings_of es @ settings_of fs"
  by (induction es rule: settings_of.induct) simp_all

lemma setup_port_writes:
  "last (settings_of (trace (userial_setup_port E sb b w)))
     = (fd_of w, termios_of (userial_setup_port E sb b w))"
  "settings_of (trace (userial_setup_port E sb b w)) \<noteq> []"
  by (simp_all add: userial_setup_port_def Let_def)

lemma ioctl_init_settings:
  "settings_of (trace (userial_ioctl_init_bt_wake C fd w)) = settings_of (trace w)"
  by (simp add: userial_ioctl_init_bt_wake_def Let_def)

lemma fmt_stop_bits_cases: "fmt_stop_bits f = Some sb \<Longrightarrow> sb = 0 \<or> sb = CSTOPB"
  by (auto simp: fmt_stop_bits_def split: if_splits)

lemma raw_cflag_bits:
  fixes c :: u32
  assumes "sb = 0 \<or> sb = CSTOPB"
  defines "c' \<equiv> ((c AND NOT 0x130) OR 0x30) OR (CRTSCTS OR ucast sb)"
  shows "c' AND CRTSCTS = CRTSCTS" and "c' AND 0x30 = ucast CS8" and "c' AND ucast PARENB = 0"
    and "c' AND ucast CSTOPB = (if sb = CSTOPB then ucast CSTOPB else c AND ucast CSTOPB)"
proof -
  show "c' AND CRTSCTS = CRTSCTS"
    unfolding c'_def by (simp add: bit.conj_disj_distrib2)
  show "c' AND 0x30 = ucast CS8" and "c' AND ucast PARENB = 0"
    and "c' AND ucast CSTOPB = (if sb = CSTOPB then ucast CSTOPB else c AND ucast CSTOPB)"
    using assms(1) unfolding c'_def
    by (auto simp: bit.conj_disj_distrib2 and.assoc)
qed

text \<open>
  C29. When the format and the baud symbol are supported and the device opens, the port ends up
  open and recorded, with the requested speed both ways, hardware flow control and eight data
  bits without parity, two stop bits when they were asked for, and what is recorded is the last
  setting written to the device.
\<close>

theorem open_configures_port:
  assumes "fmt_data_bits (uc_fmt p) = Some d" and "fmt_parity (uc_fmt p) = Some q"
    and "fmt_stop_bits (uc_fmt p) = Some sb" and "userial_to_tcio_baud (uc_baud p) = (TRUE, b)"
    and "os_open E (trace w) (us_port_name (vnd_userial w)) O_RDWR = fd" and "fd \<noteq> - 1"
    and "userial_vendor_open C E p w = (r, w')"
  shows "r = fd \<and> fd_of w' = fd \<and> c_ispeed (termios_of w') = b \<and> c_ospeed (termios_of w') = b
    \<and> c_cflag (termios_of w') AND CRTSCTS = CRTSCTS
    \<and> c_cflag (termios_of w') AND 0x30 = ucast CS8
    \<and> c_cflag (termios_of w') AND ucast PARENB = 0
    \<and> (sb = CSTOPB \<longrightarrow> c_cflag (termios_of w') AND ucast CSTOPB = ucast CSTOPB)
    \<and> last (settings_of (trace w')) = (fd, termios_of w')"
proof -
  note sb = raw_cflag_bits [OF fmt_stop_bits_cases [OF assms(3)]]
  define w1 where "w1 = userial_setup_port E sb b
     (log (OpenEv (us_port_name (vnd_userial w)) O_RDWR fd) (set_us_fd fd w))"
  obtain t where "termios_of w1 = (cfmakeraw t)
      \<lparr>c_cflag := c_cflag (cfmakeraw t) OR (CRTSCTS OR ucast sb), c_ospeed := b, c_ispeed := b\<rparr>"
    unfolding w1_def using setup_port_termios by blast
  moreover have "last (settings_of (trace w1)) = (fd, termios_of w1)" and "fd_of w1 = fd"
    by (simp_all add: w1_def frame_simps setup_port_writes(1))
  moreover have "r = fd" and "vnd_userial w' = vnd_userial w1"
    and "settings_of (trace w') = settings_of (trace w1)"
    using open_success [OF assms(1-6), of C] assms(7)
    by (auto simp: Let_def w1_def [symmetric] frame_simps ioctl_init_settings)
  ultimately show ?thesis
    using sb [where c = "c_cflag t"] by (auto simp: cfmakeraw_def)
qed

definition idle_us :: us_world where
  "idle_us = \<lparr>trace = [], vnd_userial = \<lparr>us_fd = - 1, us_termios = zero_termios,
     us_port_name = lit ''/dev/ttyO1''\<rparr>\<rparr>"

theorem open_configures_port_witness:
  "\<exists>w'. userial_vendor_open default_cfg sample_env \<lparr>uc_fmt = 0x20C, uc_baud = USERIAL_BAUD_115200\<rparr> idle_us
        = (7, w')
    \<and> c_ispeed (termios_of w') = B115200 \<and> c_cflag (termios_of w') AND ucast CSTOPB = ucast CSTOPB"
proof -
  let ?p = "\<lparr>uc_fmt = 0x20C, uc_baud = USERIAL_BAUD_115200\<rparr>"
  obtain r w' where w': "userial_vendor_open default_cfg sample_env ?p idle_us = (r, w')" by fastforce
  have "fmt_data_bits (uc_fmt ?p) = Some CS8" "fmt_parity (uc_fmt ?p) = Some 0"
    "fmt_stop_bits (uc_fmt ?p) = Some CSTOPB" "userial_to_tcio_baud (uc_baud ?p) = (TRUE, B115200)"
    "os_open sample_env (trace idle_us) (us_port_name (vnd_userial idle_us)) O_RDWR = 7"
    by (simp_all add: fmt_data_bits_def fmt_parity_def fmt_stop_bits_def userial_to_tcio_baud_def
          sample_env_def)
  from open_configures_port [OF this _ w'] w' show ?thesis by simp
qed

text \<open>
  The data bits and the parity of the requested format are checked and then dropped: two
  formats that both pass the checks and ask for the same stop bits open the port identically.
\<close>

theorem open_ignores_data_bits_and_parity:
  assumes "fmt_data_bits f \<noteq> None" and "fmt_data_bits g \<noteq> None"
    and "fmt_parity f \<noteq> None" and "fmt_parity g \<noteq> None"
    and "fmt_stop_bits f = fmt_stop_bits g"
  shows "userial_vendor_open C E \<lparr>uc_fmt = f, uc_baud = b\<rparr> w
       = userial_vendor_open C E \<lparr>uc_fmt = g, uc_baud = b\<rparr> w"
  using assms by (cases "userial_to_tcio_baud b") (auto simp: userial_vendor_open_def Let_def)

theorem open_ignores_data_bits_and_parity_witness:
  "userial_vendor_open default_cfg sample_env \<lparr>uc_fmt = 0x211, uc_baud = USERIAL_BAUD_115200\<rparr> idle_us
     = userial_vendor_open default_cfg sample_env \<lparr>uc_fmt = 0x109, uc_baud = USERIAL_BAUD_115200\<rparr> idle_us"
  by (rule open_ignores_data_bits_and_parity)
    (simp_all add: fmt_data_bits_def fmt_parity_def fmt_stop_bits_def)

end
