(* ===== verification/Upio.thy ===== *)
theory Upio
  imports Userial
begin

text \<open>
  upio.c: power of the chip through rfkill, and the BT_WAKE and LPM pins, through proc nodes or
  the serial port's ioctl as configured. State: the last request per pin, what is known of the
  rfkill switch, the emulator's power flag, and the block of the btwrite holding timer.
\<close>

section \<open>Constants and state\<close>

definition UPIO_BT_POWER_OFF :: int where "UPIO_BT_POWER_OFF = 0"
definition UPIO_BT_POWER_ON :: int where "UPIO_BT_POWER_ON = 1"

lemmas upio_power_values [simp] = UPIO_BT_POWER_OFF_def UPIO_BT_POWER_ON_def

abbreviation UPIO_BT_WAKE :: u8 where "UPIO_BT_WAKE \<equiv> 0"
abbreviation UPIO_HOST_WAKE :: u8 where "UPIO_HOST_WAKE \<equiv> 1"
abbreviation UPIO_LPM_MODE :: u8 where "UPIO_LPM_MODE \<equiv> 2"
abbreviation UPIO_MAX_COUNT :: nat where "UPIO_MAX_COUNT \<equiv> 3"
abbreviation UPIO_UNKNOWN :: u8 where "UPIO_UNKNOWN \<equiv> 0"
abbreviation UPIO_DEASSERT :: u8 where "UPIO_DEASSERT \<equiv> 1"
abbreviation UPIO_ASSERT :: u8 where "UPIO_ASSERT \<equiv> 2"

record vnd_lpm_proc_cb_t =
  btwrite_active :: u8
  timer_created :: u8
  timer_id :: nat

record up_world = us_world +
  upio_state :: "u8 list"
  rfkill_id :: int
  bt_emul_enable :: int
  rfkill_state_path :: "bytes option"
  lpm_proc_cb :: vnd_lpm_proc_cb_t

abbreviation set_pin :: "u8 \<Rightarrow> u8 \<Rightarrow> 'a up_world_scheme \<Rightarrow> 'a up_world_scheme" where
  "set_pin pio action w \<equiv> w\<lparr>upio_state := (upio_state w)[unat pio := action]\<rparr>"

abbreviation pin :: "u8 \<Rightarrow> 'a up_world_scheme \<Rightarrow> u8" where
  "pin pio w \<equiv> upio_state w ! unat pio"

abbreviation set_active :: "u8 \<Rightarrow> 'a up_world_scheme \<Rightarrow> 'a up_world_scheme" where
  "set_active a w \<equiv> w\<lparr>lpm_proc_cb := (lpm_proc_cb w)\<lparr>btwrite_active := a\<rparr>\<rparr>"

lemma up_frame [simp]:
  "upio_state (log e w) = upio_state w" "rfkill_id (log e w) = rfkill_id w"
  "bt_emul_enable (log e w) = bt_emul_enable w"
  "rfkill_state_path (log e w) = rfkill_state_path w"
  "lpm_proc_cb (log e w) = lpm_proc_cb w" "up_world.more (log e w) = up_world.more w"
  by (simp_all add: log_def)

section \<open>Power\<close>

definition is_emulator_context :: "env \<Rightarrow> bool" where
  "is_emulator_context E \<longleftrightarrow> property_get E (lit ''ro.boot.qemu'') (lit ''0'') = lit ''1''"

definition is_rfkill_disabled :: "env \<Rightarrow> int" where
  "is_rfkill_disabled E =
     (if property_get E (lit ''ro.rfkilldisabled'') (lit ''0'') = lit ''1''
      then UPIO_BT_POWER_ON else UPIO_BT_POWER_OFF)"

definition rfkill_type_path :: "nat \<Rightarrow> bytes" where
  "rfkill_type_path n = take 63 (lit ''/sys/class/rfkill/rfkill'' @ decimal n @ lit ''/type'')"

definition rfkill_path :: "nat \<Rightarrow> bytes" where
  "rfkill_path n = lit ''/sys/class/rfkill/rfkill'' @ decimal n @ lit ''/state''"

definition is_bluetooth_type :: "bytes option \<Rightarrow> bool" where
  "is_bluetooth_type r \<longleftrightarrow>
     (case r of None \<Rightarrow> False | Some buf \<Rightarrow> 9 \<le> length buf \<and> take 9 buf = lit ''bluetooth'')"

text \<open>One turn of the search loop of \<^verbatim>\<open>init_rfkill\<close>: the type node of a switch is opened, read
  and closed; \<^verbatim>\<open>None\<close> when it cannot be opened.\<close>

definition rfkill_probe ::
  "env \<Rightarrow> nat \<Rightarrow> 'a up_world_scheme \<Rightarrow> bytes option option \<times> 'a up_world_scheme" where
  "rfkill_probe E n w =
     (let (fd, w) = sys_open E (rfkill_type_path n) O_RDONLY w in
      if fd < 0 then (None, w)
      else let (sz, w) = sys_read E fd 16 w in (Some sz, log (CloseEv fd) w))"

text \<open>The loop: the number of the Bluetooth switch, or \<^verbatim>\<open>None\<close> when a node cannot be opened.
  Counting past the largest \<^verbatim>\<open>int\<close> has no defined result.\<close>

function rfkill_scan ::
  "env \<Rightarrow> nat \<Rightarrow> 'a up_world_scheme \<Rightarrow> (nat option \<times> 'a up_world_scheme) option" where
  "rfkill_scan E n w =
     (if 2147483647 < n then None
      else case rfkill_probe E n w of
        (None, w1) \<Rightarrow> Some (None, w1)
      | (Some sz, w1) \<Rightarrow>
          if is_bluetooth_type sz then Some (Some n, w1) else rfkill_scan E (Suc n) w1)"
  by pat_completeness auto
termination
  by (relation "measure (\<lambda>(E, n, w). 2147483648 - n)") auto

declare rfkill_scan.simps [simp del]

definition init_rfkill :: "env \<Rightarrow> 'a up_world_scheme \<Rightarrow> (int \<times> 'a up_world_scheme) option" where
  "init_rfkill E w =
     (if is_rfkill_disabled E \<noteq> 0 then Some (- 1, w)
      else do {
        (found, w) \<leftarrow> rfkill_scan E 0 w;
        case found of
          None \<Rightarrow> Some (- 1, w)
        | Some n \<Rightarrow>
            Some (0, w\<lparr>rfkill_id := int n, rfkill_state_path := Some (rfkill_path n)\<rparr>) })"

text \<open>The write to the switch. \<^verbatim>\<open>open(rfkill_state_path)\<close> with the path still NULL has no
  defined result.\<close>

definition write_rfkill_state ::
  "env \<Rightarrow> u8 \<Rightarrow> 'a up_world_scheme \<Rightarrow> (int \<times> 'a up_world_scheme) option" where
  "write_rfkill_state E buffer w =
     do { path \<leftarrow> rfkill_state_path w;
          let (fd, w) = sys_open E path O_WRONLY w;
          if fd < 0 then Some (- 1, w)
          else do {
            let (ok, w) = sys_write E fd [buffer] w;
            Some (if ok then 0 else - 1, log (CloseEv fd) w) } }"

definition upio_set_bluetooth_power ::
  "env \<Rightarrow> int \<Rightarrow> 'a up_world_scheme \<Rightarrow> (int \<times> 'a up_world_scheme) option" where
  "upio_set_bluetooth_power E on w =
     (let buffer = (if on = UPIO_BT_POWER_OFF then CHR ''0''
                    else if on = UPIO_BT_POWER_ON then CHR ''1'' else CHR ''0'') in
      if is_emulator_context E then
        (if bt_emul_enable w = on then Some (- 1, w) else Some (0, w\<lparr>bt_emul_enable := on\<rparr>))
      else if is_rfkill_disabled E \<noteq> 0 then Some (0, w)
      else do {
        (failed, w) \<leftarrow> (if rfkill_id w = - 1 then init_rfkill E w else Some (0, w));
        if failed \<noteq> 0 then Some (- 1, w) else write_rfkill_state E (of_char buffer) w })"

section \<open>Pins\<close>

definition upio_init :: "buildcfg \<Rightarrow> 'a up_world_scheme \<Rightarrow> 'a up_world_scheme" where
  "upio_init C w =
     (let w = w\<lparr>upio_state := replicate UPIO_MAX_COUNT UPIO_UNKNOWN\<rparr> in
      if BT_WAKE_VIA_PROC C
      then w\<lparr>lpm_proc_cb := \<lparr>btwrite_active = 0, timer_created = 0, timer_id = 0\<rparr>\<rparr> else w)"

definition upio_cleanup :: "buildcfg \<Rightarrow> 'a up_world_scheme \<Rightarrow> 'a up_world_scheme" where
  "upio_cleanup C w =
     (if \<not> BT_WAKE_VIA_PROC C then w
      else
        let w = (if timer_created (lpm_proc_cb w) = TRUE
                 then log (TimerDeleteEv (timer_id (lpm_proc_cb w))) w else w)
        in w\<lparr>lpm_proc_cb := (lpm_proc_cb w)\<lparr>timer_created := FALSE\<rparr>\<rparr>)"

text \<open>The timer specification is a local variable: on UPIO_ASSERT it is only filled in when
  the timer exists, and \<^verbatim>\<open>timer_settime\<close> is called in any case.\<close>

definition upio_start_stop_timer :: "buildcfg \<Rightarrow> u8 \<Rightarrow> 'a up_world_scheme \<Rightarrow> 'a up_world_scheme" where
  "upio_start_stop_timer C action w =
     (let (ts, w) =
        (if action = UPIO_ASSERT then
           let w = set_active TRUE w in
           (if timer_created (lpm_proc_cb w) = TRUE
            then ArmTimer (PROC_BTWRITE_TIMER_TIMEOUT_MS C div 1000)
                          (1000000 * (PROC_BTWRITE_TIMER_TIMEOUT_MS C mod 1000))
            else IndeterminateTimer, w)
         else (DisarmTimer, w))
      in log (TimerSettimeEv (timer_id (lpm_proc_cb w)) ts) w)"

definition create_btwrite_timer :: "env \<Rightarrow> 'a up_world_scheme \<Rightarrow> 'a up_world_scheme" where
  "create_btwrite_timer E w =
     (case os_timer_create E (trace w) of
        None \<Rightarrow> log (TimerCreateEv None) w
      | Some t \<Rightarrow>
          log (TimerCreateEv (Some t))
            (w\<lparr>lpm_proc_cb := (lpm_proc_cb w)\<lparr>timer_id := t, timer_created := TRUE\<rparr>\<rparr>))"

definition upio_set_lpm_mode :: "buildcfg \<Rightarrow> env \<Rightarrow> u8 \<Rightarrow> 'a up_world_scheme \<Rightarrow> 'a up_world_scheme" where
  "upio_set_lpm_mode C E action w =
     (if pin UPIO_LPM_MODE w = action then w
      else
        let w = set_pin UPIO_LPM_MODE action w in
        if \<not> BT_WAKE_VIA_PROC C then w
        else
          let (fd, w) = sys_open E (VENDOR_LPM_PROC_NODE C) O_WRONLY w in
          if fd < 0 then w
          else
            let (buffer, w) =
              (if action = UPIO_ASSERT then (CHR ''1'', w)
               else
                 (CHR ''0'',
                  if timer_created (lpm_proc_cb w) = TRUE
                  then log (TimerDeleteEv (timer_id (lpm_proc_cb w)))
                         (w\<lparr>lpm_proc_cb := (lpm_proc_cb w)\<lparr>timer_created := FALSE\<rparr>\<rparr>)
                  else w));
                (ok, w) = sys_write E fd [of_char buffer] w;
                w = (if ok \<and> PROC_BTWRITE_TIMER_TIMEOUT_MS C \<noteq> 0 \<and> action = UPIO_ASSERT
                        \<and> timer_created (lpm_proc_cb w) = FALSE
                     then create_btwrite_timer E w else w)
            in log (CloseEv fd) w)"

definition upio_set_bt_wake :: "buildcfg \<Rightarrow> env \<Rightarrow> u8 \<Rightarrow> 'a up_world_scheme \<Rightarrow> 'a up_world_scheme" where
  "upio_set_bt_wake C E action w =
     (if pin UPIO_BT_WAKE w = action
         \<and> (BT_WAKE_VIA_PROC C \<longrightarrow> btwrite_active (lpm_proc_cb w) = TRUE) then w
      else
        let w = set_pin UPIO_BT_WAKE action w in
        if BT_WAKE_VIA_USERIAL_IOCTL C then
          userial_vendor_ioctl C (if action = UPIO_ASSERT then USERIAL_OP_ASSERT_BT_WAKE
                                  else USERIAL_OP_DEASSERT_BT_WAKE) w
        else if BT_WAKE_VIA_PROC C then
          (if \<not> BT_WAKE_VIA_PROC_NOTIFY_DEASSERT C \<and> action = UPIO_DEASSERT then w
           else
             let (fd, w) = sys_open E (VENDOR_BTWRITE_PROC_NODE C) O_WRONLY w in
             if fd < 0 then w
             else
               let buffer = (if BT_WAKE_VIA_PROC_NOTIFY_DEASSERT C \<and> action = UPIO_DEASSERT
                             then CHR ''0'' else CHR ''1'');
                   (ok, w) = sys_write E fd [of_char buffer] w;
                   w = (if ok \<and> PROC_BTWRITE_TIMER_TIMEOUT_MS C \<noteq> 0
                        then upio_start_stop_timer C action w else w);
                   w = (if BT_WAKE_VIA_PROC_NOTIFY_DEASSERT C then set_active TRUE w else w)
               in log (CloseEv fd) w)
        else w)"

definition upio_set ::
  "buildcfg \<Rightarrow> env \<Rightarrow> u8 \<Rightarrow> u8 \<Rightarrow> u8 \<Rightarrow> 'a up_world_scheme \<Rightarrow> 'a up_world_scheme" where
  "upio_set C E pio action polarity w =
     (if pio = UPIO_LPM_MODE then upio_set_lpm_mode C E action w
      else if pio = UPIO_BT_WAKE then upio_set_bt_wake C E action w
      else w)"

text \<open>The thread of the holding timer.\<close>

definition proc_btwrite_timeout :: "buildcfg \<Rightarrow> env \<Rightarrow> 'a up_world_scheme \<Rightarrow> 'a up_world_scheme" where
  "proc_btwrite_timeout C E w =
     (let w = set_active FALSE w in upio_set C E UPIO_BT_WAKE UPIO_DEASSERT 1 w)"

section \<open>What the operations keep\<close>

lemma ioctl_up_frame [simp]:
  "upio_state (userial_vendor_ioctl C oper w) = upio_state w"
  "rfkill_id (userial_vendor_ioctl C oper w) = rfkill_id w"
  "bt_emul_enable (userial_vendor_ioctl C oper w) = bt_emul_enable w"
  "rfkill_state_path (userial_vendor_ioctl C oper w) = rfkill_state_path w"
  "lpm_proc_cb (userial_vendor_ioctl C oper w) = lpm_proc_cb w"
  "up_world.more (userial_vendor_ioctl C oper w) = up_world.more w"
  by (simp_all add: userial_vendor_ioctl_def split: userial_vendor_ioctl_op_t.splits)

lemmas pin_defs = upio_set_def upio_set_lpm_mode_def upio_set_bt_wake_def
  upio_start_stop_timer_def sys_open_def sys_write_def Let_def

lemma create_timer_frame [simp]:
  "upio_state (create_btwrite_timer E w) = upio_state w"
  "vnd_userial (create_btwrite_timer E w) = vnd_userial w"
  "rfkill_id (create_btwrite_timer E w) = rfkill_id w"
  "rfkill_state_path (create_btwrite_timer E w) = rfkill_state_path w"
  "bt_emul_enable (create_btwrite_timer E w) = bt_emul_enable w"
  "up_world.more (create_btwrite_timer E w) = up_world.more w"
  by (simp_all add: create_btwrite_timer_def split: option.splits)

lemma start_stop_frame [simp]:
  "upio_state (upio_start_stop_timer C a w) = upio_state w"
  "vnd_userial (upio_start_stop_timer C a w) = vnd_userial w"
  "rfkill_id (upio_start_stop_timer C a w) = rfkill_id w"
  "rfkill_state_path (upio_start_stop_timer C a w) = rfkill_state_path w"
  "bt_emul_enable (upio_start_stop_timer C a w) = bt_emul_enable w"
  "timer_created (lpm_proc_cb (upio_start_stop_timer C a w)) = timer_created (lpm_proc_cb w)"
  "timer_id (lpm_proc_cb (upio_start_stop_timer C a w)) = timer_id (lpm_proc_cb w)"
  "up_world.more (upio_start_stop_timer C a w) = up_world.more w"
  by (simp_all add: upio_start_stop_timer_def)

lemma lpm_mode_frame [frame_simps]:
  "upio_state (upio_set_lpm_mode C E a w) = (upio_state w)[2 := a]"
  "vnd_userial (upio_set_lpm_mode C E a w) = vnd_userial w"
  "rfkill_id (upio_set_lpm_mode C E a w) = rfkill_id w"
  "rfkill_state_path (upio_set_lpm_mode C E a w) = rfkill_state_path w"
  "bt_emul_enable (upio_set_lpm_mode C E a w) = bt_emul_enable w"
  "up_world.more (upio_set_lpm_mode C E a w) = up_world.more w"
  by (auto simp: upio_set_lpm_mode_def sys_open_def sys_write_def Let_def)

lemma bt_wake_frame [frame_simps]:
  "upio_state (upio_set_bt_wake C E a w) = (upio_state w)[0 := a]"
  "vnd_userial (upio_set_bt_wake C E a w) = vnd_userial w"
  "rfkill_id (upio_set_bt_wake C E a w) = rfkill_id w"
  "rfkill_state_path (upio_set_bt_wake C E a w) = rfkill_state_path w"
  "bt_emul_enable (upio_set_bt_wake C E a w) = bt_emul_enable w"
  "timer_created (lpm_proc_cb (upio_set_bt_wake C E a w)) = timer_created (lpm_proc_cb w)"
  "timer_id (lpm_proc_cb (upio_set_bt_wake C E a w)) = timer_id (lpm_proc_cb w)"
  "up_world.more (upio_set_bt_wake C E a w) = up_world.more w"
  by (auto simp: upio_set_bt_wake_def sys_open_def sys_write_def Let_def frame_simps)

lemma same_level:
  "pin UPIO_LPM_MODE w = a \<Longrightarrow> upio_set_lpm_mode C E a w = w"
  "\<not> BT_WAKE_VIA_PROC C \<Longrightarrow> pin UPIO_BT_WAKE w = a \<Longrightarrow> upio_set_bt_wake C E a w = w"
  by (simp_all add: upio_set_lpm_mode_def upio_set_bt_wake_def)

lemma upio_set_frame [simp]:
  "vnd_userial (upio_set C E pio a p w) = vnd_userial w"
  "rfkill_id (upio_set C E pio a p w) = rfkill_id w"
  "rfkill_state_path (upio_set C E pio a p w) = rfkill_state_path w"
  "bt_emul_enable (upio_set C E pio a p w) = bt_emul_enable w"
  "up_world.more (upio_set C E pio a p w) = up_world.more w"
  "length (upio_state (upio_set C E pio a p w)) = length (upio_state w)"
  by (simp_all add: upio_set_def frame_simps)

text \<open>The invariant of the component.\<close>

definition upio_wf :: "'a up_world_scheme \<Rightarrow> bool" where
  "upio_wf w \<longleftrightarrow>
     length (upio_state w) = UPIO_MAX_COUNT
     \<and> (timer_created (lpm_proc_cb w) = FALSE \<or> timer_created (lpm_proc_cb w) = TRUE)
     \<and> (rfkill_id w = - 1 \<longleftrightarrow> rfkill_state_path w = None)"

lemma lpm_mode_timer:
  "upio_wf w \<Longrightarrow> timer_created (lpm_proc_cb (upio_set_lpm_mode C E a w)) = FALSE
     \<or> timer_created (lpm_proc_cb (upio_set_lpm_mode C E a w)) = TRUE"
  by (auto simp: upio_set_lpm_mode_def create_btwrite_timer_def sys_open_def sys_write_def Let_def
        upio_wf_def split: option.splits)

lemma upio_set_wf [intro]: "upio_wf w \<Longrightarrow> upio_wf (upio_set C E pio a p w)"
  using lpm_mode_timer [of w C E a]
  by (auto simp: upio_wf_def upio_set_def frame_simps)

lemma probe_frame: "rfkill_probe E n w = (r, w') \<Longrightarrow> only_logs w w'"
  by (auto simp: rfkill_probe_def sys_open_def sys_read_def Let_def split: if_splits)

text \<open>Induction along the search: what one turn does, and what two turns after each other do.\<close>

lemma scan_induct [consumes 1, case_names missing found step]:
  assumes "rfkill_scan E n w = Some (res, w')"
    and "\<And>n w w1. rfkill_probe E n w = (None, w1) \<Longrightarrow> P n w None w1"
    and "\<And>n w sz w1. rfkill_probe E n w = (Some sz, w1) \<Longrightarrow> is_bluetooth_type sz \<Longrightarrow> n \<le> 2147483647
           \<Longrightarrow> P n w (Some n) w1"
    and "\<And>n w sz w1 res w2. rfkill_probe E n w = (Some sz, w1) \<Longrightarrow> \<not> is_bluetooth_type sz
           \<Longrightarrow> P (Suc n) w1 res w2 \<Longrightarrow> P n w res w2"
  shows "P n w res w'"
  using assms(1)
proof (induction "2147483648 - n" arbitrary: n w rule: less_induct)
  case less
  have "rfkill_scan E n w = (if 2147483647 < n then None
      else case rfkill_probe E n w of (None, w1) \<Rightarrow> Some (None, w1)
        | (Some sz, w1) \<Rightarrow>
            if is_bluetooth_type sz then Some (Some n, w1) else rfkill_scan E (Suc n) w1)"
    by (subst rfkill_scan.simps) simp
  with less.prems consider
      (missing) "rfkill_probe E n w = (None, w')" "res = None"
    | (found) sz where "rfkill_probe E n w = (Some sz, w')" "is_bluetooth_type sz"
        "n \<le> 2147483647" "res = Some n"
    | (step) sz w1 where "rfkill_probe E n w = (Some sz, w1)" "\<not> is_bluetooth_type sz"
        "n \<le> 2147483647" "rfkill_scan E (Suc n) w1 = Some (res, w')"
    by (auto split: if_splits prod.splits option.splits)
  then show ?case
  proof cases
    case step
    then have "P (Suc n) w1 res w'" by (intro less.hyps) auto
    with step(1,2) show ?thesis by (rule assms(4))
  qed (auto intro: assms(2,3))
qed

lemma scan_frame:
  assumes "rfkill_scan E n w = Some (res, w')"
  shows "only_logs w w'"
  using assms
proof (induction rule: scan_induct)
  case (step n w sz w1 res w2)
  then show ?case by (meson probe_frame only_logs_trans)
qed (auto dest: probe_frame)

text \<open>What a power request can change: the emulator's flag, or the log and what is known of the
  switch.\<close>

lemma init_rfkill_shape:
  assumes "init_rfkill E w = Some (r, w')"
  shows "only_logs w w' \<or> (\<exists>n v. only_logs w v \<and> r = 0
           \<and> w' = v\<lparr>rfkill_id := int n, rfkill_state_path := Some (rfkill_path n)\<rparr>)"
  using assms
  by (auto simp: init_rfkill_def elim!: bind_SomeE split: if_splits option.splits)
    (use scan_frame in \<open>blast+\<close>)

lemma power_write_shape:
  assumes "write_rfkill_state E b w = Some (r, w')"
  shows "only_logs w w' \<and> (r = 0 \<or> r = - 1) \<and> balanced w w'"
  using assms
  by (auto simp: write_rfkill_state_def sys_open_def sys_write_def Let_def
        balanced_def neutral_def effects_def elim!: bind_SomeE split: if_splits)

lemma power_shape:
  assumes "upio_set_bluetooth_power E on w = Some (r, w')"
  shows "w' = w\<lparr>bt_emul_enable := on\<rparr> \<or> only_logs w w' \<or>
    (\<exists>n v. only_logs w v
       \<and> only_logs (v\<lparr>rfkill_id := int n, rfkill_state_path := Some (rfkill_path n)\<rparr>) w')"
proof -
  consider "w' = w\<lparr>bt_emul_enable := on\<rparr>" | "w' = w"
    | (rfkill) v q where "(if rfkill_id w = - 1 then init_rfkill E w else Some (0, w)) = Some (q, v)"
        and "q \<noteq> 0 \<and> w' = v \<or> q = 0 \<and> only_logs v w'"
    using assms
    by (auto simp: upio_set_bluetooth_power_def Let_def elim!: bind_SomeE
          split: if_splits dest!: power_write_shape)
  then show ?thesis
  proof cases
    case rfkill
    then have "only_logs w v \<or> (\<exists>n u. only_logs w u
        \<and> v = u\<lparr>rfkill_id := int n, rfkill_state_path := Some (rfkill_path n)\<rparr>)"
      using init_rfkill_shape [of E w q v] by (auto split: if_splits)
    moreover have "only_logs v w'" using rfkill(2) by auto
    ultimately show ?thesis by (meson only_logs_trans)
  qed auto
qed

lemma power_frame:
  assumes "upio_set_bluetooth_power E on w = Some (r, w')"
  shows "upio_state w' = upio_state w" and "lpm_proc_cb w' = lpm_proc_cb w"
    and "vnd_userial w' = vnd_userial w" and "up_world.more w' = up_world.more w"
  using power_shape [OF assms] by (auto simp: only_logs_def)

lemma power_wf: "upio_wf w \<Longrightarrow> upio_set_bluetooth_power E on w = Some (r, w') \<Longrightarrow> upio_wf w'"
  by (drule power_shape) (auto simp: only_logs_def upio_wf_def)

text \<open>The path of the switch is always known when it is opened, so the only undefined outcome of
  a power request is the node counter's overflow.\<close>

lemma power_defined:
  assumes "upio_wf w" and "rfkill_id w = - 1 \<Longrightarrow> rfkill_scan E 0 w \<noteq> None"
  shows "upio_set_bluetooth_power E on w \<noteq> None"
  using assms
  by (auto simp: upio_set_bluetooth_power_def init_rfkill_def write_rfkill_state_def upio_wf_def
        sys_open_def sys_write_def Let_def split: option.splits)

section \<open>The pin contract\<close>

text \<open>
  What the rest of the library relies on: a request is recorded as the pin's level, and a request
  for the recorded level does nothing.
\<close>

locale pin_driver =
  fixes drive :: "u8 \<Rightarrow> 'w \<Rightarrow> 'w"
    and level :: "'w \<Rightarrow> u8"
    and usable :: "'w \<Rightarrow> bool"
  assumes drive_level: "usable w \<Longrightarrow> level (drive a w) = a"
    and drive_usable: "usable w \<Longrightarrow> usable (drive a w)"
    and drive_same: "usable w \<Longrightarrow> level w = a \<Longrightarrow> drive a w = w"
begin

lemma drive_idem: "usable w \<Longrightarrow> drive a (drive a w) = drive a w"
  by (simp add: drive_same drive_level drive_usable)

lemma drives_usable: "usable w \<Longrightarrow> usable (fold drive as w)"
  by (induction as arbitrary: w) (auto intro: drive_usable)

lemma drives_level: "usable w \<Longrightarrow> as \<noteq> [] \<Longrightarrow> level (fold drive as w) = last as"
  by (induction as rule: rev_induct) (auto simp: drive_level drives_usable)

text \<open>Repeated requests can be dropped.\<close>

lemma drives_remdups: "usable w \<Longrightarrow> fold drive (remdups_adj as) w = fold drive as w"
  by (induction as arbitrary: w rule: remdups_adj.induct) (auto simp: drive_idem drive_usable)

end

interpretation lpm_pin: pin_driver
  "\<lambda>a. upio_set C E UPIO_LPM_MODE a p" "pin UPIO_LPM_MODE" "\<lambda>w. length (upio_state w) = UPIO_MAX_COUNT"
  by unfold_locales (simp_all add: upio_set_def frame_simps same_level)

interpretation wake_pin: pin_driver
  "\<lambda>a. upio_set C E UPIO_BT_WAKE a p" "pin UPIO_BT_WAKE"
  "\<lambda>w. length (upio_state w) = UPIO_MAX_COUNT \<and> \<not> BT_WAKE_VIA_PROC C"
  by unfold_locales (auto simp: upio_set_def frame_simps same_level)

section \<open>Descriptors and timers\<close>

text \<open>The timer the state accounts for.\<close>

definition timers :: "'a up_world_scheme \<Rightarrow> nat multiset" where
  "timers w = (if timer_created (lpm_proc_cb w) = TRUE then {#timer_id (lpm_proc_cb w)#} else {#})"

lemma timers_simps [simp]:
  "timers (w\<lparr>upio_state := u\<rparr>) = timers w" "timers (log e w) = timers w" "timers (w\<lparr>trace := t\<rparr>) = timers w"
  by (simp_all add: timers_def)

lemma create_timer_trace [simp]:
  "trace (create_btwrite_timer E w) = trace w @ [TimerCreateEv (os_timer_create E (trace w))]"
  by (simp add: create_btwrite_timer_def split: option.splits)

lemma start_stop_trace:
  "trace (upio_start_stop_timer C a w) =
     trace w @ [TimerSettimeEv (timer_id (lpm_proc_cb w))
       (if a \<noteq> UPIO_ASSERT then DisarmTimer
        else if timer_created (lpm_proc_cb w) = TRUE
        then ArmTimer (PROC_BTWRITE_TIMER_TIMEOUT_MS C div 1000)
               (1000000 * (PROC_BTWRITE_TIMER_TIMEOUT_MS C mod 1000))
        else IndeterminateTimer)]"
  by (simp add: upio_start_stop_timer_def)

lemma ioctl_trace:
  "\<exists>s. trace (userial_vendor_ioctl C oper w) = trace w @ s \<and> (\<forall>e\<in>set s. \<exists>fd q a. e = IoctlEv fd q a)"
  by (cases oper) (simp_all add: userial_vendor_ioctl_def)

lemma lpm_mode_trace:
  assumes "pin UPIO_LPM_MODE w \<noteq> a" and "BT_WAKE_VIA_PROC C"
    and "os_open E (trace w) (VENDOR_LPM_PROC_NODE C) O_WRONLY = fd" and "0 \<le> fd"
  shows "\<exists>s. trace (upio_set_lpm_mode C E a w) =
      trace w @ OpenEv (VENDOR_LPM_PROC_NODE C) O_WRONLY fd # s @ [CloseEv fd]
    \<and> list_all (\<lambda>e. calm e \<or> is_timer e) s
    \<and> (\<forall>N. account timer_step (timers w + N) s = Some (timers (upio_set_lpm_mode C E a w) + N))"
  using assms
  by (auto simp: upio_set_lpm_mode_def sys_open_def sys_write_def Let_def timers_def create_btwrite_timer_def
        split: option.splits)

lemma bt_wake_trace:
  assumes "pin UPIO_BT_WAKE w \<noteq> a \<or> btwrite_active (lpm_proc_cb w) \<noteq> TRUE"
    and "BT_WAKE_VIA_PROC C" and "\<not> BT_WAKE_VIA_USERIAL_IOCTL C"
    and "BT_WAKE_VIA_PROC_NOTIFY_DEASSERT C \<or> a \<noteq> UPIO_DEASSERT"
    and "os_open E (trace w) (VENDOR_BTWRITE_PROC_NODE C) O_WRONLY = fd" and "0 \<le> fd"
  shows "\<exists>s. trace (upio_set_bt_wake C E a w) =
      trace w @ OpenEv (VENDOR_BTWRITE_PROC_NODE C) O_WRONLY fd # s @ [CloseEv fd]
    \<and> list_all calm s"
  using assms
  by (auto simp: upio_set_bt_wake_def sys_open_def sys_write_def Let_def start_stop_trace)

lemma bt_wake_unopened:
  assumes "pin UPIO_BT_WAKE w \<noteq> a \<or> btwrite_active (lpm_proc_cb w) \<noteq> TRUE"
    and "BT_WAKE_VIA_PROC C" and "\<not> BT_WAKE_VIA_USERIAL_IOCTL C"
    and "BT_WAKE_VIA_PROC_NOTIFY_DEASSERT C \<or> a \<noteq> UPIO_DEASSERT"
    and "os_open E (trace w) (VENDOR_BTWRITE_PROC_NODE C) O_WRONLY = fd" and "fd < 0"
  shows "upio_set_bt_wake C E a w =
      log (OpenEv (VENDOR_BTWRITE_PROC_NODE C) O_WRONLY fd) (set_pin UPIO_BT_WAKE a w)"
  using assms by (auto simp: upio_set_bt_wake_def sys_open_def Let_def)

text \<open>What a pin request opens it closes, and between the two it may make or delete the timer;
  nothing else of it is significant.\<close>

definition bracketed :: "event list \<Rightarrow> bool" where
  "bracketed es \<longleftrightarrow> es = [] \<or> (\<exists>p fd. fd < 0 \<and> es = [OpenEv p O_WRONLY fd])
     \<or> (\<exists>p fd s. 0 \<le> fd \<and> list_all is_timer s \<and> es = OpenEv p O_WRONLY fd # s @ [CloseEv fd])"

text \<open>Such a request, with the timer as the state says before and after.\<close>

definition tidy :: "'a up_world_scheme \<Rightarrow> 'a up_world_scheme \<Rightarrow> bool" where
  "tidy w w' \<longleftrightarrow> (\<exists>es. effects w w' es \<and> bracketed es
     \<and> (\<forall>N. account timer_step (timers w + N) es = Some (timers w' + N)))"

lemma bracketed_accounts:
  "bracketed es \<Longrightarrow> account fd_step M es = Some M" "bracketed es \<Longrightarrow> account own_step N es = Some N"
  by (auto simp: bracketed_def account_append account_timers)

lemma tidy_calm: "trace w' = trace w @ s \<Longrightarrow> list_all calm s \<Longrightarrow> timers w' = timers w \<Longrightarrow> tidy w w'"
  by (auto simp: tidy_def effects_def bracketed_def list_all_iff filter_empty_conv)

lemma tidy_unopened:
  "trace w' = trace w @ [OpenEv p O_WRONLY fd] \<Longrightarrow> fd < 0 \<Longrightarrow> timers w' = timers w \<Longrightarrow> tidy w w'"
  by (auto simp: tidy_def effects_def bracketed_def)

lemma tidy_bracket:
  assumes "trace w' = trace w @ OpenEv p O_WRONLY fd # s @ [CloseEv fd]" and "0 \<le> fd"
    and "list_all (\<lambda>e. calm e \<or> is_timer e) s"
    and "\<forall>N. account timer_step (timers w + N) s = Some (timers w' + N)"
  shows "tidy w w'"
proof -
  let ?t = "filter (\<lambda>e. \<not> calm e) s"
  have "list_all is_timer ?t" using assms(3) by (auto simp: list_all_iff)
  moreover have "account timer_step M ?t = account timer_step M s" for M
    by (simp add: account_filter calm_neutral)
  ultimately show ?thesis using assms(1,2,4) by (auto simp: tidy_def effects_def bracketed_def account_append)
qed

lemma ioctl_calm: "\<exists>s. trace (userial_vendor_ioctl C oper w) = trace w @ s \<and> list_all calm s"
  using ioctl_trace [of C oper w] by (fastforce simp: list_all_iff)

lemma lpm_mode_unopened:
  assumes "pin UPIO_LPM_MODE w \<noteq> a" and "BT_WAKE_VIA_PROC C"
    and "os_open E (trace w) (VENDOR_LPM_PROC_NODE C) O_WRONLY = fd" and "fd < 0"
  shows "upio_set_lpm_mode C E a w =
    log (OpenEv (VENDOR_LPM_PROC_NODE C) O_WRONLY fd) (set_pin UPIO_LPM_MODE a w)"
  using assms by (auto simp: upio_set_lpm_mode_def sys_open_def Let_def)

lemma lpm_mode_tidy: "tidy w (upio_set_lpm_mode C E a w)"
proof (cases "pin UPIO_LPM_MODE w \<noteq> a \<and> BT_WAKE_VIA_PROC C
    \<and> 0 \<le> os_open E (trace w) (VENDOR_LPM_PROC_NODE C) O_WRONLY")
  case True
  then show ?thesis using lpm_mode_trace [of w a C E] by (auto intro: tidy_bracket)
next
  case False
  show ?thesis
  proof (cases "pin UPIO_LPM_MODE w = a")
    case True
    then show ?thesis by (intro tidy_calm [where s = "[]"]) (simp_all add: same_level)
  next
    case changes: False
    show ?thesis
    proof (cases "BT_WAKE_VIA_PROC C")
      case True
      define fd where "fd = os_open E (trace w) (VENDOR_LPM_PROC_NODE C) O_WRONLY"
      have "fd < 0" using False changes True by (simp add: fd_def)
      then show ?thesis
        using lpm_mode_unopened [OF changes True, of E fd] by (intro tidy_unopened) (auto simp: fd_def)
    next
      case False
      then have "upio_set_lpm_mode C E a w = set_pin UPIO_LPM_MODE a w"
        using changes by (simp add: upio_set_lpm_mode_def)
      then show ?thesis by (intro tidy_calm [where s = "[]"]) simp_all
    qed
  qed
qed

lemma bt_wake_silent:
  assumes "pin UPIO_BT_WAKE w \<noteq> a \<or> btwrite_active (lpm_proc_cb w) \<noteq> TRUE"
    and "\<not> BT_WAKE_VIA_USERIAL_IOCTL C" and "BT_WAKE_VIA_PROC C"
    and "\<not> BT_WAKE_VIA_PROC_NOTIFY_DEASSERT C" and "a = UPIO_DEASSERT"
  shows "upio_set_bt_wake C E a w = set_pin UPIO_BT_WAKE a w"
  using assms by (auto simp: upio_set_bt_wake_def Let_def)

lemma bt_wake_no_proc:
  assumes "\<not> BT_WAKE_VIA_USERIAL_IOCTL C" and "\<not> BT_WAKE_VIA_PROC C"
  shows "upio_set_bt_wake C E a w = set_pin UPIO_BT_WAKE a w"
  using assms by (auto simp: upio_set_bt_wake_def Let_def)

lemma bt_wake_ioctl:
  assumes "pin UPIO_BT_WAKE w \<noteq> a \<or> (BT_WAKE_VIA_PROC C \<and> btwrite_active (lpm_proc_cb w) \<noteq> TRUE)"
    and "BT_WAKE_VIA_USERIAL_IOCTL C"
  shows "upio_set_bt_wake C E a w =
    userial_vendor_ioctl C (if a = UPIO_ASSERT then USERIAL_OP_ASSERT_BT_WAKE
                            else USERIAL_OP_DEASSERT_BT_WAKE) (set_pin UPIO_BT_WAKE a w)"
  using assms by (auto simp: upio_set_bt_wake_def Let_def)

text \<open>The six ways a BT_WAKE request can go.\<close>

lemma bt_wake_cases:
  obtains (same) "upio_set_bt_wake C E a w = w"
  | (ioctl) oper where "upio_set_bt_wake C E a w = userial_vendor_ioctl C oper (set_pin UPIO_BT_WAKE a w)"
  | (recorded) "upio_set_bt_wake C E a w = set_pin UPIO_BT_WAKE a w"
  | (unopened) fd where "fd < 0" "upio_set_bt_wake C E a w =
      log (OpenEv (VENDOR_BTWRITE_PROC_NODE C) O_WRONLY fd) (set_pin UPIO_BT_WAKE a w)"
  | (written) "pin UPIO_BT_WAKE w \<noteq> a \<or> btwrite_active (lpm_proc_cb w) \<noteq> TRUE"
      "BT_WAKE_VIA_PROC C" "\<not> BT_WAKE_VIA_USERIAL_IOCTL C"
      "BT_WAKE_VIA_PROC_NOTIFY_DEASSERT C \<or> a \<noteq> UPIO_DEASSERT"
      "0 \<le> os_open E (trace w) (VENDOR_BTWRITE_PROC_NODE C) O_WRONLY"
proof -
  consider (s) "pin UPIO_BT_WAKE w = a \<and> (BT_WAKE_VIA_PROC C \<longrightarrow> btwrite_active (lpm_proc_cb w) = TRUE)"
    | (i) "pin UPIO_BT_WAKE w \<noteq> a \<or> (BT_WAKE_VIA_PROC C \<and> btwrite_active (lpm_proc_cb w) \<noteq> TRUE)"
        "BT_WAKE_VIA_USERIAL_IOCTL C"
    | (n) "\<not> BT_WAKE_VIA_USERIAL_IOCTL C" "\<not> BT_WAKE_VIA_PROC C"
    | (p) "pin UPIO_BT_WAKE w \<noteq> a \<or> btwrite_active (lpm_proc_cb w) \<noteq> TRUE"
        "BT_WAKE_VIA_PROC C" "\<not> BT_WAKE_VIA_USERIAL_IOCTL C"
    by blast
  then show thesis
  proof cases
    case s
    then show thesis by (intro same) (simp add: upio_set_bt_wake_def)
  next
    case i
    then show thesis by (rule ioctl [OF bt_wake_ioctl])
  next
    case n
    then show thesis by (rule recorded [OF bt_wake_no_proc])
  next
    case p
    then show thesis
      using bt_wake_silent [OF p(1,3,2)] bt_wake_unopened [OF p(1-3)] recorded unopened written
      by (metis linorder_not_less)
  qed
qed

lemma timers_cong [simp]:
  "timers (upio_set_bt_wake C E a w) = timers w" "timers (userial_vendor_ioctl C oper w) = timers w"
  by (simp_all add: timers_def frame_simps)

lemma bt_wake_tidy: "tidy w (upio_set_bt_wake C E a w)"
proof (cases rule: bt_wake_cases [of C E a w])
  case (ioctl oper)
  then show ?thesis using ioctl_calm [of C oper "set_pin UPIO_BT_WAKE a w"] by (auto intro: tidy_calm)
next
  case written
  then obtain s where s: "trace (upio_set_bt_wake C E a w) = trace w
      @ OpenEv (VENDOR_BTWRITE_PROC_NODE C) O_WRONLY (os_open E (trace w) (VENDOR_BTWRITE_PROC_NODE C) O_WRONLY)
        # s @ [CloseEv (os_open E (trace w) (VENDOR_BTWRITE_PROC_NODE C) O_WRONLY)]"
    and c: "list_all calm s"
    using bt_wake_trace [of w a C E] by auto
  have "account timer_step M s = Some M" for M
    using c by (intro account_neutral) (simp add: list_all_iff calm_neutral)
  with s c written(5) show ?thesis by (intro tidy_bracket) (auto simp: list_all_iff)
qed (auto intro: tidy_calm [where s = "[]"] tidy_unopened)

lemma upio_set_tidy: "tidy w (upio_set C E pio a p w)"
  by (simp add: upio_set_def lpm_mode_tidy bt_wake_tidy tidy_calm)

lemma probe_balanced: "rfkill_probe E n w = (r, w') \<Longrightarrow> balanced w w'"
  by (auto simp: rfkill_probe_def sys_open_def sys_read_def Let_def balanced_def neutral_def effects_def
        split: if_splits)

lemma scan_balanced:
  assumes "rfkill_scan E n w = Some (res, w')"
  shows "balanced w w'"
  using assms
proof (induction rule: scan_induct)
  case (step n w sz w1 res w2)
  then show ?case by (meson probe_balanced balanced_trans)
qed (auto dest: probe_balanced)

lemma balanced_update: "balanced w v \<Longrightarrow> trace w' = trace v \<Longrightarrow> balanced w w'"
  using balanced_trans balanced_same by blast

lemma init_rfkill_balanced: "init_rfkill E w = Some (r, w') \<Longrightarrow> balanced w w'"
  by (auto simp: init_rfkill_def elim!: bind_SomeE split: if_splits option.splits
        dest!: scan_balanced) (erule balanced_update, simp)

lemma power_balanced:
  assumes "upio_set_bluetooth_power E on w = Some (r, w')"
  shows "balanced w w'"
  using assms
  by (auto simp: upio_set_bluetooth_power_def Let_def elim!: bind_SomeE
        split: if_splits dest!: init_rfkill_balanced power_write_shape
        intro: balanced_trans balanced_same)

section \<open>Properties\<close>

lemma rfkill_paths_fit:
  assumes "n \<le> 2147483647"
  shows "rfkill_type_path n = lit ''/sys/class/rfkill/rfkill'' @ decimal n @ lit ''/type''"
    and "length (rfkill_path n) \<le> 40"
proof -
  have "length (decimal n) \<le> 10" using assms by (intro decimal_length) auto
  then show "rfkill_type_path n = lit ''/sys/class/rfkill/rfkill'' @ decimal n @ lit ''/type''"
    and "length (rfkill_path n) \<le> 40"
    by (simp_all add: rfkill_type_path_def rfkill_path_def)
qed

text \<open>The events of one turn of the search and their account of what the node said.\<close>

definition turn_events :: "nat \<Rightarrow> int \<times> bytes option \<Rightarrow> event list" where
  "turn_events n = (\<lambda>(fd, sz). [OpenEv (rfkill_type_path n) O_RDONLY fd, ReadEv fd 16 sz, CloseEv fd])"

fun search_events :: "nat \<Rightarrow> (int \<times> bytes option) list \<Rightarrow> event list" where
  "search_events n [] = []"
| "search_events n (t # ts) = turn_events n t @ search_events (Suc n) ts"

lemma probe_events:
  "rfkill_probe E n w = (Some sz, w1) \<Longrightarrow> \<exists>fd. 0 \<le> fd \<and> trace w1 = trace w @ turn_events n (fd, sz)"
  by (auto simp: rfkill_probe_def sys_open_def sys_read_def Let_def turn_events_def split: if_splits)

lemma scan_events:
  assumes "rfkill_scan E n w = Some (res, w')" and "res = Some k"
  shows "\<exists>ts fd sz. length ts = k - n \<and> n \<le> k
    \<and> trace w' = trace w @ search_events n (ts @ [(fd, sz)])
    \<and> is_bluetooth_type sz \<and> (\<forall>t\<in>set ts. \<not> is_bluetooth_type (snd t))"
  using assms
proof (induction rule: scan_induct)
  case (found n w sz w1)
  then obtain fd where "trace w1 = trace w @ turn_events n (fd, sz)" using probe_events by blast
  with found show ?case by (intro exI [of _ "[]"] exI [of _ fd] exI [of _ sz]) simp
next
  case (step n w sz w1 res w2)
  from step.hyps(1) obtain fd where ev: "trace w1 = trace w @ turn_events n (fd, sz)"
    using probe_events by blast
  from step obtain ts fd' sz' where "length ts = k - Suc n" "Suc n \<le> k"
    and "trace w2 = trace w1 @ search_events (Suc n) (ts @ [(fd', sz')])"
    and "is_bluetooth_type sz'" "\<forall>t\<in>set ts. \<not> is_bluetooth_type (snd t)"
    by blast
  with ev step.hyps(2) show ?case
    by (intro exI [of _ "(fd, sz) # ts"] exI [of _ fd'] exI [of _ sz']) auto
qed auto

text \<open>
  C27. The search for the radio switch visits the nodes rfkill0, rfkill1, ... in order, opens,
  reads and closes each, and selects the first whose type node holds "bluetooth".
\<close>

theorem rfkill_scan_selects_first:
  assumes "rfkill_scan E 0 w = Some (Some k, w')"
  shows "\<exists>ts fd sz. length ts = k \<and> trace w' = trace w @ search_events 0 (ts @ [(fd, sz)])
    \<and> is_bluetooth_type sz \<and> (\<forall>t\<in>set ts. \<not> is_bluetooth_type (snd t))"
  using scan_events [OF assms refl] by simp

text \<open>An environment with two radio switches, of which the second is the Bluetooth one.\<close>

definition radio_env :: env where
  "radio_env = sample_env\<lparr>os_read := (\<lambda>tr fd n. if length tr < 3 then Some (lit ''wlan'')
                                                  else Some (lit ''bluetooth''))\<rparr>"

definition idle_up :: up_world where
  "idle_up = \<lparr>trace = [], vnd_userial = \<lparr>us_fd = - 1, us_termios = zero_termios, us_port_name = []\<rparr>,
     upio_state = [0, 0, 0], rfkill_id = - 1, bt_emul_enable = 0, rfkill_state_path = None,
     lpm_proc_cb = \<lparr>btwrite_active = 0, timer_created = 0, timer_id = 0\<rparr>\<rparr>"

lemma radio_scan: "\<exists>w'. rfkill_scan radio_env 0 idle_up = Some (Some 1, w')"
  by (simp add: rfkill_scan.simps [of _ 0] rfkill_scan.simps [of _ "Suc 0"] rfkill_probe_def
        radio_env_def sample_env_def idle_up_def sys_open_def sys_read_def is_bluetooth_type_def Let_def log_def)

theorem rfkill_scan_selects_first_witness:
  "\<exists>w' fd sz fd' sz'. rfkill_scan radio_env 0 idle_up = Some (Some 1, w')
    \<and> trace w' = trace idle_up @ search_events 0 [(fd, sz), (fd', sz')]
    \<and> \<not> is_bluetooth_type sz \<and> is_bluetooth_type sz'"
proof -
  obtain w' where r: "rfkill_scan radio_env 0 idle_up = Some (Some 1, w')" using radio_scan by blast
  obtain ts fd' sz' where ts: "length ts = Suc 0"
      and "trace w' = trace idle_up @ search_events 0 (ts @ [(fd', sz')])"
      and "is_bluetooth_type sz'" "\<forall>t\<in>set ts. \<not> is_bluetooth_type (snd t)"
    using rfkill_scan_selects_first [OF r] by auto
  then obtain fd sz where "trace w' = trace idle_up @ search_events 0 [(fd, sz), (fd', sz')]"
      "\<not> is_bluetooth_type sz"
    by (cases ts) auto
  with r \<open>is_bluetooth_type sz'\<close> show ?thesis by blast
qed

lemma write_rfkill_run:
  assumes "rfkill_state_path w = Some path" and "os_open E (trace w) path O_WRONLY = fd" and "0 \<le> fd"
  shows "\<exists>ok w'. write_rfkill_state E b w = Some (if ok then 0 else - 1, w')
    \<and> trace w' = trace w @ [OpenEv path O_WRONLY fd, WriteEv fd [b] ok, CloseEv fd]"
  using assms
  by (intro exI [of _ "os_write E (trace w @ [OpenEv path O_WRONLY fd]) fd [b]"])
    (simp add: write_rfkill_state_def sys_open_def sys_write_def Let_def)

text \<open>
  On a device whose switch has been found, switching the chip on or off opens the state
  node of that switch, writes the digit 1 or 0, closes the node again, and returns 0 exactly when
  the write was accepted.
\<close>

theorem power_writes_switch:
  assumes "\<not> is_emulator_context E" and "is_rfkill_disabled E = 0" and "rfkill_id w \<noteq> - 1"
    and "rfkill_state_path w = Some path"
    and "os_open E (trace w) path O_WRONLY = fd" and "0 \<le> fd"
    and "on = UPIO_BT_POWER_ON \<or> on = UPIO_BT_POWER_OFF"
  shows "\<exists>ok w'. upio_set_bluetooth_power E on w = Some (if ok then 0 else - 1, w')
    \<and> trace w' = trace w @ [OpenEv path O_WRONLY fd,
        WriteEv fd (if on = UPIO_BT_POWER_ON then lit ''1'' else lit ''0'') ok, CloseEv fd]"
  using write_rfkill_run [OF assms(4-6), of "of_char (CHR ''1'')"]
    write_rfkill_run [OF assms(4-6), of "of_char (CHR ''0'')"] assms(1-3,7)
  by (auto simp: upio_set_bluetooth_power_def simp del: of_char_of)

theorem power_writes_switch_witness:
  "\<exists>ok w'. upio_set_bluetooth_power sample_env 1
        (idle_up\<lparr>rfkill_id := 1, rfkill_state_path := Some (rfkill_path 1)\<rparr>)
      = Some (if ok then 0 else - 1, w')
    \<and> trace w' = [OpenEv (rfkill_path 1) O_WRONLY 7, WriteEv 7 (lit ''1'') ok, CloseEv 7]"
  using power_writes_switch [of sample_env "idle_up\<lparr>rfkill_id := 1, rfkill_state_path := Some (rfkill_path 1)\<rparr>"
      "rfkill_path 1" 7 1]
  by (simp add: is_emulator_context_def is_rfkill_disabled_def property_get_def sample_env_def idle_up_def)

text \<open>
  C28. Requests for the sleep mode pin are idempotent: a sequence of requests has the effect,
  on the device and on the state, of the sequence without immediate repetitions.
\<close>

theorem lpm_requests_deduplicate:
  assumes "length (upio_state w) = UPIO_MAX_COUNT"
  shows "fold (\<lambda>a. upio_set C E UPIO_LPM_MODE a p) as w
       = fold (\<lambda>a. upio_set C E UPIO_LPM_MODE a p) (remdups_adj as) w"
  by (rule lpm_pin.drives_remdups [symmetric]) (rule assms)

theorem lpm_requests_deduplicate_witness:
  "fold (\<lambda>a. upio_set default_cfg sample_env UPIO_LPM_MODE a 0) [2, 2, 2, 1, 1] idle_up
     = fold (\<lambda>a. upio_set default_cfg sample_env UPIO_LPM_MODE a 0) [2, 1] idle_up"
  using lpm_requests_deduplicate [of idle_up default_cfg sample_env 0 "[2, 2, 2, 1, 1]"]
  by (simp add: idle_up_def)

text \<open>
  A sleep mode request whose proc node cannot be opened writes nothing and is recorded all
  the same, so repeating it, however often, never reaches the device.
\<close>

theorem lpm_open_failure_is_sticky:
  assumes "length (upio_state w) = UPIO_MAX_COUNT" and "BT_WAKE_VIA_PROC C"
    and "pin UPIO_LPM_MODE w \<noteq> a"
    and "os_open E (trace w) (VENDOR_LPM_PROC_NODE C) O_WRONLY = fd" and "fd < 0"
  shows "trace (((\<lambda>w. upio_set C E UPIO_LPM_MODE a p w) ^^ Suc n) w)
    = trace w @ [OpenEv (VENDOR_LPM_PROC_NODE C) O_WRONLY fd]"
proof -
  define w1 where "w1 = upio_set C E UPIO_LPM_MODE a p w"
  have w1: "w1 = log (OpenEv (VENDOR_LPM_PROC_NODE C) O_WRONLY fd) (set_pin UPIO_LPM_MODE a w)"
    using lpm_mode_unopened [OF assms(3,2,4,5)] by (simp add: w1_def upio_set_def)
  then have "pin UPIO_LPM_MODE w1 = a" using assms(1) by simp
  then have "upio_set C E UPIO_LPM_MODE a p w1 = w1" by (simp add: upio_set_def same_level)
  then have "((\<lambda>w. upio_set C E UPIO_LPM_MODE a p w) ^^ n) w1 = w1" by (induction n) simp_all
  then show ?thesis by (simp add: funpow_swap1 w1_def [symmetric]) (simp add: w1)
qed

theorem lpm_open_failure_is_sticky_witness:
  "trace (((\<lambda>w. upio_set (default_cfg\<lparr>BT_WAKE_VIA_PROC := True\<rparr>)
        (sample_env\<lparr>os_open := \<lambda>_ _ _. - 1\<rparr>) UPIO_LPM_MODE 2 0 w) ^^ Suc 3) idle_up)
    = [OpenEv (VENDOR_LPM_PROC_NODE default_cfg) O_WRONLY (- 1)]"
  using lpm_open_failure_is_sticky [of idle_up "default_cfg\<lparr>BT_WAKE_VIA_PROC := True\<rparr>" 2
      "sample_env\<lparr>os_open := \<lambda>_ _ _. - 1\<rparr>" "- 1" 3 0]
  by (simp add: idle_up_def del: funpow.simps)

text \<open>
  When the holding timer's thread fires, BT_WAKE is requested to be released and the write
  is no longer marked active: the pin is recorded as deasserted.
\<close>

theorem timeout_releases_wake:
  assumes "length (upio_state w) = UPIO_MAX_COUNT"
    and "\<not> BT_WAKE_VIA_PROC_NOTIFY_DEASSERT C"
  shows "pin UPIO_BT_WAKE (proc_btwrite_timeout C E w) = UPIO_DEASSERT
    \<and> btwrite_active (lpm_proc_cb (proc_btwrite_timeout C E w)) = FALSE"
proof -
  have "btwrite_active (lpm_proc_cb (upio_set_bt_wake C E UPIO_DEASSERT (set_active FALSE w))) = FALSE"
  proof (cases rule: bt_wake_cases [of C E UPIO_DEASSERT "set_active FALSE w"])
    case written
    with assms(2) show ?thesis by simp
  qed auto
  with assms(1) show ?thesis by (simp add: proc_btwrite_timeout_def upio_set_def frame_simps)
qed

theorem timeout_releases_wake_witness:
  "pin UPIO_BT_WAKE (proc_btwrite_timeout default_cfg sample_env idle_up) = UPIO_DEASSERT
    \<and> btwrite_active (lpm_proc_cb (proc_btwrite_timeout default_cfg sample_env idle_up)) = FALSE"
  by (rule timeout_releases_wake) (simp_all add: idle_up_def default_cfg_def)

lemma bt_wake_written:
  assumes "BT_WAKE_VIA_PROC C" and "\<not> BT_WAKE_VIA_USERIAL_IOCTL C"
    and "pin UPIO_BT_WAKE w \<noteq> UPIO_ASSERT \<or> btwrite_active (lpm_proc_cb w) \<noteq> TRUE"
    and "os_open E (trace w) (VENDOR_BTWRITE_PROC_NODE C) O_WRONLY = fd" and "0 \<le> fd"
    and "os_write E (trace w @ [OpenEv (VENDOR_BTWRITE_PROC_NODE C) O_WRONLY fd]) fd (lit ''1'')"
    and "PROC_BTWRITE_TIMER_TIMEOUT_MS C \<noteq> 0"
  shows "trace (upio_set_bt_wake C E UPIO_ASSERT w) = trace w @
     [OpenEv (VENDOR_BTWRITE_PROC_NODE C) O_WRONLY fd, WriteEv fd (lit ''1'') True,
      TimerSettimeEv (timer_id (lpm_proc_cb w))
        (if timer_created (lpm_proc_cb w) = TRUE
         then ArmTimer (PROC_BTWRITE_TIMER_TIMEOUT_MS C div 1000)
                (1000000 * (PROC_BTWRITE_TIMER_TIMEOUT_MS C mod 1000))
         else IndeterminateTimer),
      CloseEv fd]"
  using assms by (auto simp: upio_set_bt_wake_def sys_open_def sys_write_def Let_def start_stop_trace)

text \<open>
  Asserting BT_WAKE through the proc node writes "1" and starts the holding timer with the
  configured period, split exactly into seconds and nanoseconds below one second, if the timer
  exists; if it was never created, the timer call gets a specification that was never written.
\<close>

theorem wake_assert_arms_timer:
  assumes "BT_WAKE_VIA_PROC C" and "\<not> BT_WAKE_VIA_USERIAL_IOCTL C"
    and "pin UPIO_BT_WAKE w \<noteq> UPIO_ASSERT \<or> btwrite_active (lpm_proc_cb w) \<noteq> TRUE"
    and "os_open E (trace w) (VENDOR_BTWRITE_PROC_NODE C) O_WRONLY = fd" and "0 \<le> fd"
    and "os_write E (trace w @ [OpenEv (VENDOR_BTWRITE_PROC_NODE C) O_WRONLY fd]) fd (lit ''1'')"
    and "PROC_BTWRITE_TIMER_TIMEOUT_MS C \<noteq> 0"
  shows "\<exists>spec. trace (upio_set C E UPIO_BT_WAKE UPIO_ASSERT p w) = trace w @
      [OpenEv (VENDOR_BTWRITE_PROC_NODE C) O_WRONLY fd, WriteEv fd (lit ''1'') True,
       TimerSettimeEv (timer_id (lpm_proc_cb w)) spec, CloseEv fd]
    \<and> (spec = IndeterminateTimer \<longleftrightarrow> timer_created (lpm_proc_cb w) \<noteq> TRUE)
    \<and> (timer_created (lpm_proc_cb w) = TRUE \<longrightarrow> (\<exists>s ns. spec = ArmTimer s ns \<and> ns < 1000000000
         \<and> s * 1000000000 + ns = PROC_BTWRITE_TIMER_TIMEOUT_MS C * 1000000))"
proof -
  define ms where "ms = PROC_BTWRITE_TIMER_TIMEOUT_MS C"
  have "ms div 1000 * 1000 + ms mod 1000 = ms" by simp
  then have "ms div 1000 * 1000000000 + 1000000 * (ms mod 1000) = ms * 1000000" by linarith
  moreover have "1000000 * (ms mod 1000) < 1000000000"
    using mod_less_divisor [of 1000 ms] by linarith
  ultimately show ?thesis
    using bt_wake_written [OF assms] by (simp add: upio_set_def ms_def)
qed

definition proc_cfg :: buildcfg where
  "proc_cfg = default_cfg\<lparr>BT_WAKE_VIA_PROC := True\<rparr>"

lemma proc_cfg_fields:
  "BT_WAKE_VIA_PROC proc_cfg" "\<not> BT_WAKE_VIA_USERIAL_IOCTL proc_cfg"
  "PROC_BTWRITE_TIMER_TIMEOUT_MS proc_cfg = 8000"
  by (simp_all add: proc_cfg_def default_cfg_def)

theorem wake_assert_arms_timer_witness:
  "\<exists>spec. trace (upio_set proc_cfg sample_env UPIO_BT_WAKE UPIO_ASSERT 1 idle_up) =
      [OpenEv (VENDOR_BTWRITE_PROC_NODE proc_cfg) O_WRONLY 7, WriteEv 7 (lit ''1'') True,
       TimerSettimeEv 0 spec, CloseEv 7] \<and> spec = IndeterminateTimer"
  using wake_assert_arms_timer [of proc_cfg idle_up sample_env 7 1]
  by (auto simp: proc_cfg_fields idle_up_def sample_env_def)

end
