(* ===== verification/Callbacks.thy ===== *)
theory Callbacks
  imports Upio
begin

text \<open>
  The host stack's callback table \<^verbatim>\<open>bt_vendor_cbacks\<close> as the library uses it, and the HCI
  command buffers. The pointer is modelled by whether it is set; using the table while it is NULL
  has no defined result. A command buffer keeps its whole capacity, so every store is checked.
  BT_HC_HDR_SIZE is taken to be the size of HC_BT_HDR, so an allocation of BT_HC_HDR_SIZE + n has
  n bytes behind \<^verbatim>\<open>p_buf + 1\<close>. A completion event is delivered later, by the host stack's
  thread, and never from inside \<^verbatim>\<open>xmit_cb\<close>.
\<close>

section \<open>State\<close>

record vnd_world = up_world +
  bt_vendor_cbacks :: bool
  vnd_local_bd_addr :: bytes

lemma vnd_log [simp]:
  "bt_vendor_cbacks (log e w) = bt_vendor_cbacks w"
  "vnd_local_bd_addr (log e w) = vnd_local_bd_addr w"
  "vnd_world.more (log e w) = vnd_world.more w"
  by (simp_all add: log_def)

section \<open>The callbacks\<close>

definition hc_alloc ::
  "env \<Rightarrow> nat \<Rightarrow> 'a vnd_world_scheme \<Rightarrow> (hc_hdr option \<times> 'a vnd_world_scheme) option" where
  "hc_alloc E n w =
     do { _ \<leftarrow> ensure (bt_vendor_cbacks w);
          let tr = trace w;
          let addr = hc_alloc_addr E tr (BT_HC_HDR_SIZE E + n);
          let stale = (\<lambda>i. ucast (hc_stale E tr i) :: u16);
          let buf = (\<lambda>a. \<lparr>hb_id = a, hb_event = stale n, hb_len = stale (n + 1),
                          hb_offset = stale (n + 2), hb_layer = stale (n + 3),
                          hb_data = map (hc_stale E tr) [0..<n]\<rparr>);
          Some (map_option buf addr, log (AllocEv (BT_HC_HDR_SIZE E + n) addr) w) }"

definition hc_dealloc :: "nat \<Rightarrow> 'a vnd_world_scheme \<Rightarrow> 'a vnd_world_scheme option" where
  "hc_dealloc addr w = do { _ \<leftarrow> ensure (bt_vendor_cbacks w); Some (log (DeallocEv addr) w) }"

definition hc_xmit ::
  "env \<Rightarrow> u16 \<Rightarrow> hc_hdr \<Rightarrow> cback \<Rightarrow> 'a vnd_world_scheme \<Rightarrow> (u8 \<times> 'a vnd_world_scheme) option" where
  "hc_xmit E opcode b cb w =
     do { _ \<leftarrow> ensure (bt_vendor_cbacks w);
          let r = hc_xmit_result E (trace w) opcode b cb;
          Some (r, log (XmitEv opcode b cb r) w) }"

text \<open>The result callbacks fwcfg_cb, scocfg_cb, lpm_cb, audio_state_cb and epilog_cb.\<close>

definition notify :: "event \<Rightarrow> 'a vnd_world_scheme \<Rightarrow> 'a vnd_world_scheme option" where
  "notify e w = do { _ \<leftarrow> ensure (bt_vendor_cbacks w); Some (log e w) }"

text \<open>\<^verbatim>\<open>if (bt_vendor_cbacks) p_buf = bt_vendor_cbacks->alloc(...)\<close>, and the same for the calls
  without result.\<close>

definition alloc_if ::
  "bool \<Rightarrow> env \<Rightarrow> nat \<Rightarrow> 'a vnd_world_scheme \<Rightarrow> (hc_hdr option \<times> 'a vnd_world_scheme) option" where
  "alloc_if c E n w = (if c then hc_alloc E n w else Some (None, w))"

definition dealloc_if_cbacks :: "nat \<Rightarrow> 'a vnd_world_scheme \<Rightarrow> 'a vnd_world_scheme option" where
  "dealloc_if_cbacks addr w = (if bt_vendor_cbacks w then hc_dealloc addr w else Some w)"

definition notify_if_cbacks :: "event \<Rightarrow> 'a vnd_world_scheme \<Rightarrow> 'a vnd_world_scheme option" where
  "notify_if_cbacks e w = (if bt_vendor_cbacks w then notify e w else Some w)"

section \<open>Filling a buffer\<close>

definition set_hdr :: "env \<Rightarrow> u16 \<Rightarrow> hc_hdr \<Rightarrow> hc_hdr" where
  "set_hdr E len b = b\<lparr>hb_event := MSG_STACK_TO_HC_HCI_CMD E, hb_offset := 0, hb_len := len,
                       hb_layer := 0\<rparr>"

definition put_at :: "nat \<Rightarrow> bytes \<Rightarrow> hc_hdr \<Rightarrow> hc_hdr option" where
  "put_at off bs b = do { d \<leftarrow> store off bs (hb_data b); Some (b\<lparr>hb_data := d\<rparr>) }"

text \<open>A whole command: opcode, parameter length, parameters.\<close>

definition HCI_CMD_PREAMBLE_SIZE :: nat where "HCI_CMD_PREAMBLE_SIZE = 3"
definition HCI_CMD_MAX_LEN :: nat where "HCI_CMD_MAX_LEN = 258"

lemmas hci_sizes [simp] = HCI_CMD_PREAMBLE_SIZE_def HCI_CMD_MAX_LEN_def

definition put_cmd :: "u16 \<Rightarrow> bytes \<Rightarrow> hc_hdr \<Rightarrow> hc_hdr option" where
  "put_cmd opcode params b = put_at 0 (le16 opcode @ of_nat (length params) # params) b"

lemma put_at_Some:
  "put_at off bs b = Some b' \<longleftrightarrow> off + length bs \<le> length (hb_data b)
     \<and> b' = b\<lparr>hb_data := take off (hb_data b) @ bs @ drop (off + length bs) (hb_data b)\<rparr>"
  by (auto simp: put_at_def option_conv store_Some_iff)

lemma put_at_keeps:
  "put_at off bs b = Some b' \<Longrightarrow> hb_id b' = hb_id b \<and> hb_len b' = hb_len b
     \<and> hb_offset b' = hb_offset b \<and> hb_layer b' = hb_layer b \<and> hb_event b' = hb_event b
     \<and> length (hb_data b') = length (hb_data b)"
  by (auto simp: put_at_Some)

lemma put_cmd_keeps:
  "put_cmd opcode params b = Some b' \<Longrightarrow> hb_id b' = hb_id b \<and> hb_len b' = hb_len b
     \<and> hb_offset b' = hb_offset b \<and> hb_layer b' = hb_layer b \<and> hb_event b' = hb_event b
     \<and> length (hb_data b') = length (hb_data b)"
  by (simp add: put_cmd_def put_at_keeps)

lemma put_cmd_defined:
  "3 + length params \<le> length (hb_data b) \<Longrightarrow> put_cmd opcode params b \<noteq> None"
  by (simp add: put_cmd_def put_at_def store_def)

text \<open>What the controller can rely on in a command packet: header fields set, the length within
  the buffer, the opcode as transmitted, and the parameter length byte right.\<close>

definition wf_packet :: "env \<Rightarrow> u16 \<Rightarrow> hc_hdr \<Rightarrow> bool" where
  "wf_packet E opcode b \<longleftrightarrow>
     hb_event b = MSG_STACK_TO_HC_HCI_CMD E \<and> hb_offset b = 0 \<and> hb_layer b = 0
     \<and> 3 \<le> unat (hb_len b) \<and> unat (hb_len b) \<le> length (hb_data b)
     \<and> take 2 (hb_data b) = le16 opcode
     \<and> unat (hb_data b ! 2) + 3 = unat (hb_len b)"

definition packet_params :: "hc_hdr \<Rightarrow> bytes" where
  "packet_params b = take (unat (hb_len b) - 3) (drop 3 (hb_data b))"

lemma put_cmd_wf:
  assumes "put_cmd opcode params b = Some b'" and "length params < 256"
    and "hb_event b = MSG_STACK_TO_HC_HCI_CMD E" "hb_offset b = 0" "hb_layer b = 0"
    and "unat (hb_len b) = 3 + length params"
  shows "wf_packet E opcode b'" and "packet_params b' = params"
proof -
  from assms(1) have b': "b' = b\<lparr>hb_data := (le16 opcode @ of_nat (length params) # params)
      @ drop (3 + length params) (hb_data b)\<rparr>" and room: "3 + length params \<le> length (hb_data b)"
    by (auto simp: put_cmd_def put_at_Some add.commute numeral_3_eq_3)
  have "unat (of_nat (length params) :: u8) = length params"
    using assms(2) by (simp add: unat_of_nat take_bit_nat_eq_self)
  then show "wf_packet E opcode b'"
    using assms(3-6) room by (simp add: wf_packet_def b' le16_def)
  show "packet_params b' = params"
    using assms(6) by (simp add: packet_params_def b' le16_def)
qed

section \<open>Inversion and ownership\<close>

lemma hc_alloc_SomeE:
  assumes "hc_alloc E n w = Some (r, w')"
  obtains (none) "r = None" "w' = log (AllocEv (BT_HC_HDR_SIZE E + n) None) w" "bt_vendor_cbacks w"
  | (some) b where "r = Some b" "w' = log (AllocEv (BT_HC_HDR_SIZE E + n) (Some (hb_id b))) w"
      "length (hb_data b) = n" "bt_vendor_cbacks w"
proof (cases "hc_alloc_addr E (trace w) (BT_HC_HDR_SIZE E + n)")
  case None
  then show thesis using assms by (intro none) (auto simp: hc_alloc_def Let_def option_conv)
next
  case (Some a)
  then show thesis using assms by (intro some) (auto simp: hc_alloc_def Let_def option_conv)
qed

lemma hc_dealloc_Some [simp]:
  "hc_dealloc a w = Some w' \<longleftrightarrow> bt_vendor_cbacks w \<and> w' = log (DeallocEv a) w"
  by (auto simp: hc_dealloc_def option_conv)

lemma hc_xmit_Some:
  "hc_xmit E opc b cb w = Some (r, w') \<longleftrightarrow> bt_vendor_cbacks w
     \<and> r = hc_xmit_result E (trace w) opc b cb \<and> w' = log (XmitEv opc b cb r) w"
  by (auto simp: hc_xmit_def Let_def option_conv)

lemma notify_Some [simp]:
  "notify e w = Some w' \<longleftrightarrow> bt_vendor_cbacks w \<and> w' = log e w"
  by (auto simp: notify_def option_conv)

lemma if_cbacks_Some:
  "dealloc_if_cbacks a w = Some w' \<longleftrightarrow> w' = (if bt_vendor_cbacks w then log (DeallocEv a) w else w)"
  "notify_if_cbacks e w = Some w' \<longleftrightarrow> w' = (if bt_vendor_cbacks w then log e w else w)"
  by (auto simp: dealloc_if_cbacks_def notify_if_cbacks_def)

definition is_notification :: "event \<Rightarrow> bool" where
  "is_notification e \<longleftrightarrow> (case e of FwcfgCbEv _ \<Rightarrow> True | ScocfgCbEv _ \<Rightarrow> True | LpmCbEv _ \<Rightarrow> True
     | AudioStateCbEv _ \<Rightarrow> True | EpilogCbEv _ \<Rightarrow> True | _ \<Rightarrow> False)"

lemma owns_notify: "is_notification e \<Longrightarrow> owns M w M (log e w)"
  by (cases e) (simp_all add: is_notification_def owns_log)

lemma owns_alloc: "owns M w (add_mset a M) (log (AllocEv n (Some a)) w)"
  by (rule owns_log) simp

lemma owns_alloc_none: "owns M w M (log (AllocEv n None) w)"
  by (rule owns_log) simp

lemma owns_dealloc: "owns (add_mset a M) w M (log (DeallocEv a) w)"
  by (rule owns_log) simp

lemma owns_xmit:
  "owns (add_mset (hb_id b) M) w (if r = FALSE then add_mset (hb_id b) M else M)
     (log (XmitEv opc b cb r) w)"
  by (rule owns_log) simp

lemma alloc_address:
  "hc_alloc E n w = Some (r, w') \<Longrightarrow> map_option hb_id r = hc_alloc_addr E (trace w) (BT_HC_HDR_SIZE E + n)"
  by (cases "hc_alloc_addr E (trace w) (BT_HC_HDR_SIZE E + n)") (auto simp: hc_alloc_def Let_def elim!: bind_SomeE)

lemma alloc_answer:
  "hc_alloc E n w = Some (r, w') \<Longrightarrow> alloc_answers E (BT_HC_HDR_SIZE E + n) (map_option hb_id r)"
  unfolding alloc_answers_def using alloc_address by blast

end
