(* ===== verification/HwFw.thy ===== *)
theory HwFw
  imports Callbacks
begin

text \<open>
  hardware.c, first part: the module's static variables and the helpers of the controller
  initialization, that is the settlement delay, \<^verbatim>\<open>ms_delay\<close>, the translation of line speeds,
  and the search for a firmware patch file.
\<close>

section \<open>State of hardware.c\<close>

datatype hw_state =
  HW_CFG_NONE | HW_CFG_START | HW_CFG_SET_UART_CLOCK | HW_CFG_SET_UART_BAUD_1 |
  HW_CFG_READ_LOCAL_NAME | HW_CFG_DL_MINIDRIVER | HW_CFG_DL_FW_PATCH | HW_CFG_SET_UART_BAUD_2 |
  HW_CFG_SET_BD_ADDR | HW_CFG_READ_BD_ADDR

definition LOCAL_NAME_BUFFER_LEN :: nat where "LOCAL_NAME_BUFFER_LEN = 32"
definition FW_PATCHFILE_PATH_MAXLEN :: nat where "FW_PATCHFILE_PATH_MAXLEN = 248"
definition FW_PATCHFILE_EXTENSION :: bytes where "FW_PATCHFILE_EXTENSION = lit ''.hcd''"
definition FW_PATCHFILE_EXTENSION_LEN :: nat where "FW_PATCHFILE_EXTENSION_LEN = 4"

lemmas fw_sizes [simp] =
  LOCAL_NAME_BUFFER_LEN_def FW_PATCHFILE_PATH_MAXLEN_def FW_PATCHFILE_EXTENSION_LEN_def

record bt_hw_cfg_cb_t =
  cfg_state :: hw_state
  fw_fd :: int
  f_set_baud_2 :: u8
  local_chip_name :: bytes

record hw_world = vnd_world +
  hw_cfg_cb :: bt_hw_cfg_cb_t
  fw_patchfile_path :: bytes
  fw_patchfile_name :: bytes
  fw_patch_settlement_delay :: int
  bt_sco_param :: bytes
  bt_sco_i2spcm_param :: bytes
  sco_bus_clock_rate :: u8
  sco_bus_wbs_clock_rate :: u8

lemma hw_log [simp]:
  "hw_cfg_cb (log e w) = hw_cfg_cb w" "fw_patchfile_path (log e w) = fw_patchfile_path w"
  "fw_patchfile_name (log e w) = fw_patchfile_name w"
  "fw_patch_settlement_delay (log e w) = fw_patch_settlement_delay w"
  "bt_sco_param (log e w) = bt_sco_param w" "bt_sco_i2spcm_param (log e w) = bt_sco_i2spcm_param w"
  "sco_bus_clock_rate (log e w) = sco_bus_clock_rate w"
  "sco_bus_wbs_clock_rate (log e w) = sco_bus_wbs_clock_rate w"
  "hw_world.more (log e w) = hw_world.more w"
  by (simp_all add: log_def)

abbreviation set_cfg_state :: "hw_state \<Rightarrow> 'a hw_world_scheme \<Rightarrow> 'a hw_world_scheme" where
  "set_cfg_state s w \<equiv> w\<lparr>hw_cfg_cb := (hw_cfg_cb w)\<lparr>cfg_state := s\<rparr>\<rparr>"

abbreviation set_fw_fd :: "int \<Rightarrow> 'a hw_world_scheme \<Rightarrow> 'a hw_world_scheme" where
  "set_fw_fd fd w \<equiv> w\<lparr>hw_cfg_cb := (hw_cfg_cb w)\<lparr>fw_fd := fd\<rparr>\<rparr>"

abbreviation set_baud_2 :: "u8 \<Rightarrow> 'a hw_world_scheme \<Rightarrow> 'a hw_world_scheme" where
  "set_baud_2 f w \<equiv> w\<lparr>hw_cfg_cb := (hw_cfg_cb w)\<lparr>f_set_baud_2 := f\<rparr>\<rparr>"

abbreviation set_chip_name :: "bytes \<Rightarrow> 'a hw_world_scheme \<Rightarrow> 'a hw_world_scheme" where
  "set_chip_name n w \<equiv> w\<lparr>hw_cfg_cb := (hw_cfg_cb w)\<lparr>local_chip_name := n\<rparr>\<rparr>"

abbreviation cfg_of :: "'a hw_world_scheme \<Rightarrow> hw_state" where
  "cfg_of w \<equiv> cfg_state (hw_cfg_cb w)"

abbreviation fw_fd_of :: "'a hw_world_scheme \<Rightarrow> int" where
  "fw_fd_of w \<equiv> fw_fd (hw_cfg_cb w)"

abbreviation chip_name :: "'a hw_world_scheme \<Rightarrow> bytes" where
  "chip_name w \<equiv> local_chip_name (hw_cfg_cb w)"

text \<open>The static initialisers.\<close>

definition sco_param_init :: "buildcfg \<Rightarrow> bytes" where
  "sco_param_init C = [SCO_PCM_ROUTING C, SCO_PCM_IF_CLOCK_RATE C, SCO_PCM_IF_FRAME_TYPE C,
     SCO_PCM_IF_SYNC_MODE C, SCO_PCM_IF_CLOCK_MODE C]"

definition bt_pcm_data_fmt_param :: "buildcfg \<Rightarrow> bytes" where
  "bt_pcm_data_fmt_param C = [PCM_DATA_FMT_SHIFT_MODE C, PCM_DATA_FMT_FILL_BITS C,
     PCM_DATA_FMT_FILL_METHOD C, PCM_DATA_FMT_FILL_NUM C, PCM_DATA_FMT_JUSTIFY_MODE C]"

definition sco_i2spcm_param_init :: "buildcfg \<Rightarrow> bytes" where
  "sco_i2spcm_param_init C = [SCO_I2SPCM_IF_MODE C, SCO_I2SPCM_IF_ROLE C,
     SCO_I2SPCM_IF_SAMPLE_RATE C, SCO_I2SPCM_IF_CLOCK_RATE C]"

definition lpm_param :: "buildcfg \<Rightarrow> bytes" where
  "lpm_param C = [LPM_SLEEP_MODE C, LPM_IDLE_THRESHOLD C, LPM_HC_IDLE_THRESHOLD C,
     LPM_BT_WAKE_POLARITY C, LPM_HOST_WAKE_POLARITY C, LPM_ALLOW_HOST_SLEEP_DURING_SCO C,
     LPM_COMBINE_SLEEP_MODE_AND_LPM C, LPM_ENABLE_UART_TXD_TRI_STATE C, 0, 0, 0,
     LPM_PULSED_HOST_WAKE C]"

text \<open>A char array with an initialiser is filled up with NULs.\<close>

definition c_array :: "nat \<Rightarrow> bytes \<Rightarrow> bytes" where
  "c_array n s = s @ replicate (n - length s) 0"

lemma c_array_string:
  assumes "no_nul s" and "length s < n"
  shows "cstr (c_array n s) = s" and "terminated (c_array n s)" and "length (c_array n s) = n"
proof -
  obtain k where "n - length s = Suc k" using assms(2) by (cases "n - length s") auto
  then show "cstr (c_array n s) = s" and "terminated (c_array n s)" and "length (c_array n s) = n"
    using assms by (simp_all add: c_array_def)
qed

text \<open>The state when the library has been loaded: static initialisers, and zeros elsewhere.\<close>

definition static_state :: "buildcfg \<Rightarrow> hw_world" where
  "static_state C = \<lparr>
     trace = [],
     vnd_userial = \<lparr>us_fd = 0, us_termios = zero_termios, us_port_name = []\<rparr>,
     upio_state = replicate UPIO_MAX_COUNT 0,
     rfkill_id = - 1, bt_emul_enable = 0, rfkill_state_path = None,
     lpm_proc_cb = \<lparr>btwrite_active = 0, timer_created = 0, timer_id = 0\<rparr>,
     bt_vendor_cbacks = False,
     vnd_local_bd_addr = replicate 6 0,
     hw_cfg_cb = \<lparr>cfg_state = HW_CFG_NONE, fw_fd = 0, f_set_baud_2 = FALSE,
                  local_chip_name = replicate LOCAL_NAME_BUFFER_LEN 0\<rparr>,
     fw_patchfile_path = c_array 256 (FW_PATCHFILE_LOCATION C),
     fw_patchfile_name = c_array 128 [],
     fw_patch_settlement_delay = - 1,
     bt_sco_param = sco_param_init C,
     bt_sco_i2spcm_param = sco_i2spcm_param_init C,
     sco_bus_clock_rate = 0xFF,
     sco_bus_wbs_clock_rate = 0xFF \<rparr>"

section \<open>Settlement delay and sleeping\<close>

definition fw_settlement_table :: "(bytes option \<times> u32) list" where
  "fw_settlement_table = [(Some (lit ''BCM43241''), 200), (Some (lit ''BCM43341''), 100), (None, 100)]"

text \<open>The walk over the table; running off its end has no defined result.\<close>

fun settlement_walk :: "bytes \<Rightarrow> (bytes option \<times> u32) list \<Rightarrow> u32 option" where
  "settlement_walk name [] = None"
| "settlement_walk name ((None, d) # es) = Some d"
| "settlement_walk name ((Some n, d) # es) =
     (if strstr name n \<noteq> None then Some d else settlement_walk name es)"

definition look_up_fw_settlement_delay :: "buildcfg \<Rightarrow> 'a hw_world_scheme \<Rightarrow> u32 option" where
  "look_up_fw_settlement_delay C w =
     (if 0 < FW_PATCH_SETTLEMENT_DELAY_MS C then Some (FW_PATCH_SETTLEMENT_DELAY_MS C)
      else if VENDOR_LIB_RUNTIME_TUNING_ENABLED C \<and> 0 \<le> fw_patch_settlement_delay w
      then Some (word_of_int (fw_patch_settlement_delay w))
      else do { _ \<leftarrow> ensure (terminated (chip_name w));
                settlement_walk (cstr (chip_name w)) fw_settlement_table })"

text \<open>The sleep loop: an interrupted sleep goes on with the remaining time the call stored, any
  other result ends it.\<close>

partial_function (option) nanosleep_loop ::
  "env \<Rightarrow> nat \<Rightarrow> nat \<Rightarrow> 'a os_scheme \<Rightarrow> 'a os_scheme option" where
  "nanosleep_loop E s ns w =
     (case os_nanosleep E (trace w) s ns of
        SleepInterrupted s' ns' \<Rightarrow> nanosleep_loop E s' ns' (log (NanosleepEv s ns) w)
      | _ \<Rightarrow> Some (log (NanosleepEv s ns) w))"

definition ms_delay :: "env \<Rightarrow> u32 \<Rightarrow> 'a os_scheme \<Rightarrow> 'a os_scheme option" where
  "ms_delay E timeout w =
     (if timeout = 0 then Some w
      else nanosleep_loop E (unat (timeout div 1000)) (unat (1000 * 1000 * (timeout mod 1000))) w)"

section \<open>Line speed\<close>

definition line_speed_to_userial_baud :: "u32 \<Rightarrow> u8" where
  "line_speed_to_userial_baud line_speed =
     (if line_speed = 4000000 then USERIAL_BAUD_4M
      else if line_speed = 3000000 then USERIAL_BAUD_3M
      else if line_speed = 2000000 then USERIAL_BAUD_2M
      else if line_speed = 1000000 then USERIAL_BAUD_1M
      else if line_speed = 921600 then USERIAL_BAUD_921600
      else if line_speed = 460800 then USERIAL_BAUD_460800
      else if line_speed = 230400 then USERIAL_BAUD_230400
      else if line_speed = 115200 then USERIAL_BAUD_115200
      else if line_speed = 57600 then USERIAL_BAUD_57600
      else if line_speed = 19200 then USERIAL_BAUD_19200
      else if line_speed = 9600 then USERIAL_BAUD_9600
      else if line_speed = 1200 then USERIAL_BAUD_1200
      else if line_speed = 600 then USERIAL_BAUD_600
      else USERIAL_BAUD_115200)"

text \<open>The speed a port runs at when a rate in bits per second is asked for: the one with that rate, and
  115200 when there is none.\<close>

definition line_speeds :: "tcio list" where
  "line_speeds = [B600, B1200, B9600, B19200, B57600, B115200, B230400, B460800, B921600,
     B1000000, B2000000, B3000000, B4000000]"

definition speed_for :: "u32 \<Rightarrow> tcio" where
  "speed_for r = (case find (\<lambda>s. tcio_rate s = r) line_speeds of Some s \<Rightarrow> s | None \<Rightarrow> B115200)"

definition supported_rate :: "u32 \<Rightarrow> bool" where
  "supported_rate r \<longleftrightarrow> r \<in> tcio_rate ` set line_speeds"

lemma speed_for_rate: "tcio_rate (speed_for r) = (if supported_rate r then r else 115200)"
  by (auto simp: speed_for_def supported_rate_def find_Some_iff find_None_iff split: option.split)

lemma translated_speed:
  "userial_to_tcio_baud (line_speed_to_userial_baud r) = (TRUE, speed_for r)"
  by (simp add: line_speed_to_userial_baud_def userial_to_tcio_baud_def speed_for_def line_speeds_def)

section \<open>Searching the patch file\<close>

text \<open>\<^verbatim>\<open>hw_strncmp\<close> on two blocks, of which the first argument may be NULL as the second.\<close>

fun strncmp_loop :: "bytes \<Rightarrow> bytes \<Rightarrow> nat \<Rightarrow> nat \<Rightarrow> nat option" where
  "strncmp_loop p1 p2 i 0 = Some 0"
| "strncmp_loop p1 p2 i (Suc k) =
     do { a \<leftarrow> nth_opt p1 i;
          b \<leftarrow> nth_opt p2 i;
          if toupper a \<noteq> toupper b then Some (i + 1) else strncmp_loop p1 p2 (Suc i) k }"

definition hw_strncmp :: "bytes option \<Rightarrow> bytes option \<Rightarrow> int \<Rightarrow> nat option" where
  "hw_strncmp p_str1 p_str2 len =
     (case (p_str1, p_str2) of
        (Some p1, Some p2) \<Rightarrow> strncmp_loop p1 p2 0 (nat len)
      | _ \<Rightarrow> Some 1)"

text \<open>\<^verbatim>\<open>path[strlen(path) - 1] != '/'\<close>, then the concatenation of path, slash and file name.\<close>

definition lacks_slash :: "bytes \<Rightarrow> bool option" where
  "lacks_slash path = do { n \<leftarrow> strlen path; _ \<leftarrow> ensure (0 < n); Some (path ! (n - 1) \<noteq> of_char (CHR ''/'')) }"

definition join_path :: "bytes \<Rightarrow> bytes \<Rightarrow> bytes \<Rightarrow> bytes option" where
  "join_path blk path name =
     do { _ \<leftarrow> strlen path;
          blk \<leftarrow> strcpy blk (cstr path);
          lacks \<leftarrow> lacks_slash path;
          blk \<leftarrow> (if lacks then strcat blk (lit ''/'') else Some blk);
          _ \<leftarrow> strlen name;
          strcat blk (cstr name) }"

definition has_patch_extension :: "bytes \<Rightarrow> bool option" where
  "has_patch_extension d_name =
     do { filenamelen \<leftarrow> strlen d_name;
          if FW_PATCHFILE_EXTENSION_LEN \<le> filenamelen
          then do { c \<leftarrow> hw_strncmp (Some (drop (filenamelen - FW_PATCHFILE_EXTENSION_LEN) d_name))
                           (Some (FW_PATCHFILE_EXTENSION @ [0])) (int FW_PATCHFILE_EXTENSION_LEN);
                    Some (c = 0) }
          else Some False }"

text \<open>The loop over the directory entries, from the chip name in the block to the result and the
  block it leaves.\<close>

fun scan_directory :: "bytes \<Rightarrow> bytes \<Rightarrow> bytes list \<Rightarrow> (u8 \<times> bytes) option" where
  "scan_directory path blk [] = Some (FALSE, blk)"
| "scan_directory path blk (d # ds) =
     do { let d_name = d @ [0];
          idlen \<leftarrow> strlen blk;
          c \<leftarrow> hw_strncmp (Some d_name) (Some blk) (int idlen);
          if c \<noteq> 0 then scan_directory path blk ds
          else do {
            ext \<leftarrow> has_patch_extension d_name;
            if \<not> ext then scan_directory path blk ds
            else do {
              filenamelen \<leftarrow> strlen d_name;
              pathlen \<leftarrow> strlen path;
              if FW_PATCHFILE_PATH_MAXLEN < filenamelen + pathlen then Some (FALSE, blk)
              else do {
                blk \<leftarrow> memset FW_PATCHFILE_PATH_MAXLEN blk;
                blk \<leftarrow> join_path blk path d_name;
                Some (TRUE, blk) } } } }"

text \<open>The backward scan for the last letter that is not M: the length that is left.\<close>

fun chip_name_cut :: "bytes \<Rightarrow> nat \<Rightarrow> nat" where
  "chip_name_cut blk 0 = 0"
| "chip_name_cut blk (Suc n) =
     (if 3 < Suc n
      then (if \<not> isdigit (blk ! n) \<and> blk ! n \<noteq> of_char (CHR ''M'') \<and> blk ! n \<noteq> of_char (CHR ''m'')
            then Suc n else chip_name_cut blk n)
      else Suc n)"

lemma chip_name_cut_le: "chip_name_cut blk n \<le> n"
  by (induction n) (auto intro: le_SucI)

lemma cstr_cut: "m < length (cstr blk) \<Longrightarrow> cstr (blk[m := 0]) = take m (cstr blk)"
proof (induction blk arbitrary: m)
  case (Cons b blk)
  then show ?case
    by (cases m) (auto simp: cstr_def split: if_splits)
qed (simp add: cstr_def)

lemma scan_directory_fails_unchanged: "scan_directory path blk ds = Some (FALSE, blk') \<Longrightarrow> blk' = blk"
  by (induction path blk ds rule: scan_directory.induct)
    (auto simp: Let_def elim!: bind_SomeE split: if_splits)

text \<open>The search. The block is the memory from \<^verbatim>\<open>p_chip_id_str\<close> to the end of the event buffer
  it points into.\<close>

function hw_config_findpatch ::
  "env \<Rightarrow> bytes \<Rightarrow> 'a hw_world_scheme \<Rightarrow> (u8 \<times> bytes \<times> 'a hw_world_scheme) option" where
  "hw_config_findpatch E blk w =
     do { namelen \<leftarrow> strlen (fw_patchfile_name w);
          if 0 < namelen
          then do { blk \<leftarrow> join_path blk (fw_patchfile_path w) (fw_patchfile_name w);
                    Some (TRUE, blk, w) }
          else
            let path = fw_patchfile_path w;
                dir = os_dir E (trace w) (cstr path);
                w1 = log (OpendirEv (cstr path) (dir \<noteq> None)) w
            in case dir of
                 None \<Rightarrow> Some (FALSE, blk, w1)
               | Some entries \<Rightarrow>
                   do { (retval, blk1) \<leftarrow> scan_directory path blk entries;
                        let w2 = log ClosedirEv w1;
                        if retval = FALSE
                        then do { len \<leftarrow> strlen blk1;
                                  let kept = chip_name_cut blk1 len;
                                  if 3 < kept then hw_config_findpatch E (blk1[kept - 1 := 0]) w2
                                  else Some (FALSE, blk1, w2) }
                        else Some (retval, blk1, w2) } }"
  by pat_completeness auto
termination
proof (relation "measure (\<lambda>(E, blk, w). length (cstr blk))")
  fix E :: env and blk blk1 :: bytes and w w1 w2 :: "'a hw_world_scheme"
    and namelen len kept :: nat and path dir entries and z :: "u8 \<times> bytes" and retval
  assume "scan_directory path blk entries = Some z" "(retval, blk1) = z" "retval = FALSE"
    and len: "strlen blk1 = Some len" and kept: "kept = chip_name_cut blk1 len" and "3 < kept"
  then have "blk1 = blk" by (auto dest: scan_directory_fails_unchanged)
  moreover have "len = length (cstr blk1)" using len by (simp add: strlen_def split: if_splits)
  ultimately have "kept - 1 < length (cstr blk)"
    using kept \<open>3 < kept\<close> chip_name_cut_le [of blk1 len] by auto
  then show "((E, blk1[kept - 1 := 0], w2), E, blk, w) \<in> measure (\<lambda>(E, blk, w). length (cstr blk))"
    using cstr_cut [of "kept - 1" blk] \<open>blk1 = blk\<close> by simp
qed simp

declare hw_config_findpatch.simps [simp del]

section \<open>What the comparison decides\<close>

definition caseless_prefix :: "bytes \<Rightarrow> bytes \<Rightarrow> bool" where
  "caseless_prefix p s \<longleftrightarrow> prefix (map toupper p) (map toupper s)"

definition patch_name :: "bytes \<Rightarrow> bool" where
  "patch_name s \<longleftrightarrow> suffix (map toupper FW_PATCHFILE_EXTENSION) (map toupper s)"

text \<open>The loop from index i on, on the rest of both blocks. The first string may end early: its
  NUL differs from every byte of the second, so the comparison stops there.\<close>

lemma strncmp_loop_prefix:
  assumes "i + length p \<le> length p2" and "take (length p) (drop i p2) = p" and "no_nul p"
    and "no_nul s" and "drop i p1 = s @ 0 # t"
  shows "\<exists>r. strncmp_loop p1 p2 i (length p) = Some r \<and> (r = 0 \<longleftrightarrow> caseless_prefix p s)"
  using assms
proof (induction p arbitrary: i s)
  case Nil
  then show ?case by (simp add: caseless_prefix_def)
next
  case (Cons b p)
  have p2: "i < length p2" "p2 ! i = b" "take (length p) (drop (Suc i) p2) = p"
    using Cons.prems(1,2) by (cases "drop i p2"; auto simp: nth_via_drop drop_Suc drop_tl)+
  show ?case
  proof (cases s)
    case Nil
    then have "p1 ! i = 0" "i < length p1" using Cons.prems(5)
      by (auto simp: nth_via_drop) (metis drop_all linorder_not_less list.distinct(1))
    with p2 Cons.prems(3) Nil show ?thesis by (auto simp: nth_opt_def caseless_prefix_def)
  next
    case (Cons a s')
    then have p1: "p1 ! i = a" "i < length p1" "drop (Suc i) p1 = s' @ 0 # t"
      using Cons.prems(5)
      by (auto simp: nth_via_drop drop_Suc drop_tl) (metis drop_all linorder_not_less list.distinct(1))
    have "\<exists>r. strncmp_loop p1 p2 (Suc i) (length p) = Some r \<and> (r = 0 \<longleftrightarrow> caseless_prefix p s')"
      using Cons.prems(1,3,4) p1 p2 Cons by (intro Cons.IH) auto
    with p1 p2 Cons show ?thesis by (auto simp: nth_opt_def caseless_prefix_def)
  qed
qed

lemma hw_strncmp_prefix:
  assumes "no_nul p" and "no_nul s"
  shows "\<exists>r. hw_strncmp (Some (s @ 0 # t)) (Some (p @ rest)) (int (length p)) = Some r
    \<and> (r = 0 \<longleftrightarrow> caseless_prefix p s)"
  using strncmp_loop_prefix [of 0 p "p @ rest" s "s @ 0 # t"] assms by (simp add: hw_strncmp_def)

lemma caseless_prefix_same_length:
  "length p = length s \<Longrightarrow> caseless_prefix p s \<longleftrightarrow> map toupper p = map toupper s"
  unfolding caseless_prefix_def prefix_def
  by (metis append_Nil2 append_eq_append_conv length_map)

lemma has_patch_extension_iff:
  assumes "no_nul s"
  shows "has_patch_extension (s @ 0 # u) = Some (patch_name s)"
proof (cases "4 \<le> length s")
  case True
  define t where "t = drop (length s - 4) s"
  have t: "no_nul t" "length t = 4" "s = take (length s - 4) s @ t"
    using True assms by (auto simp: t_def no_nul_drop)
  obtain r where r: "hw_strncmp (Some (t @ 0 # u)) (Some (FW_PATCHFILE_EXTENSION @ [0])) 4 = Some r"
      "r = 0 \<longleftrightarrow> caseless_prefix FW_PATCHFILE_EXTENSION t"
    using hw_strncmp_prefix [of FW_PATCHFILE_EXTENSION t u "[0]"] t(1)
    by (auto simp: FW_PATCHFILE_EXTENSION_def)
  have "caseless_prefix FW_PATCHFILE_EXTENSION t \<longleftrightarrow> patch_name s"
    using t(2) by (subst t(3), subst caseless_prefix_same_length)
      (auto simp: FW_PATCHFILE_EXTENSION_def patch_name_def suffix_def)
  then show ?thesis
    using r True assms by (simp add: has_patch_extension_def t_def)
next
  case False
  then have "\<not> patch_name s"
    by (auto simp: patch_name_def FW_PATCHFILE_EXTENSION_def dest: suffix_length_le)
  with False assms show ?thesis by (simp add: has_patch_extension_def)
qed

section \<open>The search against its specification\<close>

text \<open>The path the search should produce, and the file it should choose: chip names are tried
  from the full name on, each without the revision at its end and the letter in front of it; for each the first
  directory entry that starts with the name and ends in .hcd counts, unless path and entry are
  too long together.\<close>

definition patch_string :: "bytes \<Rightarrow> bytes \<Rightarrow> bytes" where
  "patch_string path file = path @ (if last path \<noteq> of_char (CHR ''/'') then lit ''/'' else []) @ file"

definition matches :: "bytes \<Rightarrow> bytes \<Rightarrow> bool" where
  "matches chip d \<longleftrightarrow> caseless_prefix chip d \<and> patch_name d"

fun first_patch :: "bytes \<Rightarrow> bytes list \<Rightarrow> bytes list \<Rightarrow> bytes option" where
  "first_patch path ds [] = None"
| "first_patch path ds (chip # chips) =
     (case find (matches chip) ds of
        Some d \<Rightarrow> if length d + length path \<le> FW_PATCHFILE_PATH_MAXLEN then Some d
                  else first_patch path ds chips
      | None \<Rightarrow> first_patch path ds chips)"

text \<open>The characters of a revision: digits, and the letter M in either case.\<close>

definition revision :: "bytes" where
  "revision = lit ''0123456789Mm''"

definition shorter_name :: "bytes \<Rightarrow> bytes option" where
  "shorter_name chip =
     (let kept = rev (dropWhile (\<lambda>c. c \<in> set revision) (rev chip))
      in if 3 < length kept then Some (butlast kept) else None)"

lemma shorter_name_shorter: "shorter_name chip = Some c \<Longrightarrow> length c < length chip"
  using length_dropWhile_le [of "\<lambda>c. c \<in> set revision" "rev chip"]
  by (auto simp: shorter_name_def Let_def split: if_splits)

function chip_names :: "bytes \<Rightarrow> bytes list" where
  "chip_names chip = chip # (case shorter_name chip of None \<Rightarrow> [] | Some c \<Rightarrow> chip_names c)"
  by pat_completeness auto
termination
  by (relation "measure length") (simp_all add: shorter_name_shorter)

declare chip_names.simps [simp del]

text \<open>The backward scan of the code finds the same names.\<close>

lemma revision_test:
  "c \<in> set revision \<longleftrightarrow> isdigit c \<or> c = of_char (CHR ''M'') \<or> c = of_char (CHR ''m'')"
proof -
  have "isdigit c \<longleftrightarrow> c \<in> {48, 49, 50, 51, 52, 53, 54, 55, 56, 57}"
    by (auto simp: isdigit_def word_le_nat_alt word_unat_eq_iff) arith
  then show ?thesis by (auto simp: revision_def)
qed

lemma chip_name_cut_append: "n \<le> length chip \<Longrightarrow> chip_name_cut (chip @ t) n = chip_name_cut chip n"
  by (induction n) (auto simp: nth_append)

lemma cut_shorter:
  defines "n \<equiv> \<lambda>chip. chip_name_cut chip (length chip)"
  shows "shorter_name chip = (if 3 < n chip then Some (take (n chip - 1) chip) else None)"
proof (induction chip rule: rev_induct)
  case Nil
  show ?case by (simp add: shorter_name_def n_def)
next
  case (snoc x chip)
  have cut: "chip_name_cut (chip @ [x]) (length chip) = n chip"
    unfolding n_def by (rule chip_name_cut_append) simp
  have le: "n chip \<le> length chip" by (simp add: n_def chip_name_cut_le)
  show ?case
  proof (cases "x \<in> set revision")
    case True
    then have "shorter_name (chip @ [x]) = shorter_name chip" by (simp add: shorter_name_def)
    moreover have "n (chip @ [x]) = (if 3 \<le> length chip then n chip else Suc (length chip))"
      using True cut by (auto simp: n_def revision_test)
    ultimately show ?thesis using snoc.IH le by auto
  next
    case False
    then show ?thesis by (auto simp: shorter_name_def n_def revision_test)
  qed
qed

lemma chip_names_tail:
  assumes "kept = chip_name_cut chip (length chip)"
  shows "tl (chip_names chip) = (if 3 < kept then chip_names (take (kept - 1) chip) else [])"
  by (subst chip_names.simps) (simp add: cut_shorter assms)

lemma chip_cut_induct [case_names cut]:
  assumes "\<And>chip. (\<And>kept. kept = chip_name_cut chip (length chip) \<Longrightarrow> 3 < kept \<Longrightarrow> P (take (kept - 1) chip)) \<Longrightarrow> P chip"
  shows "P (chip :: bytes)"
proof (induction chip rule: length_induct)
  case (1 chip)
  show ?case
  proof (rule assms)
    fix kept
    assume "kept = chip_name_cut chip (length chip)" "3 < kept"
    then have "length (take (kept - 1) chip) < length chip"
      using chip_name_cut_le [of chip "length chip"] by simp
    with 1 show "P (take (kept - 1) chip)" by blast
  qed
qed

lemma lacks_slash_run:
  assumes "terminated pb" and "cstr pb \<noteq> []"
  shows "lacks_slash pb = Some (last (cstr pb) \<noteq> of_char (CHR ''/''))"
proof -
  obtain rest where pb: "pb = cstr pb @ 0 # rest" using assms(1) by (rule terminated_split)
  have "pb ! (length (cstr pb) - 1) = last (cstr pb)"
    by (subst pb) (use assms(2) in \<open>simp add: nth_append last_conv_nth\<close>)
  with assms show ?thesis by (simp add: lacks_slash_def strlen_def)
qed

lemma join_path_run:
  assumes "terminated pb" and "cstr pb = path" and "path \<noteq> []"
    and "terminated nb" and "cstr nb = file"
  shows "join_path blk pb nb =
    (if length (patch_string path file) < length blk
     then Some (patch_string path file @ 0 # drop (Suc (length (patch_string path file))) blk)
     else None)"
proof -
  have nn: "no_nul path" "no_nul file" using assms(2,5) by auto
  have len: "strlen pb \<noteq> None" "strlen nb = Some (length file)" 
    using assms by (simp_all add: strlen_def)
  have slash: "lacks_slash pb = Some (last path \<noteq> of_char (CHR ''/''))"
    using lacks_slash_run [OF assms(1)] assms(2,3) by simp
  show ?thesis
  proof (cases "length path < length blk")
    case False
    then have "strcpy blk path = None" by (simp add: strcpy_def store_def)
    with False len assms(2) show ?thesis by (auto simp: join_path_def patch_string_def option_conv)
  next
    case True
    then have cpy: "strcpy blk path = Some (path @ 0 # drop (Suc (length path)) blk)"
      by (simp add: strcpy_def store_def)
    show ?thesis
      using len cpy slash nn assms(2,5) True
      by (auto simp: join_path_def patch_string_def strcat_append_nul
            strcat_append_nul [where s = "path @ [47]", simplified] option_conv add.commute
            simp flip: length_greater_0_conv)
  qed
qed

lemma no_nul_entry [simp]: "no_nul d \<Longrightarrow> cstr (d @ [0]) = d" "terminated (d @ [0])"
  by simp_all

definition place_patch :: "bytes \<Rightarrow> bytes \<Rightarrow> bytes \<Rightarrow> bytes option" where
  "place_patch pb blk d =
     do { blk \<leftarrow> memset FW_PATCHFILE_PATH_MAXLEN blk; join_path blk pb (d @ [0]) }"

lemma place_patch_run:
  assumes "terminated pb" and "cstr pb = path" and "path \<noteq> []" and "no_nul d"
  shows "248 \<le> length blk \<Longrightarrow> length (patch_string path d) < length blk \<Longrightarrow>
      \<exists>rest. place_patch pb blk d = Some (patch_string path d @ 0 # rest)"
    and "length blk < FW_PATCHFILE_PATH_MAXLEN \<or> length blk \<le> length (patch_string path d) \<Longrightarrow>
      place_patch pb blk d = None"
  using assms join_path_run [OF assms(1-3), of "d @ [0]" d]
  by (auto simp: place_patch_def memset_def store_def)

lemma scan_directory_run:
  assumes "no_nul chip" and "terminated pb" and "\<forall>d\<in>set ds. no_nul d"
  shows "scan_directory pb (chip @ 0 # rest) ds =
    (case find (matches chip) ds of
       None \<Rightarrow> Some (FALSE, chip @ 0 # rest)
     | Some d \<Rightarrow> if FW_PATCHFILE_PATH_MAXLEN < length d + length (cstr pb)
                 then Some (FALSE, chip @ 0 # rest)
                 else map_option (Pair TRUE) (place_patch pb (chip @ 0 # rest) d))"
  using assms(3)
proof (induction ds)
  case (Cons d ds)
  then have d: "no_nul d" by simp
  obtain r where r: "hw_strncmp (Some (d @ [0])) (Some (chip @ 0 # rest)) (int (length chip)) = Some r"
      "r = 0 \<longleftrightarrow> caseless_prefix chip d"
    using hw_strncmp_prefix [OF assms(1) d, of "[]" "0 # rest"] by auto
  have pb: "strlen pb = Some (length (cstr pb))" using assms(2) by (simp add: strlen_def)
  show ?case
  proof (cases "matches chip d")
    case True
    then show ?thesis
      using r d pb assms(1) has_patch_extension_iff [OF d]
      by (cases "memset FW_PATCHFILE_PATH_MAXLEN (chip @ 0 # rest)";
          cases "join_path (the (memset FW_PATCHFILE_PATH_MAXLEN (chip @ 0 # rest))) pb (d @ [0])")
        (auto simp: matches_def place_patch_def)
  next
    case False
    then show ?thesis
      using r d Cons assms(1) has_patch_extension_iff [OF d]
      by (auto simp: matches_def)
  qed
qed simp

lemma patch_string_length: "length (patch_string path d) \<le> length path + length d + 1"
  by (simp add: patch_string_def)

lemma find_no_nul: "\<forall>d\<in>set ds. no_nul d \<Longrightarrow> find P ds = Some d \<Longrightarrow> no_nul d"
  by (auto simp: find_Some_iff)

text \<open>One round: the directory is listed, searched for the current name, and closed.\<close>

lemma findpatch_round:
  assumes "cstr (fw_patchfile_name w) = []" and "terminated (fw_patchfile_name w)"
    and "terminated (fw_patchfile_path w)" and "cstr (fw_patchfile_path w) = path"
    and "os_dir E (trace w) path = Some ds" and "\<forall>d\<in>set ds. no_nul d" and "no_nul chip"
  defines "w2 \<equiv> log ClosedirEv (log (OpendirEv path True) w)"
  shows "hw_config_findpatch E (chip @ 0 # rest) w =
    (case find (matches chip) ds of
       Some d \<Rightarrow> if length d + length path \<le> FW_PATCHFILE_PATH_MAXLEN
         then map_option (\<lambda>blk. (TRUE, blk, w2)) (place_patch (fw_patchfile_path w) (chip @ 0 # rest) d)
         else (if 3 < chip_name_cut (chip @ 0 # rest) (length chip)
               then hw_config_findpatch E ((chip @ 0 # rest)[chip_name_cut (chip @ 0 # rest) (length chip) - 1 := 0]) w2
               else Some (FALSE, chip @ 0 # rest, w2))
     | None \<Rightarrow> (if 3 < chip_name_cut (chip @ 0 # rest) (length chip)
               then hw_config_findpatch E ((chip @ 0 # rest)[chip_name_cut (chip @ 0 # rest) (length chip) - 1 := 0]) w2
               else Some (FALSE, chip @ 0 # rest, w2)))"
  using scan_directory_run [OF assms(7,3,6), of rest] assms(1-5,7)
  by (subst hw_config_findpatch.simps)
    (cases "place_patch (fw_patchfile_path w) (chip @ 0 # rest) (the (find (matches chip) ds))";
      auto simp: strlen_def w2_def Let_def split: option.splits)

lemma cut_block:
  assumes "k \<le> length chip" and "3 < k"
  shows "\<exists>rest'. (chip @ 0 # rest)[k - 1 := 0] = take (k - 1) chip @ 0 # rest'
    \<and> length (take (k - 1) chip @ 0 # rest') = length (chip @ 0 # rest)"
proof -
  have "(chip @ 0 # rest)[k - 1 := 0] = take (k - 1) chip @ 0 # drop k (chip @ 0 # rest)"
    using assms by (auto simp: list_update_append upd_conv_take_nth_drop)
  with assms show ?thesis by (intro exI [of _ "drop k (chip @ 0 # rest)"]) simp
qed

lemma dir_round:
  "logs_only is_dir_call w (log ClosedirEv (log (OpendirEv p ok) w))"
  "logs_only is_dir_call (log ClosedirEv (log (OpendirEv p ok) w)) w' \<Longrightarrow> logs_only is_dir_call w w'"
  by (blast intro: logs_only_step kind_simps logs_only_refl)+

text \<open>A result of the search for the names given, from the state given.\<close>

definition search_meets ::
  "bytes \<Rightarrow> bytes list \<Rightarrow> bytes list \<Rightarrow> 'a hw_world_scheme \<Rightarrow> (u8 \<times> bytes \<times> 'a hw_world_scheme) option \<Rightarrow> bool" where
  "search_meets path ds chips w res \<longleftrightarrow>
     (\<exists>blk' w'. res = Some (if first_patch path ds chips = None then FALSE else TRUE, blk', w')
        \<and> (\<forall>d. first_patch path ds chips = Some d \<longrightarrow> cstr blk' = patch_string path d \<and> terminated blk')
        \<and> logs_only is_dir_call w w')"

lemma search_meets_later:
  "search_meets path ds chips (log ClosedirEv (log (OpendirEv p ok) w)) res \<Longrightarrow> search_meets path ds chips w res"
  by (auto simp: search_meets_def dest: dir_round(2))

lemma chip_names_unfold: "chip_names chip = chip # tl (chip_names chip)"
  by (metis chip_names.simps list.sel(3))

text \<open>The shorter names, after the directory was closed.\<close>

lemma search_retry:
  fixes w :: "'a hw_world_scheme"
  assumes "kept = chip_name_cut chip (length chip)" and "w2 = log ClosedirEv (log (OpendirEv path True) w)"
    and "\<And>rest'. 3 < kept \<Longrightarrow> length (take (kept - 1) chip @ 0 # rest') = length (chip @ 0 # rest) \<Longrightarrow>
      search_meets path ds (chip_names (take (kept - 1) chip)) w2
        (hw_config_findpatch E (take (kept - 1) chip @ 0 # rest') w2)"
  shows "search_meets path ds (tl (chip_names chip)) w
    (if 3 < kept then hw_config_findpatch E ((chip @ 0 # rest)[kept - 1 := 0]) w2 else Some (FALSE, chip @ 0 # rest, w2))"
proof (cases "3 < kept")
  case True
  have "kept \<le> length chip" by (simp add: assms(1) chip_name_cut_le)
  then obtain rest' where blk: "(chip @ 0 # rest)[kept - 1 := 0] = take (kept - 1) chip @ 0 # rest'"
      "length (take (kept - 1) chip @ 0 # rest') = length (chip @ 0 # rest)"
    using cut_block True by blast
  have tl: "tl (chip_names chip) = chip_names (take (kept - 1) chip)"
    using True chip_names_tail [OF assms(1)] by simp
  have "search_meets path ds (tl (chip_names chip)) w2 (hw_config_findpatch E ((chip @ 0 # rest)[kept - 1 := 0]) w2)"
    unfolding tl blk(1) using True blk(2) by (rule assms(3))
  with True show ?thesis unfolding assms(2) by (simp add: search_meets_later)
next
  case False
  then have "tl (chip_names chip) = []"
    using chip_names_tail [OF assms(1)] by simp
  with False show ?thesis by (simp add: search_meets_def assms(2) dir_round(1))
qed

lemma search_round:
  assumes "cstr (fw_patchfile_name w) = []" and "terminated (fw_patchfile_name w)"
    and "terminated (fw_patchfile_path w)" and "cstr (fw_patchfile_path w) = path" and "path \<noteq> []"
    and "os_dir E (trace w) path = Some ds" and "\<forall>d\<in>set ds. no_nul d" and "no_nul chip"
    and "250 \<le> length (chip @ 0 # rest)"
    and "kept = chip_name_cut chip (length chip)" and "w2 = log ClosedirEv (log (OpendirEv path True) w)"
    and "search_meets path ds (tl (chip_names chip)) w (if 3 < kept
      then hw_config_findpatch E ((chip @ 0 # rest)[kept - 1 := 0]) w2 else Some (FALSE, chip @ 0 # rest, w2))"
  shows "search_meets path ds (chip_names chip) w (hw_config_findpatch E (chip @ 0 # rest) w)"
proof -
  let ?blk = "chip @ 0 # rest"
  have kept: "chip_name_cut ?blk (length chip) = kept" by (simp add: assms(10) chip_name_cut_append)
  note round = findpatch_round [OF assms(1-4,6-8), of rest, folded assms(11), unfolded kept]
  show ?thesis
  proof (cases "\<exists>d. find (matches chip) ds = Some d \<and> length d + length path \<le> 248")
    case True
    then obtain d where d: "find (matches chip) ds = Some d" "length d + length path \<le> 248" by blast
    have "length (patch_string path d) < length ?blk" "248 \<le> length ?blk"
      using patch_string_length [of path d] assms(9) d(2) by simp_all
    moreover have nd: "no_nul d" using assms(7) d(1) by (rule find_no_nul)
    ultimately obtain r where "place_patch (fw_patchfile_path w) ?blk d = Some (patch_string path d @ 0 # r)"
      using place_patch_run(1) [OF assms(3-5)] by blast
    moreover have "first_patch path ds (chip_names chip) = Some d" using d by (subst chip_names_unfold) simp
    moreover have "no_nul (patch_string path d)" using nd assms(4) by (auto simp: patch_string_def)
    ultimately show ?thesis using round d by (simp add: search_meets_def assms(11) dir_round(1))
  next
    case False
    then have "first_patch path ds (chip_names chip) = first_patch path ds (tl (chip_names chip))"
      by (subst chip_names_unfold) (auto split: option.splits)
    moreover have "hw_config_findpatch E ?blk w =
        (if 3 < kept then hw_config_findpatch E (?blk[kept - 1 := 0]) w2 else Some (FALSE, ?blk, w2))"
      using round False by (cases "find (matches chip) ds") (auto split del: if_split)
    ultimately show ?thesis using assms(12) by (simp only: search_meets_def)
  qed
qed

lemma findpatch_search:
  assumes "cstr (fw_patchfile_name w) = []" and "terminated (fw_patchfile_name w)"
    and "terminated (fw_patchfile_path w)" and "cstr (fw_patchfile_path w) = path" and "path \<noteq> []"
    and "\<forall>tr. os_dir E tr path = Some ds" and "\<forall>d\<in>set ds. no_nul d" and "no_nul chip"
    and "250 \<le> length (chip @ 0 # rest)"
  shows "search_meets path ds (chip_names chip) w (hw_config_findpatch E (chip @ 0 # rest) w)"
  using assms
proof (induction chip arbitrary: rest w rule: chip_cut_induct)
  case (cut chip)
  let ?kept = "chip_name_cut chip (length chip)" and ?w2 = "log ClosedirEv (log (OpendirEv path True) w)"
  have "search_meets path ds (tl (chip_names chip)) w (if 3 < ?kept
      then hw_config_findpatch E ((chip @ 0 # rest)[?kept - 1 := 0]) ?w2 else Some (FALSE, chip @ 0 # rest, ?w2))"
  proof (rule search_retry [OF refl refl])
    fix rest'
    assume k: "3 < ?kept" "length (take (?kept - 1) chip @ 0 # rest') = length (chip @ 0 # rest)"
    with cut.prems show "search_meets path ds (chip_names (take (?kept - 1) chip)) ?w2
        (hw_config_findpatch E (take (?kept - 1) chip @ 0 # rest') ?w2)"
      by (intro cut.IH [OF refl k(1)]) (simp_all add: no_nul_take)
  qed
  then show ?case using cut.prems by (intro search_round [OF _ _ _ _ _ _ _ _ _ refl refl]) simp_all
qed

text \<open>The room the search needs behind the chip name: 248 bytes that it clears, and the path of any
  entry it may take.\<close>

definition patch_dir_ok :: "env \<Rightarrow> bytes \<Rightarrow> nat \<Rightarrow> bool" where
  "patch_dir_ok E path n \<longleftrightarrow> FW_PATCHFILE_PATH_MAXLEN \<le> n \<and>
     (\<forall>tr ds. os_dir E tr path = Some ds \<longrightarrow> (\<forall>d\<in>set ds. no_nul d
        \<and> (length d + length path \<le> FW_PATCHFILE_PATH_MAXLEN \<longrightarrow> length (patch_string path d) < n)))"

lemma findpatch_defined:
  assumes "cstr (fw_patchfile_name w) = []" and "terminated (fw_patchfile_name w)"
    and "terminated (fw_patchfile_path w)" and "cstr (fw_patchfile_path w) = path" and "path \<noteq> []"
    and "no_nul chip" and "patch_dir_ok E path (length (chip @ 0 # rest))"
  shows "\<exists>r blk' w'. hw_config_findpatch E (chip @ 0 # rest) w = Some (r, blk', w') \<and> terminated blk'"
  using assms
proof (induction chip arbitrary: rest w rule: chip_cut_induct)
  case (cut chip)
  let ?blk = "chip @ 0 # rest"
  show ?case
  proof (cases "os_dir E (trace w) path")
    case None
    then show ?thesis
      using cut.prems by (subst hw_config_findpatch.simps) (simp add: strlen_def)
  next
    case (Some ds)
    define kept where "kept = chip_name_cut chip (length chip)"
    define w2 where "w2 = log ClosedirEv (log (OpendirEv path True) w)"
    have kept: "chip_name_cut ?blk (length chip) = kept" "kept \<le> length chip"
      by (simp_all add: kept_def chip_name_cut_append chip_name_cut_le)
    from Some cut.prems(7) have nn: "\<forall>d\<in>set ds. no_nul d"
      and fits: "\<And>d. d \<in> set ds \<Longrightarrow> length d + length path \<le> 248 \<Longrightarrow> length (patch_string path d) < length ?blk"
      and room: "248 \<le> length ?blk"
      by (auto simp: patch_dir_ok_def)
    have placed: "\<exists>b. place_patch (fw_patchfile_path w) ?blk d = Some b \<and> terminated b"
      if "find (matches chip) ds = Some d" "length d + length path \<le> 248" for d
    proof -
      have "d \<in> set ds" using that(1) by (auto simp: find_Some_iff)
      then show ?thesis using place_patch_run(1) [OF cut.prems(3-5) _ room] nn fits that(2) by fastforce
    qed
    have retry: "\<exists>r blk' w'. hw_config_findpatch E (?blk[kept - 1 := 0]) w2 = Some (r, blk', w') \<and> terminated blk'"
      if k: "3 < kept"
    proof -
      obtain rest' where "?blk[kept - 1 := 0] = take (kept - 1) chip @ 0 # rest'"
          "length (take (kept - 1) chip @ 0 # rest') = length ?blk"
        using cut_block [OF kept(2) k, of rest] by blast
      with cut.IH [OF kept_def k, of w2 rest'] cut.prems show ?thesis by (simp add: w2_def no_nul_take)
    qed
    show ?thesis
      using findpatch_round [OF cut.prems(1-4) Some nn cut.prems(6), of rest, folded w2_def, unfolded kept]
        placed retry
      by (fastforce split: option.split if_splits)
  qed
qed

text \<open>What the search always keeps: all state but the log, the size of the block, and no
  descriptor.\<close>

lemma join_path_length:
  assumes "join_path blk pb nb = Some blk'"
  shows "length blk' = length blk"
  using assms
  by (auto simp: join_path_def strcpy_def strcat_def elim!: bind_SomeE split: if_splits
        dest!: store_length)

lemma scan_directory_result:
  "scan_directory path blk ds = Some (r, blk') \<Longrightarrow> (r = TRUE \<or> r = FALSE) \<and> length blk' = length blk"
  by (induction path blk ds rule: scan_directory.induct)
    (auto simp: Let_def memset_def elim!: bind_SomeE split: if_splits
      dest!: store_length join_path_length)

lemma findpatch_result:
  "hw_config_findpatch E blk w = Some (r, blk', w') \<Longrightarrow>
     (r = TRUE \<or> r = FALSE) \<and> length blk' = length blk \<and> logs_only is_dir_call w w'"
proof (induction E blk w arbitrary: r blk' w' rule: hw_config_findpatch.induct)
  case (1 E blk w)
  from "1.prems" obtain n where n: "strlen (fw_patchfile_name w) = Some n"
    by (subst (asm) hw_config_findpatch.simps) (auto elim!: bind_SomeE)
  let ?path = "cstr (fw_patchfile_path w)"
  consider (given) "0 < n" "join_path blk (fw_patchfile_path w) (fw_patchfile_name w) = Some blk'"
      "r = TRUE" "w' = w"
    | (closed) "r = FALSE" "blk' = blk" "w' = log (OpendirEv ?path False) w"
    | (entries) ds retval blk1 where "n = 0" "os_dir E (trace w) ?path = Some ds"
        "scan_directory (fw_patchfile_path w) blk ds = Some (retval, blk1)"
    using "1.prems" n
    by (subst (asm) hw_config_findpatch.simps)
      (auto simp: Let_def elim!: bind_SomeE split: if_splits option.splits)
  then show ?case
  proof cases
    case entries
    define w2 where "w2 = log ClosedirEv (log (OpendirEv ?path True) w)"
    note sc = scan_directory_result [OF entries(3)]
    consider (found) "retval = TRUE" "r = TRUE" "blk' = blk1" "w' = w2"
      | (retry) len where "retval = FALSE" "strlen blk1 = Some len"
          "3 < chip_name_cut blk1 len"
          "hw_config_findpatch E (blk1[chip_name_cut blk1 len - 1 := 0]) w2 = Some (r, blk', w')"
      | (none) "r = FALSE" "blk' = blk1" "w' = w2"
      using "1.prems" n entries sc
      by (subst (asm) hw_config_findpatch.simps)
        (auto simp: Let_def w2_def elim!: bind_SomeE split: if_splits)
    then show ?thesis
    proof cases
      case retry
      have "(r = TRUE \<or> r = FALSE) \<and> length blk' = length (blk1[chip_name_cut blk1 len - 1 := 0])
          \<and> logs_only is_dir_call w2 w'"
        using n entries retry by (intro "1.IH" [OF n]) (auto simp: w2_def)
      with sc show ?thesis by (auto simp: w2_def dest: dir_round(2))
    qed (use sc in \<open>auto simp: w2_def dir_round(1)\<close>)
  qed (auto dest: join_path_length)
qed

text \<open>
  What the search may answer when directories can change between its rounds: the path of the
  configured file, or that of the first match of a tried name in a listing, unless it is too long;
  or nothing, when there is no configured file and a listing failed or none of the names has such a match.
\<close>

definition fits_match :: "bytes \<Rightarrow> bytes \<Rightarrow> bytes list \<Rightarrow> bytes option" where
  "fits_match dir chip ds = (case find (matches chip) (map cstr ds) of None \<Rightarrow> None
     | Some d \<Rightarrow> if length d + length dir \<le> FW_PATCHFILE_PATH_MAXLEN then Some d else None)"

definition patch_found :: "env \<Rightarrow> bytes \<Rightarrow> bytes \<Rightarrow> bytes \<Rightarrow> bytes \<Rightarrow> bool" where
  "patch_found E dir name chip p \<longleftrightarrow>
     (\<exists>file. p = patch_string dir file
        \<and> (if name \<noteq> [] then file = name
           else \<exists>c\<in>set (chip_names chip). \<exists>tr ds. os_dir E tr dir = Some ds \<and> fits_match dir c ds = Some file))"

definition patch_missing :: "env \<Rightarrow> bytes \<Rightarrow> bytes \<Rightarrow> bytes \<Rightarrow> bool" where
  "patch_missing E dir name chip \<longleftrightarrow> name = []
     \<and> ((\<exists>tr. os_dir E tr dir = None)
        \<or> (\<forall>c\<in>set (chip_names chip). \<exists>tr ds. os_dir E tr dir = Some ds \<and> fits_match dir c ds = None))"

lemma join_path_result:
  assumes "join_path blk pb nb = Some blk'"
  shows "terminated blk' \<and> cstr blk' = patch_string (cstr pb) (cstr nb)"
proof -
  have t: "terminated pb" "terminated nb"
    using assms by (auto simp: join_path_def strlen_def elim!: bind_SomeE split: if_splits)
  moreover have "cstr pb \<noteq> []"
    using assms by (auto simp: join_path_def lacks_slash_def strlen_def elim!: bind_SomeE split: if_splits)
  moreover have "no_nul (patch_string (cstr pb) (cstr nb))" by (simp add: patch_string_def)
  ultimately show ?thesis
    using assms join_path_run [OF t(1) refl _ t(2) refl, of blk] by (auto split: if_splits)
qed

lemma entry_string: "cstr (d @ [0]) = cstr d"
  by (induction d) (auto simp: cstr_def)

text \<open>One pass over a listing.\<close>

lemma scan_directory_answer:
  assumes "no_nul chip" and "scan_directory pb (chip @ 0 # rest) ds = Some (r, blk')"
  shows "case fits_match (cstr pb) chip ds of
      None \<Rightarrow> r = FALSE \<and> blk' = chip @ 0 # rest
    | Some d \<Rightarrow> r = TRUE \<and> terminated blk' \<and> cstr blk' = patch_string (cstr pb) d"
  using assms(2)
proof (induction ds)
  case (Cons d ds)
  let ?blk = "chip @ 0 # rest"
  obtain u where u: "d @ [0] = cstr d @ 0 # u"
    using terminated_split [of "d @ [0]"] entry_string [of d] by (metis terminated_append_nul)
  have ext: "has_patch_extension (d @ [0]) = Some (patch_name (cstr d))"
    unfolding u by (rule has_patch_extension_iff) simp
  obtain c where c: "hw_strncmp (Some (d @ [0])) (Some ?blk) (int (length chip)) = Some c"
      "c = 0 \<longleftrightarrow> caseless_prefix chip (cstr d)"
    using hw_strncmp_prefix [OF assms(1), of "cstr d" u "0 # rest"] unfolding u by auto
  show ?case
  proof (cases "matches chip (cstr d)")
    case False
    with Cons.prems c ext assms(1) have "scan_directory pb ?blk ds = Some (r, blk')"
      by (auto simp: Let_def matches_def elim!: bind_SomeE split: if_splits)
    with Cons.IH False show ?thesis by (simp add: fits_match_def)
  next
    case True
    have len: "strlen (d @ [0]) = Some (length (cstr d))" by (simp add: strlen_def entry_string)
    consider (long) "FW_PATCHFILE_PATH_MAXLEN < length (cstr d) + length (cstr pb)" "r = FALSE" "blk' = ?blk"
      | (short) blk1 where "length (cstr d) + length (cstr pb) \<le> FW_PATCHFILE_PATH_MAXLEN" "r = TRUE"
          "join_path blk1 pb (d @ [0]) = Some blk'"
      using Cons.prems c ext True assms(1) len
      by (auto simp: Let_def matches_def elim!: bind_SomeE split: if_splits) (auto simp: strlen_def split: if_splits)
    then show ?thesis
      by cases (use True in \<open>auto simp: fits_match_def entry_string dest!: join_path_result\<close>)
  qed
qed (simp add: fits_match_def)

lemma findpatch_answer:
  assumes "hw_config_findpatch E (chip @ 0 # rest) w = Some (r, blk', w')" and "no_nul chip"
  defines "dir \<equiv> cstr (fw_patchfile_path w)" and "name \<equiv> cstr (fw_patchfile_name w)"
  shows "(r = TRUE \<and> terminated blk' \<and> patch_found E dir name chip (cstr blk'))
    \<or> (r \<noteq> TRUE \<and> patch_missing E dir name chip)"
  using assms(1,2) unfolding dir_def name_def
proof (induction chip arbitrary: rest w r blk' w' rule: chip_cut_induct)
  case (cut chip)
  let ?blk = "chip @ 0 # rest" and ?dir = "cstr (fw_patchfile_path w)" and ?name = "cstr (fw_patchfile_name w)"
  from cut.prems obtain n where n: "strlen (fw_patchfile_name w) = Some n" "n = length ?name"
    by (subst (asm) hw_config_findpatch.simps) (auto simp: strlen_def elim!: bind_SomeE split: if_splits)
  define w2 where "w2 = log ClosedirEv (log (OpendirEv ?dir True) w)"
  define kept where "kept = chip_name_cut chip (length chip)"
  have kept: "chip_name_cut ?blk (length chip) = kept" "kept \<le> length chip"
    by (simp_all add: kept_def chip_name_cut_append chip_name_cut_le)
  consider (given) "0 < n" "join_path ?blk (fw_patchfile_path w) (fw_patchfile_name w) = Some blk'" "r = TRUE"
    | (closed) "n = 0" "r = FALSE" "os_dir E (trace w) ?dir = None"
    | (entries) ds retval blk1 where "n = 0" "os_dir E (trace w) ?dir = Some ds"
        "scan_directory (fw_patchfile_path w) ?blk ds = Some (retval, blk1)"
    using cut.prems n(1)
    by (subst (asm) hw_config_findpatch.simps)
      (auto simp: Let_def elim!: bind_SomeE split: if_splits option.splits)
  then show ?case
  proof cases
    case given
    with n(2) join_path_result [OF given(2)] show ?thesis by (auto simp: patch_found_def)
  next
    case closed
    with n(2) show ?thesis by (auto simp: patch_missing_def)
  next
    case entries
    have name: "?name = []" using n(2) entries(1) by simp
    note sc = scan_directory_answer [OF cut.prems(2) entries(3)]
    have head: "chip \<in> set (chip_names chip)" by (subst chip_names.simps) simp
    show ?thesis
    proof (cases "fits_match ?dir chip ds")
      case (Some d)
      with sc have "retval = TRUE" "terminated blk1" "cstr blk1 = patch_string ?dir d" by simp_all
      moreover from this have "r = TRUE \<and> blk' = blk1"
        using cut.prems n(1) entries by (subst (asm) hw_config_findpatch.simps) auto
      ultimately show ?thesis using Some entries(2) head name by (auto simp: patch_found_def)
    next
      case None
      with sc have b: "retval = FALSE" "blk1 = ?blk" by simp_all
      have next_round: "(if 3 < kept then hw_config_findpatch E (?blk[kept - 1 := 0]) w2
          else Some (FALSE, ?blk, w2)) = Some (r, blk', w')"
        using cut.prems n(1) entries b kept(1)
        by (subst (asm) hw_config_findpatch.simps) (auto simp: w2_def strlen_def Let_def)
      have names: "chip_names chip = chip # (if 3 < kept then chip_names (take (kept - 1) chip) else [])"
        using chip_names_tail [OF kept_def] chip_names_unfold [of chip] by simp
      show ?thesis
      proof (cases "3 < kept")
        case False
        with next_round None entries(2) name show ?thesis by (auto simp: patch_missing_def names)
      next
        case True
        obtain rest' where "?blk[kept - 1 := 0] = take (kept - 1) chip @ 0 # rest'"
          using cut_block [OF kept(2) True, of rest] by blast
        with True next_round have f: "hw_config_findpatch E (take (kept - 1) chip @ 0 # rest') w2 = Some (r, blk', w')"
          by simp
        from cut.IH [OF kept_def True f] cut.prems(2)
        have "r = TRUE \<and> terminated blk' \<and> patch_found E ?dir ?name (take (kept - 1) chip) (cstr blk')
            \<or> r \<noteq> TRUE \<and> patch_missing E ?dir ?name (take (kept - 1) chip)"
          by (simp add: w2_def no_nul_take)
        then show ?thesis
          using True None entries(2) name by (auto simp: patch_found_def patch_missing_def names)
      qed
    qed
  qed
qed

section \<open>Sleeping ends\<close>

lemma nanosleep_loop_sleeps:
  assumes "nanosleep_loop E s ns w = Some w'"
  shows "logs_only is_sleep w w'"
  using assms
proof (induction rule: nanosleep_loop.raw_induct [rotated, consumes 1])
  case (1 f E s ns w w')
  show ?case
  proof (cases "os_nanosleep E (trace w) s ns")
    case (SleepInterrupted s' ns')
    with 1(2) have "f E s' ns' (log (NanosleepEv s ns) w) = Some w'" by simp
    then show ?thesis by (rule logs_only_step [OF kind_simps(1) 1(1)])
  qed (use 1(2) in auto)
qed

lemma nanosleep_loop_returns:
  assumes "sleep_remainder_smaller E"
  shows "nanosleep_loop E s ns w \<noteq> None"
proof (induction "s * 1000000000 + ns" arbitrary: s ns w rule: less_induct)
  case less
  show ?case
  proof (cases "os_nanosleep E (trace w) s ns")
    case (SleepInterrupted s' ns')
    then have "s' * 1000000000 + ns' < s * 1000000000 + ns"
      using assms by (simp add: sleep_remainder_smaller_def)
    with less SleepInterrupted show ?thesis by (subst nanosleep_loop.simps) simp
  qed (subst nanosleep_loop.simps, simp)+
qed

lemma ms_delay_sleeps: "ms_delay E t w = Some w' \<Longrightarrow> logs_only is_sleep w w'"
  by (auto simp: ms_delay_def split: if_splits dest: nanosleep_loop_sleeps)

lemma ms_delay_returns: "sleep_remainder_smaller E \<Longrightarrow> ms_delay E t w \<noteq> None"
  by (simp add: ms_delay_def nanosleep_loop_returns del: not_None_eq)

lemma ms_split:
  fixes t :: u32
  shows "unat (1000 * 1000 * (t mod 1000)) = 1000000 * (unat t mod 1000)"
    and "unat (t div 1000) = unat t div 1000"
proof -
  have m: "unat (t mod 1000) = unat t mod 1000" by (simp add: unat_mod_distrib)
  have "unat t mod 1000 < 1000" by simp
  then have "1000000 * (unat t mod 1000) < 2 ^ 32" by simp
  then show "unat (1000 * 1000 * (t mod 1000)) = 1000000 * (unat t mod 1000)"
    by (simp add: unat_mult_lem [THEN iffD1] unat_word_ariths m)
  show "unat (t div 1000) = unat t div 1000" by (simp add: unat_div_distrib)
qed

section \<open>Properties\<close>

text \<open>
  C30. A delay of t milliseconds returns, whatever interrupts it, provided an interrupted sleep
  reports less time than it was given; it asks first for exactly t milliseconds, as whole
  seconds and nanoseconds below one second, and does nothing but sleep.
\<close>

theorem ms_delay_exact:
  assumes "sleep_remainder_smaller E" and "t \<noteq> 0"
  shows "\<exists>w' s ns es. ms_delay E t w = Some w' \<and> trace w' = trace w @ NanosleepEv s ns # es
    \<and> s * 1000000000 + ns = unat t * 1000000 \<and> ns < 1000000000
    \<and> list_all is_sleep es"
proof -
  define s ns where "s = unat (t div 1000)" and "ns = unat (1000 * 1000 * (t mod 1000))"
  define w1 where "w1 = log (NanosleepEv s ns) w"
  obtain w' where w': "ms_delay E t w = Some w'" using ms_delay_returns [OF assms(1)] by fast
  then have "nanosleep_loop E s ns w = Some w'" using assms(2) by (simp add: ms_delay_def s_def ns_def)
  then have "w' = w1 \<or> (\<exists>s' ns'. nanosleep_loop E s' ns' w1 = Some w')"
    by (subst (asm) nanosleep_loop.simps) (auto simp: w1_def split: sleep_result.splits)
  then have "logs_only is_sleep w1 w'" by (auto dest: nanosleep_loop_sleeps)
  then obtain es where "trace w' = trace w @ NanosleepEv s ns # es" "list_all is_sleep es"
    by (auto simp: logs_only_def w1_def)
  moreover have "unat t div 1000 * 1000 + unat t mod 1000 = unat t" by simp
  then have "s * 1000000000 + ns = unat t * 1000000"
    unfolding s_def ns_def ms_split by linarith
  moreover have "ns < 1000000000"
    using mod_less_divisor [of 1000 "unat t"] unfolding ns_def ms_split by linarith
  ultimately show ?thesis using w' by blast
qed

theorem ms_delay_exact_witness:
  "\<exists>w' s ns es. ms_delay sample_env 1250 idle_up = Some w' \<and> trace w' = trace idle_up @ NanosleepEv s ns # es
    \<and> s * 1000000000 + ns = unat (1250 :: u32) * 1000000 \<and> ns < 1000000000
    \<and> list_all is_sleep es"
  by (rule ms_delay_exact) simp_all

text \<open>
  The two translations of line speeds agree: the speed configured in bits per second ends
  up as that speed on the device when it is one of the thirteen supported ones, and as 115200
  otherwise; no speed makes the second translation fail.
\<close>

theorem baud_round_trip:
  "\<exists>t. userial_to_tcio_baud (line_speed_to_userial_baud r) = (TRUE, t)
     \<and> tcio_rate t = (if r \<in> {4000000, 3000000, 2000000, 1000000, 921600, 460800, 230400, 115200,
         57600, 19200, 9600, 1200, 600} then r else 115200)"
  by (simp add: line_speed_to_userial_baud_def userial_to_tcio_baud_def)

text \<open>
  C16. The patch search meets its specification when no file name is configured and the memory from
  the chip name on holds 250 bytes: it reports success exactly when some tried name has a first
  matching entry that is not too long, leaves the full path of that entry as the string in the
  caller's memory, and only opens and closes directories. The names tried are the chip name and then,
  again and again, the name without its revision (trailing digits and Ms) and the letter in front of
  it, as long as more than three characters are in front of the revision.
\<close>

theorem findpatch_meets_specification:
  assumes "cstr (fw_patchfile_name w) = []" and "terminated (fw_patchfile_name w)"
    and "terminated (fw_patchfile_path w)" and "cstr (fw_patchfile_path w) = path" and "path \<noteq> []"
    and "\<forall>tr. os_dir E tr path = Some ds" and "\<forall>d\<in>set ds. no_nul d" and "no_nul chip"
    and "250 \<le> length (chip @ 0 # rest)"
  shows "\<exists>r blk' w'. hw_config_findpatch E (chip @ 0 # rest) w = Some (r, blk', w')
    \<and> (r = TRUE \<longleftrightarrow> first_patch path ds (chip_names chip) \<noteq> None)
    \<and> (\<forall>d. first_patch path ds (chip_names chip) = Some d \<longrightarrow> cstr blk' = patch_string path d)
    \<and> logs_only is_dir_call w w'"
proof -
  obtain blk' w' where "hw_config_findpatch E (chip @ 0 # rest) w =
      Some (if first_patch path ds (chip_names chip) = None then FALSE else TRUE, blk', w')"
    and "\<forall>d. first_patch path ds (chip_names chip) = Some d \<longrightarrow>
        cstr blk' = patch_string path d \<and> terminated blk'" and "logs_only is_dir_call w w'"
    using findpatch_search [OF assms] unfolding search_meets_def by blast
  then show ?thesis by (intro exI [of _ "if first_patch path ds (chip_names chip) = None then FALSE else TRUE"]
      exI [of _ blk'] exI [of _ w']) auto
qed

text \<open>A directory with one patch file and the state of a freshly loaded library.\<close>

definition patch_env :: env where
  "patch_env = sample_env\<lparr>os_dir := \<lambda>_ _. Some [lit ''readme'', lit ''bcm43341.HCD'']\<rparr>"

definition idle_hw :: hw_world where
  "idle_hw = (static_state default_cfg)\<lparr>bt_vendor_cbacks := True, vnd_local_bd_addr := [1, 2, 3, 4, 5, 6]\<rparr>"

lemma default_path_string:
  "cstr (fw_patchfile_path idle_hw) = lit ''/vendor/firmware/''" "terminated (fw_patchfile_path idle_hw)"
  "cstr (fw_patchfile_name idle_hw) = []" "terminated (fw_patchfile_name idle_hw)"
  by (simp_all add: idle_hw_def static_state_def c_array_string default_cfg_def)

text \<open>The names tried for a BCM43341B0.\<close>

lemma sample_names:
  "chip_names (lit ''BCM43341B0'') = [lit ''BCM43341B0'', lit ''BCM43341'']"
  by (simp add: chip_names.simps shorter_name_def revision_def)

lemma sample_patch:
  "first_patch (lit ''/vendor/firmware/'') [lit ''readme'', lit ''bcm43341.HCD''] (chip_names (lit ''BCM43341B0''))
     = Some (lit ''bcm43341.HCD'')"
  unfolding sample_names
  by (simp add: matches_def patch_name_def caseless_prefix_def suffix_to_prefix FW_PATCHFILE_EXTENSION_def
      toupper_def)

theorem findpatch_meets_specification_witness:
  "\<exists>blk' w'. hw_config_findpatch patch_env (lit ''BCM43341B0'' @ 0 # replicate 241 0) idle_hw
      = Some (TRUE, blk', w')
    \<and> cstr blk' = patch_string (lit ''/vendor/firmware/'') (lit ''bcm43341.HCD'')
    \<and> logs_only is_dir_call idle_hw w'"
proof -
  have d: "\<forall>tr. os_dir patch_env tr (lit ''/vendor/firmware/'') = Some [lit ''readme'', lit ''bcm43341.HCD'']"
    by (simp add: patch_env_def)
  have n: "\<forall>d\<in>set [lit ''readme'', lit ''bcm43341.HCD'']. no_nul d" "no_nul (lit ''BCM43341B0'')" by simp_all
  have p: "lit ''/vendor/firmware/'' \<noteq> []" and l: "250 \<le> length (lit ''BCM43341B0'' @ 0 # replicate 241 0)" by simp_all
  from findpatch_meets_specification [OF default_path_string(3,4,2,1) p d n l] sample_patch show ?thesis by auto
qed

text \<open>
  C34. The length check of the search does not protect the memory it writes: an entry that
  passes it makes the search write past the block when fewer than 248 bytes are left
  from the chip name on, which it clears, or when path, slash, name and NUL do not fit. The first
  happens in a name field of 248 bytes whenever the chip name does not stand at its start, the
  second with a path and a name of 248 bytes together, as the check counts neither the slash nor
  the NUL.
\<close>

theorem patch_path_overruns_name_field:
  assumes "cstr (fw_patchfile_name w) = []" and "terminated (fw_patchfile_name w)"
    and "terminated (fw_patchfile_path w)" and "cstr (fw_patchfile_path w) = path" and "path \<noteq> []"
    and "os_dir E (trace w) path = Some ds" and "\<forall>d\<in>set ds. no_nul d" and "no_nul chip"
    and "find (matches chip) ds = Some d" and "length d + length path \<le> FW_PATCHFILE_PATH_MAXLEN"
    and "length (chip @ 0 # rest) < FW_PATCHFILE_PATH_MAXLEN
      \<or> length (chip @ 0 # rest) \<le> length (patch_string path d)"
  shows "hw_config_findpatch E (chip @ 0 # rest) w = None"
proof -
  have "no_nul d" using assms(7,9) by (rule find_no_nul)
  then have "place_patch (fw_patchfile_path w) (chip @ 0 # rest) d = None"
    using assms(11) place_patch_run(2) [OF assms(3-5)] by blast
  then show ?thesis using findpatch_round [OF assms(1-4,6-8), of rest] assms(9,10) by simp
qed

definition long_patch :: bytes where
  "long_patch = lit ''BCM'' @ replicate 224 49 @ lit ''.hcd''"

lemma long_patch_matches: "matches (lit ''BCM'') long_patch" "no_nul long_patch" "length long_patch = 231"
proof -
  show "no_nul long_patch" "length long_patch = 231"
    by (simp_all add: long_patch_def no_nul_def)
  have "patch_name long_patch"
    unfolding patch_name_def FW_PATCHFILE_EXTENSION_def long_patch_def map_append
    by (intro suffix_appendI) simp
  then show "matches (lit ''BCM'') long_patch"
    by (simp add: matches_def caseless_prefix_def long_patch_def)
qed

theorem patch_path_overruns_name_field_witness:
  "hw_config_findpatch (patch_env\<lparr>os_dir := \<lambda>_ _. Some [long_patch]\<rparr>)
     (lit ''BCM'' @ 0 # replicate 244 0) idle_hw = None
   \<and> hw_config_findpatch patch_env (lit ''BCM43341'' @ 0 # replicate 230 0) idle_hw = None"
proof
  show "hw_config_findpatch (patch_env\<lparr>os_dir := \<lambda>_ _. Some [long_patch]\<rparr>)
     (lit ''BCM'' @ 0 # replicate 244 0) idle_hw = None"
    by (rule patch_path_overruns_name_field [where ds = "[long_patch]" and d = long_patch
          and path = "lit ''/vendor/firmware/''"])
      (simp_all add: default_path_string [simplified] long_patch_matches [simplified] patch_string_def)
  show "hw_config_findpatch patch_env (lit ''BCM43341'' @ 0 # replicate 230 0) idle_hw = None"
    by (rule patch_path_overruns_name_field [where ds = "[lit ''readme'', lit ''bcm43341.HCD'']"
          and d = "lit ''bcm43341.HCD''" and path = "lit ''/vendor/firmware/''"])
      (simp_all add: default_path_string [simplified] patch_env_def sample_env_def matches_def
        patch_name_def caseless_prefix_def suffix_to_prefix FW_PATCHFILE_EXTENSION_def toupper_def)
qed

text \<open>
  A controller that reports an empty name gets the first patch file of the directory,
  whatever chip it is for: the empty name starts every entry.
\<close>

theorem empty_name_takes_first_patch_file:
  assumes "cstr (fw_patchfile_name w) = []" and "terminated (fw_patchfile_name w)"
    and "terminated (fw_patchfile_path w)" and "cstr (fw_patchfile_path w) = path" and "path \<noteq> []"
    and "\<forall>tr. os_dir E tr path = Some ds" and "\<forall>d\<in>set ds. no_nul d"
    and "find patch_name ds = Some d" and "length d + length path \<le> FW_PATCHFILE_PATH_MAXLEN"
    and "249 \<le> length rest"
  shows "\<exists>blk' w'. hw_config_findpatch E (0 # rest) w = Some (TRUE, blk', w')
    \<and> cstr blk' = patch_string path d"
proof -
  have "matches [] = patch_name" by (auto simp: matches_def caseless_prefix_def)
  then have "first_patch path ds (chip_names []) = Some d"
    using assms(8,9) by (subst chip_names.simps) simp
  then show ?thesis using findpatch_search [OF assms(1-7), of "[]" rest] assms(10) by (auto simp: search_meets_def)
qed

theorem empty_name_takes_first_patch_file_witness:
  "\<exists>blk' w'. hw_config_findpatch patch_env (0 # replicate 249 0) idle_hw = Some (TRUE, blk', w')
    \<and> cstr blk' = patch_string (lit ''/vendor/firmware/'') (lit ''bcm43341.HCD'')"
  by (rule empty_name_takes_first_patch_file [where ds = "[lit ''readme'', lit ''bcm43341.HCD'']"])
    (simp_all add: default_path_string [simplified] patch_env_def sample_env_def patch_name_def
      suffix_to_prefix FW_PATCHFILE_EXTENSION_def toupper_def)

text \<open>
  The settlement delay is the configured one if that is positive, else the tuned one if
  run-time tuning gave one, else 200 ms for the BCM43241 and 100 ms for every other chip.
\<close>

theorem settlement_delay_priority:
  assumes "terminated (chip_name w)"
  shows "look_up_fw_settlement_delay C w = Some
    (if FW_PATCH_SETTLEMENT_DELAY_MS C \<noteq> 0 then FW_PATCH_SETTLEMENT_DELAY_MS C
     else if VENDOR_LIB_RUNTIME_TUNING_ENABLED C \<and> 0 \<le> fw_patch_settlement_delay w
     then word_of_int (fw_patch_settlement_delay w)
     else if sublist (lit ''BCM43241'') (cstr (chip_name w)) then 200 else 100)"
  using assms strstr_isSubstring [of "cstr (chip_name w)" "lit ''BCM43241''"]
  by (auto simp: look_up_fw_settlement_delay_def fw_settlement_table_def word_neq_0_conv
        word_gt_0_no)

theorem settlement_delay_priority_witness:
  "look_up_fw_settlement_delay default_cfg (set_chip_name (lit ''BCM43241B0'' @ replicate 22 0) idle_hw) =
    Some (if FW_PATCH_SETTLEMENT_DELAY_MS default_cfg \<noteq> 0 then FW_PATCH_SETTLEMENT_DELAY_MS default_cfg
     else if VENDOR_LIB_RUNTIME_TUNING_ENABLED default_cfg \<and> 0 \<le> fw_patch_settlement_delay idle_hw
     then word_of_int (fw_patch_settlement_delay idle_hw)
     else if sublist (lit ''BCM43241'') (cstr (lit ''BCM43241B0'' @ replicate 22 0)) then 200 else 100)"
  using settlement_delay_priority [of "set_chip_name (lit ''BCM43241B0'' @ replicate 22 0) idle_hw" default_cfg]
  by (simp add: terminated_def)

end
