(* ===== verification/HwConfig.thy ===== *)
theory HwConfig
  imports HwFw
begin

text \<open>
  hardware.c, second part: the controller initialization. \<^verbatim>\<open>hw_config_start\<close> sends the first
  reset; every later step is taken by \<^verbatim>\<open>hw_config_cback\<close> on a command-complete event, one
  definition per case of its switch. A handler takes the event and the new command buffer and
  returns \<^verbatim>\<open>is_proceeding\<close>.
\<close>

section \<open>Commands\<close>

abbreviation HCI_RESET :: u16 where "HCI_RESET \<equiv> 0x0C03"
abbreviation HCI_VSC_WRITE_UART_CLOCK_SETTING :: u16 where "HCI_VSC_WRITE_UART_CLOCK_SETTING \<equiv> 0xFC45"
abbreviation HCI_VSC_UPDATE_BAUDRATE :: u16 where "HCI_VSC_UPDATE_BAUDRATE \<equiv> 0xFC18"
abbreviation HCI_READ_LOCAL_NAME :: u16 where "HCI_READ_LOCAL_NAME \<equiv> 0x0C14"
abbreviation HCI_VSC_DOWNLOAD_MINIDRV :: u16 where "HCI_VSC_DOWNLOAD_MINIDRV \<equiv> 0xFC2E"
abbreviation HCI_VSC_WRITE_BD_ADDR :: u16 where "HCI_VSC_WRITE_BD_ADDR \<equiv> 0xFC01"
abbreviation HCI_VSC_LAUNCH_RAM :: u16 where "HCI_VSC_LAUNCH_RAM \<equiv> 0xFC4E"
abbreviation HCI_READ_LOCAL_BDADDR :: u16 where "HCI_READ_LOCAL_BDADDR \<equiv> 0x1009"

text \<open>The pattern of every case that sends a command: write opcode, parameter length and
  parameters, set the length and the next state, transmit. The written buffer is returned too.\<close>

definition send_cfg ::
  "env \<Rightarrow> u16 \<Rightarrow> bytes \<Rightarrow> hw_state \<Rightarrow> hc_hdr \<Rightarrow> 'a hw_world_scheme \<Rightarrow> (u8 \<times> hc_hdr \<times> 'a hw_world_scheme) option" where
  "send_cfg E opcode params next_state b w =
     do { b \<leftarrow> put_cmd opcode params b;
          let b = b\<lparr>hb_len := of_nat (HCI_CMD_PREAMBLE_SIZE + length params)\<rparr>;
          let w = set_cfg_state next_state w;
          (r, w) \<leftarrow> hc_xmit E opcode b CB_hw_config w;
          Some (r, b, w) }"

definition hw_config_set_bdaddr ::
  "env \<Rightarrow> hc_hdr \<Rightarrow> 'a hw_world_scheme \<Rightarrow> (u8 \<times> 'a hw_world_scheme) option" where
  "hw_config_set_bdaddr E b w =
     do { let a = vnd_local_bd_addr w;
          _ \<leftarrow> ensure (length a = 6);
          (r, b, w) \<leftarrow> send_cfg E HCI_VSC_WRITE_BD_ADDR [a ! 5, a ! 4, a ! 3, a ! 2, a ! 1, a ! 0]
                         HW_CFG_SET_BD_ADDR b w;
          Some (r, w) }"

definition hw_config_read_bdaddr ::
  "env \<Rightarrow> hc_hdr \<Rightarrow> 'a hw_world_scheme \<Rightarrow> (u8 \<times> 'a hw_world_scheme) option" where
  "hw_config_read_bdaddr E b w =
     do { (r, b, w) \<leftarrow> send_cfg E HCI_READ_LOCAL_BDADDR [] HW_CFG_READ_BD_ADDR b w; Some (r, w) }"

text \<open>\<^verbatim>\<open>if (hw_cfg_cb.fw_fd != -1) { close; fw_fd = -1; }\<close>\<close>

definition close_fw :: "'a hw_world_scheme \<Rightarrow> 'a hw_world_scheme" where
  "close_fw w = (if fw_fd_of w \<noteq> - 1 then set_fw_fd (- 1) (log (CloseEv (fw_fd_of w)) w) else w)"

text \<open>The end of a completed configuration.\<close>

definition hw_config_complete ::
  "hc_hdr \<Rightarrow> 'a hw_world_scheme \<Rightarrow> (u8 \<times> 'a hw_world_scheme) option" where
  "hw_config_complete b w =
     do { w \<leftarrow> hc_dealloc (hb_id b) w;
          w \<leftarrow> notify (FwcfgCbEv BT_VND_OP_RESULT_SUCCESS) w;
          let w = set_cfg_state HW_CFG_NONE w;
          Some (TRUE, close_fw w) }"

section \<open>The cases of the switch\<close>

definition set_target_baud :: "buildcfg \<Rightarrow> 'a hw_world_scheme \<Rightarrow> 'a hw_world_scheme" where
  "set_target_baud C w =
     userial_vendor_set_baud (line_speed_to_userial_baud (UART_TARGET_BAUD_RATE C)) w"

definition cfg_uart_baud_1 ::
  "buildcfg \<Rightarrow> env \<Rightarrow> hc_hdr \<Rightarrow> 'a hw_world_scheme \<Rightarrow> (u8 \<times> 'a hw_world_scheme) option" where
  "cfg_uart_baud_1 C E b w =
     do { (r, b, w) \<leftarrow> send_cfg E HCI_READ_LOCAL_NAME [] HW_CFG_READ_LOCAL_NAME b (set_target_baud C w);
          Some (r, w) }"

text \<open>The loop that turns the name into capitals: it runs over the first 32 bytes and from there
  to the first NUL; running off the event buffer has no defined result.\<close>

fun upper_loop :: "nat \<Rightarrow> bytes \<Rightarrow> bytes option" where
  "upper_loop i [] = None"
| "upper_loop i (c # s) =
     (if i < LOCAL_NAME_BUFFER_LEN \<or> c \<noteq> 0
      then do { s \<leftarrow> upper_loop (Suc i) s; Some (toupper c # s) } else Some (c # s))"

text \<open>From the name in the event to the offset of the chip name in it, the event memory after the
  loop, and the new \<^verbatim>\<open>local_chip_name\<close>.\<close>

definition identify_chip :: "buildcfg \<Rightarrow> bytes \<Rightarrow> bytes \<Rightarrow> (nat \<times> bytes \<times> bytes) option" where
  "identify_chip C blk chip =
     do { blk \<leftarrow> upper_loop 0 blk;
          _ \<leftarrow> ensure (terminated blk);
          let name = cstr blk;
          let unknown = (0, blk, strncpy_bytes (lit ''UNKNOWN'') (LOCAL_NAME_BUFFER_LEN - 1) @ [0]);
          case strstr name (lit ''BCM'') of
            Some k \<Rightarrow> Some (k, blk, strncpy_bytes (drop k name) (LOCAL_NAME_BUFFER_LEN - 1) @ [0])
          | None \<Rightarrow>
              if \<not> USE_BLUETOOTH_BCM4343 C then Some unknown
              else case strstr name (lit ''4343'') of
                None \<Rightarrow> Some unknown
              | Some k \<Rightarrow>
                  do { let text = take (LOCAL_NAME_BUFFER_LEN - 2) (lit ''BCM'' @ drop k name);
                       chip \<leftarrow> strcpy chip text;
                       blk \<leftarrow> store k (strncpy_bytes text (LOCAL_NAME_BUFFER_LEN - 1)) blk;
                       Some (k, blk, chip[LOCAL_NAME_BUFFER_LEN - 1 := 0]) } }"

definition open_patch_file ::
  "env \<Rightarrow> bytes \<Rightarrow> hc_hdr \<Rightarrow> 'a hw_world_scheme \<Rightarrow> (u8 \<times> hc_hdr \<times> 'a hw_world_scheme) option" where
  "open_patch_file E path b w =
     do { _ \<leftarrow> ensure (terminated path);
          let (fd, w) = sys_open E (cstr path) O_RDONLY w;
          let w = set_fw_fd fd w;
          if fd = - 1 then Some (FALSE, b, w)
          else send_cfg E HCI_VSC_DOWNLOAD_MINIDRV [] HW_CFG_DL_MINIDRIVER b w }"

definition cfg_read_local_name ::
  "buildcfg \<Rightarrow> env \<Rightarrow> evt \<Rightarrow> hc_hdr \<Rightarrow> 'a hw_world_scheme \<Rightarrow> (u8 \<times> 'a hw_world_scheme) option" where
  "cfg_read_local_name C E e b w =
     do { (off, blk, chip) \<leftarrow> identify_chip C (drop 6 (ev_payload e)) (chip_name w);
          let w = set_chip_name chip w;
          (status, path, w) \<leftarrow> hw_config_findpatch E (drop off blk) w;
          (r, b, w) \<leftarrow> (if status = TRUE then open_patch_file E path b w else Some (FALSE, b, w));
          if r = FALSE then hw_config_set_bdaddr E b w else Some (r, w) }"

text \<open>One record of the patch file: three bytes of header, then as many as the header says. The
  result is the filled buffer, or \<^verbatim>\<open>None\<close> when the file has no further record, is cut or
  cannot be read, or the controller has just launched its RAM; the memory written until then is
  returned in both cases.\<close>

definition read_record ::
  "env \<Rightarrow> u16 \<Rightarrow> hc_hdr \<Rightarrow> 'a hw_world_scheme \<Rightarrow> (bool \<times> hc_hdr \<times> 'a hw_world_scheme) option" where
  "read_record E opcode b w =
     do { let (hdr, w) = sys_read E (fw_fd_of w) HCI_CMD_PREAMBLE_SIZE w;
          case hdr of
            None \<Rightarrow> Some (False, b, w)
          | Some bs \<Rightarrow>
              do { b \<leftarrow> put_at 0 bs b;
                   if length bs < HCI_CMD_PREAMBLE_SIZE \<or> opcode = HCI_VSC_LAUNCH_RAM
                   then Some (False, b, w)
                   else do {
                     let b = b\<lparr>hb_len := of_nat (length bs)\<rparr>;
                     let (body, w) = sys_read E (fw_fd_of w) (unat (hb_data b ! 2)) w;
                     case body of
                       None \<Rightarrow> Some (False, b, w)
                     | Some bs2 \<Rightarrow>
                         do { b \<leftarrow> put_at HCI_CMD_PREAMBLE_SIZE bs2 b;
                              Some (True, b\<lparr>hb_len := hb_len b + of_nat (length bs2)\<rparr>, w) } } } }"

definition finish_download ::
  "buildcfg \<Rightarrow> env \<Rightarrow> hc_hdr \<Rightarrow> 'a hw_world_scheme \<Rightarrow> (u8 \<times> 'a hw_world_scheme) option" where
  "finish_download C E b w =
     do { let w = userial_vendor_set_baud USERIAL_BAUD_115200 w;
          let w = set_baud_2 TRUE w;
          delay \<leftarrow> look_up_fw_settlement_delay C w;
          w \<leftarrow> ms_delay E delay w;
          (r, b, w) \<leftarrow> send_cfg E HCI_RESET [] HW_CFG_START b w;
          Some (r, w) }"

definition cfg_dl_fw_patch ::
  "buildcfg \<Rightarrow> env \<Rightarrow> u16 \<Rightarrow> hc_hdr \<Rightarrow> 'a hw_world_scheme \<Rightarrow> (u8 \<times> 'a hw_world_scheme) option" where
  "cfg_dl_fw_patch C E opcode b w =
     (if 0 \<le> fw_fd_of w
      then do {
        (sent, b, w) \<leftarrow> read_record E opcode b w;
        if sent then hc_xmit E (u16_of (hb_data b ! 0) (hb_data b ! 1)) b CB_hw_config w
        else finish_download C E b (set_fw_fd (- 1) (log (CloseEv (fw_fd_of w)) w)) }
      else finish_download C E b w)"

definition cfg_dl_minidriver ::
  "buildcfg \<Rightarrow> env \<Rightarrow> u16 \<Rightarrow> hc_hdr \<Rightarrow> 'a hw_world_scheme \<Rightarrow> (u8 \<times> 'a hw_world_scheme) option" where
  "cfg_dl_minidriver C E opcode b w =
     do { w \<leftarrow> ms_delay E 50 w; cfg_dl_fw_patch C E opcode b (set_cfg_state HW_CFG_DL_FW_PATCH w) }"

definition cfg_uart_clock ::
  "buildcfg \<Rightarrow> env \<Rightarrow> hc_hdr \<Rightarrow> 'a hw_world_scheme \<Rightarrow> (u8 \<times> 'a hw_world_scheme) option" where
  "cfg_uart_clock C E b w =
     do { (r, b, w) \<leftarrow> send_cfg E HCI_VSC_UPDATE_BAUDRATE (0 # 0 # le32 (UART_TARGET_BAUD_RATE C))
            (if f_set_baud_2 (hw_cfg_cb w) \<noteq> FALSE then HW_CFG_SET_UART_BAUD_2 else HW_CFG_SET_UART_BAUD_1) b w;
          Some (r, w) }"

definition cfg_start ::
  "buildcfg \<Rightarrow> env \<Rightarrow> hc_hdr \<Rightarrow> 'a hw_world_scheme \<Rightarrow> (u8 \<times> 'a hw_world_scheme) option" where
  "cfg_start C E b w =
     (if 3000000 < UART_TARGET_BAUD_RATE C
      then do { (r, b, w) \<leftarrow> send_cfg E HCI_VSC_WRITE_UART_CLOCK_SETTING [1] HW_CFG_SET_UART_CLOCK b w;
                Some (r, w) }
      else cfg_uart_clock C E b w)"

definition cfg_uart_baud_2 ::
  "buildcfg \<Rightarrow> env \<Rightarrow> hc_hdr \<Rightarrow> 'a hw_world_scheme \<Rightarrow> (u8 \<times> 'a hw_world_scheme) option" where
  "cfg_uart_baud_2 C E b w =
     do { let w = set_target_baud C w;
          (r, w) \<leftarrow> (if USE_CONTROLLER_BDADDR C then hw_config_read_bdaddr E b w
                       else hw_config_set_bdaddr E b w);
          if r = TRUE then Some (r, w) else hw_config_complete b w }"

definition cfg_read_bd_addr ::
  "env \<Rightarrow> evt \<Rightarrow> hc_hdr \<Rightarrow> 'a hw_world_scheme \<Rightarrow> (u8 \<times> 'a hw_world_scheme) option" where
  "cfg_read_bd_addr E e b w =
     do { _ \<leftarrow> ensure (12 \<le> length (ev_payload e));
          if take 6 (drop 6 (ev_payload e)) = replicate 6 0
          then do { (r, w) \<leftarrow> hw_config_set_bdaddr E b w;
                    if r = TRUE then Some (r, w) else hw_config_complete b w }
          else hw_config_complete b w }"

definition hw_config_dispatch ::
  "buildcfg \<Rightarrow> env \<Rightarrow> evt \<Rightarrow> u16 \<Rightarrow> hc_hdr \<Rightarrow> 'a hw_world_scheme \<Rightarrow> (u8 \<times> 'a hw_world_scheme) option" where
  "hw_config_dispatch C E e opcode b w =
     (case cfg_of w of
        HW_CFG_SET_UART_BAUD_1 \<Rightarrow> cfg_uart_baud_1 C E b w
      | HW_CFG_READ_LOCAL_NAME \<Rightarrow> cfg_read_local_name C E e b w
      | HW_CFG_DL_MINIDRIVER \<Rightarrow> cfg_dl_minidriver C E opcode b w
      | HW_CFG_DL_FW_PATCH \<Rightarrow> cfg_dl_fw_patch C E opcode b w
      | HW_CFG_START \<Rightarrow> cfg_start C E b w
      | HW_CFG_SET_UART_CLOCK \<Rightarrow> cfg_uart_clock C E b w
      | HW_CFG_SET_UART_BAUD_2 \<Rightarrow> cfg_uart_baud_2 C E b w
      | HW_CFG_SET_BD_ADDR \<Rightarrow> hw_config_complete b w
      | HW_CFG_READ_BD_ADDR \<Rightarrow>
          (if USE_CONTROLLER_BDADDR C then cfg_read_bd_addr E e b w else Some (FALSE, w))
      | HW_CFG_NONE \<Rightarrow> Some (FALSE, w))"

section \<open>The callback and the start\<close>

definition hw_config_abort ::
  "hc_hdr option \<Rightarrow> 'a hw_world_scheme \<Rightarrow> 'a hw_world_scheme option" where
  "hw_config_abort p_buf w =
     do { w \<leftarrow> (if bt_vendor_cbacks w
                 then do { w \<leftarrow> (case p_buf of None \<Rightarrow> Some w | Some b \<Rightarrow> hc_dealloc (hb_id b) w);
                           notify (FwcfgCbEv BT_VND_OP_RESULT_FAIL) w }
                 else Some w);
          Some (set_cfg_state HW_CFG_NONE (close_fw w)) }"

definition hw_config_cback ::
  "buildcfg \<Rightarrow> env \<Rightarrow> evt \<Rightarrow> 'a hw_world_scheme \<Rightarrow> 'a hw_world_scheme option" where
  "hw_config_cback C E e w =
     do { status \<leftarrow> evt_status e;
          opcode \<leftarrow> evt_opcode e;
          (p_buf, w) \<leftarrow> alloc_if (status = 0 \<and> bt_vendor_cbacks w) E HCI_CMD_MAX_LEN w;
          (is_proceeding, w) \<leftarrow>
            (case p_buf of
               None \<Rightarrow> Some (FALSE, w)
             | Some b \<Rightarrow> hw_config_dispatch C E e opcode (set_hdr E 0 b) w);
          w \<leftarrow> dealloc_if_cbacks (ev_id e) w;
          if is_proceeding = FALSE then hw_config_abort p_buf w else Some w }"

definition hw_config_start :: "env \<Rightarrow> 'a hw_world_scheme \<Rightarrow> 'a hw_world_scheme option" where
  "hw_config_start E w =
     do { let w = w\<lparr>hw_cfg_cb := (hw_cfg_cb w)\<lparr>cfg_state := HW_CFG_NONE, fw_fd := - 1, f_set_baud_2 := FALSE\<rparr>\<rparr>;
          (p_buf, w) \<leftarrow> alloc_if (bt_vendor_cbacks w) E HCI_CMD_PREAMBLE_SIZE w;
          case p_buf of
            Some b \<Rightarrow>
              do { (r, b, w) \<leftarrow> send_cfg E HCI_RESET [] HW_CFG_START (set_hdr E 3 b) w; Some w }
          | None \<Rightarrow> notify_if_cbacks (FwcfgCbEv BT_VND_OP_RESULT_FAIL) w }"

section \<open>What every step of the configuration keeps\<close>

text \<open>The state the configuration does not write: everything but its own block and the two line
  speeds of the port.\<close>

definition frame_of where
  "frame_of w = (bt_vendor_cbacks w, vnd_local_bd_addr w, fw_patchfile_path w, fw_patchfile_name w,
     fw_patch_settlement_delay w, (bt_sco_param w, bt_sco_i2spcm_param w, sco_bus_clock_rate w,
     sco_bus_wbs_clock_rate w), (upio_state w, rfkill_id w, bt_emul_enable w, rfkill_state_path w,
     lpm_proc_cb w), fd_of w, us_port_name (vnd_userial w),
     (termios_of w)\<lparr>c_ispeed := B0, c_ospeed := B0\<rparr>)"

lemma frame_of_simps [simp]:
  "frame_of (log e w) = frame_of w"
  "frame_of (w\<lparr>hw_cfg_cb := c\<rparr>) = frame_of w"
  "frame_of (w\<lparr>trace := t\<rparr>) = frame_of w"
  "frame_of (userial_vendor_set_baud b w) = frame_of w"
  by (simp_all add: frame_of_def userial_vendor_set_baud_def Let_def split: prod.splits)

text \<open>The line speeds, and what a step makes of them that sets the port to a speed, or to none.\<close>

definition speeds :: "'a us_world_scheme \<Rightarrow> tcio \<times> tcio" where
  "speeds w = (c_ispeed (termios_of w), c_ospeed (termios_of w))"

definition retuned :: "tcio option \<Rightarrow> tcio \<times> tcio \<Rightarrow> tcio \<times> tcio" where
  "retuned q sp = (case q of None \<Rightarrow> sp | Some s \<Rightarrow> (s, s))"

definition target_speed :: "buildcfg \<Rightarrow> tcio" where
  "target_speed C = speed_for (UART_TARGET_BAUD_RATE C)"

lemma retuned_simps [simp]: "retuned None sp = sp" "retuned (Some s) sp = (s, s)"
  by (simp_all add: retuned_def)

lemma speeds_simps [simp]:
  "speeds (log e w) = speeds w" "speeds (w\<lparr>hw_cfg_cb := c\<rparr>) = speeds w" "speeds (w\<lparr>trace := t\<rparr>) = speeds w"
  "speeds (set_target_baud C w) = (target_speed C, target_speed C)"
  "speeds (userial_vendor_set_baud USERIAL_BAUD_115200 w) = (B115200, B115200)"
  by (simp_all add: speeds_def log_def set_target_baud_def userial_vendor_set_baud_def target_speed_def
        translated_speed Let_def) (simp_all add: userial_to_tcio_baud_def)

lemma frame_logs: "logs_only P w w' \<Longrightarrow> frame_of w' = frame_of w \<and> hw_cfg_cb w' = hw_cfg_cb w"
  by (auto simp: logs_only_def)

lemma logs_only_speed: "logs_only P w w' \<Longrightarrow> speeds w' = speeds w" for w :: "'a hw_world_scheme"
  by (auto simp: logs_only_def)

lemma set_baud_cfg [simp]:
  "hw_cfg_cb (userial_vendor_set_baud b w) = hw_cfg_cb w"
  "hw_cfg_cb (w\<lparr>trace := t\<rparr>) = hw_cfg_cb w"
  by (simp_all add: userial_vendor_set_baud_def Let_def split: prod.splits)

lemma set_target_simps [simp]:
  "frame_of (set_target_baud C w) = frame_of w" "hw_cfg_cb (set_target_baud C w) = hw_cfg_cb w"
  by (simp_all add: set_target_baud_def)

lemma frame_cbacks:
  "frame_of w' = frame_of w \<Longrightarrow> bt_vendor_cbacks w' = bt_vendor_cbacks w
     \<and> vnd_local_bd_addr w' = vnd_local_bd_addr w"
  by (simp add: frame_of_def)

lemma effects_cfg [simp]:
  "effects w (v\<lparr>hw_cfg_cb := c\<rparr>) es \<longleftrightarrow> effects w v es"
  "effects (w\<lparr>hw_cfg_cb := c\<rparr>) v es \<longleftrightarrow> effects w v es"
  by (simp_all add: effects_def)

lemma set_baud_effects: "effects w (userial_vendor_set_baud b w) []"
  by (auto simp: userial_vendor_set_baud_def effects_def Let_def split: prod.splits)

lemma set_target_effects: "effects w (set_target_baud C w) []"
  by (simp add: set_target_baud_def set_baud_effects)

section \<open>Sending\<close>

definition hdr_ok :: "env \<Rightarrow> hc_hdr \<Rightarrow> bool" where
  "hdr_ok E b \<longleftrightarrow> hb_event b = MSG_STACK_TO_HC_HCI_CMD E \<and> hb_offset b = 0 \<and> hb_layer b = 0"

lemma hdr_ok_set_hdr [simp]:
  "hdr_ok E (set_hdr E n b)" "hb_id (set_hdr E n b) = hb_id b" "hb_data (set_hdr E n b) = hb_data b"
  "hdr_ok E (b\<lparr>hb_len := l\<rparr>) = hdr_ok E b"
  by (simp_all add: hdr_ok_def set_hdr_def)

text \<open>A well-formed command with given parameters, in the buffer at address n; r is an
  answer \<^verbatim>\<open>xmit_cb\<close> may give to it.\<close>

definition cfg_command :: "env \<Rightarrow> nat \<Rightarrow> u16 \<Rightarrow> bytes \<Rightarrow> hc_hdr \<Rightarrow> u8 \<Rightarrow> bool" where
  "cfg_command E n opcode params b r \<longleftrightarrow>
     hb_id b = n \<and> wf_packet E opcode b \<and> packet_params b = params
     \<and> xmit_answers E opcode b r"

lemma xmit_answer: "hc_xmit E opc b CB_hw_config w = Some (r, w') \<Longrightarrow> xmit_answers E opc b r"
  by (auto simp: hc_xmit_Some xmit_answers_def)

lemma send_cfg_run:
  assumes "send_cfg E opc params s b w = Some (r, b', w')" and "hdr_ok E b" and "length params < 256"
  shows "w' = log (XmitEv opc b' CB_hw_config r) (set_cfg_state s w)"
    and "cfg_command E (hb_id b) opc params b' r" and "hdr_ok E b'" and "bt_vendor_cbacks w"
    and "hb_id b' = hb_id b"
proof -
  obtain b1 where b1: "put_cmd opc params b = Some b1"
    and b': "b' = b1\<lparr>hb_len := of_nat (3 + length params)\<rparr>"
    and x: "hc_xmit E opc b' CB_hw_config (set_cfg_state s w) = Some (r, w')"
    using assms(1) by (auto simp: send_cfg_def Let_def elim!: bind_SomeE)
  note k = put_cmd_keeps [OF b1]
  have l: "unat (of_nat (3 + length params) :: u16) = 3 + length params"
    using assms(3) by (simp only: unat_of_nat, simp add: take_bit_nat_eq_self)
  have b2: "put_cmd opc params (b\<lparr>hb_len := of_nat (3 + length params)\<rparr>) = Some b'"
    using b1 by (auto simp: put_cmd_def put_at_Some b')
  have "wf_packet E opc b'" and "packet_params b' = params"
    using put_cmd_wf [OF b2 assms(3)] l assms(2) by (simp_all add: hdr_ok_def)
  moreover show "hb_id b' = hb_id b" and "hdr_ok E b'"
    using k assms(2) by (simp_all add: b' hdr_ok_def)
  ultimately show "cfg_command E (hb_id b) opc params b' r"
    using xmit_answer [OF x] by (simp add: cfg_command_def)
  show "w' = log (XmitEv opc b' CB_hw_config r) (set_cfg_state s w)" and "bt_vendor_cbacks w"
    using x by (simp_all add: hc_xmit_Some)
qed

lemma effects_one: "\<not> calm e \<Longrightarrow> effects w (log e w) [e]"
  using effects_log [of w w "[]" e] by simp

lemma alloc_run:
  assumes "hc_alloc E n w = Some (r, w')"
  shows "effects w w' [AllocEv (BT_HC_HDR_SIZE E + n) (map_option hb_id r)]"
    and "frame_of w' = frame_of w" and "hw_cfg_cb w' = hw_cfg_cb w"
    and "\<forall>b. r = Some b \<longrightarrow> length (hb_data b) = n" and "speeds w' = speeds w"
  using assms by (cases rule: hc_alloc_SomeE; simp add: effects_one)+

lemma send_cfg_effects:
  assumes "send_cfg E opc params s b w = Some (r, b', w')" and "hdr_ok E b" and "length params < 256"
  shows "effects w w' [XmitEv opc b' CB_hw_config r]"
    and "frame_of w' = frame_of w" and "hw_cfg_cb w' = (hw_cfg_cb w)\<lparr>cfg_state := s\<rparr>"
    and "speeds w' = speeds w"
proof -
  note w' = send_cfg_run(1) [OF assms]
  have "effects (set_cfg_state s w) (log (XmitEv opc b' CB_hw_config r) (set_cfg_state s w))
      [XmitEv opc b' CB_hw_config r]"
    by (rule effects_one) simp
  then show "effects w w' [XmitEv opc b' CB_hw_config r]" unfolding w' by simp
  show "frame_of w' = frame_of w" "hw_cfg_cb w' = (hw_cfg_cb w)\<lparr>cfg_state := s\<rparr>" "speeds w' = speeds w"
    unfolding w' by simp_all
qed

end
