(* ===== verification/ChipName.thy ===== *)
theory ChipName
  imports HwConfig
begin

text \<open>The name of the controller: what the loop that capitalises it does and when it stays inside
  the event, the chip name cut out of it, and the room the search for a patch file needs behind it.\<close>

section \<open>The name of the chip\<close>

lemma upper_loop_Some_iff:
  "upper_loop i blk = Some blk' \<longleftrightarrow> (\<exists>j < length blk. 32 \<le> i + j \<and> blk ! j = 0
      \<and> (\<forall>k<j. 32 \<le> i + k \<longrightarrow> blk ! k \<noteq> 0) \<and> blk' = map toupper (take j blk) @ drop j blk)"
proof (induction i blk arbitrary: blk' rule: upper_loop.induct)
  case (2 i c s)
  show ?case (is "_ \<longleftrightarrow> (\<exists>j < _. ?P j)")
  proof (cases "i < 32 \<or> c \<noteq> 0")
    case True
    then have no0: "\<not> ?P 0" by auto
    have shift: "?P (Suc j) \<longleftrightarrow> 32 \<le> Suc i + j \<and> s ! j = 0 \<and> (\<forall>k<j. 32 \<le> Suc i + k \<longrightarrow> s ! k \<noteq> 0)
        \<and> blk' = toupper c # map toupper (take j s) @ drop j s" for j
      using True by (auto simp: All_less_Suc2)
    have "(\<exists>j < length (c # s). ?P j) \<longleftrightarrow> (\<exists>j < length s. ?P (Suc j))"
      using no0 unfolding length_Cons Ex_less_Suc2 by blast
    with True 2 show ?thesis unfolding shift by (auto simp: option_conv)
  next
    case False
    then have z: "?P 0 \<longleftrightarrow> blk' = c # s" by simp
    from False have "\<not> ?P (Suc j)" for j by (auto simp: All_less_Suc2)
    with z have "(\<exists>j < length (c # s). ?P j) \<longleftrightarrow> blk' = c # s"
      unfolding length_Cons Ex_less_Suc2 by blast
    with False show ?thesis by auto
  qed
qed simp

lemma upper_loop_cstr:
  assumes "upper_loop 0 blk = Some blk'"
  shows "terminated blk'" and "cstr blk' = map toupper (cstr blk)"
proof -
  from assms obtain j where j: "j < length blk" "32 \<le> j" "blk ! j = 0"
    and blk': "blk' = map toupper (take j blk) @ drop j blk"
    by (auto simp: upper_loop_Some_iff)
  have d: "drop j blk = 0 # drop (Suc j) blk" using j by (simp add: Cons_nth_drop_Suc [symmetric])
  show "terminated blk'" by (simp add: blk' d)
  have "cstr (map toupper (take j blk) @ 0 # t) = map toupper (cstr (take j blk @ 0 # t))" for t
    by (induction "take j blk" arbitrary: j blk t) (auto simp: cstr_def takeWhile_append takeWhile_map o_def)
  moreover have "blk = take j blk @ 0 # drop (Suc j) blk" using d by (metis append_take_drop_id)
  ultimately show "cstr blk' = map toupper (cstr blk)" unfolding blk' d by metis
qed

lemma capitalising_defined: "upper_loop 0 blk \<noteq> None \<longleftrightarrow> 0 \<in> set (drop 32 blk)"
proof -
  have "upper_loop 0 blk \<noteq> None \<longleftrightarrow> (\<exists>j < length blk. 32 \<le> j \<and> blk ! j = 0
      \<and> (\<forall>k<j. 32 \<le> k \<longrightarrow> blk ! k \<noteq> 0))"
    using upper_loop_Some_iff [of 0 blk] by auto
  also have "\<dots> \<longleftrightarrow> (\<exists>j < length blk. 32 \<le> j \<and> blk ! j = 0)"
  proof
    assume ex: "\<exists>j < length blk. 32 \<le> j \<and> blk ! j = 0"
    define j where "j = (LEAST j. j < length blk \<and> 32 \<le> j \<and> blk ! j = 0)"
    have "j < length blk \<and> 32 \<le> j \<and> blk ! j = 0" unfolding j_def by (rule LeastI_ex) (use ex in auto)
    moreover have "\<not> (k < length blk \<and> 32 \<le> k \<and> blk ! k = 0)" if "k < j" for k
      using not_less_Least that unfolding j_def by blast
    ultimately show "\<exists>j < length blk. 32 \<le> j \<and> blk ! j = 0 \<and> (\<forall>k<j. 32 \<le> k \<longrightarrow> blk ! k \<noteq> 0)"
      by (intro exI [of _ j]) auto
  qed auto
  also have "\<dots> \<longleftrightarrow> 0 \<in> set (drop 32 blk)"
  proof
    assume "\<exists>j < length blk. 32 \<le> j \<and> blk ! j = 0"
    then obtain j where "j < length blk" "32 \<le> j" "blk ! j = 0" by blast
    then have "j - 32 < length (drop 32 blk)" "drop 32 blk ! (j - 32) = 0" by simp_all
    then show "0 \<in> set (drop 32 blk)" by (metis nth_mem)
  next
    assume "0 \<in> set (drop 32 blk)"
    then obtain k where "k < length blk - 32" "blk ! (32 + k) = 0" by (auto simp: in_set_conv_nth)
    then show "\<exists>j < length blk. 32 \<le> j \<and> blk ! j = 0" by (intro exI [of _ "32 + k"]) simp
  qed
  finally show ?thesis .
qed

text \<open>
  The loop that capitalises the controller's name only ends inside the event buffer when
  the name has a NUL at byte 32 or later; then exactly the bytes before the first such NUL are
  capitalised. A name that fills its field, or one that is padded with anything but a NUL from
  byte 32 on, makes it run past the buffer.
\<close>

theorem capitalising_needs_late_nul:
  "case upper_loop 0 blk of
     None \<Rightarrow> 0 \<notin> set (drop 32 blk)
   | Some blk' \<Rightarrow> 0 \<in> set (drop 32 blk) \<and> length blk' = length blk
       \<and> cstr blk' = map toupper (cstr blk)
       \<and> list_all2 (\<lambda>b b'. b' = b \<or> b' = toupper b) blk blk'"
proof (cases "upper_loop 0 blk")
  case None
  then show ?thesis using capitalising_defined [of blk] by simp
next
  case (Some blk')
  with upper_loop_Some_iff [of 0 blk blk'] have "list_all2 (\<lambda>b b'. b' = b \<or> b' = toupper b) blk blk'"
    by (auto simp: list_all2_conv_all_nth nth_append)
  with Some show ?thesis
    using capitalising_defined [of blk] upper_loop_cstr(2) [OF Some] by (auto dest: list_all2_lengthD)
qed

text \<open>Where the chip name starts in the event, and where the search for a patch file writes.\<close>

definition chip_offset :: "buildcfg \<Rightarrow> bytes \<Rightarrow> nat" where
  "chip_offset C name =
     (case strstr name (lit ''BCM'') of
        Some j \<Rightarrow> j
      | None \<Rightarrow> if USE_BLUETOOTH_BCM4343 C
                then (case strstr name (lit ''4343'') of Some j \<Rightarrow> j | None \<Rightarrow> 0) else 0)"

lemma terminated_drop_prefix: "k \<le> length (cstr blk) \<Longrightarrow> terminated blk \<Longrightarrow> terminated (drop k blk)"
  by (erule terminated_split, erule ssubst) simp

lemma padded_terminated: "length s < n \<Longrightarrow> terminated (strncpy_bytes s n @ t)"
  by (simp add: strncpy_bytes_def terminated_def)

lemma identify_chip_defined:
  assumes "0 \<in> set (drop 32 blk)" and "chip_offset C (map toupper (cstr blk)) = k"
    and "k + 31 \<le> length blk" and "length chip = LOCAL_NAME_BUFFER_LEN"
  shows "\<exists>blk' chip'. identify_chip C blk chip = Some (k, blk', chip') \<and> length blk' = length blk
    \<and> terminated (drop k blk')"
proof -
  let ?n = "map toupper (cstr blk)"
  obtain u where u: "upper_loop 0 blk = Some u" using capitalising_defined assms(1) by fast
  note uc = upper_loop_cstr [OF u]
  have lu: "length u = length blk" using u by (auto simp: upper_loop_Some_iff)
  have tail: "terminated (drop j u)" if "strstr ?n s = Some j" for j s
    using strstr_Some [OF that] uc by (intro terminated_drop_prefix) auto
  show ?thesis
  proof (cases "strstr ?n (lit ''BCM'') = None \<and> USE_BLUETOOTH_BCM4343 C \<and> strstr ?n (lit ''4343'') \<noteq> None")
    case False
    then show ?thesis
      using assms(2) u uc lu tail
      by (auto simp: identify_chip_def chip_offset_def Let_def split: option.splits if_splits)
  next
    case True
    then have k: "strstr ?n (lit ''4343'') = Some k" using assms(2) by (auto simp: chip_offset_def)
    define snip where "snip = take 30 (lit ''BCM'' @ drop k ?n)"
    have "length snip < 31" "length snip < length chip" using assms(4) by (simp_all add: snip_def)
    then obtain chip1 where c: "strcpy chip snip = Some chip1" by (simp add: strcpy_Some_iff)
    define blk' where "blk' = take k u @ strncpy_bytes snip 31 @ drop (k + 31) u"
    have st: "store k (strncpy_bytes snip 31) u = Some blk'"
      using assms(3) by (simp add: store_def lu blk'_def)
    moreover have "drop k blk' = strncpy_bytes snip 31 @ drop (k + 31) u"
      using assms(3) by (simp add: blk'_def lu)
    then have "terminated (drop k blk')" using \<open>length snip < 31\<close> by (simp only: padded_terminated)
    ultimately show ?thesis
      using True k u uc c store_length [OF st] lu
      by (simp add: identify_chip_def Let_def snip_def numeral_eq_Suc)
  qed
qed

lemma strncpy_cstr: "no_nul s \<Longrightarrow> cstr (strncpy_bytes s n @ [0]) = take n s"
proof -
  assume a: "no_nul s"
  have "strncpy_bytes s n @ [0] = take n s @ 0 # replicate (n - length s) 0"
    by (simp add: strncpy_bytes_def replicate_append_same)
  then show ?thesis using a by (simp add: no_nul_take)
qed

text \<open>From the capitalised name of the controller: the name by which a patch file is searched and the
  one that is recorded. The option for the BCM4343 looks for 4343 when there is no BCM.\<close>

definition searched_name :: "buildcfg \<Rightarrow> bytes \<Rightarrow> bytes" where
  "searched_name C n =
     (case strstr n (lit ''BCM'') of
        Some j \<Rightarrow> drop j n
      | None \<Rightarrow> (case (if USE_BLUETOOTH_BCM4343 C then strstr n (lit ''4343'') else None) of
          Some j \<Rightarrow> take 30 (lit ''BCM'' @ drop j n)
        | None \<Rightarrow> n))"

definition recorded_name :: "buildcfg \<Rightarrow> bytes \<Rightarrow> bytes" where
  "recorded_name C n =
     (case strstr n (lit ''BCM'') of
        Some j \<Rightarrow> take 31 (drop j n)
      | None \<Rightarrow> (case (if USE_BLUETOOTH_BCM4343 C then strstr n (lit ''4343'') else None) of
          Some j \<Rightarrow> take 30 (lit ''BCM'' @ drop j n)
        | None \<Rightarrow> lit ''UNKNOWN''))"

lemma snippet_string:
  assumes "no_nul s" and "length s \<le> 30"
  shows "cstr (strncpy_bytes s 31 @ t) = s" and "strcpy chip s = Some chip' \<Longrightarrow> cstr (chip'[31 := 0]) = s"
proof -
  obtain n where "31 - length s = Suc n" using assms(2) by (cases "31 - length s") auto
  then show "cstr (strncpy_bytes s 31 @ t) = s" using assms by (simp add: strncpy_bytes_def)
  assume "strcpy chip s = Some chip'"
  then obtain t where "chip' = s @ 0 # t" by (auto simp: strcpy_Some_iff)
  moreover obtain m where "31 - length s = Suc m" using assms(2) by (cases "31 - length s") auto
  ultimately show "cstr (chip'[31 := 0]) = s" using assms by (simp add: list_update_append)
qed

lemma identified:
  assumes "identify_chip C blk chip = Some (k, blk', chip')" and "n = map toupper (cstr blk)"
  shows "k = chip_offset C n \<and> terminated (drop k blk') \<and> cstr (drop k blk') = searched_name C n
    \<and> cstr chip' = recorded_name C n"
proof -
  obtain u where u: "upper_loop 0 blk = Some u"
    using assms(1) by (auto simp: identify_chip_def elim!: bind_SomeE)
  note uc = upper_loop_cstr [OF u, folded assms(2)]
  obtain t where t: "u = n @ 0 # t" using terminated_split [OF uc(1)] uc(2) by metis
  have nn: "no_nul n" by (metis uc(2) cstr_no_nul)
  have dk: "cstr (drop j u) = drop j n" "terminated (drop j u)" if "j \<le> length n" for j
    using that nn by (simp_all add: t no_nul_drop)
  let ?o = "if USE_BLUETOOTH_BCM4343 C then strstr n (lit ''4343'') else None"
  show ?thesis
  proof (cases "strstr n (lit ''BCM'')")
    case (Some j)
    then have "k = j \<and> blk' = u \<and> chip' = strncpy_bytes (drop j n) 31 @ [0]"
      using assms(1) u uc by (auto simp: identify_chip_def Let_def elim!: bind_SomeE)
    moreover have "j \<le> length n" using strstr_Some [OF Some] by simp
    ultimately show ?thesis
      using Some dk strncpy_cstr [OF no_nul_drop [OF nn, of j], of 31]
      by (simp add: searched_name_def recorded_name_def chip_offset_def)
  next
    case None
    show ?thesis
    proof (cases ?o)
      case o: None
      then have "k = 0 \<and> blk' = u \<and> chip' = strncpy_bytes (lit ''UNKNOWN'') 31 @ [0]"
        using assms(1) u uc None by (auto simp: identify_chip_def Let_def elim!: bind_SomeE split: if_splits)
      moreover have "cstr (strncpy_bytes (lit ''UNKNOWN'') 31 @ [0]) = lit ''UNKNOWN''" by (rule snippet_string) simp_all
      moreover have "chip_offset C n = 0" using None o by (auto simp: chip_offset_def split: if_splits)
      ultimately show ?thesis using None o uc by (simp add: searched_name_def recorded_name_def)
    next
      case (Some j)
      then have use: "USE_BLUETOOTH_BCM4343 C" "strstr n (lit ''4343'') = Some j" by (auto split: if_splits)
      define snip where "snip = take 30 (lit ''BCM'' @ drop j n)"
      have snip: "no_nul snip" "length snip \<le> 30"
        unfolding snip_def by (rule no_nul_take, use nn in \<open>simp add: no_nul_drop\<close>) simp
      obtain chip1 where k: "k = j" "strcpy chip snip = Some chip1" "chip' = chip1[31 := 0]"
        "store j (strncpy_bytes snip 31) u = Some blk'"
        using assms(1) u uc None use
        by (auto simp: identify_chip_def Let_def snip_def elim!: bind_SomeE)
      have "length (take j u) = j" using strstr_Some [OF use(2)] by (simp add: t)
      then have d: "drop j blk' = strncpy_bytes snip 31 @ drop (j + length (strncpy_bytes snip 31)) u"
        using k(4) by (simp add: store_Some_iff)
      have "cstr (drop k blk') = snip" "terminated (drop k blk')"
        unfolding k(1) d using snippet_string(1) [OF snip] padded_terminated [of snip 31] snip(2) by simp_all
      moreover have "cstr chip' = snip" unfolding k(3) using snip k(2) by (rule snippet_string(2))
      ultimately show ?thesis
        using None use k(1) by (simp add: searched_name_def recorded_name_def chip_offset_def snip_def)
    qed
  qed
qed

text \<open>
  C24. When the name can be read, the chip name is the part of the capitalised name from its
  first BCM on, recorded up to 31 characters. Without a BCM, and with the option for the BCM4343, it is
  BCM followed by the part from the first 4343 on, 30 characters at most, and is also written over the
  name in the event; without either it is recorded as UNKNOWN, and the search for a patch file
  uses the whole name.
\<close>

theorem chip_name_from_local_name:
  assumes "identify_chip C blk chip = Some (k, blk', chip')" and "n = map toupper (cstr blk)"
  shows "cstr chip' = recorded_name C n \<and> cstr (drop k blk') = searched_name C n \<and> k = chip_offset C n"
  using identified [OF assms] by blast

text \<open>The names of a BCM4330, and of a controller that names itself without BCM.\<close>

lemma sample_chips:
  fixes b :: buildcfg
  defines "b \<equiv> default_cfg\<lparr>USE_BLUETOOTH_BCM4343 := True\<rparr>"
  shows "chip_offset default_cfg (lit ''MY BCM4330'') = 3"
    and "searched_name default_cfg (lit ''MY BCM4330'') = lit ''BCM4330''"
    and "recorded_name default_cfg (lit ''MY BCM4330'') = lit ''BCM4330''"
    and "chip_offset b (lit ''V4343A1'') = 1" and "searched_name b (lit ''V4343A1'') = lit ''BCM4343A1''"
    and "recorded_name b (lit ''V4343A1'') = lit ''BCM4343A1''"
  by (simp_all add: b_def chip_offset_def searched_name_def recorded_name_def)

lemma sample_capitals:
  "lit ''MY BCM4330'' = map toupper (cstr (lit ''my bcm4330'' @ replicate 238 0))"
  "lit ''V4343A1'' = map toupper (cstr (lit ''v4343a1'' @ replicate 241 0))"
  by (simp_all add: cstr_def toupper_def)

theorem chip_name_from_local_name_witness:
  "(\<exists>blk' chip'. identify_chip default_cfg (lit ''my bcm4330'' @ replicate 238 0) (replicate 32 0) = Some (3, blk', chip')
      \<and> cstr chip' = lit ''BCM4330'' \<and> cstr (drop 3 blk') = lit ''BCM4330'')
   \<and> (\<exists>blk' chip'. identify_chip (default_cfg\<lparr>USE_BLUETOOTH_BCM4343 := True\<rparr>)
        (lit ''v4343a1'' @ replicate 241 0) (replicate 32 0) = Some (1, blk', chip')
      \<and> cstr chip' = lit ''BCM4343A1'' \<and> cstr (drop 1 blk') = lit ''BCM4343A1'')"
proof (intro conjI)
  let ?n = "lit ''my bcm4330'' @ replicate 238 0" and ?m = "lit ''v4343a1'' @ replicate 241 0"
    and ?b = "default_cfg\<lparr>USE_BLUETOOTH_BCM4343 := True\<rparr>"
  have n: "0 \<in> set (drop 32 ?n)" "3 + 31 \<le> length ?n" and m: "0 \<in> set (drop 32 ?m)" "1 + 31 \<le> length ?m" by simp_all
  from identify_chip_defined [OF n(1) sample_chips(1) [unfolded sample_capitals] n(2), of "replicate 32 0"]
  obtain blk' chip' where i: "identify_chip default_cfg ?n (replicate 32 0) = Some (3, blk', chip')" by auto
  from chip_name_from_local_name [OF this sample_capitals(1)] i sample_chips
  show "\<exists>blk' chip'. identify_chip default_cfg ?n (replicate 32 0) = Some (3, blk', chip')
      \<and> cstr chip' = lit ''BCM4330'' \<and> cstr (drop 3 blk') = lit ''BCM4330''" by auto
  from identify_chip_defined [OF m(1) sample_chips(4) [unfolded sample_capitals] m(2), of "replicate 32 0"]
  obtain blk' chip' where i: "identify_chip ?b ?m (replicate 32 0) = Some (1, blk', chip')" by auto
  from chip_name_from_local_name [OF this sample_capitals(2)] i sample_chips
  show "\<exists>blk' chip'. identify_chip ?b ?m (replicate 32 0) = Some (1, blk', chip')
      \<and> cstr chip' = lit ''BCM4343A1'' \<and> cstr (drop 1 blk') = lit ''BCM4343A1''" by auto
qed

end
