(* ===== verification/FwProtocol.thy ===== *)
theory FwProtocol
  imports ChipName
begin

text \<open>
  The controller initialization as an abstract state machine, the proof that
  \<^verbatim>\<open>hw_config_cback\<close> implements it, and the properties of the configuration that follow from the
  machine. A machine state is the protocol state, whether the second baud rate change is due,
  and the descriptor of the patch file (-1 when closed). A step is labelled with the significant
  calls it makes, in order, and with the speed it sets the port to, if any. It is driven by the
  event, the library's settings it reads (own address, patch directory, patch file name) and the
  answers of the system.
\<close>

section \<open>The machine\<close>

type_synonym fw_view = "hw_state \<times> bool \<times> int"

definition view :: "'a hw_world_scheme \<Rightarrow> fw_view" where
  "view w = (cfg_of w, f_set_baud_2 (hw_cfg_cb w) \<noteq> FALSE, fw_fd_of w)"

record fw_context =
  cx_addr :: bytes
  cx_dir :: bytes
  cx_file :: bytes

definition context_of :: "'a hw_world_scheme \<Rightarrow> fw_context" where
  "context_of w = \<lparr>cx_addr = vnd_local_bd_addr w, cx_dir = cstr (fw_patchfile_path w),
     cx_file = cstr (fw_patchfile_name w)\<rparr>"

lemma frame_context: "frame_of w' = frame_of w \<Longrightarrow> context_of w' = context_of w"
  by (simp add: frame_of_def context_of_def)

definition closing :: "int \<Rightarrow> event list" where
  "closing fd = (if fd = - 1 then [] else [CloseEv fd])"

abbreviation sent :: "u16 \<Rightarrow> hc_hdr \<Rightarrow> u8 \<Rightarrow> event" where
  "sent opc b r \<equiv> XmitEv opc b CB_hw_config r"

text \<open>The next record of the patch file, as the file system may answer: a header of three bytes, and as
  much of the payload it announces as could be read.\<close>

definition read_answers :: "env \<Rightarrow> int \<Rightarrow> nat \<Rightarrow> bytes option \<Rightarrow> bool" where
  "read_answers E fd n r \<longleftrightarrow> (\<exists>tr. r = map_option (take n) (os_read E tr fd n))"

definition next_record :: "env \<Rightarrow> int \<Rightarrow> bytes \<Rightarrow> bool" where
  "next_record E fd rec \<longleftrightarrow> (\<exists>hdr body. rec = hdr @ body \<and> length hdr = 3
     \<and> read_answers E fd 3 (Some hdr) \<and> read_answers E fd (unat (hdr ! 2)) (Some body))"

text \<open>There is none when the controller has just launched its RAM, or when the header or the payload
  cannot be read.\<close>

definition no_record :: "env \<Rightarrow> int \<Rightarrow> evt \<Rightarrow> bool" where
  "no_record E fd e \<longleftrightarrow> evt_opcode e = Some HCI_VSC_LAUNCH_RAM \<or> read_answers E fd 3 None
     \<or> (\<exists>hdr. read_answers E fd 3 (Some hdr) \<and> (length hdr < 3 \<or> read_answers E fd (unat (hdr ! 2)) None))"

text \<open>A record of the patch file, as a command: opcode, length and content are those of the record, in
  a buffer of full size.\<close>

definition record_command :: "env \<Rightarrow> nat \<Rightarrow> bytes \<Rightarrow> u16 \<Rightarrow> hc_hdr \<Rightarrow> u8 \<Rightarrow> bool" where
  "record_command E n rec opc b r \<longleftrightarrow>
     hb_id b = n \<and> hdr_ok E b \<and> length (hb_data b) = HCI_CMD_MAX_LEN
     \<and> opc = u16_of (rec ! 0) (rec ! 1)
     \<and> unat (hb_len b) = length rec \<and> take (length rec) (hb_data b) = rec
     \<and> xmit_answers E opc b r"

abbreviation "addr_command C \<equiv> (if USE_CONTROLLER_BDADDR C then HCI_READ_LOCAL_BDADDR else HCI_VSC_WRITE_BD_ADDR)"
abbreviation "addr_params C X \<equiv> (if USE_CONTROLLER_BDADDR C then [] else rev (cx_addr X))"
abbreviation "addr_state C \<equiv> (if USE_CONTROLLER_BDADDR C then HW_CFG_READ_BD_ADDR else HW_CFG_SET_BD_ADDR)"

text \<open>The address in the controller's answer.\<close>

definition event_addr :: "evt \<Rightarrow> bytes" where
  "event_addr e = take 6 (drop 6 (ev_payload e))"

text \<open>The name by which a patch file is searched, from the name in the controller's answer.\<close>

definition event_chip :: "buildcfg \<Rightarrow> evt \<Rightarrow> bytes" where
  "event_chip C e = searched_name C (map toupper (cstr (drop 6 (ev_payload e))))"

text \<open>A case of the switch, with the settings X, on the event e, with the command buffer at address n: the
  speed q the port is set to, state before, calls, \<^verbatim>\<open>is_proceeding\<close>, state after.\<close>

inductive fw_case ::
  "buildcfg \<Rightarrow> env \<Rightarrow> fw_context \<Rightarrow> evt \<Rightarrow> tcio option \<Rightarrow> nat \<Rightarrow> fw_view \<Rightarrow> event list \<Rightarrow> u8 \<Rightarrow> fw_view \<Rightarrow> bool"
  for C :: buildcfg and E :: env and X :: fw_context and e :: evt and q :: "tcio option" and n :: nat
where
  baud_1: "\<lbrakk>q = Some (target_speed C); cfg_command E n HCI_READ_LOCAL_NAME [] b r\<rbrakk> \<Longrightarrow>
    fw_case C E X e q n (HW_CFG_SET_UART_BAUD_1, k, fd) [sent HCI_READ_LOCAL_NAME b r] r
      (HW_CFG_READ_LOCAL_NAME, k, fd)"
| name_no_patch: "\<lbrakk>q = None; patch_missing E (cx_dir X) (cx_file X) (event_chip C e);
      cfg_command E n HCI_VSC_WRITE_BD_ADDR (rev (cx_addr X)) b r\<rbrakk> \<Longrightarrow>
    fw_case C E X e q n (HW_CFG_READ_LOCAL_NAME, k, fd) [sent HCI_VSC_WRITE_BD_ADDR b r] r
      (HW_CFG_SET_BD_ADDR, k, fd)"
| name_no_open: "\<lbrakk>q = None; patch_found E (cx_dir X) (cx_file X) (event_chip C e) p; open_answers E p (- 1);
      cfg_command E n HCI_VSC_WRITE_BD_ADDR (rev (cx_addr X)) b r\<rbrakk> \<Longrightarrow>
    fw_case C E X e q n (HW_CFG_READ_LOCAL_NAME, k, fd)
      [OpenEv p O_RDONLY (- 1), sent HCI_VSC_WRITE_BD_ADDR b r] r (HW_CFG_SET_BD_ADDR, k, - 1)"
| name_patch: "\<lbrakk>q = None; patch_found E (cx_dir X) (cx_file X) (event_chip C e) p; open_answers E p fd'; fd' \<noteq> - 1;
      r \<noteq> FALSE; cfg_command E n HCI_VSC_DOWNLOAD_MINIDRV [] b r\<rbrakk> \<Longrightarrow>
    fw_case C E X e q n (HW_CFG_READ_LOCAL_NAME, k, fd)
      [OpenEv p O_RDONLY fd', sent HCI_VSC_DOWNLOAD_MINIDRV b r] r (HW_CFG_DL_MINIDRIVER, k, fd')"
| name_refused: "\<lbrakk>q = None; patch_found E (cx_dir X) (cx_file X) (event_chip C e) p; open_answers E p fd'; fd' \<noteq> - 1;
      cfg_command E n HCI_VSC_DOWNLOAD_MINIDRV [] b FALSE;
      cfg_command E n HCI_VSC_WRITE_BD_ADDR (rev (cx_addr X)) b' r\<rbrakk> \<Longrightarrow>
    fw_case C E X e q n (HW_CFG_READ_LOCAL_NAME, k, fd)
      [OpenEv p O_RDONLY fd', sent HCI_VSC_DOWNLOAD_MINIDRV b FALSE, sent HCI_VSC_WRITE_BD_ADDR b' r]
      r (HW_CFG_SET_BD_ADDR, k, fd')"
| patch_record: "\<lbrakk>q = None; s = HW_CFG_DL_MINIDRIVER \<or> s = HW_CFG_DL_FW_PATCH; 0 \<le> fd;
      evt_opcode e \<noteq> Some HCI_VSC_LAUNCH_RAM; next_record E fd rec; record_command E n rec opc b r\<rbrakk> \<Longrightarrow>
    fw_case C E X e q n (s, k, fd) [sent opc b r] r (HW_CFG_DL_FW_PATCH, k, fd)"
| patch_end: "\<lbrakk>q = Some B115200; s = HW_CFG_DL_MINIDRIVER \<or> s = HW_CFG_DL_FW_PATCH; 0 \<le> fd;
      no_record E fd e; cfg_command E n HCI_RESET [] b r\<rbrakk> \<Longrightarrow>
    fw_case C E X e q n (s, k, fd) [CloseEv fd, sent HCI_RESET b r] r (HW_CFG_START, True, - 1)"
| patch_none: "\<lbrakk>q = Some B115200; s = HW_CFG_DL_MINIDRIVER \<or> s = HW_CFG_DL_FW_PATCH; fd < 0;
      cfg_command E n HCI_RESET [] b r\<rbrakk> \<Longrightarrow>
    fw_case C E X e q n (s, k, fd) [sent HCI_RESET b r] r (HW_CFG_START, True, fd)"
| clock: "\<lbrakk>q = None; 3000000 < UART_TARGET_BAUD_RATE C;
      cfg_command E n HCI_VSC_WRITE_UART_CLOCK_SETTING [1] b r\<rbrakk> \<Longrightarrow>
    fw_case C E X e q n (HW_CFG_START, k, fd) [sent HCI_VSC_WRITE_UART_CLOCK_SETTING b r] r
      (HW_CFG_SET_UART_CLOCK, k, fd)"
| update_baud: "\<lbrakk>q = None; s = HW_CFG_SET_UART_CLOCK \<or> s = HW_CFG_START \<and> UART_TARGET_BAUD_RATE C \<le> 3000000;
      cfg_command E n HCI_VSC_UPDATE_BAUDRATE (0 # 0 # le32 (UART_TARGET_BAUD_RATE C)) b r\<rbrakk> \<Longrightarrow>
    fw_case C E X e q n (s, k, fd) [sent HCI_VSC_UPDATE_BAUDRATE b r] r
      (if k then HW_CFG_SET_UART_BAUD_2 else HW_CFG_SET_UART_BAUD_1, k, fd)"
| baud_2: "\<lbrakk>q = Some (target_speed C); cfg_command E n (addr_command C) (addr_params C X) b TRUE\<rbrakk> \<Longrightarrow>
    fw_case C E X e q n (HW_CFG_SET_UART_BAUD_2, k, fd) [sent (addr_command C) b TRUE] TRUE
      (addr_state C, k, fd)"
| baud_2_refused: "\<lbrakk>q = Some (target_speed C); cfg_command E n (addr_command C) (addr_params C X) b r; r \<noteq> TRUE\<rbrakk> \<Longrightarrow>
    fw_case C E X e q n (HW_CFG_SET_UART_BAUD_2, k, fd)
      ([sent (addr_command C) b r, DeallocEv n, FwcfgCbEv BT_VND_OP_RESULT_SUCCESS] @ closing fd)
      TRUE (HW_CFG_NONE, k, - 1)"
| complete: "\<lbrakk>q = None; s = HW_CFG_SET_BD_ADDR
        \<or> s = HW_CFG_READ_BD_ADDR \<and> USE_CONTROLLER_BDADDR C \<and> event_addr e \<noteq> replicate 6 0\<rbrakk> \<Longrightarrow>
    fw_case C E X e q n (s, k, fd) ([DeallocEv n, FwcfgCbEv BT_VND_OP_RESULT_SUCCESS] @ closing fd)
      TRUE (HW_CFG_NONE, k, - 1)"
| own_addr: "\<lbrakk>q = None; USE_CONTROLLER_BDADDR C; event_addr e = replicate 6 0;
      cfg_command E n HCI_VSC_WRITE_BD_ADDR (rev (cx_addr X)) b TRUE\<rbrakk> \<Longrightarrow>
    fw_case C E X e q n (HW_CFG_READ_BD_ADDR, k, fd) [sent HCI_VSC_WRITE_BD_ADDR b TRUE] TRUE
      (HW_CFG_SET_BD_ADDR, k, fd)"
| own_addr_refused: "\<lbrakk>q = None; USE_CONTROLLER_BDADDR C; event_addr e = replicate 6 0;
      cfg_command E n HCI_VSC_WRITE_BD_ADDR (rev (cx_addr X)) b r; r \<noteq> TRUE\<rbrakk> \<Longrightarrow>
    fw_case C E X e q n (HW_CFG_READ_BD_ADDR, k, fd)
      ([sent HCI_VSC_WRITE_BD_ADDR b r, DeallocEv n, FwcfgCbEv BT_VND_OP_RESULT_SUCCESS] @ closing fd)
      TRUE (HW_CFG_NONE, k, - 1)"
| stray: "\<lbrakk>q = None; s = HW_CFG_NONE \<or> s = HW_CFG_READ_BD_ADDR \<and> \<not> USE_CONTROLLER_BDADDR C\<rbrakk> \<Longrightarrow>
    fw_case C E X e q n (s, k, fd) [] FALSE (s, k, fd)"

text \<open>The whole callback on an event: it fails without a buffer exactly when the event reports an
  error or the allocator returned none.\<close>

abbreviation command_room :: "env \<Rightarrow> nat" where
  "command_room E \<equiv> BT_HC_HDR_SIZE E + HCI_CMD_MAX_LEN"

inductive fw_step ::
  "buildcfg \<Rightarrow> env \<Rightarrow> fw_context \<Rightarrow> evt \<Rightarrow> tcio option \<Rightarrow> fw_view \<Rightarrow> event list \<Rightarrow> fw_view \<Rightarrow> bool"
  for C :: buildcfg and E :: env and X :: fw_context and e :: evt and q :: "tcio option"
where
  proceeds: "\<lbrakk>fw_case C E X e q n v es r v'; r \<noteq> FALSE; evt_status e = Some 0;
      alloc_answers E (command_room E) (Some n)\<rbrakk> \<Longrightarrow>
    fw_step C E X e q v (AllocEv (command_room E) (Some n) # es @ [DeallocEv (ev_id e)]) v'"
| aborts: "\<lbrakk>fw_case C E X e q n v es FALSE (s, k, fd); evt_status e = Some 0;
      alloc_answers E (command_room E) (Some n)\<rbrakk> \<Longrightarrow>
    fw_step C E X e q v (AllocEv (command_room E) (Some n) # es
        @ [DeallocEv (ev_id e), DeallocEv n, FwcfgCbEv BT_VND_OP_RESULT_FAIL] @ closing fd)
      (HW_CFG_NONE, k, - 1)"
| no_buffer: "\<lbrakk>q = None; evt_status e = Some 0; alloc_answers E (command_room E) None\<rbrakk> \<Longrightarrow>
    fw_step C E X e q (s, k, fd)
      ([AllocEv (command_room E) None, DeallocEv (ev_id e), FwcfgCbEv BT_VND_OP_RESULT_FAIL] @ closing fd)
      (HW_CFG_NONE, k, - 1)"
| bad_status: "\<lbrakk>q = None; evt_status e = Some st; st \<noteq> 0\<rbrakk> \<Longrightarrow>
    fw_step C E X e q (s, k, fd)
      ([DeallocEv (ev_id e), FwcfgCbEv BT_VND_OP_RESULT_FAIL] @ closing fd) (HW_CFG_NONE, k, - 1)"

section \<open>Each case of the switch is a case of the machine\<close>

text \<open>What is proved of a handler: its calls and the state change are those of a case, and the
  rest of the state is as before, but for \<^verbatim>\<open>local_chip_name\<close>, which stays a terminated string of
  32 bytes.\<close>

definition chip_ok :: "'a hw_world_scheme \<Rightarrow> bool" where
  "chip_ok w \<longleftrightarrow> length (chip_name w) = LOCAL_NAME_BUFFER_LEN \<and> terminated (chip_name w)"

definition simulates where
  "simulates C E e n w r w' \<longleftrightarrow>
     (\<exists>es q. effects w w' es \<and> fw_case C E (context_of w) e q n (view w) es r (view w')
        \<and> speeds w' = retuned q (speeds w))
     \<and> frame_of w' = frame_of w \<and> (chip_ok w \<longrightarrow> chip_ok w')"

lemma chip_ok_simps [simp]:
  "chip_ok (log e w) = chip_ok w"
  by (simp add: chip_ok_def)

lemma complete_effects:
  assumes "hw_config_complete b w = Some (r, w')"
  shows "r = TRUE" "effects w w' ([DeallocEv (hb_id b), FwcfgCbEv BT_VND_OP_RESULT_SUCCESS] @ closing (fw_fd_of w))"
    and "frame_of w' = frame_of w" and "hw_cfg_cb w' = (hw_cfg_cb w)\<lparr>cfg_state := HW_CFG_NONE, fw_fd := - 1\<rparr>"
    and "speeds w' = speeds w"
  using assms
  by (auto simp: hw_config_complete_def close_fw_def closing_def Let_def effects_def elim!: bind_SomeE)

lemma sim_complete:
  assumes "hw_config_complete b w = Some (r, w')" and "hb_id b = n"
    and "cfg_of w = HW_CFG_SET_BD_ADDR
      \<or> cfg_of w = HW_CFG_READ_BD_ADDR \<and> USE_CONTROLLER_BDADDR C \<and> event_addr e \<noteq> replicate 6 0"
  shows "simulates C E e n w r w'"
proof -
  note c = complete_effects [OF assms(1)]
  have "fw_case C E (context_of w) e None n (cfg_of w, f_set_baud_2 (hw_cfg_cb w) \<noteq> FALSE, fw_fd_of w)
      ([DeallocEv n, FwcfgCbEv BT_VND_OP_RESULT_SUCCESS] @ closing (fw_fd_of w)) TRUE
      (HW_CFG_NONE, f_set_baud_2 (hw_cfg_cb w) \<noteq> FALSE, - 1)"
    using assms(3) by (rule fw_case.complete [OF refl])
  with c assms(2) show ?thesis
    by (auto simp: simulates_def view_def chip_ok_def intro!: exI [of _ None])
qed

text \<open>A handler that prepares quietly and then sends.\<close>

lemma simulates_send:
  assumes "effects w w1 []" and "frame_of w1 = frame_of w" and "hw_cfg_cb w1 = hw_cfg_cb w"
    and "speeds w1 = retuned q (speeds w)" and "send_cfg E opc ps s b w1 = Some (r, b', w')" and "hdr_ok E b" and "length ps < 256"
    and "fw_case C E (context_of w) e q n (view w) [sent opc b' r] r (s, f_set_baud_2 (hw_cfg_cb w) \<noteq> FALSE, fw_fd_of w)"
  shows "simulates C E e n w r w'"
proof -
  note s = send_cfg_effects [OF assms(5-7)]
  have "effects w w' [sent opc b' r]" using effects_trans [OF assms(1) s(1)] by simp
  moreover have "view w' = (s, f_set_baud_2 (hw_cfg_cb w) \<noteq> FALSE, fw_fd_of w)"
    by (simp add: view_def s(3) assms(3))
  ultimately show ?thesis
    using assms(2-4,8) s(2-4) unfolding simulates_def
    by (intro conjI exI [of _ "[sent opc b' r]"] exI [of _ q]) (auto simp: chip_ok_def)
qed

lemma sim_baud_1:
  assumes "cfg_uart_baud_1 C E b w = Some (r, w')" and "hdr_ok E b" and "hb_id b = n"
    and "cfg_of w = HW_CFG_SET_UART_BAUD_1"
  shows "simulates C E e n w r w'"
proof -
  obtain b' where s: "send_cfg E HCI_READ_LOCAL_NAME [] HW_CFG_READ_LOCAL_NAME b (set_target_baud C w)
      = Some (r, b', w')"
    using assms(1) by (auto simp: cfg_uart_baud_1_def elim!: bind_SomeE)
  have "cfg_command E n HCI_READ_LOCAL_NAME [] b' r"
    using send_cfg_run(2) [OF s assms(2)] assms(3) by simp
  then show ?thesis
    using simulates_send [OF set_target_effects _ _ _ s assms(2), of "Some (target_speed C)"] assms(4)
    by (auto simp: view_def intro: fw_case.baud_1)
qed

lemma sim_uart_clock:
  assumes "cfg_uart_clock C E b w = Some (r, w')" and "hdr_ok E b" and "hb_id b = n"
    and "cfg_of w = HW_CFG_SET_UART_CLOCK \<or> cfg_of w = HW_CFG_START \<and> UART_TARGET_BAUD_RATE C \<le> 3000000"
  shows "simulates C E e n w r w'"
proof -
  define s where "s = (if f_set_baud_2 (hw_cfg_cb w) \<noteq> FALSE then HW_CFG_SET_UART_BAUD_2 else HW_CFG_SET_UART_BAUD_1)"
  obtain b' where x: "send_cfg E HCI_VSC_UPDATE_BAUDRATE (0 # 0 # le32 (UART_TARGET_BAUD_RATE C)) s b w
      = Some (r, b', w')"
    using assms(1) by (auto simp: cfg_uart_clock_def s_def elim!: bind_SomeE)
  have "cfg_command E n HCI_VSC_UPDATE_BAUDRATE (0 # 0 # le32 (UART_TARGET_BAUD_RATE C)) b' r"
    using send_cfg_run(2) [OF x assms(2)] assms(3) by simp
  then have "fw_case C E (context_of w) e None n (view w) [sent HCI_VSC_UPDATE_BAUDRATE b' r] r
      (s, f_set_baud_2 (hw_cfg_cb w) \<noteq> FALSE, fw_fd_of w)"
    using assms(4) unfolding view_def s_def by (intro fw_case.update_baud) auto
  then show ?thesis
    by (intro simulates_send [OF effects_refl _ _ _ x assms(2)]) simp_all
qed

lemma sim_start:
  assumes "cfg_start C E b w = Some (r, w')" and "hdr_ok E b" and "hb_id b = n"
    and "cfg_of w = HW_CFG_START"
  shows "simulates C E e n w r w'"
proof (cases "3000000 < UART_TARGET_BAUD_RATE C")
  case True
  then obtain b' where x: "send_cfg E HCI_VSC_WRITE_UART_CLOCK_SETTING [1] HW_CFG_SET_UART_CLOCK b w
      = Some (r, b', w')"
    using assms(1) by (auto simp: cfg_start_def elim!: bind_SomeE)
  have "cfg_command E n HCI_VSC_WRITE_UART_CLOCK_SETTING [1] b' r"
    using send_cfg_run(2) [OF x assms(2)] assms(3) by simp
  with True show ?thesis
    using simulates_send [OF effects_refl _ _ _ x assms(2), of None] assms(4)
    by (auto simp: view_def intro: fw_case.clock)
next
  case False
  with assms show ?thesis by (intro sim_uart_clock) (simp_all add: cfg_start_def)
qed

text \<open>The address commands, and what follows when they are refused.\<close>

lemma set_bdaddr_run:
  assumes "hw_config_set_bdaddr E b w = Some (r, w')" and "hdr_ok E b"
  shows "\<exists>b' ps. effects w w' [sent HCI_VSC_WRITE_BD_ADDR b' r]
    \<and> cfg_command E (hb_id b) HCI_VSC_WRITE_BD_ADDR ps b' r \<and> ps = rev (vnd_local_bd_addr w)
    \<and> frame_of w' = frame_of w \<and> hw_cfg_cb w' = (hw_cfg_cb w)\<lparr>cfg_state := HW_CFG_SET_BD_ADDR\<rparr>
    \<and> speeds w' = speeds w"
proof -
  let ?a = "vnd_local_bd_addr w"
  obtain b' where a: "length ?a = 6" and x: "send_cfg E HCI_VSC_WRITE_BD_ADDR
      [?a ! 5, ?a ! 4, ?a ! 3, ?a ! 2, ?a ! 1, ?a ! 0] HW_CFG_SET_BD_ADDR b w = Some (r, b', w')"
    using assms(1) by (auto simp: hw_config_set_bdaddr_def Let_def elim!: bind_SomeE)
  have "[?a ! 5, ?a ! 4, ?a ! 3, ?a ! 2, ?a ! 1, ?a ! 0] = rev ?a"
    using a by (simp add: list_eq_iff_nth_eq rev_nth less_Suc_eq eval_nat_numeral
          All_less_Suc)
  with send_cfg_effects [OF x assms(2)] send_cfg_run(2) [OF x assms(2)] show ?thesis by auto
qed

lemma read_bdaddr_run:
  assumes "hw_config_read_bdaddr E b w = Some (r, w')" and "hdr_ok E b"
  shows "\<exists>b'. effects w w' [sent HCI_READ_LOCAL_BDADDR b' r]
    \<and> cfg_command E (hb_id b) HCI_READ_LOCAL_BDADDR [] b' r
    \<and> frame_of w' = frame_of w \<and> hw_cfg_cb w' = (hw_cfg_cb w)\<lparr>cfg_state := HW_CFG_READ_BD_ADDR\<rparr>
    \<and> speeds w' = speeds w"
proof -
  obtain b' where x: "send_cfg E HCI_READ_LOCAL_BDADDR [] HW_CFG_READ_BD_ADDR b w = Some (r, b', w')"
    using assms(1) by (auto simp: hw_config_read_bdaddr_def elim!: bind_SomeE)
  show ?thesis using send_cfg_effects [OF x assms(2)] send_cfg_run(2) [OF x assms(2)] by auto
qed

lemma addr_run:
  assumes "(if USE_CONTROLLER_BDADDR C then hw_config_read_bdaddr E b w
            else hw_config_set_bdaddr E b w) = Some (r, w')" and "hdr_ok E b"
  shows "\<exists>b'. effects w w' [sent (addr_command C) b' r]
    \<and> cfg_command E (hb_id b) (addr_command C) (addr_params C (context_of w)) b' r
    \<and> frame_of w' = frame_of w \<and> hw_cfg_cb w' = (hw_cfg_cb w)\<lparr>cfg_state := addr_state C\<rparr>
    \<and> speeds w' = speeds w"
  using assms read_bdaddr_run [of E b w r w'] set_bdaddr_run [of E b w r w']
  by (cases "USE_CONTROLLER_BDADDR C") (auto simp: context_of_def)

text \<open>Send an address command, and complete when it was not accepted.\<close>

lemma address_or_complete:
  assumes "effects w w1 [sent opc b' q]" and "frame_of w1 = frame_of w"
    and "hw_cfg_cb w1 = (hw_cfg_cb w)\<lparr>cfg_state := s\<rparr>" and "speeds w1 = retuned line (speeds w)"
    and "(if q = TRUE then Some (q, w1) else hw_config_complete b w1) = Some (r, w')"
    and "q = TRUE \<Longrightarrow> fw_case C E (context_of w) e line (hb_id b) (view w) [sent opc b' TRUE] TRUE
           (s, f_set_baud_2 (hw_cfg_cb w) \<noteq> FALSE, fw_fd_of w)"
    and "q \<noteq> TRUE \<Longrightarrow> fw_case C E (context_of w) e line (hb_id b) (view w)
           ([sent opc b' q, DeallocEv (hb_id b), FwcfgCbEv BT_VND_OP_RESULT_SUCCESS] @ closing (fw_fd_of w))
           TRUE (HW_CFG_NONE, f_set_baud_2 (hw_cfg_cb w) \<noteq> FALSE, - 1)"
  shows "simulates C E e (hb_id b) w r w'"
proof (cases "q = TRUE")
  case True
  with assms have "r = TRUE" "w' = w1" by auto
  with assms True show ?thesis
    unfolding simulates_def
    by (intro conjI exI [of _ "[sent opc b' TRUE]"] exI [of _ line]) (auto simp: view_def chip_ok_def)
next
  case False
  then have c: "hw_config_complete b w1 = Some (r, w')" using assms(5) by simp
  note ce = complete_effects [OF c]
  have "effects w w' ([sent opc b' q, DeallocEv (hb_id b), FwcfgCbEv BT_VND_OP_RESULT_SUCCESS]
      @ closing (fw_fd_of w))"
    using effects_trans [OF assms(1) ce(2)] assms(3) by simp
  moreover have "view w' = (HW_CFG_NONE, f_set_baud_2 (hw_cfg_cb w) \<noteq> FALSE, - 1)"
    using ce(4) assms(3) by (simp add: view_def)
  ultimately show ?thesis
    using False assms(2-4,7) ce unfolding simulates_def
    by (intro conjI exI [of _ "[sent opc b' q, DeallocEv (hb_id b), FwcfgCbEv BT_VND_OP_RESULT_SUCCESS]
        @ closing (fw_fd_of w)"] exI [of _ line]) (auto simp: chip_ok_def)
qed

lemma sim_baud_2:
  assumes "cfg_uart_baud_2 C E b w = Some (r, w')" and "hdr_ok E b"
    and "cfg_of w = HW_CFG_SET_UART_BAUD_2"
  shows "simulates C E e (hb_id b) w r w'"
proof -
  let ?v = "set_target_baud C w" and ?line = "Some (target_speed C)"
  obtain q w1 where a: "(if USE_CONTROLLER_BDADDR C then hw_config_read_bdaddr E b ?v
            else hw_config_set_bdaddr E b ?v) = Some (q, w1)"
    and c: "(if q = TRUE then Some (q, w1) else hw_config_complete b w1) = Some (r, w')"
    using assms(1) by (auto simp: cfg_uart_baud_2_def Let_def elim!: bind_SomeE split del: if_split)
  have x: "context_of ?v = context_of w" by (rule frame_context) simp
  obtain b' where e: "effects ?v w1 [sent (addr_command C) b' q]"
    and cmd: "cfg_command E (hb_id b) (addr_command C) (addr_params C (context_of w)) b' q"
    and f: "frame_of w1 = frame_of w" "hw_cfg_cb w1 = (hw_cfg_cb w)\<lparr>cfg_state := addr_state C\<rparr>"
      "speeds w1 = retuned ?line (speeds w)"
    using addr_run [OF a assms(2)] unfolding x by auto
  have "effects w w1 [sent (addr_command C) b' q]"
    using effects_trans [OF set_target_effects e] by simp
  moreover have v: "view w = (HW_CFG_SET_UART_BAUD_2, f_set_baud_2 (hw_cfg_cb w) \<noteq> FALSE, fw_fd_of w)"
    using assms(3) by (simp add: view_def)
  moreover have "fw_case C E (context_of w) e ?line (hb_id b) (view w) [sent (addr_command C) b' TRUE] TRUE
      (addr_state C, f_set_baud_2 (hw_cfg_cb w) \<noteq> FALSE, fw_fd_of w)" if "q = TRUE"
    unfolding v by (rule fw_case.baud_2 [OF refl]) (use cmd that in \<open>simp only:\<close>)
  moreover have "fw_case C E (context_of w) e ?line (hb_id b) (view w)
      ([sent (addr_command C) b' q, DeallocEv (hb_id b), FwcfgCbEv BT_VND_OP_RESULT_SUCCESS]
        @ closing (fw_fd_of w))
      TRUE (HW_CFG_NONE, f_set_baud_2 (hw_cfg_cb w) \<noteq> FALSE, - 1)" if "q \<noteq> TRUE"
    unfolding v using cmd that by (rule fw_case.baud_2_refused [OF refl])
  ultimately show ?thesis
    using f c by (intro address_or_complete [OF _ f c])
qed

lemma sim_read_bd_addr:
  assumes "cfg_read_bd_addr E e b w = Some (r, w')" and "hdr_ok E b"
    and "cfg_of w = HW_CFG_READ_BD_ADDR" and "USE_CONTROLLER_BDADDR C"
  shows "simulates C E e (hb_id b) w r w'"
proof (cases "event_addr e = replicate 6 0")
  case True
  with assms(1) obtain q w1 where a: "hw_config_set_bdaddr E b w = Some (q, w1)"
    and c: "(if q = TRUE then Some (q, w1) else hw_config_complete b w1) = Some (r, w')"
    by (auto simp: cfg_read_bd_addr_def event_addr_def elim!: bind_SomeE split del: if_split)
  obtain b' where e: "effects w w1 [sent HCI_VSC_WRITE_BD_ADDR b' q]"
    and cmd: "cfg_command E (hb_id b) HCI_VSC_WRITE_BD_ADDR (rev (cx_addr (context_of w))) b' q"
    and f: "frame_of w1 = frame_of w" "hw_cfg_cb w1 = (hw_cfg_cb w)\<lparr>cfg_state := HW_CFG_SET_BD_ADDR\<rparr>"
      "speeds w1 = retuned None (speeds w)"
    using set_bdaddr_run [OF a assms(2)] by (auto simp: context_of_def)
  have v: "view w = (HW_CFG_READ_BD_ADDR, f_set_baud_2 (hw_cfg_cb w) \<noteq> FALSE, fw_fd_of w)"
    using assms(3) by (simp add: view_def)
  have "fw_case C E (context_of w) e None (hb_id b) (view w) [sent HCI_VSC_WRITE_BD_ADDR b' TRUE] TRUE
      (HW_CFG_SET_BD_ADDR, f_set_baud_2 (hw_cfg_cb w) \<noteq> FALSE, fw_fd_of w)" if "q = TRUE"
    unfolding v by (rule fw_case.own_addr [OF refl assms(4) True]) (use cmd that in \<open>simp only:\<close>)
  moreover have "fw_case C E (context_of w) e None (hb_id b) (view w)
      ([sent HCI_VSC_WRITE_BD_ADDR b' q, DeallocEv (hb_id b), FwcfgCbEv BT_VND_OP_RESULT_SUCCESS]
        @ closing (fw_fd_of w))
      TRUE (HW_CFG_NONE, f_set_baud_2 (hw_cfg_cb w) \<noteq> FALSE, - 1)" if "q \<noteq> TRUE"
    unfolding v using assms(4) True cmd that by (rule fw_case.own_addr_refused [OF refl])
  ultimately show ?thesis by (intro address_or_complete [OF e f c])
next
  case False
  with assms show ?thesis
    by (intro sim_complete) (auto simp: cfg_read_bd_addr_def event_addr_def elim!: bind_SomeE)
qed

lemma identify_chip_ok:
  assumes "identify_chip C blk chip = Some (k, blk', chip')" and "length chip = LOCAL_NAME_BUFFER_LEN"
  shows "length chip' = LOCAL_NAME_BUFFER_LEN \<and> terminated chip'"
proof -
  have upd: "length c = 32 \<Longrightarrow> terminated (c[31 := 0])" for c :: bytes
    by (simp add: terminated_def set_update_memI)
  show ?thesis
    using assms
    by (auto simp: identify_chip_def Let_def elim!: bind_SomeE split: option.splits if_splits
          dest!: store_length simp: strcpy_def upd)
qed

text \<open>The attempt to start a download: nothing opened, or a descriptor and a command.\<close>

lemma open_patch_run:
  assumes "open_patch_file E path b w = Some (q, b', w')" and "hdr_ok E b"
  obtains (closed) "open_answers E (cstr path) (- 1)" "q = FALSE" "b' = b"
      "effects w w' [OpenEv (cstr path) O_RDONLY (- 1)]"
      "frame_of w' = frame_of w" "hw_cfg_cb w' = (hw_cfg_cb w)\<lparr>fw_fd := - 1\<rparr>" "speeds w' = speeds w"
  | (opened) fd where "open_answers E (cstr path) fd" "fd \<noteq> - 1" "hdr_ok E b'" "hb_id b' = hb_id b"
      "cfg_command E (hb_id b) HCI_VSC_DOWNLOAD_MINIDRV [] b' q"
      "effects w w' [OpenEv (cstr path) O_RDONLY fd, sent HCI_VSC_DOWNLOAD_MINIDRV b' q]"
      "frame_of w' = frame_of w"
      "hw_cfg_cb w' = (hw_cfg_cb w)\<lparr>cfg_state := HW_CFG_DL_MINIDRIVER, fw_fd := fd\<rparr>" "speeds w' = speeds w"
proof -
  define fd where "fd = os_open E (trace w) (cstr path) O_RDONLY"
  define w1 where "w1 = set_fw_fd fd (log (OpenEv (cstr path) O_RDONLY fd) w)"
  have run: "(if fd = - 1 then Some (FALSE, b, w1)
      else send_cfg E HCI_VSC_DOWNLOAD_MINIDRV [] HW_CFG_DL_MINIDRIVER b w1) = Some (q, b', w')"
    using assms(1) by (auto simp: open_patch_file_def sys_open_def Let_def fd_def w1_def elim!: bind_SomeE)
  have e: "effects w w1 [OpenEv (cstr path) O_RDONLY fd]"
    by (simp add: w1_def effects_one)
  have an: "open_answers E (cstr path) fd" by (auto simp: open_answers_def fd_def)
  show thesis
  proof (cases "fd = - 1")
    case True
    with run e an show thesis by (intro closed) (auto simp: w1_def)
  next
    case False
    with run have s: "send_cfg E HCI_VSC_DOWNLOAD_MINIDRV [] HW_CFG_DL_MINIDRIVER b w1 = Some (q, b', w')"
      by simp
    then show thesis
      using False an effects_trans [OF e send_cfg_effects(1) [OF s assms(2)]]
        send_cfg_effects(2-4) [OF s assms(2)] send_cfg_run [OF s assms(2)]
      by (intro opened [of fd]) (auto simp: w1_def)
  qed
qed

text \<open>The address command, when no download is under way after all.\<close>

lemma sim_address_after:
  assumes "hw_config_set_bdaddr E b w1 = Some (r, w')" and "hdr_ok E b"
    and "effects w w1 es" and "frame_of w1 = frame_of w" and "speeds w1 = speeds w"
    and "length (chip_name w1) = 32 \<and> terminated (chip_name w1) \<or> \<not> chip_ok w"
    and "\<And>b'. cfg_command E (hb_id b) HCI_VSC_WRITE_BD_ADDR (rev (cx_addr (context_of w))) b' r \<Longrightarrow>
      fw_case C E (context_of w) e None n (view w) (es @ [sent HCI_VSC_WRITE_BD_ADDR b' r]) r
        (HW_CFG_SET_BD_ADDR, f_set_baud_2 (hw_cfg_cb w1) \<noteq> FALSE, fw_fd_of w1)"
  shows "simulates C E e n w r w'"
proof -
  have "cx_addr (context_of w) = vnd_local_bd_addr w1" using frame_cbacks [OF assms(4)] by (simp add: context_of_def)
  then obtain b' where b': "effects w1 w' [sent HCI_VSC_WRITE_BD_ADDR b' r]"
    "cfg_command E (hb_id b) HCI_VSC_WRITE_BD_ADDR (rev (cx_addr (context_of w))) b' r" "frame_of w' = frame_of w1"
    "hw_cfg_cb w' = (hw_cfg_cb w1)\<lparr>cfg_state := HW_CFG_SET_BD_ADDR\<rparr>" "speeds w' = speeds w"
    using set_bdaddr_run [OF assms(1,2)] assms(5) by auto
  have "view w' = (HW_CFG_SET_BD_ADDR, f_set_baud_2 (hw_cfg_cb w1) \<noteq> FALSE, fw_fd_of w1)"
    by (simp add: view_def b'(4))
  with effects_trans [OF assms(3) b'(1)] assms(7) [OF b'(2)] show ?thesis
    using assms(4,6) b'(3-5) unfolding simulates_def
    by (intro conjI exI [of _ "es @ [sent HCI_VSC_WRITE_BD_ADDR b' r]"] exI [of _ None]) (auto simp: chip_ok_def)
qed

lemma sim_read_local_name:
  assumes "cfg_read_local_name C E e b w = Some (r, w')" and "hdr_ok E b"
    and "cfg_of w = HW_CFG_READ_LOCAL_NAME"
  shows "simulates C E e (hb_id b) w r w'"
proof -
  obtain off blk chip st path w1 q b1 w2 where
      i: "identify_chip C (drop 6 (ev_payload e)) (chip_name w) = Some (off, blk, chip)"
    and f: "hw_config_findpatch E (drop off blk) (set_chip_name chip w) = Some (st, path, w1)"
    and o: "(if st = TRUE then open_patch_file E path b w1 else Some (FALSE, b, w1)) = Some (q, b1, w2)"
    and a: "(if q = FALSE then hw_config_set_bdaddr E b1 w2 else Some (q, w2)) = Some (r, w')"
    using assms(1)
    by (auto simp: cfg_read_local_name_def Let_def elim!: bind_SomeE split del: if_split)
  have lo: "logs_only is_dir_call (set_chip_name chip w) w1" using findpatch_result [OF f] by simp
  have w1: "effects w w1 []" "frame_of w1 = frame_of w"
      "hw_cfg_cb w1 = (hw_cfg_cb w)\<lparr>local_chip_name := chip\<rparr>" "speeds w1 = speeds w"
    using effects_quiet [OF lo] calm_kinds(2) frame_logs [OF lo] logs_only_speed [OF lo] by auto
  have chip: "chip_ok w \<Longrightarrow> length chip = 32 \<and> terminated chip"
    using identify_chip_ok [OF i] by (simp add: chip_ok_def)
  note id = identified [OF i refl]
  obtain rest where blk: "drop off blk = event_chip C e @ 0 # rest"
    using terminated_split [of "drop off blk"] id by (metis event_chip_def)
  have nn: "no_nul (event_chip C e)" using id cstr_no_nul by (metis event_chip_def)
  have found: "st = TRUE \<and> patch_found E (cx_dir (context_of w)) (cx_file (context_of w)) (event_chip C e) (cstr path)
      \<or> st \<noteq> TRUE \<and> patch_missing E (cx_dir (context_of w)) (cx_file (context_of w)) (event_chip C e)"
    using findpatch_answer [OF f [unfolded blk] nn] by (auto simp: context_of_def)
  have v: "view w = (HW_CFG_READ_LOCAL_NAME, f_set_baud_2 (hw_cfg_cb w) \<noteq> FALSE, fw_fd_of w)"
    using assms(3) by (simp add: view_def)
  show ?thesis
  proof (cases "st = TRUE")
    case False
    with o a have "hw_config_set_bdaddr E b w1 = Some (r, w')" by simp
    from this assms(2) w1(1,2,4) show ?thesis
      by (rule sim_address_after)
        (use chip False found in \<open>auto simp: w1(3) v intro: fw_case.name_no_patch [OF refl]\<close>)
  next
    case True
    with found have pf: "patch_found E (cx_dir (context_of w)) (cx_file (context_of w)) (event_chip C e) (cstr path)" by simp
    from True o have op: "open_patch_file E path b w1 = Some (q, b1, w2)" by simp
    from op assms(2) show ?thesis
    proof (cases rule: open_patch_run)
      case closed
      with a have "hw_config_set_bdaddr E b w2 = Some (r, w')" by simp
      from this assms(2) effects_trans [OF w1(1) closed(4)] show ?thesis
        by (rule sim_address_after)
          (use chip in \<open>auto simp: closed(5-7) w1(2-4) v intro: fw_case.name_no_open [OF refl pf closed(1)]\<close>)
    next
      case (opened fd)
      note e2 = effects_trans [OF w1(1) opened(6), simplified]
      show ?thesis
      proof (cases "q = FALSE")
        case False
        with a have rq: "r = q" "w' = w2" by auto
        have "fw_case C E (context_of w) e None (hb_id b) (view w)
            [OpenEv (cstr path) O_RDONLY fd, sent HCI_VSC_DOWNLOAD_MINIDRV b1 q] q (view w2)"
          unfolding v by (use False opened(2,5,8) w1(3) in
            \<open>simp add: view_def fw_case.name_patch [OF refl pf opened(1)]\<close>)
        then show ?thesis
          using e2 w1 chip opened(7-9) unfolding simulates_def rq
          by (intro conjI exI [of _ "[OpenEv (cstr path) O_RDONLY fd, sent HCI_VSC_DOWNLOAD_MINIDRV b1 q]"]
              exI [of _ None]) (auto simp: chip_ok_def)
      next
        case True
        with a have "hw_config_set_bdaddr E b1 w2 = Some (r, w')" by simp
        from this opened(3) e2 show ?thesis
          by (rule sim_address_after)
            (use chip True opened(2,4,5) in
              \<open>auto simp: opened(7-9) w1(2-4) v intro: fw_case.name_refused [OF refl pf opened(1)]\<close>)
      qed
    qed
  qed
qed

section \<open>The download\<close>

lemma sys_read_Some:
  "sys_read E fd n w = (r, w') \<Longrightarrow> w' = log (ReadEv fd n r) w \<and> (\<forall>bs. r = Some bs \<longrightarrow> length bs \<le> n)
     \<and> read_answers E fd n r"
  by (auto simp: sys_read_def read_answers_def Let_def)

text \<open>Reading a record never writes outside the command buffer, and gives a command that holds what was
  read.\<close>

lemma calm_read: "effects w (log (ReadEv fd n r) w) []"
  using effects_log [of w w "[]" "ReadEv fd n r"] by simp

text \<open>What reading leaves alone.\<close>

definition read_frame :: "env \<Rightarrow> hc_hdr \<Rightarrow> hc_hdr \<Rightarrow> 'a hw_world_scheme \<Rightarrow> 'a hw_world_scheme \<Rightarrow> bool" where
  "read_frame E b b' w w' \<longleftrightarrow> hb_id b' = hb_id b \<and> hdr_ok E b' \<and> length (hb_data b') = length (hb_data b)
    \<and> effects w w' [] \<and> frame_of w' = frame_of w \<and> hw_cfg_cb w' = hw_cfg_cb w \<and> speeds w' = speeds w"

text \<open>The payload behind a header of three bytes.\<close>

lemma read_payload_run:
  assumes "(case sys_read E fd (unat (hb_data b1 ! 2)) w1 of (body, w) \<Rightarrow>
       case body of None \<Rightarrow> Some (False, b1\<lparr>hb_len := 3\<rparr>, w)
       | Some bs2 \<Rightarrow> do { b \<leftarrow> put_at HCI_CMD_PREAMBLE_SIZE bs2 (b1\<lparr>hb_len := 3\<rparr>);
            Some (True, b\<lparr>hb_len := hb_len b + of_nat (length bs2)\<rparr>, w) }) = Some (full, b', w')"
    and "hdr_ok E b1" and "3 \<le> length (hb_data b1)"
  shows "read_frame E b1 b' w1 w'
    \<and> (full \<longrightarrow> (\<exists>body. read_answers E fd (unat (hb_data b1 ! 2)) (Some body)
         \<and> unat (hb_len b') = 3 + length body
         \<and> take (3 + length body) (hb_data b') = take 3 (hb_data b1) @ body))
    \<and> (\<not> full \<longrightarrow> read_answers E fd (unat (hb_data b1 ! 2)) None)"
proof -
  obtain body w2 where h: "sys_read E fd (unat (hb_data b1 ! 2)) w1 = (body, w2)" by fastforce
  note w2 = sys_read_Some [OF h]
  show ?thesis
  proof (cases body)
    case None
    with assms h w2 calm_read show ?thesis by (auto simp: hdr_ok_def read_frame_def)
  next
    case (Some bs2)
    with assms(1) h obtain b2 where b2: "put_at 3 bs2 (b1\<lparr>hb_len := 3\<rparr>) = Some b2"
      and res: "full" "b' = b2\<lparr>hb_len := hb_len b2 + of_nat (length bs2)\<rparr>" "w' = w2"
      by (auto elim!: bind_SomeE)
    note k2 = put_at_keeps [OF b2]
    have le: "length bs2 \<le> unat (hb_data b1 ! 2)" using w2 Some by auto
    also have "\<dots> < 256" using unsigned_less [of "hb_data b1 ! 2", where ?'a = nat] by simp
    finally have "length bs2 < 256" .
    then have "unat (of_nat (3 + length bs2) :: u16) = 3 + length bs2"
      by (simp only: unat_of_nat, simp add: take_bit_nat_eq_self)
    then have "unat (hb_len b') = 3 + length bs2" using res k2 by simp
    moreover have "take (3 + length bs2) (hb_data b') = take 3 (hb_data b1) @ bs2"
      using b2 assms(3) by (auto simp: res put_at_Some)
    ultimately show ?thesis
      using res k2 assms(2) w2 Some calm_read by (auto simp: hdr_ok_def read_frame_def)
  qed
qed

lemma read_frame_trans:
  "read_frame E b b1 w w1 \<Longrightarrow> read_frame E b1 b2 w1 w2 \<Longrightarrow> read_frame E b b2 w w2"
  using effects_trans [of w w1 "[]" w2 "[]"] by (simp add: read_frame_def)

lemma read_record_run:
  assumes "read_record E opc b w = Some (full, b', w')" and "hdr_ok E b"
  shows "read_frame E b b' w w'
    \<and> (full \<longrightarrow> opc \<noteq> HCI_VSC_LAUNCH_RAM \<and> (\<exists>rec. next_record E (fw_fd_of w) rec
         \<and> unat (hb_len b') = length rec \<and> take (length rec) (hb_data b') = rec))
    \<and> (\<not> full \<longrightarrow> evt_opcode e = Some opc \<longrightarrow> no_record E (fw_fd_of w) e)"
proof -
  obtain hdr w1 where h: "sys_read E (fw_fd_of w) HCI_CMD_PREAMBLE_SIZE w = (hdr, w1)" by fastforce
  note w1 = sys_read_Some [OF h]
  show ?thesis
  proof (cases hdr)
    case None
    with assms h w1 calm_read show ?thesis by (auto simp: read_record_def read_frame_def no_record_def)
  next
    case (Some bs)
    with assms(1) h obtain b1 where b1: "put_at 0 bs b = Some b1"
      and rest: "(if length bs < HCI_CMD_PREAMBLE_SIZE \<or> opc = HCI_VSC_LAUNCH_RAM then Some (False, b1, w1)
        else do { let b = b1\<lparr>hb_len := of_nat (length bs)\<rparr>;
                  let (body, w) = sys_read E (fw_fd_of w1) (unat (hb_data b ! 2)) w1;
                  case body of None \<Rightarrow> Some (False, b, w)
                  | Some bs2 \<Rightarrow> do { b \<leftarrow> put_at HCI_CMD_PREAMBLE_SIZE bs2 b;
                       Some (True, b\<lparr>hb_len := hb_len b + of_nat (length bs2)\<rparr>, w) } }) = Some (full, b', w')"
      by (auto simp: read_record_def simp del: hci_sizes elim!: bind_SomeE split del: if_split)
    note k1 = put_at_keeps [OF b1]
    have fr: "read_frame E b b1 w w1" using k1 assms(2) w1 calm_read by (auto simp: read_frame_def hdr_ok_def)
    show ?thesis
    proof (cases "length bs < 3 \<or> opc = HCI_VSC_LAUNCH_RAM")
      case True
      with rest fr w1 Some show ?thesis by (auto simp: no_record_def)
    next
      case False
      then have l3: "length bs = 3" using w1 Some by auto
      have t3: "take 3 (hb_data b1) = bs" "3 \<le> length (hb_data b1)" using b1 l3 by (auto simp: put_at_Some)
      then have d2: "hb_data b1 ! 2 = bs ! 2" using nth_take [of 2 3 "hb_data b1"] by simp
      have h1: "hdr_ok E b1" using fr by (simp add: read_frame_def)
      have p: "read_frame E b1 b' w1 w'
        \<and> (full \<longrightarrow> (\<exists>body. read_answers E (fw_fd_of w1) (unat (hb_data b1 ! 2)) (Some body)
             \<and> unat (hb_len b') = 3 + length body
             \<and> take (3 + length body) (hb_data b') = take 3 (hb_data b1) @ body))
        \<and> (\<not> full \<longrightarrow> read_answers E (fw_fd_of w1) (unat (hb_data b1 ! 2)) None)"
        using rest False l3 by (intro read_payload_run [OF _ h1 t3(2)]) (simp add: Let_def)
      have fd: "fw_fd_of w1 = fw_fd_of w" using w1 by simp
      have hd: "read_answers E (fw_fd_of w) 3 (Some bs)" using w1 Some by simp
      have "\<exists>rec. next_record E (fw_fd_of w) rec \<and> unat (hb_len b') = length rec \<and> take (length rec) (hb_data b') = rec"
        if f: "full"
      proof -
        obtain body where body: "read_answers E (fw_fd_of w) (unat (bs ! 2)) (Some body)"
          "unat (hb_len b') = 3 + length body" "take (3 + length body) (hb_data b') = bs @ body"
          using p f unfolding fd d2 t3(1) by blast
        then show ?thesis using hd l3 by (intro exI [of _ "bs @ body"]) (auto simp: next_record_def)
      qed
      moreover have "no_record E (fw_fd_of w) e" if "\<not> full"
        using p that hd unfolding fd d2 by (auto simp: no_record_def)
      ultimately show ?thesis using p read_frame_trans [OF fr] False by blast
    qed
  qed
qed

lemma finish_download_run:
  assumes "finish_download C E b w = Some (r, w')" and "hdr_ok E b"
  shows "\<exists>b'. effects w w' [sent HCI_RESET b' r] \<and> cfg_command E (hb_id b) HCI_RESET [] b' r
    \<and> frame_of w' = frame_of w
    \<and> hw_cfg_cb w' = (hw_cfg_cb w)\<lparr>cfg_state := HW_CFG_START, f_set_baud_2 := TRUE\<rparr>
    \<and> speeds w' = (B115200, B115200)"
proof -
  define w1 where "w1 = set_baud_2 TRUE (userial_vendor_set_baud USERIAL_BAUD_115200 w)"
  obtain d w2 b' where d: "ms_delay E d w1 = Some w2"
    and s: "send_cfg E HCI_RESET [] HW_CFG_START b w2 = Some (r, b', w')"
    using assms(1) by (auto simp: finish_download_def Let_def w1_def elim!: bind_SomeE)
  note lo = ms_delay_sleeps [OF d]
  have e1: "effects w w1 []" using set_baud_effects by (simp add: w1_def)
  have e2: "effects w w2 []"
    using effects_trans [OF e1 effects_quiet [OF lo]] calm_kinds(1) by auto
  have "speeds w2 = (B115200, B115200)" using logs_only_speed [OF lo] by (simp add: w1_def)
  then show ?thesis
    using effects_trans [OF e2] send_cfg_effects [OF s assms(2)] send_cfg_run(2) [OF s assms(2)]
      frame_logs [OF lo]
    by (auto simp: w1_def)
qed

text \<open>The three ways the download goes on, from a state that only differs from the one before in
  the protocol state.\<close>

definition quiet_from :: "hw_state \<Rightarrow> 'a hw_world_scheme \<Rightarrow> 'a hw_world_scheme \<Rightarrow> bool" where
  "quiet_from s w0 w \<longleftrightarrow> effects w0 w [] \<and> speeds w = speeds w0 \<and> frame_of w = frame_of w0 \<and> cfg_of w = HW_CFG_DL_FW_PATCH
     \<and> hw_cfg_cb w0 = (hw_cfg_cb w)\<lparr>cfg_state := s\<rparr>"

lemma quiet_view:
  assumes "quiet_from s w0 w"
  shows "view w0 = (s, f_set_baud_2 (hw_cfg_cb w) \<noteq> FALSE, fw_fd_of w)" and "chip_ok w0 = chip_ok w"
    and "effects w0 w []" and "speeds w = speeds w0" and "frame_of w = frame_of w0"
  using assms by (simp_all add: quiet_from_def view_def chip_ok_def)

lemma sim_no_file:
  assumes "finish_download C E b w = Some (r, w')" and "hdr_ok E b" and "\<not> 0 \<le> fw_fd_of w"
    and "s = HW_CFG_DL_MINIDRIVER \<or> s = HW_CFG_DL_FW_PATCH" and "quiet_from s w0 w"
  shows "simulates C E e (hb_id b) w0 r w'"
proof -
  note q = quiet_view [OF assms(5)]
  from finish_download_run [OF assms(1,2)] obtain b' where b':
    "effects w w' [sent HCI_RESET b' r]" "cfg_command E (hb_id b) HCI_RESET [] b' r"
    "frame_of w' = frame_of w"
    "hw_cfg_cb w' = (hw_cfg_cb w)\<lparr>cfg_state := HW_CFG_START, f_set_baud_2 := TRUE\<rparr>"
    "speeds w' = (B115200, B115200)" by blast
  have "fw_case C E (context_of w0) e (Some B115200) (hb_id b) (view w0) [sent HCI_RESET b' r] r (view w')"
    unfolding q(1) using assms(3,4) b'(2,4) by (auto simp: view_def intro!: fw_case.patch_none)
  moreover have "effects w0 w' [sent HCI_RESET b' r]" using effects_trans [OF q(3) b'(1)] by simp
  ultimately show ?thesis
    using q(2,5) b' unfolding simulates_def
    by (intro conjI exI [of _ "[sent HCI_RESET b' r]"] exI [of _ "Some B115200"]) (auto simp: chip_ok_def)
qed

lemma sim_record:
  assumes "read_record E opc b w = Some (True, b1, w1)"
    and "hc_xmit E (u16_of (hb_data b1 ! 0) (hb_data b1 ! 1)) b1 CB_hw_config w1 = Some (r, w')"
    and "hdr_ok E b" and "length (hb_data b) = HCI_CMD_MAX_LEN" and "0 \<le> fw_fd_of w"
    and "s = HW_CFG_DL_MINIDRIVER \<or> s = HW_CFG_DL_FW_PATCH" and "quiet_from s w0 w"
    and "evt_opcode e = Some opc"
  shows "simulates C E e (hb_id b) w0 r w'"
proof -
  define opc' where "opc' = u16_of (hb_data b1 ! 0) (hb_data b1 ! 1)"
  note q = quiet_view [OF assms(7)] and x = assms(2) [folded opc'_def]
  from read_record_run [OF assms(1,3)] obtain rec where rr: "read_frame E b b1 w w1"
      "opc \<noteq> HCI_VSC_LAUNCH_RAM" "next_record E (fw_fd_of w) rec"
      "unat (hb_len b1) = length rec" "take (length rec) (hb_data b1) = rec" by blast
  have w': "w' = log (sent opc' b1 r) w1" using x by (simp add: hc_xmit_Some)
  have "3 \<le> length rec" using rr(3) by (auto simp: next_record_def)
  moreover have "hb_data b1 ! i = rec ! i" if "i < length rec" for i
    using nth_take [OF that, of "hb_data b1"] rr(5) by simp
  ultimately have "hb_data b1 ! 0 = rec ! 0" "hb_data b1 ! 1 = rec ! 1" by fastforce+
  then have "record_command E (hb_id b) rec opc' b1 r"
    using rr assms(4) xmit_answer [OF x] by (simp add: record_command_def read_frame_def opc'_def)
  moreover have "evt_opcode e \<noteq> Some HCI_VSC_LAUNCH_RAM" using rr(2) assms(8) by simp
  ultimately have "fw_case C E (context_of w0) e None (hb_id b) (view w0) [sent opc' b1 r] r (view w')"
    unfolding q(1) using assms(5-7) rr(1,3)
    by (auto simp: w' view_def quiet_from_def read_frame_def intro!: fw_case.patch_record)
  moreover have "effects w0 w1 []" using q(3) rr(1) effects_trans [of w0 w "[]" w1 "[]"] by (simp add: read_frame_def)
  then have "effects w0 w' [sent opc' b1 r]"
    using effects_log [of w0 w1 "[]" "sent opc' b1 r"] by (simp add: w')
  ultimately show ?thesis
    using q(2,4,5) rr(1) unfolding simulates_def
    by (intro conjI exI [of _ "[sent opc' b1 r]"] exI [of _ None]) (auto simp: w' chip_ok_def read_frame_def)
qed

lemma sim_download_end:
  assumes "read_record E opc b w = Some (False, b1, w1)"
    and "finish_download C E b1 (set_fw_fd (- 1) (log (CloseEv (fw_fd_of w1)) w1)) = Some (r, w')"
    and "hdr_ok E b" and "0 \<le> fw_fd_of w"
    and "s = HW_CFG_DL_MINIDRIVER \<or> s = HW_CFG_DL_FW_PATCH" and "quiet_from s w0 w"
    and "evt_opcode e = Some opc"
  shows "simulates C E e (hb_id b) w0 r w'"
proof -
  define w2 where "w2 = set_fw_fd (- 1) (log (CloseEv (fw_fd_of w1)) w1)"
  note q = quiet_view [OF assms(6)]
  have rr: "read_frame E b b1 w w1" and no: "no_record E (fw_fd_of w) e"
    using read_record_run [OF assms(1,3)] assms(7) by simp_all
  from finish_download_run [OF assms(2) [folded w2_def]] rr obtain b' where
    f: "effects w2 w' [sent HCI_RESET b' r]" "cfg_command E (hb_id b) HCI_RESET [] b' r"
    "frame_of w' = frame_of w2"
    "hw_cfg_cb w' = (hw_cfg_cb w2)\<lparr>cfg_state := HW_CFG_START, f_set_baud_2 := TRUE\<rparr>"
    "speeds w' = (B115200, B115200)" by (auto simp: read_frame_def)
  have "effects w0 w1 []" using q(3) rr effects_trans [of w0 w "[]" w1 "[]"] by (simp add: read_frame_def)
  then have "effects w0 w2 [CloseEv (fw_fd_of w)]"
    using effects_log [of w0 w1 "[]" "CloseEv (fw_fd_of w)"] rr by (simp add: w2_def read_frame_def)
  then have "effects w0 w' [CloseEv (fw_fd_of w), sent HCI_RESET b' r]"
    using effects_trans f(1) by fastforce
  moreover have "fw_case C E (context_of w0) e (Some B115200) (hb_id b) (view w0)
      [CloseEv (fw_fd_of w), sent HCI_RESET b' r] r (view w')"
    unfolding q(1) using assms(4,5) no f(2,4) by (auto simp: view_def w2_def intro!: fw_case.patch_end)
  ultimately show ?thesis
    using q(2,5) rr f(3-5) unfolding simulates_def
    by (intro conjI exI [of _ "[CloseEv (fw_fd_of w), sent HCI_RESET b' r]"] exI [of _ "Some B115200"])
      (auto simp: chip_ok_def w2_def read_frame_def)
qed

lemma sim_dl_fw_patch:
  assumes "cfg_dl_fw_patch C E opc b w = Some (r, w')" and "hdr_ok E b"
    and "length (hb_data b) = HCI_CMD_MAX_LEN"
    and "s = HW_CFG_DL_MINIDRIVER \<or> s = HW_CFG_DL_FW_PATCH"
    and "effects w0 w []" and "frame_of w = frame_of w0" and "cfg_of w = HW_CFG_DL_FW_PATCH"
    and "hw_cfg_cb w0 = (hw_cfg_cb w)\<lparr>cfg_state := s\<rparr>" and "speeds w = speeds w0" and "evt_opcode e = Some opc"
  shows "simulates C E e (hb_id b) w0 r w'"
proof -
  have q: "quiet_from s w0 w" using assms(5-9) by (simp add: quiet_from_def)
  show ?thesis
  proof (cases "0 \<le> fw_fd_of w")
    case False
    with assms(1) have "finish_download C E b w = Some (r, w')" by (simp add: cfg_dl_fw_patch_def)
    from sim_no_file [OF this assms(2) False assms(4) q] show ?thesis .
  next
    case True
    with assms(1) obtain full b1 w1 where rd: "read_record E opc b w = Some (full, b1, w1)"
      and k: "(if full then hc_xmit E (u16_of (hb_data b1 ! 0) (hb_data b1 ! 1)) b1 CB_hw_config w1
        else finish_download C E b1 (set_fw_fd (- 1) (log (CloseEv (fw_fd_of w1)) w1))) = Some (r, w')"
      by (auto simp: cfg_dl_fw_patch_def elim!: bind_SomeE split del: if_split)
    show ?thesis
      using sim_record [OF _ _ assms(2,3) True assms(4) q assms(10)]
        sim_download_end [OF _ _ assms(2) True assms(4) q assms(10)] rd k
      by (cases full) auto
  qed
qed

lemma sim_dl_minidriver:
  assumes "cfg_dl_minidriver C E opc b w = Some (r, w')" and "hdr_ok E b"
    and "length (hb_data b) = HCI_CMD_MAX_LEN" and "cfg_of w = HW_CFG_DL_MINIDRIVER" and "evt_opcode e = Some opc"
  shows "simulates C E e (hb_id b) w r w'"
proof -
  obtain w1 where d: "ms_delay E 50 w = Some w1"
    and p: "cfg_dl_fw_patch C E opc b (set_cfg_state HW_CFG_DL_FW_PATCH w1) = Some (r, w')"
    using assms(1) by (auto simp: cfg_dl_minidriver_def elim!: bind_SomeE)
  note lo = ms_delay_sleeps [OF d]
  show ?thesis
    using effects_quiet [OF lo] calm_kinds(1) frame_logs [OF lo] logs_only_speed [OF lo] assms(4,5)
    by (intro sim_dl_fw_patch [OF p assms(2,3), of HW_CFG_DL_MINIDRIVER]) auto
qed

section \<open>The callback implements the machine\<close>

lemma simulates_dispatch:
  assumes "hw_config_dispatch C E e opc b w = Some (r, w')" and "hdr_ok E b"
    and "length (hb_data b) = HCI_CMD_MAX_LEN" and "evt_opcode e = Some opc"
  shows "simulates C E e (hb_id b) w r w'"
proof -
  have stray: "simulates C E e (hb_id b) w FALSE w"
    if "cfg_of w = HW_CFG_NONE \<or> cfg_of w = HW_CFG_READ_BD_ADDR \<and> \<not> USE_CONTROLLER_BDADDR C"
    using fw_case.stray [OF refl that, of E "context_of w" e "hb_id b" "f_set_baud_2 (hw_cfg_cb w) \<noteq> FALSE" "fw_fd_of w"]
    unfolding simulates_def view_def by (intro conjI exI [of _ "[]"] exI [of _ None]) auto
  show ?thesis
  proof (cases "cfg_of w")
    case HW_CFG_DL_FW_PATCH
    then have upd: "hw_cfg_cb w = (hw_cfg_cb w)\<lparr>cfg_state := HW_CFG_DL_FW_PATCH\<rparr>"
      by (cases "hw_cfg_cb w") simp
    from HW_CFG_DL_FW_PATCH assms show ?thesis
      by (intro sim_dl_fw_patch [OF _ assms(2,3) _ _ _ _ upd _ assms(4)]) (simp_all add: hw_config_dispatch_def)
  next
    case HW_CFG_READ_BD_ADDR
    with assms stray show ?thesis
      by (auto simp: hw_config_dispatch_def intro: sim_read_bd_addr split: if_splits)
  qed (use assms stray in \<open>auto simp: hw_config_dispatch_def intro: sim_baud_1 sim_read_local_name
         sim_dl_minidriver sim_start sim_uart_clock sim_baud_2 sim_complete\<close>)
qed

lemma close_fw_effects:
  "effects w (close_fw w) (closing (fw_fd_of w))" "frame_of (close_fw w) = frame_of w"
  "hw_cfg_cb (close_fw w) = (hw_cfg_cb w)\<lparr>fw_fd := - 1\<rparr>" "speeds (close_fw w) = speeds w"
  by (auto simp: close_fw_def closing_def effects_def)

lemma abort_run:
  assumes "hw_config_abort buf w = Some w'" and "bt_vendor_cbacks w"
  shows "effects w w' ((case buf of None \<Rightarrow> [] | Some b \<Rightarrow> [DeallocEv (hb_id b)])
      @ [FwcfgCbEv BT_VND_OP_RESULT_FAIL] @ closing (fw_fd_of w))"
    and "frame_of w' = frame_of w"
    and "hw_cfg_cb w' = (hw_cfg_cb w)\<lparr>cfg_state := HW_CFG_NONE, fw_fd := - 1\<rparr>" and "speeds w' = speeds w"
  using assms
  by (auto simp: hw_config_abort_def close_fw_def closing_def effects_def elim!: bind_SomeE
        split: option.splits)

definition refines_step :: "buildcfg \<Rightarrow> env \<Rightarrow> evt \<Rightarrow> 'a hw_world_scheme \<Rightarrow> 'a hw_world_scheme \<Rightarrow> bool" where
  "refines_step C E e w w' \<longleftrightarrow> (\<exists>es q. effects w w' es
       \<and> fw_step C E (context_of w) e q (view w) es (view w') \<and> speeds w' = retuned q (speeds w))
     \<and> frame_of w' = frame_of w \<and> (chip_ok w \<longrightarrow> chip_ok w')"

text \<open>The callback without a command buffer, because of a bad status or for want of memory.\<close>

lemma cback_no_buffer:
  assumes "alloc_if (status = 0 \<and> bt_vendor_cbacks w) E HCI_CMD_MAX_LEN w = Some (None, w1)"
    and "dealloc_if_cbacks (ev_id e) w1 = Some w3" and "hw_config_abort None w3 = Some w'" and "bt_vendor_cbacks w"
    and "evt_status e = Some status"
  shows "refines_step C E e w w'"
proof -
  let ?k = "f_set_baud_2 (hw_cfg_cb w) \<noteq> FALSE"
  have v: "view w = (cfg_of w, ?k, fw_fd_of w)" by (simp add: view_def)
  have w1: "effects w w1 [] \<and> status \<noteq> 0 \<or> status = 0 \<and> alloc_answers E (command_room E) None
      \<and> effects w w1 [AllocEv (command_room E) None]"
    "frame_of w1 = frame_of w" "hw_cfg_cb w1 = hw_cfg_cb w" "speeds w1 = speeds w"
    using assms(1,4) alloc_run [of E HCI_CMD_MAX_LEN w None w1] alloc_answer [of E HCI_CMD_MAX_LEN w None w1]
    by (auto simp: alloc_if_def split: if_splits)
  have c1: "bt_vendor_cbacks w1" using w1(2) assms(4) frame_cbacks by blast
  have w3: "w3 = log (DeallocEv (ev_id e)) w1" using assms(2) c1 by (simp add: if_cbacks_Some)
  note ab = abort_run [OF assms(3)]
  have fin: "effects w3 w' ([FwcfgCbEv BT_VND_OP_RESULT_FAIL] @ closing (fw_fd_of w))"
    "frame_of w' = frame_of w" "hw_cfg_cb w' = (hw_cfg_cb w)\<lparr>cfg_state := HW_CFG_NONE, fw_fd := - 1\<rparr>"
    "speeds w' = retuned None (speeds w)"
    using ab c1 w1 by (auto simp: w3)
  have v': "view w' = (HW_CFG_NONE, ?k, - 1)" by (simp add: view_def fin(3))
  from w1(1) show ?thesis
  proof
    assume st: "effects w w1 [] \<and> status \<noteq> 0"
    then have "effects w w' ([DeallocEv (ev_id e), FwcfgCbEv BT_VND_OP_RESULT_FAIL] @ closing (fw_fd_of w))"
      using effects_trans [OF effects_log [of w w1 "[]" "DeallocEv (ev_id e)"] fin(1) [unfolded w3]] by simp
    then show ?thesis
      using fw_step.bad_status [OF refl assms(5), of C E "context_of w" "cfg_of w" ?k "fw_fd_of w"] st fin v v'
      unfolding refines_step_def by (fastforce simp: chip_ok_def)
  next
    assume al: "status = 0 \<and> alloc_answers E (command_room E) None \<and> effects w w1 [AllocEv (command_room E) None]"
    then have "effects w w1 [AllocEv (command_room E) None]" by simp
    then have "effects w w' ([AllocEv (command_room E) None, DeallocEv (ev_id e),
        FwcfgCbEv BT_VND_OP_RESULT_FAIL] @ closing (fw_fd_of w))"
      using effects_trans [OF effects_log fin(1) [unfolded w3], of w] by fastforce
    then show ?thesis
      using fw_step.no_buffer [OF refl, of e E C "context_of w" "cfg_of w" ?k "fw_fd_of w"] al assms(5) fin v v'
      unfolding refines_step_def by (fastforce simp: chip_ok_def)
  qed
qed

text \<open>The callback with a command buffer: the handler's step, and the abort when it fails.\<close>

lemma cback_buffer:
  assumes "alloc_if (status = 0 \<and> bt_vendor_cbacks w) E HCI_CMD_MAX_LEN w = Some (Some b, w1)"
    and "hw_config_dispatch C E e opc (set_hdr E 0 b) w1 = Some (r, w2)"
    and "dealloc_if_cbacks (ev_id e) w2 = Some w3"
    and "(if r = FALSE then hw_config_abort (Some b) w3 else Some w3) = Some w'" and "bt_vendor_cbacks w"
    and "evt_status e = Some status" and "evt_opcode e = Some opc"
  shows "refines_step C E e w w'"
proof -
  let ?al = "AllocEv (command_room E) (Some (hb_id b))"
  have w1: "effects w w1 [?al]" "frame_of w1 = frame_of w" "hw_cfg_cb w1 = hw_cfg_cb w"
    "length (hb_data b) = HCI_CMD_MAX_LEN" "speeds w1 = speeds w"
    and an: "alloc_answers E (command_room E) (Some (hb_id b))" "evt_status e = Some 0"
    using assms(1,6) alloc_run [of E HCI_CMD_MAX_LEN w "Some b" w1] alloc_answer [of E HCI_CMD_MAX_LEN w "Some b" w1]
    by (auto simp: alloc_if_def split: if_splits)
  have "simulates C E e (hb_id b) w1 r w2"
    using assms(2,7) w1(4) simulates_dispatch [of C E e opc "set_hdr E 0 b" w1 r w2] by simp
  moreover have v1: "view w1 = view w" "context_of w1 = context_of w"
    using w1(2,3) frame_context by (simp_all add: view_def)
  ultimately obtain es q where es: "effects w1 w2 es" "fw_case C E (context_of w) e q (hb_id b) (view w) es r (view w2)"
    and sp: "speeds w2 = retuned q (speeds w)" and f2: "frame_of w2 = frame_of w" and ch: "chip_ok w \<longrightarrow> chip_ok w2"
    using w1 unfolding simulates_def v1 by (auto simp: chip_ok_def)
  have c2: "bt_vendor_cbacks w2" using f2 assms(5) frame_cbacks by blast
  have w3: "w3 = log (DeallocEv (ev_id e)) w2" using assms(3) c2 by (simp add: if_cbacks_Some)
  have e3: "effects w w3 (?al # es @ [DeallocEv (ev_id e)])"
    using effects_log [OF effects_trans [OF w1(1) es(1)], of "DeallocEv (ev_id e)"] by (simp add: w3)
  show ?thesis
  proof (cases "r = FALSE")
    case False
    with assms(4) have "w' = w3" by simp
    moreover have "view w3 = view w2" by (simp add: w3 view_def)
    ultimately show ?thesis
      using fw_step.proceeds [OF es(2) False an(2,1)] e3 f2 ch sp unfolding refines_step_def
      by (intro conjI exI [of _ "?al # es @ [DeallocEv (ev_id e)]"] exI [of _ q]) (auto simp: w3 chip_ok_def)
  next
    case True
    with assms(4) have "hw_config_abort (Some b) w3 = Some w'" by simp
    note ab = abort_run [OF this, unfolded w3, simplified, OF c2]
    have "effects w w' (?al # es @ [DeallocEv (ev_id e), DeallocEv (hb_id b),
        FwcfgCbEv BT_VND_OP_RESULT_FAIL] @ closing (fw_fd_of w2))"
      using effects_trans [OF e3 [unfolded w3] ab(1)] by simp
    moreover have "fw_case C E (context_of w) e q (hb_id b) (view w) es FALSE
        (cfg_of w2, f_set_baud_2 (hw_cfg_cb w2) \<noteq> FALSE, fw_fd_of w2)"
      using es(2) True by (simp add: view_def)
    ultimately show ?thesis
      using fw_step.aborts [OF _ an(2,1)] ab f2 ch sp unfolding refines_step_def
      by (intro conjI exI [of _ "?al # es @ [DeallocEv (ev_id e), DeallocEv (hb_id b),
        FwcfgCbEv BT_VND_OP_RESULT_FAIL] @ closing (fw_fd_of w2)"] exI [of _ q]) (auto simp: view_def chip_ok_def)
  qed
qed

lemma cback_refines:
  assumes "hw_config_cback C E e w = Some w'" and "bt_vendor_cbacks w"
  shows "\<exists>es q. effects w w' es \<and> fw_step C E (context_of w) e q (view w) es (view w')
      \<and> speeds w' = retuned q (speeds w)"
    and "frame_of w' = frame_of w" and "chip_ok w \<longrightarrow> chip_ok w'"
proof -
  obtain status opc buf w1 r w2 w3 where st: "evt_status e = Some status" "evt_opcode e = Some opc"
    and al: "alloc_if (status = 0 \<and> bt_vendor_cbacks w) E HCI_CMD_MAX_LEN w = Some (buf, w1)"
    and di: "(case buf of None \<Rightarrow> Some (FALSE, w1)
        | Some b \<Rightarrow> hw_config_dispatch C E e opc (set_hdr E 0 b) w1) = Some (r, w2)"
    and de: "dealloc_if_cbacks (ev_id e) w2 = Some w3"
    and fi: "(if r = FALSE then hw_config_abort buf w3 else Some w3) = Some w'"
    using assms(1) by (auto simp: hw_config_cback_def elim!: bind_SomeE split del: if_split)
  have "refines_step C E e w w'"
  proof (cases buf)
    case None
    with di de fi have "dealloc_if_cbacks (ev_id e) w1 = Some w3" "hw_config_abort None w3 = Some w'" by auto
    with al None assms(2) st show ?thesis by (intro cback_no_buffer) auto
  next
    case (Some b)
    with al di de fi assms(2) st show ?thesis by (intro cback_buffer) auto
  qed
  then show "\<exists>es q. effects w w' es \<and> fw_step C E (context_of w) e q (view w) es (view w')
      \<and> speeds w' = retuned q (speeds w)"
    and "frame_of w' = frame_of w" and "chip_ok w \<longrightarrow> chip_ok w'" by (auto simp: refines_step_def)
qed

section \<open>Accounts of the machine\<close>

lemma closing_neutral [simp]: "account own_step M (closing fd) = Some M"
  by (simp add: closing_def)

lemma command_id: "cfg_command E n opc ps b r \<Longrightarrow> hb_id b = n" "record_command E n rec opc b r \<Longrightarrow> hb_id b = n"
  by (simp_all add: cfg_command_def record_command_def)

lemma command_bool:
  "cfg_command E n opc ps b r \<Longrightarrow> xmit_returns_bool E \<Longrightarrow> r \<noteq> TRUE \<Longrightarrow> r = FALSE"
  using answers_sane(1) by (auto simp: cfg_command_def)

text \<open>A case keeps the command buffer exactly when it does not proceed.\<close>

lemma case_owned:
  assumes "fw_case C E X e q n v es r v'" and "xmit_returns_bool E"
  shows "account own_step (add_mset n M) es = Some (if r = FALSE then add_mset n M else M)"
  using assms(1)
proof cases
  case baud_2_refused
  with assms(2) show ?thesis by (auto simp: account_append command_id dest: command_bool)
next
  case own_addr_refused
  with assms(2) show ?thesis by (auto simp: account_append command_id dest: command_bool)
qed (auto simp: account_append command_id)

lemma step_owned:
  assumes "fw_step C E X e q v es v'" and "xmit_returns_bool E"
  shows "account own_step (add_mset (ev_id e) M) es = Some M"
  using assms(1)
proof cases
  case (proceeds n es' r)
  with case_owned [OF proceeds(2) assms(2), of "add_mset (ev_id e) M"] show ?thesis
    by (simp add: account_append)
next
  case (aborts n es' s k fd)
  with case_owned [OF aborts(3) assms(2), of "add_mset (ev_id e) M"] show ?thesis
    by (simp add: account_append)
qed (simp_all add: account_append)

text \<open>The patch file is open only while it is downloaded, or until the final address command is
  answered when the download was refused.\<close>

definition fds :: "int \<Rightarrow> int multiset" where
  "fds fd = (if fd = - 1 then {#} else {#fd#})"

definition fd_inv :: "fw_view \<Rightarrow> bool" where
  "fd_inv = (\<lambda>(s, k, fd). - 1 \<le> fd
     \<and> (fd \<noteq> - 1 \<longrightarrow> s \<in> {HW_CFG_DL_MINIDRIVER, HW_CFG_DL_FW_PATCH, HW_CFG_SET_BD_ADDR}))"

lemma closing_fds: "account fd_step (fds fd + M) (closing fd) = Some M"
  by (simp add: fds_def closing_def)

lemma case_fds:
  assumes "fw_case C E X e q n v es r v'" and "open_returns_fd E" and "fd_inv v"
  shows "fd_inv v' \<and> account fd_step (fds (snd (snd v)) + M) es = Some (fds (snd (snd v')) + M)"
  using assms
  by cases (auto simp: fd_inv_def fds_def closing_def dest: answers_sane(2) split: if_splits)

lemma step_fds:
  assumes "fw_step C E X e q v es v'" and "open_returns_fd E" and "fd_inv v"
  shows "fd_inv v' \<and> account fd_step (fds (snd (snd v)) + M) es = Some (fds (snd (snd v')) + M)"
  using assms(1)
proof cases
  case (proceeds n es' r)
  with case_fds [OF proceeds(2) assms(2,3), of M] show ?thesis by (simp add: account_append)
next
  case (aborts n es' s k fd)
  with case_fds [OF aborts(3) assms(2,3), of M] closing_fds [of fd M] show ?thesis
    by (simp add: account_append fd_inv_def) (simp add: fds_def)
next
  case (no_buffer s k fd)
  with closing_fds [of fd M] show ?thesis by (simp add: fd_inv_def) (simp add: fds_def)
next
  case (bad_status st s k fd)
  with closing_fds [of fd M] show ?thesis by (simp add: fd_inv_def) (simp add: fds_def)
qed

text \<open>The machine has no timers.\<close>

lemma case_timerless: "fw_case C E X e q n v es r v' \<Longrightarrow> list_all (\<lambda>e. \<not> is_timer e) es"
  by (induction rule: fw_case.induct) (auto simp: closing_def)

lemma step_timers: "fw_step C E X e q v es v' \<Longrightarrow> account timer_step M es = Some M"
  by (rule account_timerless, induction rule: fw_step.induct) (auto simp: closing_def dest: case_timerless)

section \<open>Outcomes and progress of the machine\<close>

fun is_fwcfg :: "event \<Rightarrow> bool" where
  "is_fwcfg (FwcfgCbEv q) = True"
| "is_fwcfg e = False"

definition reports :: "event list \<Rightarrow> event list" where
  "reports es = filter is_fwcfg es"

lemma reports_simps [simp]:
  "reports [] = []" "reports (es @ es') = reports es @ reports es'"
  "reports (e # es) = (if is_fwcfg e then e # reports es else reports es)"
  "reports (closing fd) = []"
  by (simp_all add: reports_def closing_def)

lemma case_reports:
  assumes "fw_case C E X e q n v es r v'"
  shows "reports es = (if r = TRUE \<and> fst v' = HW_CFG_NONE then [FwcfgCbEv BT_VND_OP_RESULT_SUCCESS] else [])
    \<and> (r \<noteq> FALSE \<longrightarrow> fst v' = HW_CFG_NONE \<longrightarrow> r = TRUE)"
  using assms by cases auto

text \<open>A step reports at most once, and exactly when it ends in the idle state.\<close>

lemma step_reports:
  assumes "fw_step C E X e q v es v'"
  shows "\<exists>q. reports es = (if fst v' = HW_CFG_NONE then [FwcfgCbEv q] else [])"
  using assms
proof cases
  case (proceeds n es' r)
  with case_reports [OF proceeds(2)] show ?thesis by auto
next
  case (aborts n es' s k fd)
  with case_reports [OF aborts(3)] show ?thesis by auto
qed auto

lemma idle_stays:
  assumes "fw_step C E X e q v es v'" and "fst v = HW_CFG_NONE"
  shows "fst v' = HW_CFG_NONE"
  using assms(1)
proof cases
  case (proceeds n es' r)
  from proceeds(2) assms(2) proceeds(3) show ?thesis by cases auto
qed auto

text \<open>The distance to the end. Only transmitting a record of the patch file does not lower it.\<close>

fun rank :: "fw_view \<Rightarrow> nat" where
  "rank (HW_CFG_NONE, k, fd) = 0"
| "rank (HW_CFG_SET_BD_ADDR, k, fd) = 1"
| "rank (HW_CFG_READ_BD_ADDR, k, fd) = 2"
| "rank (HW_CFG_SET_UART_BAUD_2, k, fd) = 3"
| "rank (HW_CFG_SET_UART_CLOCK, k, fd) = (if k then 4 else 10)"
| "rank (HW_CFG_START, k, fd) = (if k then 5 else 11)"
| "rank (HW_CFG_DL_FW_PATCH, k, fd) = 6"
| "rank (HW_CFG_DL_MINIDRIVER, k, fd) = 7"
| "rank (HW_CFG_READ_LOCAL_NAME, k, fd) = 8"
| "rank (HW_CFG_SET_UART_BAUD_1, k, fd) = 9"

lemma case_rank:
  assumes "fw_case C E X e q n v es r v'" and "r \<noteq> FALSE"
  shows "rank v' < rank v \<or> (fst v' = HW_CFG_DL_FW_PATCH \<and> rank v' \<le> rank v)"
  using assms by cases auto

lemma step_rank:
  assumes "fw_step C E X e q v es v'" and "fst v \<noteq> HW_CFG_NONE"
  shows "rank v' < rank v \<or> (fst v' = HW_CFG_DL_FW_PATCH \<and> rank v' \<le> rank v)"
  using assms(1)
proof cases
  case (proceeds n es' r)
  then show ?thesis using case_rank by blast
qed (use assms(2) in \<open>cases "fst v"; cases v; simp\<close>)+

section \<open>The code between two events\<close>

interpretation config: event_handler
  "hw_config_cback C E" "\<lambda>w. bt_vendor_cbacks w \<and> xmit_returns_bool E"
proof
  fix w w' :: "'a hw_world_scheme" and e M
  assume ready: "bt_vendor_cbacks w \<and> xmit_returns_bool E" and run: "hw_config_cback C E e w = Some w'"
  obtain es q where "effects w w' es" "fw_step C E (context_of w) e q (view w) es (view w')"
    using cback_refines(1) [OF run] ready by blast
  then show "owns (add_mset (ev_id e) M) w M w'"
    using ready by (blast intro: effects_owns step_owned)
  show "bt_vendor_cbacks w' \<and> xmit_returns_bool E"
    using cback_refines(2) [OF run] ready frame_cbacks by blast
qed

text \<open>Runs of the machine, event by event.\<close>

lemma deliver_append: "deliver h (es @ fs) w = do { w \<leftarrow> deliver h es w; deliver h fs w }"
  by (induction es arbitrary: w) (auto split: Option.bind_splits)

lemma deliver_induct [consumes 2, case_names nil snoc]:
  assumes "deliver (hw_config_cback C E) es w = Some w'" and "bt_vendor_cbacks w"
    and "P [] w"
    and "\<And>es e w1 w2 s q. deliver (hw_config_cback C E) es w = Some w1 \<Longrightarrow> bt_vendor_cbacks w1 \<Longrightarrow> P es w1
      \<Longrightarrow> hw_config_cback C E e w1 = Some w2 \<Longrightarrow> effects w1 w2 s
      \<Longrightarrow> fw_step C E (context_of w1) e q (view w1) s (view w2) \<Longrightarrow> speeds w2 = retuned q (speeds w1)
      \<Longrightarrow> P (es @ [e]) w2"
  shows "P es w' \<and> bt_vendor_cbacks w'"
  using assms(1)
proof (induction es arbitrary: w' rule: rev_induct)
  case Nil
  with assms(2,3) show ?case by simp
next
  case (snoc e es)
  then obtain w1 where w1: "deliver (hw_config_cback C E) es w = Some w1"
    and e: "hw_config_cback C E e w1 = Some w'"
    by (auto simp: deliver_append elim!: bind_SomeE)
  from snoc.IH [OF w1] have P: "P es w1" and c: "bt_vendor_cbacks w1" by auto
  obtain s q where "effects w1 w' s" "fw_step C E (context_of w1) e q (view w1) s (view w')"
      "speeds w' = retuned q (speeds w1)"
    using cback_refines(1) [OF e c] by blast
  moreover have "bt_vendor_cbacks w'" using cback_refines(2) [OF e c] c frame_cbacks by blast
  ultimately show ?case using assms(4) [OF w1 c P e] by blast
qed

lemma reports_effects: "effects w w' es \<Longrightarrow> reports (drop (length (trace w)) (trace w')) = reports es"
proof -
  have "reports (filter (\<lambda>e. \<not> calm e) s) = reports s" for s
    unfolding reports_def by (induction s) (auto elim: is_fwcfg.elims)
  then show "effects w w' es \<Longrightarrow> ?thesis" by (auto simp: effects_def)
qed

lemma idle_iff: "cfg_of w = HW_CFG_NONE \<longleftrightarrow> fst (view w) = HW_CFG_NONE"
  by (simp add: view_def)

section \<open>The start\<close>

lemma start_run:
  assumes "hw_config_start E w = Some w'" and "bt_vendor_cbacks w"
  shows "frame_of w' = frame_of w \<and> chip_name w' = chip_name w \<and> speeds w' = speeds w \<and>
    ((\<exists>z. view w' = (HW_CFG_NONE, False, - 1) \<and> hc_alloc_addr E (trace w) z = None
        \<and> effects w w' [AllocEv z None, FwcfgCbEv BT_VND_OP_RESULT_FAIL])
     \<or> (\<exists>z b r. view w' = (HW_CFG_START, False, - 1) \<and> cfg_command E (hb_id b) HCI_RESET [] b r
        \<and> effects w w' [AllocEv z (Some (hb_id b)), sent HCI_RESET b r]))"
proof -
  define w0 where "w0 = w\<lparr>hw_cfg_cb := (hw_cfg_cb w)\<lparr>cfg_state := HW_CFG_NONE, fw_fd := - 1, f_set_baud_2 := FALSE\<rparr>\<rparr>"
  have w0: "frame_of w0 = frame_of w" "chip_name w0 = chip_name w" "bt_vendor_cbacks w0"
    "view w0 = (HW_CFG_NONE, False, - 1)" "speeds w0 = speeds w" and e0: "effects w w0 []"
    using assms(2) by (simp_all add: w0_def view_def)
  obtain buf w1 where al: "hc_alloc E HCI_CMD_PREAMBLE_SIZE w0 = Some (buf, w1)"
    and k: "(case buf of Some b \<Rightarrow> do { (r, b, w) \<leftarrow> send_cfg E HCI_RESET [] HW_CFG_START (set_hdr E 3 b) w1; Some w }
      | None \<Rightarrow> notify_if_cbacks (FwcfgCbEv BT_VND_OP_RESULT_FAIL) w1) = Some w'"
    using assms by (auto simp: hw_config_start_def alloc_if_def Let_def w0_def elim!: bind_SomeE)
  note ar = alloc_run [OF al]
  have c1: "bt_vendor_cbacks w1" using ar(2) w0(1,3) frame_cbacks by blast
  show ?thesis
  proof (cases buf)
    case None
    with k c1 have w': "w' = log (FwcfgCbEv BT_VND_OP_RESULT_FAIL) w1" by (simp add: if_cbacks_Some)
    have "effects w w' [AllocEv (BT_HC_HDR_SIZE E + HCI_CMD_PREAMBLE_SIZE) None, FwcfgCbEv BT_VND_OP_RESULT_FAIL]"
      using effects_log [OF effects_trans [OF e0 ar(1)], of "FwcfgCbEv BT_VND_OP_RESULT_FAIL"] None
      by (simp add: w')
    moreover have "hc_alloc_addr E (trace w) (BT_HC_HDR_SIZE E + HCI_CMD_PREAMBLE_SIZE) = None"
      using alloc_address [OF al] None by (simp add: w0_def)
    ultimately show ?thesis using ar w0 by (auto simp: w' view_def)
  next
    case (Some b)
    with k obtain r b' where s: "send_cfg E HCI_RESET [] HW_CFG_START (set_hdr E 3 b) w1 = Some (r, b', w')"
      by (auto elim!: bind_SomeE)
    note se = send_cfg_effects [OF s] and sr = send_cfg_run [OF s]
    have "effects w w' [AllocEv (BT_HC_HDR_SIZE E + HCI_CMD_PREAMBLE_SIZE) (Some (hb_id b')), sent HCI_RESET b' r]"
      using effects_trans [OF effects_trans [OF e0 ar(1)] se(1)] Some sr by simp
    moreover have "view w' = (HW_CFG_START, False, - 1)"
      using se(3) ar(3) w0(4) by (simp add: view_def)
    moreover have "cfg_command E (hb_id b') HCI_RESET [] b' r" using sr by simp
    moreover have "frame_of w' = frame_of w \<and> chip_name w' = chip_name w \<and> speeds w' = speeds w"
      using ar w0 se by simp
    ultimately show ?thesis by blast
  qed
qed

end
