(* ===== verification/ConfigDefined.thy ===== *)
theory ConfigDefined
  imports FwProtocol
begin

text \<open>Where the configuration has a defined result, and where it has none: no handler
  writes outside a buffer, follows a NULL pointer or sleeps for ever, except the one that receives
  the controller's name.\<close>

section \<open>The code is defined\<close>

lemma send_cfg_defined:
  assumes "bt_vendor_cbacks w" and "3 + length ps \<le> length (hb_data b)"
  shows "\<exists>r b' w'. send_cfg E opc ps s b w = Some (r, b', w')"
proof -
  obtain b1 where "put_cmd opc ps b = Some b1" using put_cmd_defined [OF assms(2)] by fast
  then show ?thesis using assms(1) by (simp add: send_cfg_def hc_xmit_def Let_def)
qed

lemma complete_defined: "bt_vendor_cbacks w \<Longrightarrow> \<exists>r w'. hw_config_complete b w = Some (r, w')"
  by (simp add: hw_config_complete_def hc_dealloc_def notify_def)

lemma set_bdaddr_defined:
  assumes "bt_vendor_cbacks w" and "length (vnd_local_bd_addr w) = 6" and "258 \<le> length (hb_data b)"
  shows "\<exists>r w'. hw_config_set_bdaddr E b w = Some (r, w')"
proof -
  let ?a = "vnd_local_bd_addr w"
  obtain r b' w' where "send_cfg E HCI_VSC_WRITE_BD_ADDR [?a ! 5, ?a ! 4, ?a ! 3, ?a ! 2, ?a ! 1, ?a ! 0]
      HW_CFG_SET_BD_ADDR b w = Some (r, b', w')"
    using send_cfg_defined [OF assms(1), of "[?a ! 5, ?a ! 4, ?a ! 3, ?a ! 2, ?a ! 1, ?a ! 0]" b] assms(3)
    by fastforce
  with assms(2) show ?thesis by (simp add: hw_config_set_bdaddr_def Let_def)
qed

lemma read_bdaddr_defined:
  assumes "bt_vendor_cbacks w" and "258 \<le> length (hb_data b)"
  shows "\<exists>r w'. hw_config_read_bdaddr E b w = Some (r, w')"
  using send_cfg_defined [OF assms(1), of "[]" b E HCI_READ_LOCAL_BDADDR HW_CFG_READ_BD_ADDR] assms(2)
  by (fastforce simp: hw_config_read_bdaddr_def)

lemma read_record_defined:
  assumes "length (hb_data b) = HCI_CMD_MAX_LEN"
  shows "\<exists>full b' w'. read_record E opc b w = Some (full, b', w')"
proof -
  have fits: "length bs \<le> n \<Longrightarrow> n + off \<le> 258 \<Longrightarrow> length (hb_data c) = 258 \<Longrightarrow>
      \<exists>c'. put_at off bs c = Some c' \<and> length (hb_data c') = 258" for bs n off c
    by (auto simp: put_at_Some)
  obtain hdr w1 where h: "sys_read E (fw_fd_of w) 3 w = (hdr, w1)" by fastforce
  show ?thesis
  proof (cases hdr)
    case None
    with h show ?thesis by (intro exI [of _ False]) (simp add: read_record_def)
  next
    case (Some bs)
    then have "length bs \<le> 3" using sys_read_Some [OF h] by simp
    then obtain c where c: "put_at 0 bs b = Some c" "length (hb_data c) = 258"
      using fits [of bs 3 0 b] assms by auto
    obtain body w2 where h2: "sys_read E (fw_fd_of w1) (unat (hb_data c ! 2)) w1 = (body, w2)" by fastforce
    show ?thesis
    proof (cases body)
      case None
      with h h2 Some c show ?thesis by (auto simp: read_record_def Let_def)
    next
      case (Some bs2)
      have "unat (hb_data c ! 2) < 256" using unsigned_less [of "hb_data c ! 2", where ?'a = nat] by simp
      moreover have "length bs2 \<le> unat (hb_data c ! 2)" using sys_read_Some [OF h2] Some by simp
      ultimately obtain c' where "put_at 3 bs2 (c\<lparr>hb_len := of_nat (length bs)\<rparr>) = Some c'"
        using fits [of bs2 255 3 "c\<lparr>hb_len := of_nat (length bs)\<rparr>"] c by auto
      with h h2 Some \<open>hdr = Some bs\<close> c show ?thesis by (auto simp: read_record_def Let_def)
    qed
  qed
qed

lemma look_up_defined: "terminated (chip_name w) \<Longrightarrow> look_up_fw_settlement_delay C w \<noteq> None"
  by (auto simp: look_up_fw_settlement_delay_def fw_settlement_table_def)

lemma finish_download_defined:
  assumes "bt_vendor_cbacks w" and "chip_ok w" and "sleep_remainder_smaller E" and "258 \<le> length (hb_data b)"
  shows "\<exists>r w'. finish_download C E b w = Some (r, w')"
proof -
  define w1 where "w1 = set_baud_2 TRUE (userial_vendor_set_baud USERIAL_BAUD_115200 w)"
  have "terminated (chip_name w1)" using assms(2) by (simp add: w1_def chip_ok_def)
  then obtain d where d: "look_up_fw_settlement_delay C w1 = Some d" using look_up_defined by fast
  obtain w2 where w2: "ms_delay E d w1 = Some w2" using ms_delay_returns [OF assms(3)] by fast
  have "frame_of w2 = frame_of w" using frame_logs [OF ms_delay_sleeps [OF w2]] by (simp add: w1_def)
  then have "bt_vendor_cbacks w2" using assms(1) frame_cbacks by blast
  then show ?thesis
    using send_cfg_defined [of w2 "[]" b E HCI_RESET HW_CFG_START] assms(4) d w2
    by (auto simp: finish_download_def w1_def Let_def)
qed

lemma dl_fw_patch_defined:
  assumes "bt_vendor_cbacks w" and "chip_ok w" and "sleep_remainder_smaller E"
    and "length (hb_data b) = HCI_CMD_MAX_LEN" and "hdr_ok E b"
  shows "\<exists>r w'. cfg_dl_fw_patch C E opc b w = Some (r, w')"
proof (cases "0 \<le> fw_fd_of w")
  case False
  then show ?thesis using finish_download_defined [OF assms(1-3)] assms(4) by (simp add: cfg_dl_fw_patch_def)
next
  case True
  obtain full b' w1 where rd: "read_record E opc b w = Some (full, b', w1)"
    using read_record_defined [OF assms(4)] by blast
  note rr = read_record_run [OF rd assms(5), THEN conjunct1, unfolded read_frame_def]
  define w2 where "w2 = set_fw_fd (- 1) (log (CloseEv (fw_fd_of w1)) w1)"
  have c: "bt_vendor_cbacks w1" using rr assms(1) frame_cbacks by blast
  then have "bt_vendor_cbacks w2" "chip_ok w2" using rr assms(2) by (auto simp: w2_def chip_ok_def)
  then have "\<exists>r w'. finish_download C E b' w2 = Some (r, w')"
    using finish_download_defined [of w2 E b' C] assms(3,4) rr by simp
  then show ?thesis
    using True rd c by (auto simp: cfg_dl_fw_patch_def w2_def hc_xmit_def Let_def)
qed

text \<open>The state that receives the controller's name: the search for a patch file is by chip name, and
  the event has room for it.\<close>

definition search_by_name :: "'a hw_world_scheme \<Rightarrow> bool" where
  "search_by_name w \<longleftrightarrow> terminated (fw_patchfile_name w) \<and> cstr (fw_patchfile_name w) = []
     \<and> terminated (fw_patchfile_path w) \<and> cstr (fw_patchfile_path w) \<noteq> []"

definition name_room :: "buildcfg \<Rightarrow> env \<Rightarrow> bytes \<Rightarrow> evt \<Rightarrow> bool" where
  "name_room C E path e \<longleftrightarrow>
     (let blk = drop 6 (ev_payload e); off = chip_offset C (map toupper (cstr blk))
      in 0 \<in> set (drop 32 blk) \<and> off \<le> length blk \<and> patch_dir_ok E path (length blk - off))"

text \<open>What the configuration relies on in an event: the status byte of a command-complete event is
  there, and so is the answer the current state reads.\<close>

definition event_complete :: "buildcfg \<Rightarrow> env \<Rightarrow> 'a hw_world_scheme \<Rightarrow> evt \<Rightarrow> bool" where
  "event_complete C E w e \<longleftrightarrow> 6 \<le> length (ev_payload e)
     \<and> (cfg_of w = HW_CFG_READ_BD_ADDR \<longrightarrow> 12 \<le> length (ev_payload e))
     \<and> (cfg_of w = HW_CFG_READ_LOCAL_NAME \<longrightarrow> name_room C E (cstr (fw_patchfile_path w)) e)"

lemma send_cfg_data:
  "send_cfg E opc ps s b w = Some (r, b', w') \<Longrightarrow> length (hb_data b') = length (hb_data b)"
  by (auto simp: send_cfg_def Let_def elim!: bind_SomeE dest!: put_cmd_keeps)

lemma open_patch_defined:
  assumes "terminated path" and "bt_vendor_cbacks w" and "258 \<le> length (hb_data b)"
  shows "\<exists>q b' w'. open_patch_file E path b w = Some (q, b', w') \<and> 258 \<le> length (hb_data b')"
proof -
  define fd where "fd = os_open E (trace w) (cstr path) O_RDONLY"
  define w1 where "w1 = set_fw_fd fd (log (OpenEv (cstr path) O_RDONLY fd) w)"
  have run: "open_patch_file E path b w = (if fd = - 1 then Some (FALSE, b, w1)
      else send_cfg E HCI_VSC_DOWNLOAD_MINIDRV [] HW_CFG_DL_MINIDRIVER b w1)"
    using assms(1) by (simp add: open_patch_file_def sys_open_def fd_def w1_def Let_def)
  have "bt_vendor_cbacks w1" using assms(2) by (simp add: w1_def)
  then obtain q b' w' where "send_cfg E HCI_VSC_DOWNLOAD_MINIDRV [] HW_CFG_DL_MINIDRIVER b w1 = Some (q, b', w')"
    using send_cfg_defined [of w1 "[]" b E] assms(3) by fastforce
  with run assms(3) send_cfg_data [OF this] show ?thesis by auto
qed

lemma found_patch_defined:
  assumes "hw_config_findpatch E blk w = Some (st, path, w1)" and "terminated path"
    and "bt_vendor_cbacks w" and "length (vnd_local_bd_addr w) = 6" and "258 \<le> length (hb_data b)" and "hdr_ok E b"
  shows "\<exists>q b' w2. (if st = TRUE then open_patch_file E path b w1 else Some (FALSE, b, w1)) = Some (q, b', w2)
    \<and> 258 \<le> length (hb_data b') \<and> bt_vendor_cbacks w2 \<and> length (vnd_local_bd_addr w2) = 6"
proof -
  have "logs_only is_dir_call w w1" using findpatch_result [OF assms(1)] by simp
  then have f1: "frame_of w1 = frame_of w" using frame_logs by blast
  then have c1: "bt_vendor_cbacks w1" "length (vnd_local_bd_addr w1) = 6" using assms(3,4) frame_cbacks by metis+
  obtain q b' w2 where o: "open_patch_file E path b w1 = Some (q, b', w2)" "258 \<le> length (hb_data b')"
    using open_patch_defined [OF assms(2) c1(1) assms(5)] by blast
  have "frame_of w2 = frame_of w1" using o(1) assms(6) by (rule open_patch_run)
  then have "bt_vendor_cbacks w2" "length (vnd_local_bd_addr w2) = 6" using c1 frame_cbacks [of w2 w1] by simp_all
  with c1 o assms(5) show ?thesis by (cases "st = TRUE") auto
qed

lemma read_local_name_defined:
  assumes "bt_vendor_cbacks w" and "chip_ok w" and "length (vnd_local_bd_addr w) = 6"
    and "258 \<le> length (hb_data b)" and "hdr_ok E b"
    and "search_by_name w" and "name_room C E (cstr (fw_patchfile_path w)) e"
  shows "\<exists>r w'. cfg_read_local_name C E e b w = Some (r, w')"
proof -
  let ?blk = "drop 6 (ev_payload e)" and ?path = "cstr (fw_patchfile_path w)"
  define off where "off = chip_offset C (map toupper (cstr ?blk))"
  have nul: "0 \<in> set (drop 32 ?blk)" and off: "off \<le> length ?blk" and dir: "patch_dir_ok E ?path (length ?blk - off)"
    using assms(7) by (simp_all add: name_room_def Let_def off_def)
  then have "off + 31 \<le> length ?blk" by (auto simp: patch_dir_ok_def)
  then obtain blk chip where i: "identify_chip C ?blk (chip_name w) = Some (off, blk, chip)"
      "length blk = length ?blk" "terminated (drop off blk)"
    using identify_chip_defined [OF nul, of C off "chip_name w"] assms(2) off_def by (auto simp: chip_ok_def)
  from i(3) obtain rest where rest: "drop off blk = cstr (drop off blk) @ 0 # rest" by (rule terminated_split)
  define w0 where "w0 = set_chip_name chip w"
  have "length (cstr (drop off blk) @ 0 # rest) = length ?blk - off"
    using i(2) by (simp flip: rest)
  then obtain st path w1 where f: "hw_config_findpatch E (drop off blk) w0 = Some (st, path, w1)" "terminated path"
    using findpatch_defined [of w0 ?path "cstr (drop off blk)" E rest] assms(6) dir rest
    by (auto simp: search_by_name_def w0_def)
  have "bt_vendor_cbacks w0" "length (vnd_local_bd_addr w0) = 6" using assms(1,3) by (simp_all add: w0_def)
  from found_patch_defined [OF f this assms(4,5)] obtain q b' w2
    where o: "(if st = TRUE then open_patch_file E path b w1 else Some (FALSE, b, w1)) = Some (q, b', w2)"
      "258 \<le> length (hb_data b')" "bt_vendor_cbacks w2" "length (vnd_local_bd_addr w2) = 6"
    by blast
  from set_bdaddr_defined [OF o(3,4,2), of E] show ?thesis
    using i(1) f(1) o(1) by (auto simp: cfg_read_local_name_def w0_def Let_def)
qed

lemma uart_defined:
  assumes "bt_vendor_cbacks w" and "258 \<le> length (hb_data b)"
  shows "\<exists>r w'. cfg_uart_baud_1 C E b w = Some (r, w')"
    and "\<exists>r w'. cfg_uart_clock C E b w = Some (r, w')"
    and "\<exists>r w'. cfg_start C E b w = Some (r, w')"
proof -
  have "bt_vendor_cbacks (set_target_baud C w)" using assms(1) frame_cbacks set_target_simps(1) by metis
  then show "\<exists>r w'. cfg_uart_baud_1 C E b w = Some (r, w')"
    using send_cfg_defined [of "set_target_baud C w" "[]" b E HCI_READ_LOCAL_NAME HW_CFG_READ_LOCAL_NAME] assms(2)
    by (auto simp: cfg_uart_baud_1_def)
  show clock: "\<exists>r w'. cfg_uart_clock C E b w = Some (r, w')"
    using send_cfg_defined [OF assms(1), of "0 # 0 # le32 (UART_TARGET_BAUD_RATE C)" b E HCI_VSC_UPDATE_BAUDRATE
        "if f_set_baud_2 (hw_cfg_cb w) \<noteq> FALSE then HW_CFG_SET_UART_BAUD_2 else HW_CFG_SET_UART_BAUD_1"] assms(2)
    by (auto simp: cfg_uart_clock_def split del: if_split)
  show "\<exists>r w'. cfg_start C E b w = Some (r, w')"
    using send_cfg_defined [OF assms(1), of "[1]" b E HCI_VSC_WRITE_UART_CLOCK_SETTING HW_CFG_SET_UART_CLOCK]
      assms(2) clock
    by (auto simp: cfg_start_def)
qed

lemma minidriver_defined:
  assumes "bt_vendor_cbacks w" and "chip_ok w" and "sleep_remainder_smaller E"
    and "length (hb_data b) = HCI_CMD_MAX_LEN" and "hdr_ok E b"
  shows "\<exists>r w'. cfg_dl_minidriver C E opc b w = Some (r, w')"
proof -
  obtain w1 where d: "ms_delay E 50 w = Some w1" using ms_delay_returns [OF assms(3)] by fast
  note lo = frame_logs [OF ms_delay_sleeps [OF d]]
  then have "bt_vendor_cbacks w1" using assms(1) frame_cbacks by blast
  then show ?thesis
    using dl_fw_patch_defined [of "set_cfg_state HW_CFG_DL_FW_PATCH w1" E b C opc] lo assms d
    by (simp add: cfg_dl_minidriver_def chip_ok_def)
qed

text \<open>An address command and what follows when it is refused.\<close>

lemma address_tail_defined:
  assumes "bt_vendor_cbacks w" and "length (vnd_local_bd_addr w) = 6"
    and "258 \<le> length (hb_data b)" and "hdr_ok E b"
  shows "\<exists>r w'. do { (r, w) \<leftarrow> (if read then hw_config_read_bdaddr E b w else hw_config_set_bdaddr E b w);
                  if r = TRUE then Some (r, w) else hw_config_complete b w } = Some (r, w')"
proof -
  obtain q v where a: "(if read then hw_config_read_bdaddr E b w else hw_config_set_bdaddr E b w) = Some (q, v)"
    using set_bdaddr_defined [OF assms(1-3), of E] read_bdaddr_defined [OF assms(1,3), of E] by fastforce
  have "bt_vendor_cbacks v"
    using a by (auto simp: hw_config_read_bdaddr_def hw_config_set_bdaddr_def send_cfg_def hc_xmit_Some Let_def
        elim!: bind_SomeE split: if_splits)
  then show ?thesis using a complete_defined [of v b] by (auto split del: if_split) auto
qed

lemma baud_2_defined:
  assumes "bt_vendor_cbacks w" and "length (vnd_local_bd_addr w) = 6"
    and "258 \<le> length (hb_data b)" and "hdr_ok E b"
  shows "\<exists>r w'. cfg_uart_baud_2 C E b w = Some (r, w')"
proof -
  have "bt_vendor_cbacks (set_target_baud C w)" "length (vnd_local_bd_addr (set_target_baud C w)) = 6"
    using assms(1,2) frame_cbacks set_target_simps(1) by metis+
  from address_tail_defined [OF this assms(3,4), of "USE_CONTROLLER_BDADDR C"] show ?thesis
    by (simp add: cfg_uart_baud_2_def Let_def)
qed

lemma read_bd_addr_defined:
  assumes "bt_vendor_cbacks w" and "length (vnd_local_bd_addr w) = 6"
    and "258 \<le> length (hb_data b)" and "hdr_ok E b" and "12 \<le> length (ev_payload e)"
  shows "\<exists>r w'. cfg_read_bd_addr E e b w = Some (r, w')"
  using address_tail_defined [OF assms(1-4), of False] complete_defined [OF assms(1), of b] assms(5)
  by (simp add: cfg_read_bd_addr_def)

lemma dispatch_defined:
  assumes "bt_vendor_cbacks w" and "chip_ok w" and "sleep_remainder_smaller E"
    and "length (hb_data b) = HCI_CMD_MAX_LEN" and "hdr_ok E b"
    and "length (vnd_local_bd_addr w) = 6" and "event_complete C E w e"
    and "cfg_of w = HW_CFG_READ_LOCAL_NAME \<longrightarrow> search_by_name w"
  shows "\<exists>r w'. hw_config_dispatch C E e opc b w = Some (r, w')"
proof -
  have room: "258 \<le> length (hb_data b)" using assms(4) by simp
  show ?thesis
    using uart_defined [OF assms(1) room] minidriver_defined [OF assms(1-5)] dl_fw_patch_defined [OF assms(1-5)]
      baud_2_defined [OF assms(1,6) room assms(5)] read_bd_addr_defined [OF assms(1,6) room assms(5)]
      read_local_name_defined [OF assms(1,2,6) room assms(5)] complete_defined [OF assms(1)] assms(7,8)
    by (cases "cfg_of w") (simp_all add: hw_config_dispatch_def event_complete_def)
qed

lemma abort_defined: "\<exists>w'. hw_config_abort buf w = Some w'"
  by (auto simp: hw_config_abort_def hc_dealloc_def notify_def log_def split: option.splits)

text \<open>The rest of the callback never fails.\<close>

lemma cback_defined_if:
  fixes w :: "'a hw_world_scheme"
  assumes "6 \<le> length (ev_payload e)"
    and "\<And>opc b (w1 :: 'a hw_world_scheme). frame_of w1 = frame_of w \<Longrightarrow> hw_cfg_cb w1 = hw_cfg_cb w \<Longrightarrow> bt_vendor_cbacks w1
       \<Longrightarrow> length (hb_data b) = HCI_CMD_MAX_LEN \<Longrightarrow> hdr_ok E b \<Longrightarrow>
       \<exists>r w'. hw_config_dispatch C E e opc b w1 = Some (r, w')"
  shows "hw_config_cback C E e w \<noteq> None"
proof -
  let ?opc = "u16_of (ev_payload e ! 3) (ev_payload e ! 4)" and ?st = "ev_payload e ! 5"
  have a: "\<exists>buf w1. alloc_if (?st = 0 \<and> bt_vendor_cbacks w) E HCI_CMD_MAX_LEN w = Some (buf, w1)"
    by (auto simp: alloc_if_def hc_alloc_def Let_def)
  then obtain buf w1 where al: "alloc_if (?st = 0 \<and> bt_vendor_cbacks w) E HCI_CMD_MAX_LEN w = Some (buf, w1)"
    by blast
  have "\<exists>r w2. (case buf of None \<Rightarrow> Some (FALSE, w1)
        | Some b \<Rightarrow> hw_config_dispatch C E e ?opc (set_hdr E 0 b) w1) = Some (r, w2)"
  proof (cases buf)
    case (Some b)
    with al have "hc_alloc E HCI_CMD_MAX_LEN w = Some (Some b, w1)" and c: "bt_vendor_cbacks w"
      by (auto simp: alloc_if_def split: if_splits)
    from alloc_run [OF this(1)] c have "frame_of w1 = frame_of w" "hw_cfg_cb w1 = hw_cfg_cb w"
      "length (hb_data b) = HCI_CMD_MAX_LEN" "bt_vendor_cbacks w1"
      using frame_cbacks by auto
    with Some assms(2) [of w1 "set_hdr E 0 b"] show ?thesis by simp
  qed simp
  then obtain r w2 where "(case buf of None \<Rightarrow> Some (FALSE, w1)
        | Some b \<Rightarrow> hw_config_dispatch C E e ?opc (set_hdr E 0 b) w1) = Some (r, w2)" by blast
  moreover obtain w3 where "dealloc_if_cbacks (ev_id e) w2 = Some w3"
    by (auto simp: if_cbacks_Some)
  moreover obtain w4 where "hw_config_abort buf w3 = Some w4" using abort_defined by blast
  ultimately show ?thesis
    using al evt_status_defined [OF assms(1)] evt_opcode_defined [OF assms(1)]
    by (auto simp: hw_config_cback_def)
qed

lemma cback_defined:
  fixes w :: "'a hw_world_scheme"
  assumes "chip_ok w" and "sleep_remainder_smaller E" and "length (vnd_local_bd_addr w) = 6"
    and "event_complete C E w e"
    and "cfg_of w = HW_CFG_READ_LOCAL_NAME \<longrightarrow> search_by_name w"
  shows "hw_config_cback C E e w \<noteq> None"
proof (rule cback_defined_if)
  show "6 \<le> length (ev_payload e)" using assms(4) by (simp add: event_complete_def)
  fix opc b and w1 :: "'a hw_world_scheme"
  assume w1: "frame_of w1 = frame_of w" "hw_cfg_cb w1 = hw_cfg_cb w" "bt_vendor_cbacks w1"
    and b: "length (hb_data b) = HCI_CMD_MAX_LEN" "hdr_ok E b"
  have f: "search_by_name w1 = search_by_name w" "fw_patchfile_path w1 = fw_patchfile_path w"
    using w1(1) by (simp_all add: frame_of_def search_by_name_def)
  then have "event_complete C E w1 e" using assms(4) w1(2) by (simp add: event_complete_def)
  then show "\<exists>r w'. hw_config_dispatch C E e opc b w1 = Some (r, w')"
    using assms w1 b f frame_cbacks [OF w1(1)] by (intro dispatch_defined) (simp_all add: chip_ok_def)
qed

lemma start_defined: "\<exists>w'. hw_config_start E w = Some w'"
proof (cases "bt_vendor_cbacks w")
  case False
  then show ?thesis by (simp add: hw_config_start_def alloc_if_def notify_if_cbacks_def)
next
  case True
  define w0 where "w0 = w\<lparr>hw_cfg_cb := (hw_cfg_cb w)\<lparr>cfg_state := HW_CFG_NONE, fw_fd := - 1, f_set_baud_2 := FALSE\<rparr>\<rparr>"
  have "\<exists>r w1. hc_alloc E HCI_CMD_PREAMBLE_SIZE w0 = Some (r, w1)"
    using True by (simp add: hc_alloc_def w0_def Let_def)
  then obtain r w1 where al: "hc_alloc E HCI_CMD_PREAMBLE_SIZE w0 = Some (r, w1)" by blast
  note ar = alloc_run [OF al]
  have "frame_of w0 = frame_of w" by (simp add: w0_def)
  then have c: "bt_vendor_cbacks w1" using ar(2) True frame_cbacks by metis
  show ?thesis
  proof (cases r)
    case None
    then show ?thesis
      using al True c by (simp add: hw_config_start_def alloc_if_def w0_def notify_if_cbacks_def notify_def)
  next
    case (Some b)
    then have "3 + length ([] :: bytes) \<le> length (hb_data (set_hdr E 3 b))" using ar(4) by simp
    from send_cfg_defined [OF c this, of E HCI_RESET HW_CFG_START] Some al True
    show ?thesis by (auto simp: hw_config_start_def alloc_if_def w0_def)
  qed
qed

section \<open>A concrete situation\<close>

definition ok_evt :: evt where
  "ok_evt = \<lparr>ev_id = 5, ev_payload = replicate 260 0\<rparr>"

definition reset_sent :: hw_world where
  "reset_sent = idle_hw\<lparr>hw_cfg_cb := \<lparr>cfg_state = HW_CFG_START, fw_fd = - 1, f_set_baud_2 = FALSE,
     local_chip_name = replicate 32 0\<rparr>\<rparr>"

lemma reset_sent_ok:
  "chip_ok reset_sent" "bt_vendor_cbacks reset_sent" "length (vnd_local_bd_addr reset_sent) = 6"
  "cfg_of reset_sent = HW_CFG_START" "fw_fd_of reset_sent = - 1"
  by (simp_all add: reset_sent_def idle_hw_def chip_ok_def terminated_def)

lemma reset_sent_event: "hw_config_cback default_cfg sample_env ok_evt reset_sent \<noteq> None"
  by (rule cback_defined) (simp_all add: reset_sent_ok ok_evt_def event_complete_def)

text \<open>The first answers of a configuration with a host stack that accepts every command: the reset is
  answered, then the command that names the new speed.\<close>

lemma reset_answered:
  assumes "fw_step C E X e q (HW_CFG_START, False, fd) es v'" and "accepting_host E" and "evt_status e = Some 0"
    and "UART_TARGET_BAUD_RATE C \<le> 3000000"
  shows "v' = (HW_CFG_SET_UART_BAUD_1, False, fd) \<and> q = None \<and> (\<exists>b. sent HCI_VSC_UPDATE_BAUDRATE b TRUE \<in> set es)"
proof -
  have case1: "r = TRUE \<and> v2 = (HW_CFG_SET_UART_BAUD_1, False, fd) \<and> q = None \<and> (\<exists>b. sent HCI_VSC_UPDATE_BAUDRATE b TRUE \<in> set t)"
    if "fw_case C E X e q n (HW_CFG_START, False, fd) t r v2" for n t r v2
    using that by cases (use assms(2,4) in \<open>auto simp: cfg_command_def dest: answers_sane(3)\<close>)
  show ?thesis
    using assms(1)
  proof cases
    case (aborts n t s k fd')
    with case1 [OF aborts(3)] show ?thesis by simp
  next
    case (no_buffer)
    with assms(2) show ?thesis by (auto dest: answers_sane(4))
  qed (use assms(3) case1 in fastforce)+
qed

lemma speed_answered:
  assumes "fw_step C E X e q (HW_CFG_SET_UART_BAUD_1, k, fd) es v'" and "accepting_host E" and "evt_status e = Some 0"
  shows "v' = (HW_CFG_READ_LOCAL_NAME, k, fd)"
proof -
  have case1: "r = TRUE \<and> v2 = (HW_CFG_READ_LOCAL_NAME, k, fd)"
    if "fw_case C E X e q n (HW_CFG_SET_UART_BAUD_1, k, fd) t r v2" for n t r v2
    using that by cases (use assms(2) in \<open>auto simp: cfg_command_def dest: answers_sane(3)\<close>)
  show ?thesis
    using assms(1)
  proof cases
    case (aborts n t s k fd')
    with case1 [OF aborts(3)] show ?thesis by simp
  next
    case (no_buffer)
    with assms(2) show ?thesis by (auto dest: answers_sane(4))
  qed (use assms(3) case1 in fastforce)+
qed

lemma two_answers:
  fixes w :: "'a hw_world_scheme"
  assumes "bt_vendor_cbacks w" and "chip_ok w" and "length (vnd_local_bd_addr w) = 6"
    and "accepting_host E" and "sleep_remainder_smaller E" and "UART_TARGET_BAUD_RATE C \<le> 3000000"
  obtains w0 w1 w2 b where "hw_config_start E w = Some w0"
    and "hw_config_cback C E ok_evt w0 = Some w1" and "hw_config_cback C E ok_evt w1 = Some w2"
    and "cfg_of w0 = HW_CFG_START" and "cfg_of w1 = HW_CFG_SET_UART_BAUD_1" and "cfg_of w2 = HW_CFG_READ_LOCAL_NAME"
    and "frame_of w2 = frame_of w" and "chip_ok w2"
    and "sent HCI_VSC_UPDATE_BAUDRATE b TRUE \<in> set (drop (length (trace w)) (trace w1))"
proof -
  obtain w0 where w0: "hw_config_start E w = Some w0" using start_defined by blast
  note s = start_run [OF w0 assms(1)]
  have "hc_alloc_addr E (trace w) z \<noteq> None" for z using assms(4) by (simp add: accepting_host_def)
  with s have v0: "view w0 = (HW_CFG_START, False, - 1)" by auto
  obtain t0 where t0: "trace w0 = trace w @ t0" using s by (auto simp: effects_def)
  have k0: "bt_vendor_cbacks w0" "length (vnd_local_bd_addr w0) = 6" "chip_ok w0"
    using s assms(1-3) frame_cbacks [of w0 w] by (auto simp: chip_ok_def)
  have ok: "event_complete C E v ok_evt" if "cfg_of v \<in> {HW_CFG_START, HW_CFG_SET_UART_BAUD_1}" for v :: "'a hw_world_scheme"
    using that by (auto simp: event_complete_def ok_evt_def)
  have st: "evt_status ok_evt = Some 0" by (simp add: ok_evt_def evt_status_def nth_opt_def)
  have c0: "cfg_of w0 = HW_CFG_START" using v0 by (simp add: view_def)
  obtain w1 where w1: "hw_config_cback C E ok_evt w0 = Some w1"
    using cback_defined [OF k0(3) assms(5) k0(2) ok] c0 by auto
  note r1 = cback_refines [OF w1 k0(1)]
  from r1(1) obtain t1 q1 where t1: "effects w0 w1 t1" "fw_step C E (context_of w0) ok_evt q1 (view w0) t1 (view w1)" by blast
  from reset_answered [OF t1(2) [unfolded v0] assms(4) st assms(6)] obtain b where v1: "view w1 = (HW_CFG_SET_UART_BAUD_1, False, - 1)"
    and b: "sent HCI_VSC_UPDATE_BAUDRATE b TRUE \<in> set t1" by blast
  have c1: "cfg_of w1 = HW_CFG_SET_UART_BAUD_1" using v1 by (simp add: view_def)
  have k1: "bt_vendor_cbacks w1" "length (vnd_local_bd_addr w1) = 6" "chip_ok w1"
    using r1(2,3) k0 frame_cbacks [of w1 w0] by auto
  obtain w2 where w2: "hw_config_cback C E ok_evt w1 = Some w2"
    using cback_defined [OF k1(3) assms(5) k1(2) ok] c1 by auto
  note r2 = cback_refines [OF w2 k1(1)]
  from r2(1) obtain t2 q2 where "fw_step C E (context_of w1) ok_evt q2 (view w1) t2 (view w2)" by blast
  from speed_answered [OF this [unfolded v1] assms(4) st] have c2: "cfg_of w2 = HW_CFG_READ_LOCAL_NAME" by (simp add: view_def)
  have "sent HCI_VSC_UPDATE_BAUDRATE b TRUE \<in> set (drop (length (trace w)) (trace w1))"
    using b t1(1) t0 by (auto simp: effects_def)
  moreover have "frame_of w2 = frame_of w" using r2(2) r1(2) s by simp
  ultimately show thesis using that w0 w1 w2 c0 c1 c2 r2(3) k1(3) by blast
qed

lemma idle_hw_ready: "bt_vendor_cbacks idle_hw" "chip_ok idle_hw" "length (vnd_local_bd_addr idle_hw) = 6"
  by (simp_all add: idle_hw_def static_state_def chip_ok_def terminated_def)

lemma default_rate: "UART_TARGET_BAUD_RATE default_cfg \<le> 3000000"
  by (simp add: default_cfg_def)

section \<open>Where the configuration is defined, and where it is not\<close>

text \<open>
  C14. No event makes the configuration leave defined behaviour, whatever the patch file holds: it
  never writes outside a buffer, follows a NULL pointer or sleeps for ever. The event has to
  hold the answer that is read; the one with the controller's name needs a NUL behind byte 31 of
  the name, and from the chip name on room for the paths of the patch files.
\<close>

theorem config_defined:
  assumes "length (chip_name w) = LOCAL_NAME_BUFFER_LEN" and "terminated (chip_name w)"
    and "length (vnd_local_bd_addr w) = 6" and "sleep_remainder_smaller E"
    and "event_complete C E w e"
    and "cfg_of w = HW_CFG_READ_LOCAL_NAME \<longrightarrow> search_by_name w"
  shows "\<exists>w'. hw_config_cback C E e w = Some w'"
  using cback_defined [of w E C e] assms by (auto simp: chip_ok_def)

text \<open>An answer with the name BCM43341B0 in a field of 248 bytes.\<close>

definition name_evt :: evt where
  "name_evt = \<lparr>ev_id = 5, ev_payload = replicate 6 0 @ lit ''BCM43341B0'' @ replicate 238 0\<rparr>"

definition name_read :: hw_world where
  "name_read = set_cfg_state HW_CFG_READ_LOCAL_NAME reset_sent"

lemma name_read_fields:
  "chip_name name_read = replicate 32 0" "length (vnd_local_bd_addr name_read) = 6"
  "cfg_of name_read = HW_CFG_READ_LOCAL_NAME"
  "fw_patchfile_name name_read = fw_patchfile_name idle_hw" "fw_patchfile_path name_read = fw_patchfile_path idle_hw"
  by (simp_all add: name_read_def reset_sent_def idle_hw_def)

lemma name_evt_room: "name_room default_cfg patch_env (lit ''/vendor/firmware/'') name_evt"
  by (simp add: name_room_def chip_offset_def name_evt_def toupper_def cstr_def patch_dir_ok_def patch_env_def
      patch_string_def)

lemma patch_env_sleeps: "sleep_remainder_smaller patch_env"
  by (simp add: patch_env_def sleep_remainder_smaller_def sample_env_def)

theorem config_defined_witness:
  "\<exists>w'. hw_config_cback default_cfg patch_env name_evt name_read = Some w'"
  by (rule config_defined)
    (use name_evt_room patch_env_sleeps default_path_string in
      \<open>simp_all add: name_read_fields event_complete_def search_by_name_def terminated_def name_evt_def\<close>)

lemma no_alloc_no_parse:
  assumes "evt_status e = Some 0" and "6 \<le> length (ev_payload e)" and "bt_vendor_cbacks w"
    and "cfg_of w = HW_CFG_READ_LOCAL_NAME" and "\<And>tr n. hc_alloc_addr E tr n \<noteq> None"
    and "0 \<notin> set (drop 38 (ev_payload e))"
  shows "hw_config_cback C E e w = None"
proof (rule ccontr)
  assume "hw_config_cback C E e w \<noteq> None"
  then obtain w' buf w1 opc r w2 where
      al: "alloc_if True E HCI_CMD_MAX_LEN w = Some (buf, w1)"
    and di: "(case buf of None \<Rightarrow> Some (FALSE, w1)
        | Some b \<Rightarrow> hw_config_dispatch C E e opc (set_hdr E 0 b) w1) = Some (r, w2)"
    using assms(1,3) by (auto simp: hw_config_cback_def elim!: bind_SomeE split del: if_split)
  have a: "hc_alloc E HCI_CMD_MAX_LEN w = Some (buf, w1)" using al by (simp add: alloc_if_def)
  have "buf \<noteq> None" using alloc_address [OF a] assms(5) by (metis option.map_disc_iff)
  then obtain b where "hw_config_dispatch C E e opc b w1 = Some (r, w2)" using di by auto
  moreover have "cfg_of w1 = HW_CFG_READ_LOCAL_NAME" using alloc_run(3) [OF a] assms(4) by simp
  ultimately have "cfg_read_local_name C E e b w1 = Some (r, w2)" by (simp add: hw_config_dispatch_def)
  then have "upper_loop 0 (drop 6 (ev_payload e)) \<noteq> None"
    by (auto simp: cfg_read_local_name_def identify_chip_def elim!: bind_SomeE)
  then show False using capitalising_defined assms(6) by simp
qed

text \<open>
  C33. A controller whose name fills its field makes the configuration run past the event
  buffer: when no byte from position 32 of the name on is a NUL, the callback that receives the
  name has no defined result.
\<close>

theorem full_name_overruns_event:
  assumes "evt_status e = Some 0" and "6 \<le> length (ev_payload e)" and "bt_vendor_cbacks w"
    and "cfg_of w = HW_CFG_READ_LOCAL_NAME" and "\<forall>tr n. hc_alloc_addr E tr n \<noteq> None"
    and "0 \<notin> set (drop 38 (ev_payload e))"
  shows "hw_config_cback C E e w = None"
  using assms by (intro no_alloc_no_parse) simp_all

theorem full_name_overruns_event_witness:
  "hw_config_cback default_cfg sample_env
     \<lparr>ev_id = 5, ev_payload = replicate 6 0 @ replicate 248 65\<rparr>
     (set_cfg_state HW_CFG_READ_LOCAL_NAME reset_sent) = None"
  by (rule full_name_overruns_event)
    (simp_all add: evt_status_def nth_opt_def nth_append reset_sent_ok sample_env_def)

section \<open>A download that starts\<close>

text \<open>With the directory of \<^verbatim>\<open>patch_env\<close>, the third answer, the one with the name, opens the patch file.\<close>

lemma patch_env_accepts: "accepting_host patch_env" "open_returns_fd patch_env"
  by (simp_all add: patch_env_def sample_env_def accepting_host_def open_returns_fd_def)

lemma name_evt_answers: "evt_status name_evt = Some 0" "12 \<le> length (ev_payload name_evt)"
  by (simp_all add: name_evt_def evt_status_def nth_opt_def nth_append)

lemma name_evt_chip: "event_chip default_cfg name_evt = lit ''BCM43341B0''"
  by (simp add: event_chip_def searched_name_def name_evt_def cstr_def toupper_def)

lemma sample_patch_there:
  "\<not> patch_missing patch_env (lit ''/vendor/firmware/'') [] (event_chip default_cfg name_evt)"
proof -
  have "fits_match (lit ''/vendor/firmware/'') (lit ''BCM43341'') [lit ''readme'', lit ''bcm43341.HCD''] \<noteq> None"
    by (simp add: fits_match_def matches_def patch_name_def caseless_prefix_def suffix_to_prefix
        FW_PATCHFILE_EXTENSION_def toupper_def cstr_def)
  then show ?thesis unfolding name_evt_chip patch_missing_def sample_names by (simp add: patch_env_def)
qed

lemma name_answered:
  assumes "fw_step default_cfg patch_env X name_evt q (HW_CFG_READ_LOCAL_NAME, k, fd) es v'"
    and "cx_dir X = lit ''/vendor/firmware/''" and "cx_file X = []"
  shows "v' = (HW_CFG_DL_MINIDRIVER, k, 7)"
proof -
  have seven: "open_answers patch_env p a \<Longrightarrow> a = 7" for p a
    by (auto simp: open_answers_def patch_env_def sample_env_def)
  have no: "\<not> patch_missing patch_env (cx_dir X) (cx_file X) (event_chip default_cfg name_evt)"
    unfolding assms(2,3) by (rule sample_patch_there)
  have case1: "r = TRUE \<and> v2 = (HW_CFG_DL_MINIDRIVER, k, 7)"
    if "fw_case default_cfg patch_env X name_evt q n (HW_CFG_READ_LOCAL_NAME, k, fd) t r v2" for n t r v2
    using that by cases (use patch_env_accepts(1) no seven in
        \<open>auto simp: cfg_command_def dest!: answers_sane(3) [OF _ patch_env_accepts(1)] seven\<close>)
  show ?thesis
    using assms(1)
  proof cases
    case (aborts n t s k' fd')
    with case1 [OF aborts(3)] show ?thesis by simp
  next
    case (no_buffer)
    with patch_env_accepts(1) show ?thesis by (auto dest: answers_sane(4))
  qed (use name_evt_answers case1 in fastforce)+
qed

lemma download_starts:
  obtains w0 w3 where "hw_config_start patch_env idle_hw = Some w0"
    and "deliver (hw_config_cback default_cfg patch_env) [ok_evt, ok_evt, name_evt] w0 = Some w3"
    and "cfg_of w3 = HW_CFG_DL_MINIDRIVER" and "fw_fd_of w3 = 7"
proof -
  from two_answers [OF idle_hw_ready patch_env_accepts(1) patch_env_sleeps default_rate]
  obtain w0 w1 w2 where w: "hw_config_start patch_env idle_hw = Some w0"
      "hw_config_cback default_cfg patch_env ok_evt w0 = Some w1" "hw_config_cback default_cfg patch_env ok_evt w1 = Some w2"
    and c2: "cfg_of w2 = HW_CFG_READ_LOCAL_NAME" and f2: "frame_of w2 = frame_of idle_hw" and k2: "chip_ok w2" by blast
  have p: "fw_patchfile_path w2 = fw_patchfile_path idle_hw" "fw_patchfile_name w2 = fw_patchfile_name idle_hw"
    "length (vnd_local_bd_addr w2) = 6" "bt_vendor_cbacks w2"
    using f2 idle_hw_ready by (simp_all add: frame_of_def)
  have "event_complete default_cfg patch_env w2 name_evt" "search_by_name w2"
    using name_evt_room name_evt_answers default_path_string
    by (simp_all add: event_complete_def search_by_name_def p)
  then obtain w3 where w3: "hw_config_cback default_cfg patch_env name_evt w2 = Some w3"
    using cback_defined [OF k2 patch_env_sleeps p(3), of default_cfg name_evt] by auto
  from cback_refines(1) [OF w3 p(4)] obtain es q where
    "fw_step default_cfg patch_env (context_of w2) name_evt q (view w2) es (view w3)" by blast
  moreover have "view w2 = (HW_CFG_READ_LOCAL_NAME, f_set_baud_2 (hw_cfg_cb w2) \<noteq> FALSE, fw_fd_of w2)"
    using c2 by (simp add: view_def)
  moreover have "cx_dir (context_of w2) = lit ''/vendor/firmware/''" "cx_file (context_of w2) = []"
    using default_path_string by (simp_all add: context_of_def p)
  ultimately have "view w3 = (HW_CFG_DL_MINIDRIVER, f_set_baud_2 (hw_cfg_cb w2) \<noteq> FALSE, 7)"
    using name_answered by metis
  moreover have "deliver (hw_config_cback default_cfg patch_env) [ok_evt, ok_evt, name_evt] w0 = Some w3"
    using w w3 by simp
  ultimately show thesis using that w(1) by (simp add: view_def)
qed

end
