(* ===== verification/HwLpm.thy ===== *)
theory HwLpm
  imports HwConfig
begin

text \<open>
  hardware.c: low power mode. \<^verbatim>\<open>hw_lpm_enable\<close> sends the sleep mode command and drives the mode
  pin, \<^verbatim>\<open>hw_lpm_ctrl_cback\<close> receives the answer, \<^verbatim>\<open>hw_lpm_get_idle_timeout\<close> and
  \<^verbatim>\<open>hw_lpm_set_wake_state\<close> serve the host stack's idle handling.
\<close>

section \<open>Operations\<close>

abbreviation HCI_VSC_WRITE_SLEEP_MODE :: u16 where "HCI_VSC_WRITE_SLEEP_MODE \<equiv> 0xFC27"

definition LPM_CMD_PARAM_SIZE :: nat where "LPM_CMD_PARAM_SIZE = 12"

lemmas lpm_size [simp] = LPM_CMD_PARAM_SIZE_def

definition hw_lpm_ctrl_cback :: "evt \<Rightarrow> 'a hw_world_scheme \<Rightarrow> 'a hw_world_scheme option" where
  "hw_lpm_ctrl_cback e w =
     do { st \<leftarrow> evt_status e;
          let status = (if st = 0 then BT_VND_OP_RESULT_SUCCESS else BT_VND_OP_RESULT_FAIL);
          if bt_vendor_cbacks w
          then do { w \<leftarrow> notify (LpmCbEv status) w; hc_dealloc (ev_id e) w }
          else Some w }"

definition hw_lpm_enable ::
  "buildcfg \<Rightarrow> env \<Rightarrow> u8 \<Rightarrow> 'a hw_world_scheme \<Rightarrow> (u8 \<times> 'a hw_world_scheme) option" where
  "hw_lpm_enable C E turn_on w =
     do { (p_buf, w) \<leftarrow> alloc_if (bt_vendor_cbacks w) E (HCI_CMD_PREAMBLE_SIZE + LPM_CMD_PARAM_SIZE) w;
          (ret, w) \<leftarrow>
            (case p_buf of
               None \<Rightarrow> Some (FALSE, w)
             | Some b \<Rightarrow>
                 do { let b = set_hdr E (of_nat (HCI_CMD_PREAMBLE_SIZE + LPM_CMD_PARAM_SIZE)) b;
                      b \<leftarrow> put_cmd HCI_VSC_WRITE_SLEEP_MODE
                            (if turn_on \<noteq> 0 then lpm_param C else replicate LPM_CMD_PARAM_SIZE 0) b;
                      let w = upio_set C E UPIO_LPM_MODE
                            (if turn_on \<noteq> 0 then UPIO_ASSERT else UPIO_DEASSERT) 0 w;
                      (ret, w) \<leftarrow> hc_xmit E HCI_VSC_WRITE_SLEEP_MODE b CB_hw_lpm_ctrl w;
                      w \<leftarrow> (if ret = FALSE then hc_dealloc (hb_id b) w else Some w);
                      Some (ret, w) });
          w \<leftarrow> (if ret = FALSE then notify_if_cbacks (LpmCbEv BT_VND_OP_RESULT_FAIL) w else Some w);
          Some (ret, w) }"

definition idle_unit :: "bytes \<Rightarrow> u32" where
  "idle_unit name =
     (if strstr name (lit ''BCM4325'') \<noteq> None then 25
      else if strstr name (lit ''BCM4358'') \<noteq> None then 50
      else if strstr name (lit ''BCM43013'') \<noteq> None then 1
      else 300)"

definition hw_lpm_get_idle_timeout :: "buildcfg \<Rightarrow> 'a hw_world_scheme \<Rightarrow> u32 option" where
  "hw_lpm_get_idle_timeout C w =
     do { _ \<leftarrow> ensure (terminated (chip_name w));
          let timeout_ms = ucast (lpm_param C ! 1) * LPM_IDLE_TIMEOUT_MULTIPLE C;
          Some (timeout_ms * idle_unit (cstr (chip_name w))) }"

definition hw_lpm_set_wake_state ::
  "buildcfg \<Rightarrow> env \<Rightarrow> u8 \<Rightarrow> 'a hw_world_scheme \<Rightarrow> 'a hw_world_scheme" where
  "hw_lpm_set_wake_state C E wake_assert w =
     upio_set C E UPIO_BT_WAKE (if wake_assert \<noteq> 0 then UPIO_ASSERT else UPIO_DEASSERT) (lpm_param C ! 3) w"

section \<open>Facts\<close>

lemma lpm_param_length [simp]: "length (lpm_param C) = LPM_CMD_PARAM_SIZE"
  by (simp add: lpm_param_def)

lemma upio_set_hw [simp]:
  "bt_vendor_cbacks (upio_set C E pio a p w) = bt_vendor_cbacks w"
  "hw_cfg_cb (upio_set C E pio a p w) = hw_cfg_cb w"
  "vnd_world.more (upio_set C E pio a p w) = vnd_world.more w"
  "vnd_local_bd_addr (upio_set C E pio a p w) = vnd_local_bd_addr w"
  for w :: "'a hw_world_scheme"
  using upio_set_frame(5) [of C E pio a p w]
  by (cases "upio_set C E pio a p w"; cases w; simp)+

text \<open>The two ways a sleep mode request can go: no buffer, or a well-formed command after the
  pin request, given back when it is refused.\<close>

lemma lpm_sent:
  assumes "hc_xmit E HCI_VSC_WRITE_SLEEP_MODE b CB_hw_lpm_ctrl w2 = Some (r, w3)"
    and "(if r = FALSE then hc_dealloc (hb_id b) w3 else Some w3) = Some w4"
    and "(if r = FALSE then notify_if_cbacks (LpmCbEv BT_VND_OP_RESULT_FAIL) w4 else Some w4) = Some w'"
    and "effects w w2 es" and "bt_vendor_cbacks w2"
  shows "effects w w' (es @ [XmitEv HCI_VSC_WRITE_SLEEP_MODE b CB_hw_lpm_ctrl r]
         @ (if r = FALSE then [DeallocEv (hb_id b), LpmCbEv BT_VND_OP_RESULT_FAIL] else []))
    \<and> hw_cfg_cb w' = hw_cfg_cb w2 \<and> bt_vendor_cbacks w' \<and> upio_state w' = upio_state w2
    \<and> timers w' = timers w2"
proof -
  have w3: "w3 = log (XmitEv HCI_VSC_WRITE_SLEEP_MODE b CB_hw_lpm_ctrl r) w2"
    using assms(1) by (simp add: hc_xmit_Some)
  have e3: "effects w w3 (es @ [XmitEv HCI_VSC_WRITE_SLEEP_MODE b CB_hw_lpm_ctrl r])"
    using effects_log [OF assms(4), of "XmitEv HCI_VSC_WRITE_SLEEP_MODE b CB_hw_lpm_ctrl r"] by (simp add: w3)
  show ?thesis
  proof (cases "r = FALSE")
    case True
    then have "w' = log (LpmCbEv BT_VND_OP_RESULT_FAIL) (log (DeallocEv (hb_id b)) w3)"
      using assms(2,3,5) by (auto simp: if_cbacks_Some w3)
    then show ?thesis
      using effects_log [OF effects_log [OF e3, of "DeallocEv (hb_id b)"], of "LpmCbEv BT_VND_OP_RESULT_FAIL"]
        True assms(5) by (simp add: w3)
  next
    case False
    with assms(2,3) have w': "w' = w3" by simp
    have "hw_cfg_cb w3 = hw_cfg_cb w2 \<and> bt_vendor_cbacks w3 \<and> upio_state w3 = upio_state w2 \<and> timers w3 = timers w2"
      using assms(5) by (simp add: w3)
    with e3 False show ?thesis unfolding w' by simp
  qed
qed

lemma lpm_enable_run:
  assumes "hw_lpm_enable C E on w = Some (ret, w')" and "bt_vendor_cbacks w"
  obtains (no_buffer) z where "ret = FALSE" "hc_alloc_addr E (trace w) z = None"
      "effects w w' [AllocEv z None, LpmCbEv BT_VND_OP_RESULT_FAIL]"
      "hw_cfg_cb w' = hw_cfg_cb w" "bt_vendor_cbacks w'" "upio_state w' = upio_state w" "timers w' = timers w"
  | (command) z b ps where "wf_packet E HCI_VSC_WRITE_SLEEP_MODE b"
      "packet_params b = (if on \<noteq> 0 then lpm_param C else replicate LPM_CMD_PARAM_SIZE 0)"
      "bracketed ps"
      "effects w w' ([AllocEv z (Some (hb_id b))] @ ps
         @ [XmitEv HCI_VSC_WRITE_SLEEP_MODE b CB_hw_lpm_ctrl ret]
         @ (if ret = FALSE then [DeallocEv (hb_id b), LpmCbEv BT_VND_OP_RESULT_FAIL] else []))"
      "hw_cfg_cb w' = hw_cfg_cb w" "bt_vendor_cbacks w'"
      "upio_state w' = (upio_state w)[2 := if on \<noteq> 0 then UPIO_ASSERT else UPIO_DEASSERT]"
      "\<forall>N. account timer_step (timers w + N) ps = Some (timers w' + N)"
proof -
  let ?params = "if on \<noteq> 0 then lpm_param C else replicate LPM_CMD_PARAM_SIZE 0"
  let ?act = "if on \<noteq> 0 then UPIO_ASSERT else UPIO_DEASSERT"
  have len: "length ?params = 12" by simp
  obtain buf w1 where al: "hc_alloc E 15 w = Some (buf, w1)"
    using assms by (auto simp: hw_lpm_enable_def alloc_if_def elim!: bind_SomeE)
  have a: "effects w w1 [AllocEv (BT_HC_HDR_SIZE E + 15) (map_option hb_id buf)]"
    "hw_cfg_cb w1 = hw_cfg_cb w" "bt_vendor_cbacks w1" "upio_state w1 = upio_state w" "timers w1 = timers w"
    using al by (cases rule: hc_alloc_SomeE; simp add: effects_one)+
  show thesis
  proof (cases buf)
    case None
    with assms al a have "ret = FALSE \<and> w' = log (LpmCbEv BT_VND_OP_RESULT_FAIL) w1"
      by (auto simp: hw_lpm_enable_def alloc_if_def if_cbacks_Some elim!: bind_SomeE)
    moreover have "hc_alloc_addr E (trace w) (BT_HC_HDR_SIZE E + 15) = None"
      using alloc_address [OF al] None by simp
    ultimately show thesis
      using effects_log [OF a(1), of "LpmCbEv BT_VND_OP_RESULT_FAIL"] a None
      by (intro no_buffer [of "BT_HC_HDR_SIZE E + 15"]) simp_all
  next
    case (Some b0)
    define w2 where "w2 = upio_set C E UPIO_LPM_MODE ?act 0 w1"
    obtain b r w3 w4 where b: "put_cmd HCI_VSC_WRITE_SLEEP_MODE ?params (set_hdr E 15 b0) = Some b"
      and x: "hc_xmit E HCI_VSC_WRITE_SLEEP_MODE b CB_hw_lpm_ctrl w2 = Some (r, w3)"
      and d: "(if r = FALSE then hc_dealloc (hb_id b) w3 else Some w3) = Some w4"
      and n: "(if r = FALSE then notify_if_cbacks (LpmCbEv BT_VND_OP_RESULT_FAIL) w4 else Some w4) = Some w'"
      and r: "ret = r"
      using assms al Some
      by (auto simp: hw_lpm_enable_def alloc_if_def w2_def Let_def elim!: bind_SomeE split del: if_split)
    have h: "hb_event (set_hdr E 15 b0) = MSG_STACK_TO_HC_HCI_CMD E" "hb_offset (set_hdr E 15 b0) = 0"
      "hb_layer (set_hdr E 15 b0) = 0" "unat (hb_len (set_hdr E 15 b0)) = 3 + length ?params"
      by (simp_all add: set_hdr_def)
    have l: "length ?params < 256" by simp
    have id: "hb_id b = hb_id b0" using put_cmd_keeps [OF b] by simp
    obtain ps where ps: "effects w1 w2 ps" "bracketed ps" "\<forall>N. account timer_step (timers w1 + N) ps = Some (timers w2 + N)"
      using upio_set_tidy [of w1 C E UPIO_LPM_MODE ?act 0] by (auto simp: tidy_def w2_def)
    have "effects w w2 ([AllocEv (BT_HC_HDR_SIZE E + 15) (Some (hb_id b))] @ ps)"
      using effects_trans [OF a(1) ps(1)] Some id by simp
    moreover have c2: "bt_vendor_cbacks w2" "hw_cfg_cb w2 = hw_cfg_cb w"
      "upio_state w2 = (upio_state w)[2 := ?act]"
      using a by (simp_all add: w2_def) (simp_all add: upio_set_def frame_simps)
    ultimately have e: "effects w w' ([AllocEv (BT_HC_HDR_SIZE E + 15) (Some (hb_id b))] @ ps
         @ [XmitEv HCI_VSC_WRITE_SLEEP_MODE b CB_hw_lpm_ctrl ret]
         @ (if ret = FALSE then [DeallocEv (hb_id b), LpmCbEv BT_VND_OP_RESULT_FAIL] else []))
      \<and> hw_cfg_cb w' = hw_cfg_cb w \<and> bt_vendor_cbacks w' \<and> upio_state w' = (upio_state w)[2 := ?act]
      \<and> timers w' = timers w2"
      using lpm_sent [OF x d n] r by fastforce
    moreover have "\<forall>N. account timer_step (timers w + N) ps = Some (timers w' + N)" using ps(3) a(5) e by simp
    ultimately show thesis
      using put_cmd_wf [OF b l h] ps(2) by (intro command) blast+
  qed
qed
lemma lpm_enable_neutral:
  assumes "hw_lpm_enable C E on w = Some (ret, w')" and "bt_vendor_cbacks w" and "xmit_returns_bool E"
  shows "owns M w M w' \<and> bt_vendor_cbacks w'"
  using assms(1,2)
proof (cases rule: lpm_enable_run)
  case (command z b ps)
  then show ?thesis
    by (auto intro!: effects_owns [OF command(4)] simp: account_append bracketed_accounts)
qed (auto intro: effects_owns)

lemma lpm_ctrl_run:
  assumes "hw_lpm_ctrl_cback e w = Some w'" and "bt_vendor_cbacks w"
  shows "\<exists>st. evt_status e = Some st
    \<and> w' = log (DeallocEv (ev_id e)) (log (LpmCbEv (if st = 0 then BT_VND_OP_RESULT_SUCCESS
              else BT_VND_OP_RESULT_FAIL)) w)"
  using assms by (auto simp: hw_lpm_ctrl_cback_def Let_def elim!: bind_SomeE)

interpretation lpm: neutral_operation
  "\<lambda>on w. map_option snd (hw_lpm_enable C E on w)" "\<lambda>w. bt_vendor_cbacks w \<and> xmit_returns_bool E"
  by unfold_locales (auto dest: lpm_enable_neutral)

interpretation lpm_ctrl: event_handler hw_lpm_ctrl_cback bt_vendor_cbacks
proof
  fix w w' :: "'a hw_world_scheme" and e M
  assume "bt_vendor_cbacks w" and "hw_lpm_ctrl_cback e w = Some w'"
  then obtain q where w': "w' = log (DeallocEv (ev_id e)) (log (LpmCbEv q) w)"
    using lpm_ctrl_run by blast
  show "owns (add_mset (ev_id e) M) w M w'" by (simp add: w' owns_def)
  show "bt_vendor_cbacks w'" using \<open>bt_vendor_cbacks w\<close> by (simp add: w')
qed

section \<open>Properties\<close>

text \<open>What the host stack sees of a sleep mode request: commands and reports.\<close>

fun is_lpm_event :: "event \<Rightarrow> bool" where
  "is_lpm_event (LpmCbEv q) = True"
| "is_lpm_event (XmitEv opc b cb r) = True"
| "is_lpm_event e = False"

definition lpm_view :: "'a os_scheme \<Rightarrow> 'a os_scheme \<Rightarrow> event list" where
  "lpm_view w w' = filter is_lpm_event (drop (length (trace w)) (trace w'))"

lemma lpm_view_effects: "effects w w' es \<Longrightarrow> lpm_view w w' = filter is_lpm_event es"
proof -
  assume "effects w w' es"
  moreover have "filter is_lpm_event (filter (\<lambda>e. \<not> calm e) s) = filter is_lpm_event s" for s
    by (induction s) (auto elim: is_lpm_event.elims)
  ultimately show ?thesis by (auto simp: effects_def lpm_view_def)
qed

lemma bracketed_no_lpm_event [simp]: "bracketed ps \<Longrightarrow> filter is_lpm_event ps = []"
  by (fastforce simp: bracketed_def list_all_iff filter_empty_conv elim!: is_lpm_event.elims)

lemma lpm_enable_defined:
  assumes "bt_vendor_cbacks w"
  shows "\<exists>ret w'. hw_lpm_enable C E on w = Some (ret, w')"
proof -
  obtain buf w1 where al: "hc_alloc E 15 w = Some (buf, w1)"
    using assms by (auto simp: hc_alloc_def Let_def)
  have a: "bt_vendor_cbacks w1" "\<forall>b. buf = Some b \<longrightarrow> length (hb_data b) = 15"
    using al by (cases rule: hc_alloc_SomeE; simp)+
  show ?thesis
  proof (cases buf)
    case None
    with al assms a show ?thesis by (auto simp: hw_lpm_enable_def alloc_if_def notify_if_cbacks_def notify_def)
  next
    case (Some b0)
    define ps where "ps = (if on \<noteq> 0 then lpm_param C else replicate LPM_CMD_PARAM_SIZE 0)"
    have "3 + length ps \<le> length (hb_data (set_hdr E 15 b0))" using a Some by (simp add: ps_def)
    then obtain b where "put_cmd HCI_VSC_WRITE_SLEEP_MODE ps (set_hdr E 15 b0) = Some b"
      using put_cmd_defined by fast
    with al assms a Some show ?thesis
      by (simp add: hw_lpm_enable_def alloc_if_def ps_def hc_xmit_def hc_dealloc_def notify_if_cbacks_def
            notify_def Let_def)
  qed
qed

text \<open>
  C26. A sleep mode request without a buffer sends nothing, reports one failure and returns FALSE.
  With one it hands the host stack one well-formed sleep mode command, which carries the twelve
  configured parameters or, to switch the mode off, zeros, and records the mode pin accordingly;
  when the host stack accepts the command nothing is reported yet (the report comes with the
  answer), and when it refuses it one failure is reported and FALSE returned. In every case the
  library keeps no buffer.
\<close>

theorem lpm_enable_outcome:
  assumes "hw_lpm_enable C E on w = Some (ret, w')" and "bt_vendor_cbacks w" and "xmit_returns_bool E"
  shows "owns M w M w' \<and>
    ((\<exists>z. hc_alloc_addr E (trace w) z = None) \<and> ret = FALSE \<and> lpm_view w w' = [LpmCbEv BT_VND_OP_RESULT_FAIL]
     \<or> (\<exists>b. wf_packet E HCI_VSC_WRITE_SLEEP_MODE b
          \<and> packet_params b = (if on \<noteq> 0 then lpm_param C else replicate 12 0)
          \<and> lpm_view w w' = XmitEv HCI_VSC_WRITE_SLEEP_MODE b CB_hw_lpm_ctrl ret
               # (if ret = FALSE then [LpmCbEv BT_VND_OP_RESULT_FAIL] else [])
          \<and> upio_state w' = (upio_state w)[2 := if on \<noteq> 0 then UPIO_ASSERT else UPIO_DEASSERT]))"
  using assms(1,2)
proof (cases rule: lpm_enable_run)
  case (no_buffer z)
  then show ?thesis
    using lpm_enable_neutral [OF assms] lpm_view_effects [OF no_buffer(3)] by auto
next
  case (command z b ps)
  then have "lpm_view w w' = XmitEv HCI_VSC_WRITE_SLEEP_MODE b CB_hw_lpm_ctrl ret
      # (if ret = FALSE then [LpmCbEv BT_VND_OP_RESULT_FAIL] else [])"
    using lpm_view_effects [OF command(4)] by simp
  with command show ?thesis using lpm_enable_neutral [OF assms] by (intro conjI disjI2 exI [of _ b]) simp_all
qed

theorem lpm_enable_outcome_witness:
  "\<exists>ret w' b. hw_lpm_enable default_cfg sample_env 1 idle_hw = Some (ret, w') \<and> ret \<noteq> FALSE
    \<and> owns {#} idle_hw {#} w' \<and> packet_params b = lpm_param default_cfg
    \<and> lpm_view idle_hw w' = [XmitEv HCI_VSC_WRITE_SLEEP_MODE b CB_hw_lpm_ctrl ret]
    \<and> upio_state w' = [0, 0, UPIO_ASSERT]"
proof -
  have c: "bt_vendor_cbacks idle_hw" by (simp add: idle_hw_def)
  obtain ret w' where r: "hw_lpm_enable default_cfg sample_env 1 idle_hw = Some (ret, w')"
    using lpm_enable_defined [OF c] by blast
  have "ret \<noteq> FALSE"
    using r by (auto simp: hw_lpm_enable_def hc_xmit_Some sample_env_def Let_def alloc_if_def
            hc_alloc_def c elim!: bind_SomeE split: if_splits)
  with lpm_enable_outcome [OF r c sample_env_sane(1), of "{#}"] r show ?thesis
    by (fastforce simp: idle_hw_def static_state_def eval_nat_numeral)
qed

text \<open>
  The idle timeout is computed without wrap-around: for every threshold byte and every
  multiple up to 56000 it is the product of threshold, multiple and the chip's unit.
\<close>

theorem idle_timeout_exact:
  assumes "terminated (chip_name w)" and "unat (LPM_IDLE_TIMEOUT_MULTIPLE C) \<le> 56000"
  shows "\<exists>t. hw_lpm_get_idle_timeout C w = Some t
    \<and> unat t = unat (LPM_IDLE_THRESHOLD C) * unat (LPM_IDLE_TIMEOUT_MULTIPLE C)
               * unat (idle_unit (cstr (chip_name w)))
    \<and> idle_unit (cstr (chip_name w)) \<in> {1, 25, 50, 300}"
proof -
  let ?a = "LPM_IDLE_THRESHOLD C" and ?m = "LPM_IDLE_TIMEOUT_MULTIPLE C" and ?u = "idle_unit (cstr (chip_name w))"
  have u: "?u \<in> {1, 25, 50, 300}" by (simp add: idle_unit_def)
  then have u300: "unat ?u \<le> 300" by auto
  have a: "unat ?a \<le> 255" using unsigned_less [of ?a, where ?'a = nat] by simp
  have ca: "unat (ucast ?a :: u32) = unat ?a"
    using a by (simp add: unsigned_ucast_eq take_bit_nat_eq_self)
  have am: "unat ?a * unat ?m \<le> 255 * 56000" using a assms(2) by (rule mult_le_mono)
  then have "unat (ucast ?a * ?m) = unat ?a * unat ?m"
    using ca by (simp add: unat_word_ariths)
  moreover have "unat ?a * unat ?m * unat ?u \<le> 255 * 56000 * 300" using am u300 by (rule mult_le_mono)
  ultimately have "unat (ucast ?a * ?m * ?u) = unat ?a * unat ?m * unat ?u"
    by (simp add: unat_word_ariths)
  with u assms(1) show ?thesis by (simp add: hw_lpm_get_idle_timeout_def lpm_param_def)
qed

theorem idle_timeout_exact_witness:
  "\<exists>t. hw_lpm_get_idle_timeout nordic_cfg idle_hw = Some t
    \<and> unat t = unat (LPM_IDLE_THRESHOLD nordic_cfg) * unat (LPM_IDLE_TIMEOUT_MULTIPLE nordic_cfg)
               * unat (idle_unit (cstr (chip_name idle_hw)))
    \<and> idle_unit (cstr (chip_name idle_hw)) \<in> {1, 25, 50, 300}"
  by (rule idle_timeout_exact) (simp_all add: idle_hw_def static_state_def terminated_def nordic_cfg_def)

end
