(* ===== verification/HwSco.thy ===== *)
theory HwSco
  imports HwConfig
begin

text \<open>
  hardware.c: configuration of the SCO audio path. \<^verbatim>\<open>hw_set_audio_state\<close> selects the codec in
  the controller, the codec callbacks then configure the I2S/PCM interface, and on a PCM bus two
  more commands follow, each sent from the callback of the one before. The result goes to the
  host stack's audio_state_cb.
\<close>

section \<open>Commands\<close>

abbreviation HCI_VSC_WRITE_SCO_PCM_INT_PARAM :: u16 where "HCI_VSC_WRITE_SCO_PCM_INT_PARAM \<equiv> 0xFC1C"
abbreviation HCI_VSC_WRITE_PCM_DATA_FORMAT_PARAM :: u16 where "HCI_VSC_WRITE_PCM_DATA_FORMAT_PARAM \<equiv> 0xFC1E"
abbreviation HCI_VSC_WRITE_I2SPCM_INTERFACE_PARAM :: u16 where "HCI_VSC_WRITE_I2SPCM_INTERFACE_PARAM \<equiv> 0xFC6D"
abbreviation HCI_VSC_ENABLE_WBS :: u16 where "HCI_VSC_ENABLE_WBS \<equiv> 0xFC7E"

definition INVALID_SCO_CLOCK_RATE :: u8 where "INVALID_SCO_CLOCK_RATE = 0xFF"
definition SCO_CODEC_PARAM_SIZE :: nat where "SCO_CODEC_PARAM_SIZE = 3"

lemmas sco_sizes [simp] = INVALID_SCO_CLOCK_RATE_def SCO_CODEC_PARAM_SIZE_def

text \<open>\<^verbatim>\<open>SCO_INTERFACE_I2S == sco_bus_interface\<close>; the variable never changes.\<close>

definition bus_is_i2s :: "buildcfg \<Rightarrow> bool" where
  "bus_is_i2s C = SCO_USE_I2S_INTERFACE C"

text \<open>The pattern of every command here: ask for a buffer of the command's size, fill it,
  transmit it, and free it when it is refused. The result is whether it was accepted.\<close>

definition send_sco ::
  "env \<Rightarrow> u16 \<Rightarrow> bytes \<Rightarrow> cback \<Rightarrow> hc_hdr \<Rightarrow> 'a hw_world_scheme \<Rightarrow> (bool \<times> 'a hw_world_scheme) option" where
  "send_sco E opcode params cb b w =
     do { b \<leftarrow> put_cmd opcode params (set_hdr E (of_nat (HCI_CMD_PREAMBLE_SIZE + length params)) b);
          (ret, w) \<leftarrow> hc_xmit E opcode b cb w;
          if ret = FALSE then do { w \<leftarrow> hc_dealloc (hb_id b) w; Some (False, w) }
          else Some (True, w) }"

section \<open>Interface configuration\<close>

text \<open>The parameters for a codec; an unknown one is treated as CVSD.\<close>

definition set_codec_params ::
  "buildcfg \<Rightarrow> env \<Rightarrow> u16 \<Rightarrow> 'a hw_world_scheme \<Rightarrow> 'a hw_world_scheme" where
  "set_codec_params C E codec w =
     (let (sample, rate) =
        (if codec = SCO_CODEC_CVSD E then (0, sco_bus_clock_rate w)
         else if codec = SCO_CODEC_MSBC E then (word_of_int (SCO_WBS_SAMPLE_RATE C), sco_bus_wbs_clock_rate w)
         else (0, sco_bus_clock_rate w))
      in w\<lparr>bt_sco_i2spcm_param := (bt_sco_i2spcm_param w)[2 := sample, 3 := rate],
           bt_sco_param := (bt_sco_param w)[1 := rate]\<rparr>)"

definition hw_sco_i2spcm_config ::
  "buildcfg \<Rightarrow> env \<Rightarrow> u16 \<Rightarrow> 'a hw_world_scheme \<Rightarrow> 'a hw_world_scheme option" where
  "hw_sco_i2spcm_config C E codec w =
     do { (p_buf, w) \<leftarrow> alloc_if (bt_vendor_cbacks w) E (HCI_CMD_PREAMBLE_SIZE + SCO_I2SPCM_PARAM_SIZE) w;
          (accepted, w) \<leftarrow>
            (case p_buf of
               None \<Rightarrow> Some (False, w)
             | Some b \<Rightarrow>
                 let w = set_codec_params C E codec w in
                 send_sco E HCI_VSC_WRITE_I2SPCM_INTERFACE_PARAM (bt_sco_i2spcm_param w) CB_hw_sco_i2spcm_cfg b w);
          if accepted then Some w else notify (AudioStateCbEv BT_VND_OP_RESULT_FAIL) w }"

definition hw_sco_i2spcm_config_from_command ::
  "buildcfg \<Rightarrow> env \<Rightarrow> evt \<Rightarrow> u16 \<Rightarrow> 'a hw_world_scheme \<Rightarrow> 'a hw_world_scheme option" where
  "hw_sco_i2spcm_config_from_command C E e codec w =
     do { st \<leftarrow> evt_status e;
          w \<leftarrow> dealloc_if_cbacks (ev_id e) w;
          if st = 0 then hw_sco_i2spcm_config C E codec w
          else notify_if_cbacks (AudioStateCbEv BT_VND_OP_RESULT_FAIL) w }"

definition hw_set_MSBC_codec_cback :: "buildcfg \<Rightarrow> env \<Rightarrow> evt \<Rightarrow> 'a hw_world_scheme \<Rightarrow> 'a hw_world_scheme option" where
  "hw_set_MSBC_codec_cback C E e w = hw_sco_i2spcm_config_from_command C E e (SCO_CODEC_MSBC E) w"

definition hw_set_CVSD_codec_cback :: "buildcfg \<Rightarrow> env \<Rightarrow> evt \<Rightarrow> 'a hw_world_scheme \<Rightarrow> 'a hw_world_scheme option" where
  "hw_set_CVSD_codec_cback C E e w = hw_sco_i2spcm_config_from_command C E e (SCO_CODEC_CVSD E) w"

text \<open>One further command of the PCM chain: \<^verbatim>\<open>None\<close> in the place of the buffer, or a refusal,
  make it fail.\<close>

definition next_pcm_command ::
  "env \<Rightarrow> u16 \<Rightarrow> bytes \<Rightarrow> 'a hw_world_scheme \<Rightarrow> (bool \<times> 'a hw_world_scheme) option" where
  "next_pcm_command E opcode params w =
     do { (p_buf, w) \<leftarrow> alloc_if (bt_vendor_cbacks w) E (HCI_CMD_PREAMBLE_SIZE + length params) w;
          case p_buf of
            None \<Rightarrow> Some (False, w)
          | Some b \<Rightarrow> send_sco E opcode params CB_hw_sco_i2spcm_cfg b w }"

definition hw_sco_i2spcm_cfg_cback ::
  "buildcfg \<Rightarrow> env \<Rightarrow> evt \<Rightarrow> 'a hw_world_scheme \<Rightarrow> 'a hw_world_scheme option" where
  "hw_sco_i2spcm_cfg_cback C E e w =
     do { opcode \<leftarrow> evt_opcode e;
          st \<leftarrow> evt_status e;
          let status = (if st = 0 then BT_VND_OP_RESULT_SUCCESS else BT_VND_OP_RESULT_FAIL);
          w \<leftarrow> dealloc_if_cbacks (ev_id e) w;
          (sent_next, status, w) \<leftarrow>
            (if status = BT_VND_OP_RESULT_SUCCESS then
               (if opcode = HCI_VSC_WRITE_I2SPCM_INTERFACE_PARAM \<and> \<not> bus_is_i2s C then
                  do { (ok, w) \<leftarrow> next_pcm_command E HCI_VSC_WRITE_SCO_PCM_INT_PARAM (bt_sco_param w) w;
                       Some (ok, BT_VND_OP_RESULT_FAIL, w) }
                else if opcode = HCI_VSC_WRITE_SCO_PCM_INT_PARAM \<and> \<not> bus_is_i2s C then
                  do { (ok, w) \<leftarrow> next_pcm_command E HCI_VSC_WRITE_PCM_DATA_FORMAT_PARAM
                                    (bt_pcm_data_fmt_param C) w;
                       Some (ok, BT_VND_OP_RESULT_FAIL, w) }
                else Some (False, status, w))
             else Some (False, status, w));
          if sent_next then Some w else notify_if_cbacks (AudioStateCbEv status) w }"

section \<open>Entry points\<close>

definition sync_bus_params :: "buildcfg \<Rightarrow> 'a hw_world_scheme \<Rightarrow> 'a hw_world_scheme" where
  "sync_bus_params C w =
     (if bus_is_i2s C
      then let w = w\<lparr>bt_sco_i2spcm_param := (bt_sco_i2spcm_param w)[0 := 1]\<rparr>
           in w\<lparr>sco_bus_clock_rate := bt_sco_i2spcm_param w ! 3\<rparr>
      else let w = w\<lparr>bt_sco_i2spcm_param := (bt_sco_i2spcm_param w)[0 := 0]\<rparr>;
               w = w\<lparr>sco_bus_clock_rate := bt_sco_param w ! 1\<rparr>
           in w\<lparr>bt_sco_i2spcm_param := (bt_sco_i2spcm_param w)[1 := bt_sco_param w ! 4]\<rparr>)"

definition set_default_wbs_rate :: "buildcfg \<Rightarrow> 'a hw_world_scheme \<Rightarrow> 'a hw_world_scheme" where
  "set_default_wbs_rate C w =
     (if sco_bus_wbs_clock_rate w = INVALID_SCO_CLOCK_RATE
      then let w = w\<lparr>sco_bus_wbs_clock_rate := SCO_I2SPCM_IF_CLOCK_RATE4WBS C\<rparr>
           in if sco_bus_wbs_clock_rate w < sco_bus_clock_rate w
              then w\<lparr>sco_bus_wbs_clock_rate := sco_bus_clock_rate w\<rparr> else w
      else w)"

definition hw_sco_config :: "buildcfg \<Rightarrow> env \<Rightarrow> 'a hw_world_scheme \<Rightarrow> 'a hw_world_scheme option" where
  "hw_sco_config C E w =
     do { let w = set_default_wbs_rate C (sync_bus_params C w);
          w \<leftarrow> (if bus_is_i2s C then hw_sco_i2spcm_config C E (SCO_CODEC_CVSD E) w else Some w);
          notify_if_cbacks (ScocfgCbEv BT_VND_OP_RESULT_SUCCESS) w }"

definition hw_set_SCO_codec ::
  "env \<Rightarrow> u16 \<Rightarrow> 'a hw_world_scheme \<Rightarrow> (int \<times> 'a hw_world_scheme) option" where
  "hw_set_SCO_codec E codec w =
     do { (p_buf, w) \<leftarrow> alloc_if (bt_vendor_cbacks w) E (HCI_CMD_PREAMBLE_SIZE + SCO_CODEC_PARAM_SIZE) w;
          case p_buf of
            None \<Rightarrow> Some (- 1, w)
          | Some b \<Rightarrow>
              do { (ok, w) \<leftarrow>
                     (if codec = SCO_CODEC_MSBC E
                      then send_sco E HCI_VSC_ENABLE_WBS (1 # le16 codec) CB_hw_set_MSBC_codec b w
                      else send_sco E HCI_VSC_ENABLE_WBS [0] CB_hw_set_CVSD_codec b w);
                   Some (if ok then 0 else - 1, w) } }"

definition hw_set_audio_state ::
  "buildcfg \<Rightarrow> env \<Rightarrow> u16 \<Rightarrow> 'a hw_world_scheme \<Rightarrow> (int \<times> 'a hw_world_scheme) option" where
  "hw_set_audio_state C E peer_codec w =
     (if \<not> SCO_CFG_INCLUDED C then Some (- 256, w)
      else if \<not> bt_vendor_cbacks w then Some (- 1, w)
      else hw_set_SCO_codec E peer_codec w)"

section \<open>Facts\<close>

text \<open>A command of the chain: well-formed, with the parameters given.\<close>

lemma send_sco_run:
  assumes "send_sco E opc params cb b w = Some (ok, w')" and "length params < 256"
  obtains bf r where "hb_id bf = hb_id b" "wf_packet E opc bf" "packet_params bf = params"
    "bt_vendor_cbacks w" "ok \<longleftrightarrow> r \<noteq> FALSE" "r = hc_xmit_result E (trace w) opc bf cb"
    "w' = (if ok then log (XmitEv opc bf cb r) w else log (DeallocEv (hb_id b)) (log (XmitEv opc bf cb r) w))"
proof -
  let ?b0 = "set_hdr E (of_nat (3 + length params)) b"
  obtain bf r w1 where b: "put_cmd opc params ?b0 = Some bf"
    and x: "hc_xmit E opc bf cb w = Some (r, w1)"
    and d: "(if r = FALSE then do { w \<leftarrow> hc_dealloc (hb_id bf) w1; Some (False, w) } else Some (True, w1))
        = Some (ok, w')"
    using assms(1) by (auto simp: send_sco_def elim!: bind_SomeE split del: if_split)
  have len: "unat (of_nat (3 + length params) :: u16) = 3 + length params"
    using assms(2) by (simp only: unat_of_nat, simp add: take_bit_nat_eq_self)
  then have h: "hb_event ?b0 = MSG_STACK_TO_HC_HCI_CMD E" "hb_offset ?b0 = 0" "hb_layer ?b0 = 0"
    "unat (hb_len ?b0) = 3 + length params" by (simp_all add: set_hdr_def)
  have id: "hb_id bf = hb_id b" using put_cmd_keeps [OF b] by simp
  from put_cmd_wf [OF b assms(2) h] x d id show thesis
    by (intro that [of bf r]) (auto simp: hc_xmit_Some elim!: bind_SomeE split: if_splits)
qed

lemma sco_params_frame [simp]:
  "trace (set_codec_params C E codec w) = trace w"
  "bt_vendor_cbacks (set_codec_params C E codec w) = bt_vendor_cbacks w"
  "hw_cfg_cb (set_codec_params C E codec w) = hw_cfg_cb w"
  "length (bt_sco_i2spcm_param (set_codec_params C E codec w)) = length (bt_sco_i2spcm_param w)"
  "length (bt_sco_param (set_codec_params C E codec w)) = length (bt_sco_param w)"
  by (simp_all add: set_codec_params_def split: prod.splits)

lemma sync_frame [simp]:
  "trace (sync_bus_params C w) = trace w"
  "bt_vendor_cbacks (sync_bus_params C w) = bt_vendor_cbacks w"
  "hw_cfg_cb (sync_bus_params C w) = hw_cfg_cb w"
  "length (bt_sco_i2spcm_param (sync_bus_params C w)) = length (bt_sco_i2spcm_param w)"
  "bt_sco_param (sync_bus_params C w) = bt_sco_param w"
  "sco_bus_wbs_clock_rate (sync_bus_params C w) = sco_bus_wbs_clock_rate w"
  by (simp_all add: sync_bus_params_def Let_def)

lemma wbs_frame [simp]:
  "trace (set_default_wbs_rate C w) = trace w"
  "bt_vendor_cbacks (set_default_wbs_rate C w) = bt_vendor_cbacks w"
  "hw_cfg_cb (set_default_wbs_rate C w) = hw_cfg_cb w"
  "bt_sco_i2spcm_param (set_default_wbs_rate C w) = bt_sco_i2spcm_param w"
  "bt_sco_param (set_default_wbs_rate C w) = bt_sco_param w"
  "sco_bus_clock_rate (set_default_wbs_rate C w) = sco_bus_clock_rate w"
  by (simp_all add: set_default_wbs_rate_def Let_def)

text \<open>The parameter arrays keep their sizes.\<close>

definition sco_ok :: "'a hw_world_scheme \<Rightarrow> bool" where
  "sco_ok w \<longleftrightarrow> length (bt_sco_param w) = SCO_PCM_PARAM_SIZE
     \<and> length (bt_sco_i2spcm_param w) = SCO_I2SPCM_PARAM_SIZE"

lemma sco_ok_simps [simp]:
  "sco_ok (log e w) = sco_ok w" "sco_ok (set_codec_params C E codec w) = sco_ok w"
  "sco_ok (sync_bus_params C w) = sco_ok w" "sco_ok (set_default_wbs_rate C w) = sco_ok w"
  by (simp_all add: sco_ok_def)
section \<open>Attempts to send\<close>

text \<open>What asking for a buffer and sending one command amounts to: the environment has no buffer,
  or it accepts or refuses a well-formed command.\<close>

definition attempt :: "env \<Rightarrow> u16 \<Rightarrow> bytes \<Rightarrow> cback \<Rightarrow> bool \<Rightarrow> event list \<Rightarrow> bool" where
  "attempt E opc params cb ok es \<longleftrightarrow>
     (\<exists>z tr. \<not> ok \<and> hc_alloc_addr E tr z = None \<and> es = [AllocEv z None])
     \<or> (\<exists>z b r tr. wf_packet E opc b \<and> packet_params b = params
         \<and> r = hc_xmit_result E tr opc b cb \<and> (ok \<longleftrightarrow> r \<noteq> FALSE)
         \<and> es = [AllocEv z (Some (hb_id b)), XmitEv opc b cb r] @ (if ok then [] else [DeallocEv (hb_id b)]))"

lemma no_buffer_attempt:
  "hc_alloc E n w = Some (None, w') \<Longrightarrow> attempt E opc params cb False [AllocEv (BT_HC_HDR_SIZE E + n) None]"
  unfolding attempt_def using alloc_address [of E n w None w', symmetric] by auto

lemma attempt_owns: "attempt E opc params cb ok es \<Longrightarrow> account own_step M es = Some M"
  by (auto simp: attempt_def)

lemma attempt_fds: "attempt E opc params cb ok es \<Longrightarrow> account fd_step M es = Some M"
  by (auto simp: attempt_def)

lemma attempt_timers: "attempt E opc params cb ok es \<Longrightarrow> account timer_step M es = Some M"
  by (auto simp: attempt_def)

lemma attempt_neutral: "attempt E opc params cb ok es \<Longrightarrow> neutral es"
  by (simp add: neutral_def attempt_owns attempt_fds attempt_timers)

lemma attempt_sends:
  assumes "hc_alloc E n w = Some (Some b, w1)" and "trace w2 = trace w1" and "bt_vendor_cbacks w2"
    and "send_sco E opc params cb b w2 = Some (ok, w3)" and "length params < 256"
  shows "\<exists>es. effects w w3 es \<and> attempt E opc params cb ok es"
    and "\<exists>t. w3 = w2\<lparr>trace := t\<rparr>"
proof -
  have al: "effects w w1 [AllocEv (BT_HC_HDR_SIZE E + n) (Some (hb_id b))]"
    using alloc_run(1) [OF assms(1)] by simp
  then have al2: "effects w w2 [AllocEv (BT_HC_HDR_SIZE E + n) (Some (hb_id b))]"
    using assms(2) by (rule effects_same [rotated])
  obtain bf r where s: "hb_id bf = hb_id b" "wf_packet E opc bf" "packet_params bf = params"
    "ok \<longleftrightarrow> r \<noteq> FALSE" "r = hc_xmit_result E (trace w2) opc bf cb"
    "w3 = (if ok then log (XmitEv opc bf cb r) w2 else log (DeallocEv (hb_id b)) (log (XmitEv opc bf cb r) w2))"
    using send_sco_run [OF assms(4,5)] by metis
  have x: "effects w (log (XmitEv opc bf cb r) w2)
      [AllocEv (BT_HC_HDR_SIZE E + n) (Some (hb_id b)), XmitEv opc bf cb r]"
    using effects_log [OF al2, of "XmitEv opc bf cb r"] by simp
  then have "effects w w3 ([AllocEv (BT_HC_HDR_SIZE E + n) (Some (hb_id bf)), XmitEv opc bf cb r]
      @ (if ok then [] else [DeallocEv (hb_id bf)]))"
    using s x effects_log [OF x, of "DeallocEv (hb_id b)"] by (cases ok) auto
  with s(2-5) show "\<exists>es. effects w w3 es \<and> attempt E opc params cb ok es"
    unfolding attempt_def by blast
  show "\<exists>t. w3 = w2\<lparr>trace := t\<rparr>" using s(6) by (auto simp: log_def)
qed

lemma next_pcm_run:
  assumes "next_pcm_command E opc params w = Some (ok, w')" and "bt_vendor_cbacks w" and "length params < 256"
  shows "\<exists>es. effects w w' es \<and> attempt E opc params CB_hw_sco_i2spcm_cfg ok es"
    and "\<exists>t. w' = w\<lparr>trace := t\<rparr>"
proof -
  obtain buf w1 where al: "hc_alloc E (3 + length params) w = Some (buf, w1)"
    and k: "(case buf of None \<Rightarrow> Some (False, w1)
          | Some b \<Rightarrow> send_sco E opc params CB_hw_sco_i2spcm_cfg b w1) = Some (ok, w')"
    using assms(1,2) by (auto simp: next_pcm_command_def alloc_if_def elim!: bind_SomeE)
  obtain t1 where w1: "w1 = w\<lparr>trace := t1\<rparr>"
    using al by (cases rule: hc_alloc_SomeE) (auto simp: log_def)
  have c: "bt_vendor_cbacks w1" using alloc_run(2) [OF al] assms(2) frame_cbacks by metis
  have "(\<exists>es. effects w w' es \<and> attempt E opc params CB_hw_sco_i2spcm_cfg ok es) \<and> (\<exists>t. w' = w1\<lparr>trace := t\<rparr>)"
  proof (cases buf)
    case None
    with k alloc_run(1) [OF al] have "\<exists>es. effects w w' es \<and> attempt E opc params CB_hw_sco_i2spcm_cfg ok es"
      using no_buffer_attempt [OF al [unfolded None]] by auto
    moreover have "w' = w1" using k None by auto
    then have "w' = w1\<lparr>trace := t1\<rparr>" by (simp add: w1)
    ultimately show ?thesis by blast
  next
    case (Some b)
    with k have "send_sco E opc params CB_hw_sco_i2spcm_cfg b w1 = Some (ok, w')" by simp
    from attempt_sends [OF al [unfolded Some] refl c this assms(3)] show ?thesis by auto
  qed
  then show "\<exists>es. effects w w' es \<and> attempt E opc params CB_hw_sco_i2spcm_cfg ok es"
    and "\<exists>t. w' = w\<lparr>trace := t\<rparr>" by (auto simp: w1)
qed

lemma i2spcm_config_run:
  assumes "hw_sco_i2spcm_config C E codec w = Some w'" and "bt_vendor_cbacks w" and "sco_ok w"
  obtains ok es where
    "effects w w' (es @ (if ok then [] else [AudioStateCbEv BT_VND_OP_RESULT_FAIL]))"
    "attempt E HCI_VSC_WRITE_I2SPCM_INTERFACE_PARAM
       (bt_sco_i2spcm_param (set_codec_params C E codec w)) CB_hw_sco_i2spcm_cfg ok es"
    "bt_vendor_cbacks w'"
    "(\<not> ok \<and> (\<exists>t. w' = w\<lparr>trace := t\<rparr>)) \<or> (\<exists>t. w' = (set_codec_params C E codec w)\<lparr>trace := t\<rparr>)"
proof -
  let ?opc = HCI_VSC_WRITE_I2SPCM_INTERFACE_PARAM and ?v = "set_codec_params C E codec w"
  obtain buf w1 ok w2 where al: "hc_alloc E 7 w = Some (buf, w1)"
    and k: "(case buf of None \<Rightarrow> Some (False, w1)
          | Some b \<Rightarrow> (let w = set_codec_params C E codec w1 in
               send_sco E ?opc (bt_sco_i2spcm_param w) CB_hw_sco_i2spcm_cfg b w)) = Some (ok, w2)"
    and n: "(if ok then Some w2 else notify (AudioStateCbEv BT_VND_OP_RESULT_FAIL) w2) = Some w'"
    using assms(1,2) by (auto simp: hw_sco_i2spcm_config_def alloc_if_def elim!: bind_SomeE split del: if_split)
  have c: "bt_vendor_cbacks w1" using alloc_run(2) [OF al] assms(2) frame_cbacks by metis
  have w1: "w1 = log (AllocEv (BT_HC_HDR_SIZE E + 7) (map_option hb_id buf)) w"
    using al by (cases rule: hc_alloc_SomeE; simp)
  have v: "set_codec_params C E codec w1 = ?v\<lparr>trace := trace w1\<rparr>"
    by (simp add: w1 set_codec_params_def log_def split: prod.splits)
  have *: "(\<exists>es. effects w w2 es \<and> attempt E ?opc (bt_sco_i2spcm_param ?v) CB_hw_sco_i2spcm_cfg ok es)
      \<and> bt_vendor_cbacks w2
      \<and> (\<not> ok \<and> (\<exists>t. w2 = w\<lparr>trace := t\<rparr>) \<or> (\<exists>t. w2 = ?v\<lparr>trace := t\<rparr>))"
  proof (cases buf)
    case None
    then have w2: "ok = False" "w2 = w1" using k by auto
    have "effects w w2 [AllocEv (BT_HC_HDR_SIZE E + 7) None]"
      using alloc_run(1) [OF al] None w2 by simp
    with no_buffer_attempt [OF al [unfolded None]] c w2 show ?thesis by (auto simp: w1 log_def)
  next
    case (Some b)
    with k have s: "send_sco E ?opc (bt_sco_i2spcm_param ?v) CB_hw_sco_i2spcm_cfg b
        (?v\<lparr>trace := trace w1\<rparr>) = Some (ok, w2)"
      by (simp add: v Let_def)
    have l: "length (bt_sco_i2spcm_param ?v) < 256" using assms(3) by (simp add: sco_ok_def)
    have "trace (?v\<lparr>trace := trace w1\<rparr>) = trace w1" "bt_vendor_cbacks (?v\<lparr>trace := trace w1\<rparr>)"
      using assms(2) by simp_all
    note at = attempt_sends [OF al [unfolded Some] this s l]
    from at(2) obtain t where t: "w2 = ?v\<lparr>trace := t\<rparr>" by auto
    with at(1) assms(2) show ?thesis by auto
  qed
  then obtain es where es: "effects w w2 es" "attempt E ?opc (bt_sco_i2spcm_param ?v) CB_hw_sco_i2spcm_cfg ok es"
    by blast
  have w': "w' = (if ok then w2 else log (AudioStateCbEv BT_VND_OP_RESULT_FAIL) w2)"
    using n by (auto split: if_splits)
  show thesis
  proof (rule that [OF _ es(2)])
    show "effects w w' (es @ (if ok then [] else [AudioStateCbEv BT_VND_OP_RESULT_FAIL]))"
      using effects_log [OF es(1), of "AudioStateCbEv BT_VND_OP_RESULT_FAIL"] es(1) by (simp add: w')
    show "bt_vendor_cbacks w'" using * by (simp add: w')
    from * show "(\<not> ok \<and> (\<exists>t. w' = w\<lparr>trace := t\<rparr>)) \<or> (\<exists>t. w' = ?v\<lparr>trace := t\<rparr>)"
      by (auto simp: w' log_def)
  qed
qed

lemma set_SCO_codec_run:
  assumes "hw_set_SCO_codec E codec w = Some (r, w')" and "bt_vendor_cbacks w"
  obtains ok es where "effects w w' es" "r = (if ok then 0 else - 1)"
    "attempt E HCI_VSC_ENABLE_WBS (if codec = SCO_CODEC_MSBC E then 1 # le16 codec else [0])
       (if codec = SCO_CODEC_MSBC E then CB_hw_set_MSBC_codec else CB_hw_set_CVSD_codec) ok es"
    "\<exists>t. w' = w\<lparr>trace := t\<rparr>"
proof -
  note result = that
  let ?ps = "if codec = SCO_CODEC_MSBC E then 1 # le16 codec else [0]"
  let ?cb = "if codec = SCO_CODEC_MSBC E then CB_hw_set_MSBC_codec else CB_hw_set_CVSD_codec"
  obtain buf w1 where al: "hc_alloc E 6 w = Some (buf, w1)"
    and k0: "(case buf of None \<Rightarrow> Some (- 1, w1)
        | Some b \<Rightarrow> do { (ok, w) \<leftarrow>
            (if codec = SCO_CODEC_MSBC E
             then send_sco E HCI_VSC_ENABLE_WBS (1 # le16 codec) CB_hw_set_MSBC_codec b w1
             else send_sco E HCI_VSC_ENABLE_WBS [0] CB_hw_set_CVSD_codec b w1);
            Some (if ok then 0 else - 1, w) })
        = Some (r, w')"
    using assms by (auto simp: hw_set_SCO_codec_def alloc_if_def elim!: bind_SomeE split del: if_split)
  have k: "(case buf of None \<Rightarrow> Some (- 1, w1)
        | Some b \<Rightarrow> do { (ok, w) \<leftarrow> send_sco E HCI_VSC_ENABLE_WBS ?ps ?cb b w1; Some (if ok then 0 else - 1, w) })
        = Some (r, w')"
    using k0 by (cases "codec = SCO_CODEC_MSBC E"; cases buf) simp_all
  obtain t1 where w1: "w1 = w\<lparr>trace := t1\<rparr>" using al by (cases rule: hc_alloc_SomeE) (auto simp: log_def)
  have c: "bt_vendor_cbacks w1" using assms(2) by (simp add: w1)
  show thesis
  proof (cases buf)
    case None
    show thesis
    proof (rule result [OF _ _ no_buffer_attempt [OF al [unfolded None]]])
      show "effects w w' [AllocEv (BT_HC_HDR_SIZE E + 6) None]" "r = (if False then 0 else - 1)"
        using alloc_run(1) [OF al] None k by auto
      show "\<exists>t. w' = w\<lparr>trace := t\<rparr>" using k None w1 by auto
    qed
  next
    case (Some b)
    obtain ok where s: "send_sco E HCI_VSC_ENABLE_WBS ?ps ?cb b w1 = Some (ok, w')" and r: "r = (if ok then 0 else - 1)"
      using k Some by (auto elim!: bind_SomeE split del: if_split)
    have "length ?ps < 256" by simp
    note at = attempt_sends [OF al [unfolded Some] refl c s this]
    from at(1) obtain es where "effects w w' es" "attempt E HCI_VSC_ENABLE_WBS ?ps ?cb ok es" by blast
    moreover from at(2) obtain t where "w' = w\<lparr>trace := t\<rparr>" by (auto simp: w1)
    ultimately show thesis using r by (intro result) auto
  qed
qed

section \<open>Every operation has a result\<close>

lemma send_sco_defined:
  assumes "bt_vendor_cbacks w" and "3 + length params \<le> length (hb_data b)"
  shows "send_sco E opc params cb b w \<noteq> None"
proof -
  have "3 + length params \<le> length (hb_data (set_hdr E (of_nat (3 + length params)) b))" using assms(2) by simp
  then obtain b' where "put_cmd opc params (set_hdr E (of_nat (3 + length params)) b) = Some b'"
    using put_cmd_defined by blast
  with assms(1) show ?thesis by (auto simp: send_sco_def hc_xmit_def hc_dealloc_def Let_def)
qed

lemma alloc_then:
  assumes "bt_vendor_cbacks w"
    and "\<And>b w1. \<lbrakk>bt_vendor_cbacks w1; length (hb_data b) = n; \<exists>e. w1 = log e w\<rbrakk> \<Longrightarrow> f b w1 \<noteq> None"
    and "\<And>w1. \<lbrakk>bt_vendor_cbacks w1; \<exists>e. w1 = log e w\<rbrakk> \<Longrightarrow> g w1 \<noteq> None"
  shows "(do { (p_buf, w) \<leftarrow> hc_alloc E n w; case p_buf of None \<Rightarrow> g w | Some b \<Rightarrow> f b w }) \<noteq> None"
proof -
  obtain buf w1 where al: "hc_alloc E n w = Some (buf, w1)"
    using assms(1) by (auto simp: hc_alloc_def Let_def)
  show ?thesis
  proof (cases rule: hc_alloc_SomeE [OF al])
    case 1
    with assms(3) [of w1] have "g w1 \<noteq> None" by auto
    with al 1 show ?thesis by simp
  next
    case (2 b)
    with assms(2) [of w1 b] have "f b w1 \<noteq> None" by auto
    with al 2 show ?thesis by simp
  qed
qed

lemma next_pcm_defined:
  assumes "bt_vendor_cbacks w"
  shows "\<exists>ok w'. next_pcm_command E opc params w = Some (ok, w')"
proof -
  have "next_pcm_command E opc params w \<noteq> None"
    using assms unfolding next_pcm_command_def alloc_if_def if_P [OF assms]
    by (intro alloc_then) (simp_all add: send_sco_defined del: not_None_eq)
  then show ?thesis by auto
qed

lemma i2spcm_config_defined:
  assumes "bt_vendor_cbacks w" and "sco_ok w"
  shows "\<exists>w'. hw_sco_i2spcm_config C E codec w = Some w'"
proof -
  let ?f = "\<lambda>b w1. let w = set_codec_params C E codec w1 in
     send_sco E HCI_VSC_WRITE_I2SPCM_INTERFACE_PARAM (bt_sco_i2spcm_param w) CB_hw_sco_i2spcm_cfg b w"
  have "(do { (p_buf, w) \<leftarrow> hc_alloc E 7 w; case p_buf of None \<Rightarrow> Some (False, w) | Some b \<Rightarrow> ?f b w }) \<noteq> None"
  proof (rule alloc_then [OF assms(1)])
    fix b :: hc_hdr and w1 :: "'a hw_world_scheme"
    assume a: "bt_vendor_cbacks w1" "length (hb_data b) = 7" "\<exists>e. w1 = log e w"
    then have "length (bt_sco_i2spcm_param (set_codec_params C E codec w1)) = 4"
      using assms(2) by (auto simp: sco_ok_def log_def)
    with a show "?f b w1 \<noteq> None"
      using send_sco_defined [of "set_codec_params C E codec w1" "bt_sco_i2spcm_param (set_codec_params C E codec w1)" b]
      by (auto simp: Let_def)
  qed simp
  then obtain ok w2 where *: "(do { (p_buf, w) \<leftarrow> hc_alloc E 7 w;
      case p_buf of None \<Rightarrow> Some (False, w) | Some b \<Rightarrow> ?f b w }) = Some (ok, w2)" by auto
  then have "hw_sco_i2spcm_config C E codec w
      = (if ok then Some w2 else notify (AudioStateCbEv BT_VND_OP_RESULT_FAIL) w2)"
    using assms(1) by (auto simp: hw_sco_i2spcm_config_def alloc_if_def elim!: bind_SomeE)
  moreover have "bt_vendor_cbacks w2"
    using * assms(1)
    by (auto simp: send_sco_def hc_xmit_Some Let_def elim!: bind_SomeE hc_alloc_SomeE split: if_splits)
  ultimately show ?thesis by (simp add: notify_def)
qed

lemma set_SCO_codec_defined:
  assumes "bt_vendor_cbacks w"
  shows "\<exists>r w'. hw_set_SCO_codec E codec w = Some (r, w')"
proof -
  have "hw_set_SCO_codec E codec w \<noteq> None"
    unfolding hw_set_SCO_codec_def alloc_if_def if_P [OF assms]
  proof (rule alloc_then [OF assms])
    fix b :: hc_hdr and w1 :: "'a hw_world_scheme"
    assume a: "bt_vendor_cbacks w1" "length (hb_data b) = HCI_CMD_PREAMBLE_SIZE + SCO_CODEC_PARAM_SIZE"
    then obtain x y where "send_sco E HCI_VSC_ENABLE_WBS (1 # le16 codec) CB_hw_set_MSBC_codec b w1 = Some x"
      "send_sco E HCI_VSC_ENABLE_WBS [0] CB_hw_set_CVSD_codec b w1 = Some y"
      using send_sco_defined [OF a(1), of "1 # le16 codec" b] send_sco_defined [OF a(1), of "[0]" b] by fastforce
    then show "(do { (ok, w) \<leftarrow>
             (if codec = SCO_CODEC_MSBC E
              then send_sco E HCI_VSC_ENABLE_WBS (1 # le16 codec) CB_hw_set_MSBC_codec b w1
              else send_sco E HCI_VSC_ENABLE_WBS [0] CB_hw_set_CVSD_codec b w1);
           Some (if ok then 0 else - 1 :: int, w) }) \<noteq> None"
      by (cases x; cases y) auto
  qed simp
  then show ?thesis by auto
qed

end
