(* ===== verification/ScoProps.thy ===== *)
theory ScoProps
  imports HwSco
begin

text \<open>
  The properties of the SCO audio path: each completion callback carries out one step of a plan
  that depends only on which callback it is, on the answered opcode and on the status; a whole
  set-up then takes two answers on an I2S bus and four on a PCM bus; the bus parameters.
\<close>

section \<open>The plan\<close>

definition sco_callback ::
  "buildcfg \<Rightarrow> env \<Rightarrow> cback \<Rightarrow> evt \<Rightarrow> 'a hw_world_scheme \<Rightarrow> 'a hw_world_scheme option" where
  "sco_callback C E cb e w =
     (case cb of
        CB_hw_sco_i2spcm_cfg \<Rightarrow> hw_sco_i2spcm_cfg_cback C E e w
      | CB_hw_set_MSBC_codec \<Rightarrow> hw_set_MSBC_codec_cback C E e w
      | CB_hw_set_CVSD_codec \<Rightarrow> hw_set_CVSD_codec_cback C E e w
      | _ \<Rightarrow> None)"

datatype sco_action = Send u16 bytes | Report op_result

definition sco_plan :: "buildcfg \<Rightarrow> env \<Rightarrow> cback \<Rightarrow> u16 \<Rightarrow> u8 \<Rightarrow> 'a hw_world_scheme \<Rightarrow> sco_action" where
  "sco_plan C E cb opcode status w =
     (if status \<noteq> 0 then Report BT_VND_OP_RESULT_FAIL
      else if cb = CB_hw_set_MSBC_codec then
        Send HCI_VSC_WRITE_I2SPCM_INTERFACE_PARAM
          (bt_sco_i2spcm_param (set_codec_params C E (SCO_CODEC_MSBC E) w))
      else if cb = CB_hw_set_CVSD_codec then
        Send HCI_VSC_WRITE_I2SPCM_INTERFACE_PARAM
          (bt_sco_i2spcm_param (set_codec_params C E (SCO_CODEC_CVSD E) w))
      else if bus_is_i2s C then Report BT_VND_OP_RESULT_SUCCESS
      else if opcode = HCI_VSC_WRITE_I2SPCM_INTERFACE_PARAM then
        Send HCI_VSC_WRITE_SCO_PCM_INT_PARAM (bt_sco_param w)
      else if opcode = HCI_VSC_WRITE_SCO_PCM_INT_PARAM then
        Send HCI_VSC_WRITE_PCM_DATA_FORMAT_PARAM (bt_pcm_data_fmt_param C)
      else Report BT_VND_OP_RESULT_SUCCESS)"

text \<open>The calls that carry out an action: the event is freed first, and an action that cannot be
  sent becomes a failure report.\<close>

definition carries_out :: "env \<Rightarrow> nat \<Rightarrow> sco_action \<Rightarrow> event list \<Rightarrow> bool" where
  "carries_out E ev a es \<longleftrightarrow>
     (case a of
        Report q \<Rightarrow> es = [DeallocEv ev, AudioStateCbEv q]
      | Send opc ps \<Rightarrow> (\<exists>ok as. attempt E opc ps CB_hw_sco_i2spcm_cfg ok as
          \<and> es = DeallocEv ev # as @ (if ok then [] else [AudioStateCbEv BT_VND_OP_RESULT_FAIL])))"

lemma carries_out_sendI:
  "attempt E opc ps CB_hw_sco_i2spcm_cfg ok es \<Longrightarrow>
     carries_out E ev (Send opc ps)
       (DeallocEv ev # es @ (if ok then [] else [AudioStateCbEv BT_VND_OP_RESULT_FAIL]))"
  unfolding carries_out_def sco_action.case by blast

lemma carries_out_owns:
  "carries_out E ev a es \<Longrightarrow> account own_step (add_mset ev M) es = Some M"
  by (auto simp: carries_out_def account_append attempt_owns split: sco_action.splits)

lemma carries_out_fds: "carries_out E ev a es \<Longrightarrow> account fd_step M es = Some M"
  by (auto simp: carries_out_def account_append attempt_fds split: sco_action.splits)

lemma carries_out_timers: "carries_out E ev a es \<Longrightarrow> account timer_step M es = Some M"
  by (auto simp: carries_out_def account_append attempt_timers split: sco_action.splits)

section \<open>The callbacks carry out the plan\<close>

lemma set_codec_log [simp]:
  "set_codec_params C E codec (log e w) = log e (set_codec_params C E codec w)"
  by (simp add: set_codec_params_def log_def split: prod.splits)

lemma freed_event: "effects w (log (DeallocEv i) w) [DeallocEv i]"
  by (rule effects_one) simp

lemma sco_log_fields [simp]:
  "bt_sco_param (log e w) = bt_sco_param w" "bt_sco_i2spcm_param (log e w) = bt_sco_i2spcm_param w"
  "sco_bus_clock_rate (log e w) = sco_bus_clock_rate w"
  "sco_bus_wbs_clock_rate (log e w) = sco_bus_wbs_clock_rate w"
  "(log e w)\<lparr>trace := t\<rparr> = w\<lparr>trace := t\<rparr>"
  by (simp_all add: log_def)

lemma from_command_run:
  assumes "hw_sco_i2spcm_config_from_command C E e codec w = Some w'" and "bt_vendor_cbacks w" and "sco_ok w"
  obtains (refused) st where "evt_status e = Some st" "st \<noteq> 0"
      "w' = log (AudioStateCbEv BT_VND_OP_RESULT_FAIL) (log (DeallocEv (ev_id e)) w)"
  | (accepted) ok es where "evt_status e = Some 0"
      "attempt E HCI_VSC_WRITE_I2SPCM_INTERFACE_PARAM
         (bt_sco_i2spcm_param (set_codec_params C E codec w)) CB_hw_sco_i2spcm_cfg ok es"
      "effects w w' (DeallocEv (ev_id e) # es @ (if ok then [] else [AudioStateCbEv BT_VND_OP_RESULT_FAIL]))"
      "bt_vendor_cbacks w'"
      "(\<not> ok \<and> (\<exists>t. w' = w\<lparr>trace := t\<rparr>)) \<or> (\<exists>t. w' = (set_codec_params C E codec w)\<lparr>trace := t\<rparr>)"
proof -
  obtain st where st: "evt_status e = Some st"
    and k: "(if st = 0 then hw_sco_i2spcm_config C E codec (log (DeallocEv (ev_id e)) w)
       else notify_if_cbacks (AudioStateCbEv BT_VND_OP_RESULT_FAIL) (log (DeallocEv (ev_id e)) w)) = Some w'"
    using assms(1,2)
    by (auto simp: hw_sco_i2spcm_config_from_command_def if_cbacks_Some elim!: bind_SomeE split del: if_split)
  show thesis
  proof (cases "st = 0")
    case False
    with k assms(2) st show thesis by (intro refused [of st]) (simp_all add: if_cbacks_Some)
  next
    case True
    let ?v = "log (DeallocEv (ev_id e)) w"
    from True k have "hw_sco_i2spcm_config C E codec ?v = Some w'" by simp
    moreover have "bt_vendor_cbacks ?v" "sco_ok ?v" using assms(2,3) by simp_all
    ultimately obtain ok es where
        r: "effects ?v w' (es @ (if ok then [] else [AudioStateCbEv BT_VND_OP_RESULT_FAIL]))"
        "attempt E HCI_VSC_WRITE_I2SPCM_INTERFACE_PARAM
           (bt_sco_i2spcm_param (set_codec_params C E codec ?v)) CB_hw_sco_i2spcm_cfg ok es"
        "bt_vendor_cbacks w'"
        "(\<not> ok \<and> (\<exists>t. w' = ?v\<lparr>trace := t\<rparr>)) \<or> (\<exists>t. w' = (set_codec_params C E codec ?v)\<lparr>trace := t\<rparr>)"
      by (rule i2spcm_config_run)
    show thesis
    proof (rule accepted [OF _ _ _ r(3)])
      show "effects w w' (DeallocEv (ev_id e) # es @ (if ok then [] else [AudioStateCbEv BT_VND_OP_RESULT_FAIL]))"
        using effects_trans [OF freed_event r(1)] by simp
    qed (use r st True in auto)
  qed
qed

lemma cfg_reports:
  assumes "w' = log (AudioStateCbEv q) (log (DeallocEv n) w)"
  shows "\<exists>es. effects w w' es \<and> carries_out E n (Report q) es \<and> (\<exists>t. w' = w\<lparr>trace := t\<rparr>)"
proof (intro exI conjI)
  show "effects w w' [DeallocEv n, AudioStateCbEv q]"
    using effects_log [OF freed_event [of w n], of "AudioStateCbEv q"] by (simp add: assms)
  show "w' = w\<lparr>trace := trace w'\<rparr>" by (simp add: assms log_def)
qed (simp add: carries_out_def)

lemma cfg_sends:
  assumes "next_pcm_command E c ps (log (DeallocEv n) w) = Some (ok, w1)"
    and "(if ok then Some w1 else notify_if_cbacks (AudioStateCbEv BT_VND_OP_RESULT_FAIL) w1) = Some w'"
    and "bt_vendor_cbacks w" and "length ps < 256"
  shows "\<exists>es. effects w w' es \<and> carries_out E n (Send c ps) es \<and> (\<exists>t. w' = w\<lparr>trace := t\<rparr>)"
proof -
  let ?v = "log (DeallocEv n) w"
  have v: "bt_vendor_cbacks ?v" using assms(3) by simp
  from next_pcm_run [OF assms(1) v assms(4)] obtain es t where es: "effects ?v w1 es"
    "attempt E c ps CB_hw_sco_i2spcm_cfg ok es" and w1: "w1 = w\<lparr>trace := t\<rparr>" by auto
  have w': "w' = (if ok then w1 else log (AudioStateCbEv BT_VND_OP_RESULT_FAIL) w1)"
    using assms(2,3) by (auto simp: if_cbacks_Some w1 split: if_splits)
  have e: "effects w w1 (DeallocEv n # es)" using effects_trans [OF freed_event es(1)] by simp
  show ?thesis
  proof (intro exI conjI)
    show "effects w w' (DeallocEv n # es @ (if ok then [] else [AudioStateCbEv BT_VND_OP_RESULT_FAIL]))"
      using e effects_log [OF e, of "AudioStateCbEv BT_VND_OP_RESULT_FAIL"] by (simp add: w')
    show "carries_out E n (Send c ps)
        (DeallocEv n # es @ (if ok then [] else [AudioStateCbEv BT_VND_OP_RESULT_FAIL]))"
      using es(2) by (rule carries_out_sendI)
    show "w' = w\<lparr>trace := trace w'\<rparr>" by (simp add: w' w1 log_def)
  qed
qed

lemma cfg_cback_run:
  assumes "hw_sco_i2spcm_cfg_cback C E e w = Some w'" and "bt_vendor_cbacks w" and "sco_ok w"
  obtains opc st es where "evt_opcode e = Some opc" "evt_status e = Some st" "effects w w' es"
    "carries_out E (ev_id e) (sco_plan C E CB_hw_sco_i2spcm_cfg opc st w) es" "\<exists>t. w' = w\<lparr>trace := t\<rparr>"
proof -
  note result = that
  let ?v = "log (DeallocEv (ev_id e)) w"
  obtain opc st where o: "evt_opcode e = Some opc" "evt_status e = Some st"
    using assms(1) by (auto simp: hw_sco_i2spcm_cfg_cback_def elim!: bind_SomeE)
  have l: "length (bt_sco_param w) < 256" "length (bt_pcm_data_fmt_param C) < 256"
    using assms(3) by (simp_all add: sco_ok_def bt_pcm_data_fmt_param_def)
  obtain s q w2 where m: "(if st = 0 then
        (if opc = HCI_VSC_WRITE_I2SPCM_INTERFACE_PARAM \<and> \<not> bus_is_i2s C then
           do { (ok, w) \<leftarrow> next_pcm_command E HCI_VSC_WRITE_SCO_PCM_INT_PARAM (bt_sco_param ?v) ?v;
                Some (ok, BT_VND_OP_RESULT_FAIL, w) }
         else if opc = HCI_VSC_WRITE_SCO_PCM_INT_PARAM \<and> \<not> bus_is_i2s C then
           do { (ok, w) \<leftarrow> next_pcm_command E HCI_VSC_WRITE_PCM_DATA_FORMAT_PARAM (bt_pcm_data_fmt_param C) ?v;
                Some (ok, BT_VND_OP_RESULT_FAIL, w) }
         else Some (False, BT_VND_OP_RESULT_SUCCESS, ?v))
       else Some (False, BT_VND_OP_RESULT_FAIL, ?v)) = Some (s, q, w2)"
    and f: "(if s then Some w2 else notify_if_cbacks (AudioStateCbEv q) w2) = Some w'"
    using assms(1,2) o
    by (cases "st = 0") (auto simp: hw_sco_i2spcm_cfg_cback_def if_cbacks_Some elim!: bind_SomeE split del: if_split)
  let ?p = "sco_plan C E CB_hw_sco_i2spcm_cfg opc st w"
  have "\<exists>es. effects w w' es \<and> carries_out E (ev_id e) ?p es \<and> (\<exists>t. w' = w\<lparr>trace := t\<rparr>)"
  proof (cases ?p)
    case (Report r)
    then have "(s, q, w2) = (False, r, ?v)" using m by (auto simp: sco_plan_def split: if_splits)
    with f assms(2) have "w' = log (AudioStateCbEv r) ?v" by (simp add: if_cbacks_Some)
    then show ?thesis unfolding Report by (rule cfg_reports)
  next
    case (Send c ps)
    then have n: "next_pcm_command E c ps ?v = Some (s, w2)" "q = BT_VND_OP_RESULT_FAIL"
      and "ps = bt_sco_param w \<or> ps = bt_pcm_data_fmt_param C"
      using m by (auto simp: sco_plan_def elim!: bind_SomeE split: if_splits)
    then have "length ps < 256" using l by auto
    with n(1) f [unfolded n(2)] assms(2) show ?thesis unfolding Send by (rule cfg_sends)
  qed
  then obtain es where "effects w w' es" "carries_out E (ev_id e) ?p es" "\<exists>t. w' = w\<lparr>trace := t\<rparr>" by blast
  then show thesis by (rule result [OF o])
qed

text \<open>All three callbacks: their calls, and what they keep of the state.\<close>

lemma sco_callback_run:
  assumes "sco_callback C E cb e w = Some w'" and "bt_vendor_cbacks w" and "sco_ok w"
  obtains opc st es where "evt_status e = Some st" "cb = CB_hw_sco_i2spcm_cfg \<longrightarrow> evt_opcode e = Some opc"
    "effects w w' es" "carries_out E (ev_id e) (sco_plan C E cb opc st w) es"
    "(\<exists>t. w' = w\<lparr>trace := t\<rparr>) \<or> (\<exists>codec t. w' = (set_codec_params C E codec w)\<lparr>trace := t\<rparr>)"
proof -
  note result = that
  have codec: thesis
    if "hw_sco_i2spcm_config_from_command C E e codec w = Some w'"
      and p: "\<And>opc st. sco_plan C E cb opc st w = (if st \<noteq> 0 then Report BT_VND_OP_RESULT_FAIL
        else Send HCI_VSC_WRITE_I2SPCM_INTERFACE_PARAM (bt_sco_i2spcm_param (set_codec_params C E codec w)))"
      and n: "cb \<noteq> CB_hw_sco_i2spcm_cfg" for codec
    using that(1) assms(2,3)
  proof (cases rule: from_command_run)
    case (refused st)
    show thesis
    proof (rule result [of st undefined])
      show "effects w w' [DeallocEv (ev_id e), AudioStateCbEv BT_VND_OP_RESULT_FAIL]"
        using effects_log [OF freed_event [of w "ev_id e"], of "AudioStateCbEv BT_VND_OP_RESULT_FAIL"]
        by (simp add: refused)
    qed (use refused n in \<open>auto simp: p carries_out_def log_def\<close>)
  next
    case (accepted ok es)
    show thesis
    proof (rule result [OF accepted(1) _ accepted(3)])
      show "carries_out E (ev_id e) (sco_plan C E cb undefined 0 w)
          (DeallocEv (ev_id e) # es @ (if ok then [] else [AudioStateCbEv BT_VND_OP_RESULT_FAIL]))"
        using carries_out_sendI [OF accepted(2), of "ev_id e"] by (simp add: p)
    qed (use n accepted(5) in blast)+
  qed
  show thesis
  proof (cases cb)
    case CB_hw_sco_i2spcm_cfg
    with assms have "hw_sco_i2spcm_cfg_cback C E e w = Some w'" by (simp add: sco_callback_def)
    then show thesis
      using assms(2,3) by (rule cfg_cback_run) (use CB_hw_sco_i2spcm_cfg in \<open>auto intro: result\<close>)
  qed (use assms(1) in \<open>auto simp: sco_callback_def hw_set_MSBC_codec_cback_def
         hw_set_CVSD_codec_cback_def sco_plan_def intro: codec\<close>)
qed

lemma sco_callback_keeps:
  assumes "sco_callback C E cb e w = Some w'" and "bt_vendor_cbacks w" and "sco_ok w"
  shows "bt_vendor_cbacks w' \<and> sco_ok w' \<and> hw_cfg_cb w' = hw_cfg_cb w"
  using assms by (cases rule: sco_callback_run) (use assms(2,3) in \<open>auto simp: sco_ok_def\<close>)

interpretation sco_event: event_handler "sco_callback C E cb" "\<lambda>w. bt_vendor_cbacks w \<and> sco_ok w"
proof
  fix w w' :: "'a hw_world_scheme" and e M
  assume w: "bt_vendor_cbacks w \<and> sco_ok w" and h: "sco_callback C E cb e w = Some w'"
  then show "bt_vendor_cbacks w' \<and> sco_ok w'" using sco_callback_keeps by blast
  from w have "bt_vendor_cbacks w" "sco_ok w" by simp_all
  with h obtain opc st es where "effects w w' es" "carries_out E (ev_id e) (sco_plan C E cb opc st w) es"
    by (rule sco_callback_run)
  then show "owns (add_mset (ev_id e) M) w M w'" by (blast intro: effects_owns carries_out_owns)
qed

text \<open>
  C10. Every completion callback of the audio path does one thing: it frees the event, and then
  either sends exactly the next command of the plan with the parameters the state prescribes, or
  makes exactly one report; a command that cannot be sent is given back and reported as a
  failure. The plan is: the codec answer leads to the interface command for that codec, and on a
  PCM bus this leads to the PCM parameters and these to the data format; the last answer, or any
  refusal, is reported.
\<close>

theorem sco_callbacks_follow_plan:
  assumes "sco_callback C E cb e w = Some w'" and "bt_vendor_cbacks w" and "sco_ok w"
    and "6 \<le> length (ev_payload e)"
  shows "\<exists>es. effects w w' es \<and> carries_out E (ev_id e)
    (sco_plan C E cb (u16_of (ev_payload e ! 3) (ev_payload e ! 4)) (ev_payload e ! 5) w) es"
  using assms(1-3)
proof (cases rule: sco_callback_run)
  case (1 opc st es)
  have "sco_plan C E cb opc st w
      = sco_plan C E cb (u16_of (ev_payload e ! 3) (ev_payload e ! 4)) (ev_payload e ! 5) w"
    using 1(1,2) assms(1,4) evt_status_defined [OF assms(4)] evt_opcode_defined [OF assms(4)]
    by (auto simp: sco_plan_def sco_callback_def split: cback.splits)
  with 1 show ?thesis by auto
qed

lemma sco_callback_defined:
  assumes "bt_vendor_cbacks w" and "sco_ok w" and "6 \<le> length (ev_payload e)"
    and "cb \<in> {CB_hw_sco_i2spcm_cfg, CB_hw_set_MSBC_codec, CB_hw_set_CVSD_codec}"
  shows "\<exists>w'. sco_callback C E cb e w = Some w'"
proof -
  let ?v = "log (DeallocEv (ev_id e)) w"
  have v: "bt_vendor_cbacks ?v" "sco_ok ?v" using assms by simp_all
  note ev = evt_status_defined [OF assms(3)] evt_opcode_defined [OF assms(3)]
  have codec: "\<exists>w'. hw_sco_i2spcm_config_from_command C E e codec w = Some w'" for codec
    using i2spcm_config_defined [OF v, of C E codec] assms(1)
    by (simp add: hw_sco_i2spcm_config_from_command_def ev dealloc_if_cbacks_def notify_if_cbacks_def notify_def hc_dealloc_def)
  have cfg: "\<exists>w'. hw_sco_i2spcm_cfg_cback C E e w = Some w'"
  proof -
    obtain ok1 w1 ok2 w2 where
      n1: "next_pcm_command E HCI_VSC_WRITE_SCO_PCM_INT_PARAM (bt_sco_param w) ?v = Some (ok1, w1)" and
      n2: "next_pcm_command E HCI_VSC_WRITE_PCM_DATA_FORMAT_PARAM (bt_pcm_data_fmt_param C) ?v = Some (ok2, w2)"
      using next_pcm_defined [OF v(1)] by blast
    show ?thesis
      using assms(1) n1 n2
      by (auto simp: hw_sco_i2spcm_cfg_cback_def ev dealloc_if_cbacks_def notify_if_cbacks_def notify_def
            hc_dealloc_def Let_def)
  qed
  from assms(4) codec cfg show ?thesis
    by (auto simp: sco_callback_def hw_set_MSBC_codec_cback_def hw_set_CVSD_codec_cback_def)
qed

definition pcm_answered :: hw_world where
  "pcm_answered = idle_hw\<lparr>bt_sco_param := [0, 4, 0, 0, 0], bt_sco_i2spcm_param := [0, 0, 0, 4]\<rparr>"

lemma pcm_answered_ok: "bt_vendor_cbacks pcm_answered" "sco_ok pcm_answered"
  by (simp_all add: pcm_answered_def idle_hw_def sco_ok_def)

theorem sco_callbacks_follow_plan_witness:
  "\<exists>w' es ok as. sco_callback default_cfg sample_env CB_hw_sco_i2spcm_cfg
        \<lparr>ev_id = 5, ev_payload = [14, 4, 1, 0x6D, 0xFC, 0]\<rparr> pcm_answered = Some w'
    \<and> effects pcm_answered w' es
    \<and> attempt sample_env HCI_VSC_WRITE_SCO_PCM_INT_PARAM [0, 4, 0, 0, 0] CB_hw_sco_i2spcm_cfg ok as
    \<and> es = DeallocEv 5 # as @ (if ok then [] else [AudioStateCbEv BT_VND_OP_RESULT_FAIL])"
proof -
  let ?e = "\<lparr>ev_id = 5, ev_payload = [14, 4, 1, 0x6D, 0xFC, 0 :: u8]\<rparr>"
  have l: "6 \<le> length (ev_payload ?e)" by simp
  obtain w' where w': "sco_callback default_cfg sample_env CB_hw_sco_i2spcm_cfg ?e pcm_answered = Some w'"
    using sco_callback_defined [OF pcm_answered_ok l] by blast
  have "sco_plan default_cfg sample_env CB_hw_sco_i2spcm_cfg
      (u16_of (ev_payload ?e ! 3) (ev_payload ?e ! 4)) (ev_payload ?e ! 5) pcm_answered
     = Send HCI_VSC_WRITE_SCO_PCM_INT_PARAM [0, 4, 0, 0, 0]"
    by (simp add: sco_plan_def bus_is_i2s_def default_cfg_def pcm_answered_def u16_of_def)
  with sco_callbacks_follow_plan [OF w' pcm_answered_ok l] w' show ?thesis
    by (auto simp: carries_out_def)
qed

section \<open>A whole set-up\<close>

text \<open>A host stack that has buffers and accepts every command, and a controller that answers the
  last command with success.\<close>

definition cooperative :: "env \<Rightarrow> bool" where
  "cooperative E \<longleftrightarrow> (\<forall>tr n. hc_alloc_addr E tr n \<noteq> None)
     \<and> (\<forall>tr opc b cb. hc_xmit_result E tr opc b cb \<noteq> FALSE)"

primrec last_command :: "event list \<Rightarrow> (u16 \<times> cback) option" where
  "last_command [] = None"
| "last_command (e # es) =
     (case last_command es of
        Some c \<Rightarrow> Some c
      | None \<Rightarrow> (case e of XmitEv opc b cb r \<Rightarrow> Some (opc, cb) | _ \<Rightarrow> None))"

definition answer :: "buildcfg \<Rightarrow> env \<Rightarrow> 'a hw_world_scheme \<Rightarrow> 'a hw_world_scheme option" where
  "answer C E w =
     do { (opc, cb) \<leftarrow> last_command (trace w);
          sco_callback C E cb \<lparr>ev_id = length (trace w), ev_payload = [14, 4, 1] @ le16 opc @ [0]\<rparr> w }"

primrec answers :: "buildcfg \<Rightarrow> env \<Rightarrow> nat \<Rightarrow> 'a hw_world_scheme \<Rightarrow> 'a hw_world_scheme option" where
  "answers C E 0 w = Some w"
| "answers C E (Suc n) w = do { w \<leftarrow> answer C E w; answers C E n w }"

text \<open>What the controller and the host stack see: accepted commands with their parameters, and
  reports.\<close>

fun audio_view :: "event list \<Rightarrow> sco_action list" where
  "audio_view [] = []"
| "audio_view (XmitEv opc b cb r # es) =
     (if r = FALSE then audio_view es else Send opc (packet_params b) # audio_view es)"
| "audio_view (AudioStateCbEv q # es) = Report q # audio_view es"
| "audio_view (e # es) = audio_view es"

lemma audio_view_append [simp]: "audio_view (es @ fs) = audio_view es @ audio_view fs"
  by (induction es rule: audio_view.induct) simp_all

lemma audio_view_effects:
  assumes "effects w w' es"
  shows "audio_view (drop (length (trace w)) (trace w')) = audio_view es"
proof -
  have "audio_view (filter (\<lambda>e. \<not> calm e) s) = audio_view s" for s
    by (induction s rule: audio_view.induct) (simp_all add: calm_def split: event.splits)
  then show ?thesis using assms by (auto simp: effects_def)
qed

lemma last_command_append:
  "last_command (es @ fs) = (case last_command fs of None \<Rightarrow> last_command es | Some c \<Rightarrow> Some c)"
  by (induction es) (auto split: option.splits event.splits)

lemma last_command_effects:
  assumes "effects w w' es" and "last_command es = Some c"
  shows "last_command (trace w') = Some c"
proof -
  have "last_command (filter (\<lambda>e. \<not> calm e) s) = last_command s" for s
    by (induction s) (auto simp: calm_def split: option.splits event.splits)
  then show ?thesis using assms by (auto simp: effects_def last_command_append)
qed

lemma cooperative_attempt:
  assumes "attempt E opc ps cb ok es" and "cooperative E"
  shows "ok" and "audio_view es = [Send opc ps]" and "last_command es = Some (opc, cb)"
  using assms by (auto simp: attempt_def cooperative_def simp del: not_None_eq)


lemma answer_status [simp]:
  "evt_status \<lparr>ev_id = n, ev_payload = [14, 4, 1] @ le16 opc @ [0]\<rparr> = Some 0"
  "evt_opcode \<lparr>ev_id = n, ev_payload = [14, 4, 1] @ le16 opc @ [0]\<rparr> = Some opc"
proof -
  have "le16 opc = [le16 opc ! 0, le16 opc ! 1]" by (simp add: le16_def)
  then obtain a b where ab: "le16 opc = [a, b]" by blast
  have "u16_of (le16 opc ! 0) (le16 opc ! 1) = opc" by (rule u16_of_le16)
  with ab show "evt_status \<lparr>ev_id = n, ev_payload = [14, 4, 1] @ le16 opc @ [0]\<rparr> = Some 0"
    "evt_opcode \<lparr>ev_id = n, ev_payload = [14, 4, 1] @ le16 opc @ [0]\<rparr> = Some opc"
    by (simp_all add: evt_status_def evt_opcode_def nth_opt_def)
qed

lemma codec_answer:
  assumes "cooperative E" and "bt_vendor_cbacks w" and "sco_ok w"
    and "last_command (trace w) = Some (opc, cb)"
    and "(cb = CB_hw_set_MSBC_codec \<and> codec = SCO_CODEC_MSBC E)
       \<or> (cb = CB_hw_set_CVSD_codec \<and> codec = SCO_CODEC_CVSD E)"
  obtains w' es t where "answer C E w = Some w'" "effects w w' es"
    "w' = (set_codec_params C E codec w)\<lparr>trace := t\<rparr>"
    "audio_view es = [Send HCI_VSC_WRITE_I2SPCM_INTERFACE_PARAM (bt_sco_i2spcm_param w')]"
    "last_command (trace w') = Some (HCI_VSC_WRITE_I2SPCM_INTERFACE_PARAM, CB_hw_sco_i2spcm_cfg)"
proof -
  note result = that
  let ?e = "\<lparr>ev_id = length (trace w), ev_payload = [14, 4, 1] @ le16 opc @ [0]\<rparr>"
  have l: "6 \<le> length (ev_payload ?e)" by (simp add: le16_def)
  obtain w' where w': "sco_callback C E cb ?e w = Some w'"
    using sco_callback_defined [OF assms(2,3) l] assms(5) by blast
  then have a: "answer C E w = Some w'" by (simp add: answer_def assms(4))
  have "hw_sco_i2spcm_config_from_command C E ?e codec w = Some w'"
    using w' assms(5)
    by (auto simp: sco_callback_def hw_set_MSBC_codec_cback_def hw_set_CVSD_codec_cback_def)
  from this assms(2,3) show thesis
  proof (cases rule: from_command_run)
    case (accepted ok es)
    note c = cooperative_attempt [OF accepted(2) assms(1)]
    then obtain t where t: "w' = (set_codec_params C E codec w)\<lparr>trace := t\<rparr>" using accepted(5) by blast
    have e: "effects w w' (DeallocEv (ev_id ?e) # es)" using accepted(3) c(1) by simp
    show thesis
    proof (rule result [OF a e t])
      show "audio_view (DeallocEv (ev_id ?e) # es)
          = [Send HCI_VSC_WRITE_I2SPCM_INTERFACE_PARAM (bt_sco_i2spcm_param w')]"
        using c(2) by (simp add: t)
      show "last_command (trace w') = Some (HCI_VSC_WRITE_I2SPCM_INTERFACE_PARAM, CB_hw_sco_i2spcm_cfg)"
        by (rule last_command_effects [OF e]) (simp add: c(3))
    qed
  qed (simp only: answer_status option.inject)
qed

lemma cfg_answer:
  assumes "cooperative E" and "bt_vendor_cbacks w" and "sco_ok w"
    and "last_command (trace w) = Some (opc, CB_hw_sco_i2spcm_cfg)"
  obtains w' es t where "answer C E w = Some w'" "effects w w' es" "w' = w\<lparr>trace := t\<rparr>"
    "audio_view es = [sco_plan C E CB_hw_sco_i2spcm_cfg opc 0 w]"
    "\<And>c ps. sco_plan C E CB_hw_sco_i2spcm_cfg opc 0 w = Send c ps \<Longrightarrow>
       last_command (trace w') = Some (c, CB_hw_sco_i2spcm_cfg)"
proof -
  note result = that
  let ?e = "\<lparr>ev_id = length (trace w), ev_payload = [14, 4, 1] @ le16 opc @ [0]\<rparr>"
  let ?p = "sco_plan C E CB_hw_sco_i2spcm_cfg opc 0 w"
  have l: "6 \<le> length (ev_payload ?e)" by (simp add: le16_def)
  obtain w' where w': "sco_callback C E CB_hw_sco_i2spcm_cfg ?e w = Some w'"
    using sco_callback_defined [OF assms(2,3) l] by blast
  then have a: "answer C E w = Some w'" by (simp add: answer_def assms(4))
  have "hw_sco_i2spcm_cfg_cback C E ?e w = Some w'" using w' by (simp add: sco_callback_def)
  from this assms(2,3) obtain es where e: "effects w w' es" "carries_out E (ev_id ?e) ?p es"
    and "\<exists>t. w' = w\<lparr>trace := t\<rparr>"
    by (rule cfg_cback_run) (simp only: answer_status option.inject)
  then obtain t where t: "w' = w\<lparr>trace := t\<rparr>" by blast
  show thesis
  proof (cases ?p)
    case (Report q)
    with e(2) show thesis by (intro result [OF a e(1) t]) (simp_all add: carries_out_def)
  next
    case (Send c ps)
    with e(2) obtain ok as where at: "attempt E c ps CB_hw_sco_i2spcm_cfg ok as"
      and es: "es = DeallocEv (ev_id ?e) # as @ (if ok then [] else [AudioStateCbEv BT_VND_OP_RESULT_FAIL])"
      by (auto simp: carries_out_def)
    note co = cooperative_attempt [OF at assms(1)]
    have "last_command (trace w') = Some (c, CB_hw_sco_i2spcm_cfg)"
      by (rule last_command_effects [OF e(1)]) (simp add: es co)
    with Send co show thesis by (intro result [OF a e(1) t]) (simp_all add: es)
  qed
qed

text \<open>The two halves of a set-up: up to the interface command for the codec, and from its answer to
  the report.\<close>

lemma codec_selected:
  assumes "SCO_CFG_INCLUDED C" and "cooperative E" and "bt_vendor_cbacks w" and "sco_ok w"
    and "v = set_codec_params C E (if codec = SCO_CODEC_MSBC E then codec else SCO_CODEC_CVSD E) w"
  obtains w0 w1 t es where "hw_set_audio_state C E codec w = Some (0, w0)" "answer C E w0 = Some w1"
    "w1 = v\<lparr>trace := t\<rparr>" "effects w w1 es"
    "audio_view es = [Send HCI_VSC_ENABLE_WBS (if codec = SCO_CODEC_MSBC E then 1 # le16 codec else [0]),
       Send HCI_VSC_WRITE_I2SPCM_INTERFACE_PARAM (bt_sco_i2spcm_param v)]"
    "last_command (trace w1) = Some (HCI_VSC_WRITE_I2SPCM_INTERFACE_PARAM, CB_hw_sco_i2spcm_cfg)"
proof -
  note result = that
  let ?cb = "if codec = SCO_CODEC_MSBC E then CB_hw_set_MSBC_codec else CB_hw_set_CVSD_codec"
  let ?codec = "if codec = SCO_CODEC_MSBC E then codec else SCO_CODEC_CVSD E"
  obtain r w0 where r: "hw_set_SCO_codec E codec w = Some (r, w0)"
    using set_SCO_codec_defined [OF assms(3)] by blast
  from set_SCO_codec_run [OF r assms(3)] obtain ok e0 t0 where e0: "effects w w0 e0"
    "r = (if ok then 0 else - 1)" and at: "attempt E HCI_VSC_ENABLE_WBS
       (if codec = SCO_CODEC_MSBC E then 1 # le16 codec else [0]) ?cb ok e0" and w0: "w0 = w\<lparr>trace := t0\<rparr>"
    by metis
  note c0 = cooperative_attempt [OF at assms(2)]
  have s0: "hw_set_audio_state C E codec w = Some (0, w0)"
    using r e0(2) c0(1) assms(1,3) by (simp add: hw_set_audio_state_def)
  have l0: "last_command (trace w0) = Some (HCI_VSC_ENABLE_WBS, ?cb)"
    using last_command_effects [OF e0(1) c0(3)] .
  have k0: "bt_vendor_cbacks w0" "sco_ok w0" using assms(3,4) by (simp_all add: w0 sco_ok_def)
  obtain w1 e1 t1 where w1: "answer C E w0 = Some w1" "effects w0 w1 e1"
    "w1 = (set_codec_params C E ?codec w0)\<lparr>trace := t1\<rparr>"
    and v1: "audio_view e1 = [Send HCI_VSC_WRITE_I2SPCM_INTERFACE_PARAM (bt_sco_i2spcm_param w1)]"
    "last_command (trace w1) = Some (HCI_VSC_WRITE_I2SPCM_INTERFACE_PARAM, CB_hw_sco_i2spcm_cfg)"
    by (rule codec_answer [OF assms(2) k0 l0, of ?codec C]) auto
  have w1v: "w1 = v\<lparr>trace := t1\<rparr>"
    by (simp add: w1(3) w0 assms(5) set_codec_params_def split: prod.splits)
  show thesis
    using c0(2) v1(1) by (intro result [OF s0 w1(1) w1v effects_trans [OF e0(1) w1(2)] _ v1(2)]) (simp add: w1v)
qed

text \<open>One answer to an interface command: the action of the plan, and the state apart from the log
  is as before.\<close>

lemma cfg_answer_sends:
  assumes "cooperative E" and "bt_vendor_cbacks w" and "sco_ok w"
    and "last_command (trace w) = Some (opc, CB_hw_sco_i2spcm_cfg)"
    and "sco_plan C E CB_hw_sco_i2spcm_cfg opc 0 w = Send c ps"
  shows "\<exists>w' es t. answer C E w = Some w' \<and> effects w w' es \<and> w' = w\<lparr>trace := t\<rparr> \<and> audio_view es = [Send c ps]
    \<and> bt_vendor_cbacks w' \<and> sco_ok w' \<and> last_command (trace w') = Some (c, CB_hw_sco_i2spcm_cfg)"
proof -
  obtain w' es t where "answer C E w = Some w'" "effects w w' es" "w' = w\<lparr>trace := t\<rparr>"
    "audio_view es = [Send c ps]" "last_command (trace w') = Some (c, CB_hw_sco_i2spcm_cfg)"
    using cfg_answer [OF assms(1-4), of C] assms(5) by metis
  moreover from this(3) have "bt_vendor_cbacks w' \<and> sco_ok w'" using assms(2,3) by (simp add: sco_ok_def)
  ultimately show ?thesis by blast
qed

lemma interface_settled:
  assumes "cooperative E" and "bt_vendor_cbacks w" and "sco_ok w"
    and "last_command (trace w) = Some (HCI_VSC_WRITE_I2SPCM_INTERFACE_PARAM, CB_hw_sco_i2spcm_cfg)"
  shows "\<exists>w' es. answers C E (if bus_is_i2s C then 1 else 3) w = Some w' \<and> effects w w' es
    \<and> audio_view es = (if bus_is_i2s C then [] else
         [Send HCI_VSC_WRITE_SCO_PCM_INT_PARAM (bt_sco_param w),
          Send HCI_VSC_WRITE_PCM_DATA_FORMAT_PARAM (bt_pcm_data_fmt_param C)]) @ [Report BT_VND_OP_RESULT_SUCCESS]"
proof (cases "bus_is_i2s C")
  case True
  obtain w' es where "answer C E w = Some w'" "effects w w' es"
    "audio_view es = [sco_plan C E CB_hw_sco_i2spcm_cfg HCI_VSC_WRITE_I2SPCM_INTERFACE_PARAM 0 w]"
    by (rule cfg_answer [OF assms, of C]) blast
  with True show ?thesis by (intro exI [of _ w'] exI [of _ es]) (simp add: sco_plan_def)
next
  case False
  obtain w2 e2 t2 where w2: "answer C E w = Some w2" "effects w w2 e2" "w2 = w\<lparr>trace := t2\<rparr>"
    "audio_view e2 = [Send HCI_VSC_WRITE_SCO_PCM_INT_PARAM (bt_sco_param w)]" "bt_vendor_cbacks w2" "sco_ok w2"
    "last_command (trace w2) = Some (HCI_VSC_WRITE_SCO_PCM_INT_PARAM, CB_hw_sco_i2spcm_cfg)"
    using cfg_answer_sends [OF assms, of C HCI_VSC_WRITE_SCO_PCM_INT_PARAM "bt_sco_param w"] False
    by (auto simp: sco_plan_def)
  obtain w3 e3 t3 where w3: "answer C E w2 = Some w3" "effects w2 w3 e3" "w3 = w2\<lparr>trace := t3\<rparr>"
    "audio_view e3 = [Send HCI_VSC_WRITE_PCM_DATA_FORMAT_PARAM (bt_pcm_data_fmt_param C)]"
    "bt_vendor_cbacks w3" "sco_ok w3"
    "last_command (trace w3) = Some (HCI_VSC_WRITE_PCM_DATA_FORMAT_PARAM, CB_hw_sco_i2spcm_cfg)"
    using cfg_answer_sends [OF assms(1) w2(5-7), of C HCI_VSC_WRITE_PCM_DATA_FORMAT_PARAM] False
    by (auto simp: sco_plan_def)
  obtain w4 e4 where w4: "answer C E w3 = Some w4" "effects w3 w4 e4"
    "audio_view e4 = [sco_plan C E CB_hw_sco_i2spcm_cfg HCI_VSC_WRITE_PCM_DATA_FORMAT_PARAM 0 w3]"
    by (rule cfg_answer [OF assms(1) w3(5-7), of C]) blast
  have "answers C E 3 w = Some w4" using w2(1) w3(1) w4(1) by (simp add: numeral_eq_Suc)
  moreover note effects_trans [OF effects_trans [OF w2(2) w3(2)] w4(2)]
  moreover have "audio_view ((e2 @ e3) @ e4) =
      [Send HCI_VSC_WRITE_SCO_PCM_INT_PARAM (bt_sco_param w),
       Send HCI_VSC_WRITE_PCM_DATA_FORMAT_PARAM (bt_pcm_data_fmt_param C), Report BT_VND_OP_RESULT_SUCCESS]"
    using False by (simp add: w2(4) w3(4) w4(3) sco_plan_def)
  ultimately show ?thesis using False by (intro exI [of _ w4] exI [of _ "(e2 @ e3) @ e4"]) simp
qed

text \<open>
  C11. A set-up of the audio path comes to its end: when the host stack accepts every command and
  the controller answers each with success, \<^verbatim>\<open>hw_set_audio_state\<close> returns 0, and after two
  answers on an I2S bus, or four on a PCM bus, exactly one report has been made, of success. Seen
  from outside there were exactly these commands, in this order: the codec switch, the interface
  parameters for that codec, and on a PCM bus the PCM parameters with the codec's clock rate and
  the data format.
\<close>

theorem audio_setup_completes:
  assumes "SCO_CFG_INCLUDED C" and "cooperative E" and "bt_vendor_cbacks w" and "sco_ok w"
    and "v = set_codec_params C E (if codec = SCO_CODEC_MSBC E then codec else SCO_CODEC_CVSD E) w"
  shows "\<exists>w0 w'. hw_set_audio_state C E codec w = Some (0, w0)
    \<and> answers C E (if bus_is_i2s C then 2 else 4) w0 = Some w'
    \<and> audio_view (drop (length (trace w)) (trace w')) =
       [Send HCI_VSC_ENABLE_WBS (if codec = SCO_CODEC_MSBC E then 1 # le16 codec else [0]),
        Send HCI_VSC_WRITE_I2SPCM_INTERFACE_PARAM (bt_sco_i2spcm_param v)]
       @ (if bus_is_i2s C then [] else
           [Send HCI_VSC_WRITE_SCO_PCM_INT_PARAM (bt_sco_param v),
            Send HCI_VSC_WRITE_PCM_DATA_FORMAT_PARAM (bt_pcm_data_fmt_param C)])
       @ [Report BT_VND_OP_RESULT_SUCCESS]"
proof -
  obtain w0 w1 t es where w0: "hw_set_audio_state C E codec w = Some (0, w0)" "answer C E w0 = Some w1"
    and w1: "w1 = v\<lparr>trace := t\<rparr>" "effects w w1 es"
    "audio_view es = [Send HCI_VSC_ENABLE_WBS (if codec = SCO_CODEC_MSBC E then 1 # le16 codec else [0]),
       Send HCI_VSC_WRITE_I2SPCM_INTERFACE_PARAM (bt_sco_i2spcm_param v)]"
    "last_command (trace w1) = Some (HCI_VSC_WRITE_I2SPCM_INTERFACE_PARAM, CB_hw_sco_i2spcm_cfg)"
    by (rule codec_selected [OF assms])
  have "bt_vendor_cbacks w1" "sco_ok w1" using assms(3-5) by (simp_all add: w1(1) sco_ok_def)
  from interface_settled [OF assms(2) this w1(4), of C] obtain w' es' where
    w': "answers C E (if bus_is_i2s C then 1 else 3) w1 = Some w'" "effects w1 w' es'"
    "audio_view es' = (if bus_is_i2s C then [] else
         [Send HCI_VSC_WRITE_SCO_PCM_INT_PARAM (bt_sco_param w1),
          Send HCI_VSC_WRITE_PCM_DATA_FORMAT_PARAM (bt_pcm_data_fmt_param C)]) @ [Report BT_VND_OP_RESULT_SUCCESS]"
    by blast
  have "answers C E (if bus_is_i2s C then 2 else 4) w0 = Some w'"
    using w0(2) w'(1) by (simp add: numeral_eq_Suc split: if_splits)
  then show ?thesis
    using w0(1) w1(3) w'(3) unfolding audio_view_effects [OF effects_trans [OF w1(2) w'(2)], symmetric]
    by (intro exI [of _ w0] exI [of _ w']) (simp add: audio_view_effects [OF effects_trans [OF w1(2) w'(2)]] w1(1))
qed

lemma sample_cooperative: "cooperative sample_env"
  by (simp add: cooperative_def sample_env_def)

theorem audio_setup_completes_witness:
  "\<exists>w0 w'. hw_set_audio_state default_cfg sample_env 2 pcm_answered = Some (0, w0)
    \<and> answers default_cfg sample_env 4 w0 = Some w'
    \<and> audio_view (drop (length (trace pcm_answered)) (trace w')) =
       [Send HCI_VSC_ENABLE_WBS [1, 2, 0], Send HCI_VSC_WRITE_I2SPCM_INTERFACE_PARAM [0, 0, 1, 0xFF],
        Send HCI_VSC_WRITE_SCO_PCM_INT_PARAM [0, 0xFF, 0, 0, 0],
        Send HCI_VSC_WRITE_PCM_DATA_FORMAT_PARAM [0, 0, 3, 0, 0], Report BT_VND_OP_RESULT_SUCCESS]"
proof -
  have c: "SCO_CFG_INCLUDED default_cfg" "\<not> bus_is_i2s default_cfg" "SCO_CODEC_MSBC sample_env = 2"
    "bt_pcm_data_fmt_param default_cfg = [0, 0, 3, 0, 0]" "le16 2 = [2, 0]"
    "SCO_WBS_SAMPLE_RATE default_cfg = 1" "sco_bus_wbs_clock_rate pcm_answered = 0xFF"
    by (simp_all add: default_cfg_def bus_is_i2s_def sample_env_def bt_pcm_data_fmt_param_def le16_def
          pcm_answered_def idle_hw_def static_state_def)
  have "SCO_CODEC_CVSD sample_env = 1" by (simp add: sample_env_def)
  with c have v: "bt_sco_i2spcm_param (set_codec_params default_cfg sample_env 2 pcm_answered) = [0, 0, 1, 0xFF]"
    "bt_sco_param (set_codec_params default_cfg sample_env 2 pcm_answered) = [0, 0xFF, 0, 0, 0]"
    by (simp_all add: set_codec_params_def) (simp_all add: pcm_answered_def)
  from audio_setup_completes [OF c(1) sample_cooperative pcm_answered_ok refl, of 2] c v show ?thesis
    by simp
qed

section \<open>The bus parameters\<close>

fun is_scocfg_report :: "event \<Rightarrow> bool" where
  "is_scocfg_report (ScocfgCbEv q) = True"
| "is_scocfg_report e = False"

lemma scocfg_reports_effects:
  assumes "effects w w' es"
  shows "filter is_scocfg_report (drop (length (trace w)) (trace w')) = filter is_scocfg_report es"
proof -
  have "filter is_scocfg_report (filter (\<lambda>e. \<not> calm e) s) = filter is_scocfg_report s" for s
    by (induction s) (auto elim: is_scocfg_report.elims)
  then show ?thesis using assms by (auto simp: effects_def)
qed

lemma attempt_no_scocfg [simp]: "attempt E opc ps cb ok es \<Longrightarrow> filter is_scocfg_report es = []"
  by (auto simp: attempt_def)

lemma sco_config_run:
  assumes "hw_sco_config C E w = Some w'" and "bt_vendor_cbacks w" and "sco_ok w"
  obtains es where "effects w w' (es @ [ScocfgCbEv BT_VND_OP_RESULT_SUCCESS])"
    "neutral es" "filter is_scocfg_report es = []" "sco_bus_clock_rate w' = sco_bus_clock_rate (sync_bus_params C w)"
    "sco_bus_wbs_clock_rate w' = sco_bus_wbs_clock_rate (set_default_wbs_rate C (sync_bus_params C w))"
    "bt_vendor_cbacks w'" "sco_ok w'" "hw_cfg_cb w' = hw_cfg_cb w"
proof -
  note result = that
  let ?v = "set_default_wbs_rate C (sync_bus_params C w)"
  have v: "bt_vendor_cbacks ?v" "sco_ok ?v" using assms(2,3) by simp_all
  have codec: "sco_bus_clock_rate (set_codec_params C E codec u) = sco_bus_clock_rate u"
    "sco_bus_wbs_clock_rate (set_codec_params C E codec u) = sco_bus_wbs_clock_rate u"
    for codec and u :: "'a hw_world_scheme"
    by (simp_all add: set_codec_params_def split: prod.splits)
  obtain w2 where m: "(if bus_is_i2s C then hw_sco_i2spcm_config C E (SCO_CODEC_CVSD E) ?v else Some ?v) = Some w2"
    and f: "notify_if_cbacks (ScocfgCbEv BT_VND_OP_RESULT_SUCCESS) w2 = Some w'"
    using assms(1) by (auto simp: hw_sco_config_def Let_def elim!: bind_SomeE split del: if_split)
  have "\<exists>es. effects w w2 es \<and> neutral es \<and> filter is_scocfg_report es = [] \<and> sco_bus_clock_rate w2 = sco_bus_clock_rate ?v \<and> sco_bus_wbs_clock_rate w2 = sco_bus_wbs_clock_rate ?v
      \<and> bt_vendor_cbacks w2 \<and> sco_ok w2 \<and> hw_cfg_cb w2 = hw_cfg_cb w"
  proof (cases "bus_is_i2s C")
    case False
    with m v show ?thesis by (intro exI [of _ "[]"]) (auto simp: effects_def neutral_def)
  next
    case True
    with m have "hw_sco_i2spcm_config C E (SCO_CODEC_CVSD E) ?v = Some w2" by simp
    from this v show ?thesis
    proof (cases rule: i2spcm_config_run)
      case (1 ok es)
      let ?es = "es @ (if ok then [] else [AudioStateCbEv BT_VND_OP_RESULT_FAIL])"
      have "effects w w2 ?es" using 1(1) by (simp add: effects_def)
      moreover have "neutral ?es" "filter is_scocfg_report ?es = []"
        using attempt_neutral [OF 1(2)] 1(2) by (simp_all add: neutral_def account_append)
      moreover have "(\<exists>t. w2 = ?v\<lparr>trace := t\<rparr>) \<or> (\<exists>t. w2 = (set_codec_params C E (SCO_CODEC_CVSD E) ?v)\<lparr>trace := t\<rparr>)"
        using 1(4) by blast
      then have "sco_bus_clock_rate w2 = sco_bus_clock_rate ?v \<and> sco_bus_wbs_clock_rate w2 = sco_bus_wbs_clock_rate ?v
          \<and> bt_vendor_cbacks w2 \<and> sco_ok w2 \<and> hw_cfg_cb w2 = hw_cfg_cb w"
        using v by (elim disjE exE) (simp_all add: sco_ok_def codec)
      ultimately show ?thesis by blast
    qed
  qed
  then obtain es where es: "effects w w2 es" "neutral es" "filter is_scocfg_report es = []" "sco_bus_clock_rate w2 = sco_bus_clock_rate ?v" "sco_bus_wbs_clock_rate w2 = sco_bus_wbs_clock_rate ?v"
    "bt_vendor_cbacks w2" "sco_ok w2" "hw_cfg_cb w2 = hw_cfg_cb w" by blast
  have w': "w' = log (ScocfgCbEv BT_VND_OP_RESULT_SUCCESS) w2" using f es(6) by (simp add: if_cbacks_Some)
  show thesis
    by (rule result [OF _ es(2,3)])
      (use effects_log [OF es(1), of "ScocfgCbEv BT_VND_OP_RESULT_SUCCESS"] es in \<open>simp_all add: w'\<close>)
qed

lemma sco_config_last:
  assumes "hw_sco_config C E w = Some w'" and "bt_vendor_cbacks w"
  shows "last (trace w') = ScocfgCbEv BT_VND_OP_RESULT_SUCCESS"
proof -
  let ?v = "set_default_wbs_rate C (sync_bus_params C w)"
  obtain w2 where m: "(if bus_is_i2s C then hw_sco_i2spcm_config C E (SCO_CODEC_CVSD E) ?v else Some ?v) = Some w2"
    and f: "notify_if_cbacks (ScocfgCbEv BT_VND_OP_RESULT_SUCCESS) w2 = Some w'"
    using assms(1) by (auto simp: hw_sco_config_def Let_def elim!: bind_SomeE split del: if_split)
  have "bt_vendor_cbacks w2"
    using m assms(2)
    by (auto simp: hw_sco_i2spcm_config_def send_sco_def hc_xmit_Some Let_def alloc_if_def
          elim!: bind_SomeE hc_alloc_SomeE split: if_splits option.splits)
  with f show ?thesis by (simp add: if_cbacks_Some)
qed

lemma sync_rate:
  "sco_bus_clock_rate (sync_bus_params C w)
     = (if bus_is_i2s C then bt_sco_i2spcm_param w ! 3 else bt_sco_param w ! 1)"
  by (simp add: sync_bus_params_def Let_def)

text \<open>
  C25. The first SCO configuration settles both clock rates: the narrow-band rate is the one of
  the parameter array of the bus in use, the wide-band rate is the configured one, raised to the
  narrow-band rate when that is higher; the host stack gets one report, the last thing done,
  which says success whatever became of the interface command.
\<close>

theorem sco_config_settles_rates:
  assumes "hw_sco_config C E w = Some w'" and "bt_vendor_cbacks w" and "sco_ok w"
    and "sco_bus_wbs_clock_rate w = INVALID_SCO_CLOCK_RATE"
  shows "sco_bus_clock_rate w' = (if bus_is_i2s C then bt_sco_i2spcm_param w ! 3 else bt_sco_param w ! 1)
    \<and> sco_bus_wbs_clock_rate w' = max (SCO_I2SPCM_IF_CLOCK_RATE4WBS C) (sco_bus_clock_rate w')
    \<and> filter is_scocfg_report (drop (length (trace w)) (trace w')) = [ScocfgCbEv BT_VND_OP_RESULT_SUCCESS]
    \<and> last (trace w') = ScocfgCbEv BT_VND_OP_RESULT_SUCCESS"
  using assms(1-3)
proof (cases rule: sco_config_run)
  case (1 es)
  then have "filter is_scocfg_report (drop (length (trace w)) (trace w')) = [ScocfgCbEv BT_VND_OP_RESULT_SUCCESS]"
    unfolding scocfg_reports_effects [OF 1(1)] by simp
  moreover have "last (trace w') = ScocfgCbEv BT_VND_OP_RESULT_SUCCESS" by (rule sco_config_last [OF assms(1,2)])
  ultimately show ?thesis
    using 1 assms(4) by (auto simp: sync_rate set_default_wbs_rate_def Let_def max_def)
qed

theorem sco_config_settles_rates_witness:
  "\<exists>w'. hw_sco_config default_cfg sample_env pcm_answered = Some w' \<and> sco_bus_clock_rate w' = 4
    \<and> sco_bus_wbs_clock_rate w' = 4"
proof -
  have c: "\<not> bus_is_i2s default_cfg" "SCO_I2SPCM_IF_CLOCK_RATE4WBS default_cfg = 2"
    by (simp_all add: default_cfg_def bus_is_i2s_def)
  then obtain w' where w': "hw_sco_config default_cfg sample_env pcm_answered = Some w'"
    by (simp add: hw_sco_config_def notify_if_cbacks_def notify_def pcm_answered_ok)
  have "sco_bus_wbs_clock_rate pcm_answered = INVALID_SCO_CLOCK_RATE" "bt_sco_param pcm_answered ! 1 = 4"
    by (simp_all add: pcm_answered_def idle_hw_def static_state_def)
  with sco_config_settles_rates [OF w' pcm_answered_ok] c w' show ?thesis by auto
qed

text \<open>
  C38. Configuring SCO again after a wide-band call takes the wide-band rate for the narrow-band
  one on a PCM bus: the codec set-up left its rate in the parameter array from which the
  narrow-band rate is read, so later narrow-band calls run at the wide-band clock.
\<close>

theorem sco_reconfig_mixes_rates:
  assumes "\<not> bus_is_i2s C" and "SCO_CODEC_MSBC E \<noteq> SCO_CODEC_CVSD E" and "sco_ok w" and "bt_vendor_cbacks w"
    and "hw_sco_config C E (set_codec_params C E (SCO_CODEC_MSBC E) w) = Some w'"
    and "sco_bus_wbs_clock_rate w \<noteq> INVALID_SCO_CLOCK_RATE"
  shows "sco_bus_clock_rate w' = sco_bus_wbs_clock_rate w
    \<and> bt_sco_param (set_codec_params C E (SCO_CODEC_CVSD E) w') ! 1 = sco_bus_wbs_clock_rate w"
proof -
  let ?v = "set_codec_params C E (SCO_CODEC_MSBC E) w"
  have v: "bt_vendor_cbacks ?v" "sco_ok ?v" using assms(3,4) by simp_all
  have "bt_sco_param ?v ! 1 = sco_bus_wbs_clock_rate w"
    using assms(2,3) by (simp add: set_codec_params_def sco_ok_def)
  with assms(1) have "sco_bus_clock_rate (sync_bus_params C ?v) = sco_bus_wbs_clock_rate w"
    by (simp add: sync_rate)
  with assms(5) v have r: "sco_bus_clock_rate w' = sco_bus_wbs_clock_rate w" "sco_ok w'"
    by (auto elim: sco_config_run)
  then have "bt_sco_param (set_codec_params C E (SCO_CODEC_CVSD E) w') ! 1 = sco_bus_wbs_clock_rate w"
    by (simp add: set_codec_params_def sco_ok_def)
  with r show ?thesis by simp
qed

theorem sco_reconfig_mixes_rates_witness:
  "\<exists>w'. hw_sco_config default_cfg sample_env
        (set_codec_params default_cfg sample_env 2 (pcm_answered\<lparr>sco_bus_wbs_clock_rate := 5\<rparr>)) = Some w'
    \<and> sco_bus_clock_rate w' = 5"
proof -
  let ?w = "pcm_answered\<lparr>sco_bus_wbs_clock_rate := 5\<rparr>"
  have w: "sco_ok ?w" "bt_vendor_cbacks ?w" using pcm_answered_ok by (simp_all add: sco_ok_def)
  have c: "\<not> bus_is_i2s default_cfg" by (simp add: default_cfg_def bus_is_i2s_def)
  have e: "SCO_CODEC_MSBC sample_env = 2" "SCO_CODEC_CVSD sample_env = 1" by (simp_all add: sample_env_def)
  then have d: "SCO_CODEC_MSBC sample_env \<noteq> SCO_CODEC_CVSD sample_env" by simp
  obtain w' where w': "hw_sco_config default_cfg sample_env
      (set_codec_params default_cfg sample_env (SCO_CODEC_MSBC sample_env) ?w) = Some w'"
    using c w(2) by (simp add: hw_sco_config_def notify_if_cbacks_def notify_def)
  from sco_reconfig_mixes_rates [OF c d w w'] w' e show ?thesis by auto
qed

text \<open>
  Without the host stack's callbacks the two kinds of bus differ: on an I2S bus the
  configuration follows the NULL pointer to report its failure, on a PCM bus it returns without
  a report.
\<close>

theorem sco_config_without_callbacks:
  assumes "\<not> bt_vendor_cbacks w"
  shows "hw_sco_config C E w
    = (if bus_is_i2s C then None else Some (set_default_wbs_rate C (sync_bus_params C w)))"
  using assms
  by (simp add: hw_sco_config_def hw_sco_i2spcm_config_def alloc_if_def notify_def ensure_def
        notify_if_cbacks_def Let_def)

theorem sco_config_without_callbacks_witness:
  "hw_sco_config (default_cfg\<lparr>SCO_USE_I2S_INTERFACE := True\<rparr>) sample_env (static_state default_cfg) = None"
  using sco_config_without_callbacks [of "static_state default_cfg" "default_cfg\<lparr>SCO_USE_I2S_INTERFACE := True\<rparr>" sample_env]
  by (simp add: bus_is_i2s_def static_state_def)

end
