(* ===== verification/HwEpilog.thy ===== *)
theory HwEpilog
  imports HwConfig
begin

text \<open>
  hardware.c: the epilog process, compiled in when HW_END_WITH_HCI_RESET is set. It sends a last
  reset and reports when the answer arrives.
\<close>

section \<open>Operations\<close>

definition hw_epilog_cback :: "evt \<Rightarrow> 'a hw_world_scheme \<Rightarrow> 'a hw_world_scheme option" where
  "hw_epilog_cback e w =
     do { status \<leftarrow> evt_status e;
          opcode \<leftarrow> evt_opcode e;
          if bt_vendor_cbacks w
          then do { w \<leftarrow> hc_dealloc (ev_id e) w; notify (EpilogCbEv BT_VND_OP_RESULT_SUCCESS) w }
          else Some w }"

definition hw_epilog_process :: "env \<Rightarrow> 'a hw_world_scheme \<Rightarrow> 'a hw_world_scheme option" where
  "hw_epilog_process E w =
     do { (p_buf, w) \<leftarrow> alloc_if (bt_vendor_cbacks w) E HCI_CMD_PREAMBLE_SIZE w;
          case p_buf of
            Some b \<Rightarrow>
              do { b \<leftarrow> put_cmd HCI_RESET [] (set_hdr E (of_nat HCI_CMD_PREAMBLE_SIZE) b);
                   (r, w) \<leftarrow> hc_xmit E HCI_RESET b CB_hw_epilog w;
                   Some w }
          | None \<Rightarrow> notify_if_cbacks (EpilogCbEv BT_VND_OP_RESULT_FAIL) w }"

section \<open>Facts\<close>

lemma epilog_cback_run:
  assumes "hw_epilog_cback e w = Some w'" and "bt_vendor_cbacks w"
  shows "w' = log (EpilogCbEv BT_VND_OP_RESULT_SUCCESS) (log (DeallocEv (ev_id e)) w)"
  using assms by (auto simp: hw_epilog_cback_def elim!: bind_SomeE)

lemma epilog_cback_defined:
  "6 \<le> length (ev_payload e) \<Longrightarrow> \<exists>w'. hw_epilog_cback e w = Some w'"
  by (simp add: hw_epilog_cback_def evt_status_defined evt_opcode_defined hc_dealloc_def notify_def)

lemma epilog_run:
  assumes "hw_epilog_process E w = Some w'" and "bt_vendor_cbacks w"
  obtains (no_buffer) z where "hc_alloc_addr E (trace w) z = None"
      "effects w w' [AllocEv z None, EpilogCbEv BT_VND_OP_RESULT_FAIL]" "\<exists>t. w' = w\<lparr>trace := t\<rparr>"
  | (command) z b r tr where "wf_packet E HCI_RESET b" "packet_params b = []"
      "r = hc_xmit_result E tr HCI_RESET b CB_hw_epilog"
      "effects w w' [AllocEv z (Some (hb_id b)), XmitEv HCI_RESET b CB_hw_epilog r]" "\<exists>t. w' = w\<lparr>trace := t\<rparr>"
proof -
  obtain buf w1 where al: "hc_alloc E 3 w = Some (buf, w1)"
    using assms by (auto simp: hw_epilog_process_def alloc_if_def elim!: bind_SomeE)
  obtain t1 where w1: "w1 = w\<lparr>trace := t1\<rparr>" using al by (cases rule: hc_alloc_SomeE) (auto simp: log_def)
  note e1 = alloc_run(1) [OF al]
  show thesis
  proof (cases buf)
    case None
    with assms al have w': "w' = log (EpilogCbEv BT_VND_OP_RESULT_FAIL) w1"
      by (auto simp: hw_epilog_process_def alloc_if_def if_cbacks_Some w1 elim!: bind_SomeE)
    show thesis
      using alloc_address [OF al] effects_log [OF e1, of "EpilogCbEv BT_VND_OP_RESULT_FAIL"] None
      by (intro no_buffer [of "BT_HC_HDR_SIZE E + 3"]) (auto simp: w' w1 log_def)
  next
    case (Some b0)
    then obtain b r where b: "put_cmd HCI_RESET [] (set_hdr E 3 b0) = Some b"
      and x: "hc_xmit E HCI_RESET b CB_hw_epilog w1 = Some (r, w')"
      using assms al by (auto simp: hw_epilog_process_def alloc_if_def elim!: bind_SomeE)
    have id: "hb_id b = hb_id b0" using put_cmd_keeps [OF b] by simp
    have "wf_packet E HCI_RESET b" "packet_params b = []"
      using put_cmd_wf [OF b] by (simp_all add: set_hdr_def)
    moreover have "effects w w' [AllocEv (BT_HC_HDR_SIZE E + 3) (Some (hb_id b)), XmitEv HCI_RESET b CB_hw_epilog r]"
      using effects_log [OF e1, of "XmitEv HCI_RESET b CB_hw_epilog r"] x Some id
      by (simp add: hc_xmit_Some)
    moreover have "r = hc_xmit_result E (trace w1) HCI_RESET b CB_hw_epilog" "\<exists>t. w' = w\<lparr>trace := t\<rparr>"
      using x by (auto simp: hc_xmit_Some w1 log_def)
    ultimately show thesis by (intro command) auto
  qed
qed

lemma epilog_defined: "\<exists>w'. hw_epilog_process E w = Some w'"
proof (cases "bt_vendor_cbacks w")
  case False
  then show ?thesis by (simp add: hw_epilog_process_def alloc_if_def notify_if_cbacks_def)
next
  case True
  then obtain buf w1 where al: "hc_alloc E 3 w = Some (buf, w1)" by (auto simp: hc_alloc_def Let_def)
  then have c: "bt_vendor_cbacks w1" using True by (cases rule: hc_alloc_SomeE) simp_all
  show ?thesis
  proof (cases buf)
    case None
    with al True c show ?thesis by (simp add: hw_epilog_process_def alloc_if_def notify_if_cbacks_def notify_def)
  next
    case (Some b0)
    then have "3 + length [] \<le> length (hb_data (set_hdr E 3 b0))" using alloc_run(4) [OF al] by simp
    then obtain b where "put_cmd HCI_RESET [] (set_hdr E 3 b0) = Some b" using put_cmd_defined by blast
    with al True c Some show ?thesis by (simp add: hw_epilog_process_def alloc_if_def hc_xmit_def Let_def)
  qed
qed

interpretation epilog_event: event_handler hw_epilog_cback bt_vendor_cbacks
proof
  fix w w' :: "'a hw_world_scheme" and e M
  assume "bt_vendor_cbacks w" and "hw_epilog_cback e w = Some w'"
  then have w': "w' = log (EpilogCbEv BT_VND_OP_RESULT_SUCCESS) (log (DeallocEv (ev_id e)) w)"
    by (rule epilog_cback_run [rotated])
  show "owns (add_mset (ev_id e) M) w M w'" by (simp add: w' owns_def)
  show "bt_vendor_cbacks w'" using \<open>bt_vendor_cbacks w\<close> by (simp add: w')
qed

section \<open>Property\<close>

text \<open>What the host stack sees of the epilog: commands and reports.\<close>

fun is_epilog_event :: "event \<Rightarrow> bool" where
  "is_epilog_event (EpilogCbEv q) = True"
| "is_epilog_event (XmitEv opc b cb r) = True"
| "is_epilog_event e = False"

definition epilog_view :: "'a os_scheme \<Rightarrow> 'a os_scheme \<Rightarrow> event list" where
  "epilog_view w w' = filter is_epilog_event (drop (length (trace w)) (trace w'))"

lemma epilog_view_effects: "effects w w' es \<Longrightarrow> epilog_view w w' = filter is_epilog_event es"
proof -
  assume "effects w w' es"
  moreover have "filter is_epilog_event (filter (\<lambda>e. \<not> calm e) s) = filter is_epilog_event s" for s
    by (induction s) (auto elim: is_epilog_event.elims)
  ultimately show ?thesis by (auto simp: effects_def epilog_view_def)
qed

text \<open>
  C31. The epilog and its answer, for every answer of the host stack: without a buffer the epilog
  sends nothing and reports one failure at once. Otherwise it sends one well-formed reset and
  reports nothing yet. When the host stack accepts the reset the buffer is handed over, and the
  answer, whatever its status, is reported as a success, once, and its buffer freed. When the host
  stack refuses the reset, the buffer stays allocated and nothing is reported, as the result of
  \<^verbatim>\<open>xmit_cb\<close> is not looked at.
\<close>

theorem epilog_outcome:
  assumes "hw_epilog_process E w = Some w1" and "bt_vendor_cbacks w"
  shows "(\<exists>z. hc_alloc_addr E (trace w) z = None) \<and> epilog_view w w1 = [EpilogCbEv BT_VND_OP_RESULT_FAIL]
      \<and> owns M w M w1
    \<or> (\<exists>b r. wf_packet E HCI_RESET b \<and> packet_params b = []
        \<and> epilog_view w w1 = [XmitEv HCI_RESET b CB_hw_epilog r]
        \<and> (if r = FALSE then owns M w (add_mset (hb_id b) M) w1
           else owns M w M w1
             \<and> (6 \<le> length (ev_payload e) \<longrightarrow> (\<exists>w2. hw_epilog_cback e w1 = Some w2
                  \<and> epilog_view w1 w2 = [EpilogCbEv BT_VND_OP_RESULT_SUCCESS]
                  \<and> owns (add_mset (ev_id e) M) w1 M w2))))"
  using assms
proof (cases rule: epilog_run)
  case (no_buffer z)
  then show ?thesis by (auto intro: effects_owns simp: epilog_view_effects)
next
  case (command z b r tr)
  have c: "bt_vendor_cbacks w1" using command(5) assms(2) by auto
  have answer: "\<exists>w2. hw_epilog_cback e w1 = Some w2 \<and> epilog_view w1 w2 = [EpilogCbEv BT_VND_OP_RESULT_SUCCESS]
      \<and> owns (add_mset (ev_id e) M) w1 M w2" if "6 \<le> length (ev_payload e)"
  proof -
    obtain w2 where w2: "hw_epilog_cback e w1 = Some w2" using epilog_cback_defined [OF \<open>6 \<le> length (ev_payload e)\<close>] by blast
    have "effects w1 w2 [DeallocEv (ev_id e), EpilogCbEv BT_VND_OP_RESULT_SUCCESS]"
      using epilog_cback_run [OF w2 c]
        effects_log [OF effects_one [of "DeallocEv (ev_id e)" w1], of "EpilogCbEv BT_VND_OP_RESULT_SUCCESS"] by simp
    then show ?thesis
      using w2 epilog_event.handle_owns [OF c w2] by (auto simp: epilog_view_effects)
  qed
  have "if r = FALSE then owns M w (add_mset (hb_id b) M) w1 else owns M w M w1"
    by (auto intro!: effects_owns [OF command(4)])
  with command answer show ?thesis
    by (intro disjI2 exI [of _ b] exI [of _ r]) (auto simp: epilog_view_effects split: if_splits)
qed

text \<open>With a host stack that accepts every command, and with one that refuses every command.\<close>

theorem epilog_outcome_witness:
  "(\<exists>w1 w2. hw_epilog_process sample_env idle_hw = Some w1
      \<and> hw_epilog_cback \<lparr>ev_id = 3, ev_payload = [14, 4, 1, 3, 12, 0]\<rparr> w1 = Some w2
      \<and> epilog_view w1 w2 = [EpilogCbEv BT_VND_OP_RESULT_SUCCESS] \<and> owns {#3#} w1 {#} w2)
    \<and> (\<exists>w1 b. hw_epilog_process refusing_env idle_hw = Some w1
      \<and> epilog_view idle_hw w1 = [XmitEv HCI_RESET b CB_hw_epilog FALSE] \<and> owns {#} idle_hw {#hb_id b#} w1)"
proof -
  let ?e = "\<lparr>ev_id = 3, ev_payload = [14, 4, 1, 3, 12, 0]\<rparr>"
  have c: "bt_vendor_cbacks idle_hw" by (simp add: idle_hw_def)
  obtain w1 where w1: "hw_epilog_process sample_env idle_hw = Some w1" using epilog_defined by blast
  have sent: "r \<noteq> FALSE" if "epilog_view idle_hw w1 = [XmitEv HCI_RESET b CB_hw_epilog r]" for b r
    using that w1 by (auto simp: hw_epilog_process_def alloc_if_def c hc_alloc_def hc_xmit_Some sample_env_def
        epilog_view_def log_def Let_def idle_hw_def static_state_def elim!: bind_SomeE)
  have one: "\<exists>w2. hw_epilog_cback ?e w1 = Some w2
      \<and> epilog_view w1 w2 = [EpilogCbEv BT_VND_OP_RESULT_SUCCESS] \<and> owns {#3#} w1 {#} w2"
    using epilog_outcome [OF w1 c, of "{#}" ?e] sent by (auto simp: sample_env_def split: if_splits)
  obtain v1 where v1: "hw_epilog_process refusing_env idle_hw = Some v1" using epilog_defined by blast
  have refused: "r = FALSE" if "epilog_view idle_hw v1 = [XmitEv HCI_RESET b CB_hw_epilog r]" for b r
    using that v1 by (auto simp: hw_epilog_process_def alloc_if_def c hc_alloc_def hc_xmit_Some refusing_env_def
        sample_env_def epilog_view_def log_def Let_def idle_hw_def static_state_def elim!: bind_SomeE)
  have "\<exists>b. epilog_view idle_hw v1 = [XmitEv HCI_RESET b CB_hw_epilog FALSE] \<and> owns {#} idle_hw {#hb_id b#} v1"
    using epilog_outcome [OF v1 c, of "{#}" ?e] refused
    by (auto simp: refusing_env_def sample_env_def split: if_splits)
  with one w1 v1 show ?thesis by blast
qed

end
