(* ===== verification/Conf.thy ===== *)
theory Conf
  imports HwFw
begin

text \<open>
  conf.c: the run-time configuration file, and the actions of hardware.c it dispatches to. The
  call of \<^verbatim>\<open>vnd_load_conf\<close> in \<^verbatim>\<open>init\<close> is commented out in this revision; the loader is modelled as
  it stands. A content is the list of its bytes; a line that does not fit the line buffer is handed
  over in pieces, as \<^verbatim>\<open>fgets\<close> does.
\<close>

section \<open>Constants\<close>

definition CONF_COMMENT :: u8 where "CONF_COMMENT = 35"
definition CONF_DELIMITERS :: bytes where "CONF_DELIMITERS = [32, 61, 10, 13, 9]"
definition CONF_MAX_LINE_LEN :: nat where "CONF_MAX_LINE_LEN = 255"

lemmas conf_consts [simp] = CONF_COMMENT_def CONF_MAX_LINE_LEN_def

section \<open>The actions of hardware.c\<close>

definition hw_set_patch_file_path ::
  "bytes \<Rightarrow> bytes \<Rightarrow> int \<Rightarrow> 'a hw_world_scheme \<Rightarrow> (int \<times> 'a hw_world_scheme) option" where
  "hw_set_patch_file_path p_conf_name p_conf_value param w =
     do { blk \<leftarrow> strcpy (fw_patchfile_path w) p_conf_value; Some (0, w\<lparr>fw_patchfile_path := blk\<rparr>) }"

definition hw_set_patch_file_name ::
  "bytes \<Rightarrow> bytes \<Rightarrow> int \<Rightarrow> 'a hw_world_scheme \<Rightarrow> (int \<times> 'a hw_world_scheme) option" where
  "hw_set_patch_file_name p_conf_name p_conf_value param w =
     do { blk \<leftarrow> strcpy (fw_patchfile_name w) p_conf_value; Some (0, w\<lparr>fw_patchfile_name := blk\<rparr>) }"

definition hw_set_patch_settlement_delay ::
  "bytes \<Rightarrow> bytes \<Rightarrow> int \<Rightarrow> 'a hw_world_scheme \<Rightarrow> (int \<times> 'a hw_world_scheme) option" where
  "hw_set_patch_settlement_delay p_conf_name p_conf_value param w =
     do { delay \<leftarrow> atoi p_conf_value; Some (0, w\<lparr>fw_patch_settlement_delay := delay\<rparr>) }"

section \<open>The table and the loader\<close>

type_synonym 'a conf_action = "bytes \<Rightarrow> bytes \<Rightarrow> int \<Rightarrow> 'a hw_world_scheme \<Rightarrow> (int \<times> 'a hw_world_scheme) option"

definition entry_UartPort :: bytes where "entry_UartPort = lit ''UartPort''"
definition entry_FwPatchFilePath :: bytes where "entry_FwPatchFilePath = lit ''FwPatchFilePath''"
definition entry_FwPatchFileName :: bytes where "entry_FwPatchFileName = lit ''FwPatchFileName''"
definition entry_FwPatchSettlementDelay :: bytes where
  "entry_FwPatchSettlementDelay = lit ''FwPatchSettlementDelay''"

lemmas conf_entries = entry_UartPort_def entry_FwPatchFilePath_def entry_FwPatchFileName_def
  entry_FwPatchSettlementDelay_def

lemma conf_entries_distinct [simp]:
  "distinct [entry_UartPort, entry_FwPatchFilePath, entry_FwPatchFileName, entry_FwPatchSettlementDelay]"
  by (simp add: conf_entries)

text \<open>The last entry has a NULL name and a NULL action.\<close>

definition conf_table :: "buildcfg \<Rightarrow> (bytes option \<times> 'a conf_action \<times> int) list" where
  "conf_table C =
     [(Some (entry_UartPort), userial_set_port, 0),
      (Some (entry_FwPatchFilePath), hw_set_patch_file_path, 0),
      (Some (entry_FwPatchFileName), hw_set_patch_file_name, 0)]
     @ (if VENDOR_LIB_RUNTIME_TUNING_ENABLED C
        then [(Some (entry_FwPatchSettlementDelay), hw_set_patch_settlement_delay, 0)] else [])
     @ [(None, \<lambda>_ _ _ _. None, 0)]"

fun conf_walk ::
  "(bytes option \<times> 'a conf_action \<times> int) list \<Rightarrow> bytes \<Rightarrow> bytes \<Rightarrow> 'a hw_world_scheme \<Rightarrow> 'a hw_world_scheme option" where
  "conf_walk [] p_name p_value w = None"
| "conf_walk ((conf_entry, p_action, param) # entries) p_name p_value w =
     (case conf_entry of
        None \<Rightarrow> Some w
      | Some name \<Rightarrow>
          if name = p_name then do { (_, w) \<leftarrow> p_action p_name p_value param w; Some w }
          else conf_walk entries p_name p_value w)"

text \<open>One line in the buffer: its bytes as \<^verbatim>\<open>fgets\<close> stored them, a NUL behind them.\<close>

definition conf_line :: "buildcfg \<Rightarrow> bytes \<Rightarrow> 'a hw_world_scheme \<Rightarrow> 'a hw_world_scheme option" where
  "conf_line C line w =
     (if (line @ [0]) ! 0 = CONF_COMMENT then Some w
      else case strtok CONF_DELIMITERS (cstr (line @ [0])) of
             None \<Rightarrow> Some w
           | Some (p_name, rest) \<Rightarrow>
               (case strtok CONF_DELIMITERS rest of
                  None \<Rightarrow> Some w
                | Some (p_value, _) \<Rightarrow> conf_walk (conf_table C) p_name p_value w))"

lemma fgets_line_less: "fgets CONF_MAX_LINE_LEN s = Some (l, r) \<Longrightarrow> length r < length s"
  using fgets_less [of 254 s l r] by (simp add: numeral_eq_Suc)

function conf_lines :: "buildcfg \<Rightarrow> bytes \<Rightarrow> 'a hw_world_scheme \<Rightarrow> 'a hw_world_scheme option" where
  "conf_lines C content w =
     (case fgets CONF_MAX_LINE_LEN content of
        None \<Rightarrow> Some w
      | Some (line, rest) \<Rightarrow> do { w \<leftarrow> conf_line C line w; conf_lines C rest w })"
  by pat_completeness auto

termination
  by (relation "measure (\<lambda>(C, content, w). length content)") (auto dest: fgets_line_less simp del: conf_consts)

declare conf_lines.simps [simp del]

definition vnd_load_conf ::
  "buildcfg \<Rightarrow> env \<Rightarrow> bytes \<Rightarrow> 'a hw_world_scheme \<Rightarrow> 'a hw_world_scheme option" where
  "vnd_load_conf C E p_path w =
     (case os_file E (trace w) p_path of
        None \<Rightarrow> Some (log (FopenEv p_path False) w)
      | Some content \<Rightarrow>
          do { w \<leftarrow> conf_lines C content (log (FopenEv p_path True) w);
               Some (log FcloseEv w) })"

section \<open>The settings of a content\<close>

text \<open>
  The meaning of a content, independent of the loader's calls: a line that does not start with the
  comment sign and has at least two words, separated by delimiters, sets the first word to the
  second.
\<close>

fun words :: "bytes \<Rightarrow> bytes \<Rightarrow> bytes list" where
  "words delims [] = []"
| "words delims (c # s) =
     (if c \<in> set delims then words delims s
      else (case s of
              [] \<Rightarrow> [[c]]
            | d # _ \<Rightarrow> if d \<in> set delims then [c] # words delims s
                       else (case words delims s of [] \<Rightarrow> [[c]] | w # ws \<Rightarrow> (c # w) # ws)))"

definition setting :: "bytes \<Rightarrow> (bytes \<times> bytes) option" where
  "setting line =
     (case line of
        c # _ \<Rightarrow> if c = CONF_COMMENT then None
                 else (case words CONF_DELIMITERS line of
                         name # value # _ \<Rightarrow> Some (name, value) | _ \<Rightarrow> None)
      | [] \<Rightarrow> None)"

text \<open>The pieces \<^verbatim>\<open>fgets\<close> cuts a content into, and the settings they make.\<close>

function pieces :: "bytes \<Rightarrow> bytes list" where
  "pieces content =
     (case fgets CONF_MAX_LINE_LEN content of None \<Rightarrow> [] | Some (line, rest) \<Rightarrow> line # pieces rest)"
  by pat_completeness auto

termination
  by (relation "measure length") (auto dest: fgets_line_less simp del: conf_consts)

declare pieces.simps [simp del]

definition piece_setting :: "bytes \<Rightarrow> (bytes \<times> bytes) option" where
  "piece_setting line = setting (cstr (line @ [0]))"

definition file_settings :: "bytes \<Rightarrow> (bytes \<times> bytes) list" where
  "file_settings content = List.map_filter piece_setting (pieces content)"

primrec apply_settings :: "buildcfg \<Rightarrow> (bytes \<times> bytes) list \<Rightarrow> 'a hw_world_scheme \<Rightarrow> 'a hw_world_scheme option" where
  "apply_settings C [] w = Some w"
| "apply_settings C (s # ss) w =
     do { w \<leftarrow> conf_walk (conf_table C) (fst s) (snd s) w; apply_settings C ss w }"

section \<open>The loader reads the settings\<close>

lemma words_skip: "words delims (dropWhile (\<lambda>c. c \<in> set delims) s) = words delims s"
  by (induction s) auto

lemma words_first:
  "s \<noteq> [] \<Longrightarrow> hd s \<notin> set delims \<Longrightarrow>
     words delims s = takeWhile (\<lambda>c. c \<notin> set delims) s # words delims (dropWhile (\<lambda>c. c \<notin> set delims) s)"
  by (induction delims s rule: words.induct) (auto split: list.splits)

lemma words_ended: "words delims (drop 1 (dropWhile (\<lambda>c. c \<notin> set delims) s)) = words delims (dropWhile (\<lambda>c. c \<notin> set delims) s)"
proof (cases "dropWhile (\<lambda>c. c \<notin> set delims) s")
  case (Cons c t)
  then have "c \<in> set delims" by (metis hd_dropWhile list.discI list.sel(1))
  with Cons show ?thesis by simp
next
  case Nil
  show ?thesis unfolding Nil by simp
qed

lemma strtok_words:
  "strtok delims s = (case words delims s of [] \<Rightarrow> None
     | w # ws \<Rightarrow> Some (w, drop 1 (dropWhile (\<lambda>c. c \<notin> set delims) (dropWhile (\<lambda>c. c \<in> set delims) s))))"
  "strtok delims s = Some (w, r) \<Longrightarrow> words delims s = w # words delims r"
proof -
  let ?s = "dropWhile (\<lambda>c. c \<in> set delims) s"
  have e: "words delims s = (if ?s = [] then [] else takeWhile (\<lambda>c. c \<notin> set delims) ?s
      # words delims (drop 1 (dropWhile (\<lambda>c. c \<notin> set delims) ?s)))"
  proof (cases "?s = []")
    case True
    have "words delims s = words delims []" using words_skip [of delims s] by (simp only: True)
    with True show ?thesis by simp
  next
    case False
    then have "hd ?s \<notin> set delims" using hd_dropWhile by blast
    with False words_first [of ?s delims] words_skip [of delims s] words_ended [of delims ?s]
    show ?thesis by simp
  qed
  then show "strtok delims s = (case words delims s of [] \<Rightarrow> None
     | w # ws \<Rightarrow> Some (w, drop 1 (dropWhile (\<lambda>c. c \<notin> set delims) (dropWhile (\<lambda>c. c \<in> set delims) s))))"
    by (simp add: strtok_def Let_def)
  show "words delims s = w # words delims r" if "strtok delims s = Some (w, r)"
    using that e by (auto simp: strtok_def Let_def split: if_splits)
qed

lemma conf_line_setting:
  "conf_line C line w = (case piece_setting line of None \<Rightarrow> Some w | Some (k, v) \<Rightarrow> conf_walk (conf_table C) k v w)"
proof (cases "(line @ [0]) ! 0 = CONF_COMMENT")
  case True
  then obtain l where "line = CONF_COMMENT # l" by (cases line) auto
  with True show ?thesis by (simp add: conf_line_def piece_setting_def setting_def cstr_def)
next
  case False
  define t where "t = cstr (line @ [0])"
  have s: "piece_setting line = (case words CONF_DELIMITERS t of k # v # _ \<Rightarrow> Some (k, v) | _ \<Rightarrow> None)"
    using False by (cases line) (auto simp: piece_setting_def setting_def t_def cstr_def)
  show ?thesis
  proof (cases "strtok CONF_DELIMITERS t")
    case None
    with strtok_words(1) [of CONF_DELIMITERS t] have "words CONF_DELIMITERS t = []"
      by (simp split: list.splits)
    with False None s show ?thesis by (simp add: conf_line_def t_def)
  next
    case (Some p)
    obtain k r where p: "p = (k, r)" by fastforce
    with Some have k: "words CONF_DELIMITERS t = k # words CONF_DELIMITERS r" by (simp add: strtok_words(2))
    show ?thesis
    proof (cases "strtok CONF_DELIMITERS r")
      case None
      with strtok_words(1) [of CONF_DELIMITERS r] have "words CONF_DELIMITERS r = []"
        by (simp split: list.splits)
      with False Some None p k s show ?thesis by (simp add: conf_line_def t_def [symmetric])
    next
      case (Some q)
      obtain v r' where q: "q = (v, r')" by fastforce
      with Some have "words CONF_DELIMITERS r = v # words CONF_DELIMITERS r'" by (simp add: strtok_words(2))
      with False Some \<open>strtok CONF_DELIMITERS t = Some p\<close> p q k s show ?thesis
        by (simp add: conf_line_def t_def [symmetric])
    qed
  qed
qed

lemma conf_lines_settings: "conf_lines C content w = apply_settings C (file_settings content) w"
proof (induction content arbitrary: w rule: pieces.induct)
  case (1 content)
  show ?case
  proof (cases "fgets CONF_MAX_LINE_LEN content")
    case None
    then show ?thesis
      by (simp add: conf_lines.simps [of C content] file_settings_def pieces.simps [of content] map_filter_simps)
  next
    case (Some p)
    obtain line rest where p: "p = (line, rest)" by fastforce
    have fs: "file_settings content = (case piece_setting line of None \<Rightarrow> [] | Some s \<Rightarrow> [s]) @ file_settings rest"
      using Some p by (simp add: file_settings_def pieces.simps [of content] map_filter_simps split: option.splits)
    have "conf_lines C content w = do { w \<leftarrow> conf_line C line w; conf_lines C rest w }"
      using Some p by (simp add: conf_lines.simps [of C content])
    also have "\<dots> = do { w \<leftarrow> conf_line C line w; apply_settings C (file_settings rest) w }"
      using "1.IH" [OF Some p [symmetric]] by (cases "conf_line C line w") auto
    also have "\<dots> = apply_settings C (file_settings content) w"
      by (auto simp: fs conf_line_setting split: option.splits prod.splits)
    finally show ?thesis .
  qed
qed

section \<open>What the settings do\<close>

text \<open>The four things a content can set, as strings, and what one setting does to them.\<close>

record conf_values =
  cv_port :: bytes
  cv_path :: bytes
  cv_name :: bytes
  cv_delay :: int

definition conf_view :: "'a hw_world_scheme \<Rightarrow> conf_values" where
  "conf_view w = \<lparr>cv_port = us_port_name (vnd_userial w), cv_path = cstr (fw_patchfile_path w),
     cv_name = cstr (fw_patchfile_name w), cv_delay = fw_patch_settlement_delay w\<rparr>"

definition conf_set :: "buildcfg \<Rightarrow> bytes \<times> bytes \<Rightarrow> conf_values \<Rightarrow> conf_values" where
  "conf_set C s v =
     (if fst s = entry_UartPort then v\<lparr>cv_port := snd s\<rparr>
      else if fst s = entry_FwPatchFilePath then v\<lparr>cv_path := snd s\<rparr>
      else if fst s = entry_FwPatchFileName then v\<lparr>cv_name := snd s\<rparr>
      else if VENDOR_LIB_RUNTIME_TUNING_ENABLED C \<and> fst s = entry_FwPatchSettlementDelay
      then v\<lparr>cv_delay := the (atoi (snd s))\<rparr> else v)"

text \<open>The settings the library cannot take.\<close>

definition overruns :: "buildcfg \<Rightarrow> bytes \<times> bytes \<Rightarrow> bool" where
  "overruns C s \<longleftrightarrow> (fst s = entry_FwPatchFileName \<and> 128 \<le> length (snd s))
     \<or> (VENDOR_LIB_RUNTIME_TUNING_ENABLED C \<and> fst s = entry_FwPatchSettlementDelay \<and> atoi (snd s) = None)"

definition conf_ok :: "'a hw_world_scheme \<Rightarrow> bool" where
  "conf_ok w \<longleftrightarrow> length (fw_patchfile_path w) = 256 \<and> length (fw_patchfile_name w) = 128
     \<and> terminated (fw_patchfile_path w) \<and> terminated (fw_patchfile_name w)"

lemma strcpy_block:
  "length s < length blk \<Longrightarrow> strcpy blk s = Some (s @ 0 # drop (Suc (length s)) blk)"
  "length blk \<le> length s \<Longrightarrow> strcpy blk s = None"
  by (simp_all add: strcpy_def store_def)

lemma conf_walk_table:
  "conf_walk (conf_table C) k v w =
     (if k = entry_UartPort then map_option snd (userial_set_port k v 0 w)
      else if k = entry_FwPatchFilePath then map_option snd (hw_set_patch_file_path k v 0 w)
      else if k = entry_FwPatchFileName then map_option snd (hw_set_patch_file_name k v 0 w)
      else if VENDOR_LIB_RUNTIME_TUNING_ENABLED C \<and> k = entry_FwPatchSettlementDelay
      then map_option snd (hw_set_patch_settlement_delay k v 0 w) else Some w)"
proof -
  have m: "(do { (_, w) \<leftarrow> m; Some w }) = map_option snd m" for m :: "(int \<times> 'a hw_world_scheme) option"
    by (cases m) auto
  have e: "a = k \<longleftrightarrow> k = a" for a :: bytes by auto
  show ?thesis by (simp add: conf_table_def m e)
qed

lemma conf_walk_run:
  assumes "conf_ok w" and "length v < 256" and "no_nul v"
  shows "conf_walk (conf_table C) k v w = None \<longleftrightarrow> overruns C (k, v)"
    and "conf_walk (conf_table C) k v w = Some w' \<Longrightarrow>
      conf_ok w' \<and> conf_view w' = conf_set C (k, v) (conf_view w) \<and> trace w' = trace w"
proof -
  have l: "length (fw_patchfile_path w) = 256" "length (fw_patchfile_name w) = 128" using assms(1) by (simp_all add: conf_ok_def)
  have n: "length v < 128 \<or> 128 \<le> length v" by arith
  have d: "entry_FwPatchFileName \<noteq> entry_UartPort" "entry_FwPatchFileName \<noteq> entry_FwPatchFilePath"
    "entry_FwPatchFilePath \<noteq> entry_UartPort" "entry_FwPatchSettlementDelay \<noteq> entry_UartPort"
    "entry_FwPatchSettlementDelay \<noteq> entry_FwPatchFilePath" "entry_FwPatchSettlementDelay \<noteq> entry_FwPatchFileName"
    using conf_entries_distinct by auto
  note defs = userial_set_port_def hw_set_patch_file_path_def hw_set_patch_file_name_def
    hw_set_patch_settlement_delay_def VND_PORT_NAME_MAXLEN_def
  show "conf_walk (conf_table C) k v w = None \<longleftrightarrow> overruns C (k, v)"
    using assms(2) l n d by (auto simp: conf_walk_table defs overruns_def strcpy_block Option.bind_eq_None_conv)
  show "conf_ok w' \<and> conf_view w' = conf_set C (k, v) (conf_view w) \<and> trace w' = trace w"
    if "conf_walk (conf_table C) k v w = Some w'"
    using that assms l
    by (auto simp: conf_walk_table defs conf_view_def conf_set_def conf_ok_def strcpy_Some_iff
          elim!: bind_SomeE split: if_splits)
qed

lemma apply_settings_run:
  assumes "conf_ok w" and "\<forall>s\<in>set ss. length (snd s) < 256 \<and> no_nul (snd s)"
  shows "apply_settings C ss w = None \<longleftrightarrow> (\<exists>s\<in>set ss. overruns C s)"
    and "apply_settings C ss w = Some w' \<Longrightarrow>
      conf_ok w' \<and> conf_view w' = fold (conf_set C) ss (conf_view w) \<and> trace w' = trace w"
proof -
  have "(apply_settings C ss w = None \<longleftrightarrow> (\<exists>s\<in>set ss. overruns C s))
      \<and> (apply_settings C ss w = Some w' \<longrightarrow>
           conf_ok w' \<and> conf_view w' = fold (conf_set C) ss (conf_view w) \<and> trace w' = trace w)"
    using assms
  proof (induction ss arbitrary: w)
    case (Cons s ss)
    then have v: "length (snd s) < 256" "no_nul (snd s)" by simp_all
    note r = conf_walk_run [OF Cons.prems(1) v, of C "fst s"]
    show ?case
    proof (cases "conf_walk (conf_table C) (fst s) (snd s) w")
      case None
      with r(1) show ?thesis by simp
    next
      case (Some w1)
      with r(1) have "\<not> overruns C s" by simp
      moreover from r(2) [OF Some] have w1: "conf_ok w1" "conf_view w1 = conf_set C s (conf_view w)" "trace w1 = trace w"
        by simp_all
      ultimately show ?thesis using Cons.IH [OF w1(1)] Cons.prems(2) Some by simp
    qed
  qed auto
  then show "apply_settings C ss w = None \<longleftrightarrow> (\<exists>s\<in>set ss. overruns C s)"
    and "apply_settings C ss w = Some w' \<Longrightarrow>
      conf_ok w' \<and> conf_view w' = fold (conf_set C) ss (conf_view w) \<and> trace w' = trace w" by blast+
qed

text \<open>No piece, and so no value, is longer than the line buffer.\<close>

lemma words_Cons:
  "words delims (c # s) =
     (if c \<in> set delims then words delims s
      else if s = [] \<or> hd s \<in> set delims then [c] # words delims s
      else (case words delims s of [] \<Rightarrow> [[c]] | w # ws \<Rightarrow> (c # w) # ws))"
  by (cases s) auto

lemma words_bound: "w \<in> set (words delims s) \<Longrightarrow> length w \<le> length s \<and> set w \<subseteq> set s"
proof (induction s arbitrary: w)
  case (Cons c s)
  from Cons.prems consider "w \<in> set (words delims s)" | "w = [c]"
    | v where "w = c # v" "v \<in> set (words delims s)"
    by (auto simp: words_Cons simp del: words.simps split: if_splits list.splits)
  then show ?case using Cons.IH by cases fastforce+
qed simp

lemma setting_words:
  "setting l = Some (k, v) \<Longrightarrow> k \<in> set (words CONF_DELIMITERS l) \<and> v \<in> set (words CONF_DELIMITERS l)"
  by (auto simp: setting_def simp del: words.simps split: list.splits if_splits)

lemma pieces_bound: "p \<in> set (pieces content) \<Longrightarrow> length p \<le> CONF_MAX_LINE_LEN"
proof (induction content rule: pieces.induct)
  case (1 content)
  show ?case
  proof (cases "fgets CONF_MAX_LINE_LEN content")
    case None
    with "1.prems" show ?thesis by (simp add: pieces.simps [of content])
  next
    case (Some x)
    obtain line rest where x: "x = (line, rest)" by fastforce
    with Some have "length line \<le> CONF_MAX_LINE_LEN"
      using take_line_append by (auto simp: fgets_def split: if_splits)
    with "1.IH" [OF Some x [symmetric]] "1.prems" Some x show ?thesis
      by (auto simp: pieces.simps [of content])
  qed
qed

lemma cstr_subset: "set (cstr b) \<subseteq> set b" "length (cstr b) \<le> length b"
  by (auto simp: cstr_def dest: set_takeWhileD intro: length_takeWhile_le)

lemma settings_bound: "\<forall>s\<in>set (file_settings content). length (snd s) < 256 \<and> no_nul (snd s)"
proof
  fix s assume "s \<in> set (file_settings content)"
  then obtain p where p: "p \<in> set (pieces content)" "piece_setting p = Some s"
    by (auto simp: file_settings_def map_filter_def)
  define t where "t = cstr (p @ [0])"
  have "snd s \<in> set (words CONF_DELIMITERS t)"
    using p(2) setting_words [of t "fst s" "snd s"] by (simp add: piece_setting_def t_def)
  then have "length (snd s) \<le> length t" "set (snd s) \<subseteq> set t" using words_bound by blast+
  moreover have "length t \<le> length p" "no_nul t"
  proof -
    show "no_nul t" by (simp add: t_def)
    show "length t \<le> length p"
      using cstr_length_less [of "p @ [0]"] by (simp add: t_def terminated_def)
  qed
  ultimately show "length (snd s) < 256 \<and> no_nul (snd s)"
    using pieces_bound [OF p(1)] by (auto simp: no_nul_def)
qed

section \<open>Properties\<close>

lemma conf_log [simp]:
  "conf_ok (log e w) = conf_ok w" "conf_view (log e w) = conf_view w"
  by (simp_all add: conf_ok_def conf_view_def log_def)

lemma conf_load_total:
  assumes "conf_ok w" and "os_file E (trace w) path = Some content"
  shows "vnd_load_conf C E path w = None \<longleftrightarrow> (\<exists>s\<in>set (file_settings content). overruns C s)"
proof -
  have "conf_ok (log (FopenEv path True) w)" using assms(1) by simp
  from apply_settings_run(1) [OF this settings_bound, of C content] show ?thesis
    using assms(2) by (simp add: vnd_load_conf_def conf_lines_settings Option.bind_eq_None_conv)
qed

text \<open>
  C23. Whatever bytes the configuration file holds, loading it has a defined result unless some
  setting gives a patch file name of 128 bytes or more, or, with run-time tuning, a delay that is
  not an \<^verbatim>\<open>int\<close>: port and path can never outgrow their buffers, because a line is cut at 255
  bytes first.
\<close>

theorem conf_load_defined:
  assumes "conf_ok w" and "os_file E (trace w) path = Some content"
  shows "vnd_load_conf C E path w = None \<longleftrightarrow> (\<exists>s\<in>set (file_settings content). overruns C s)"
  using assms by (rule conf_load_total)

lemma conf_load_runs:
  assumes "conf_ok w" and "vnd_load_conf C E path w = Some w'"
  shows "conf_ok w' \<and> (case os_file E (trace w) path of
      None \<Rightarrow> w' = log (FopenEv path False) w
    | Some content \<Rightarrow> conf_view w' = fold (conf_set C) (file_settings content) (conf_view w)
        \<and> trace w' = trace w @ [FopenEv path True, FcloseEv])"
proof (cases "os_file E (trace w) path")
  case None
  with assms show ?thesis by (auto simp: vnd_load_conf_def)
next
  case (Some content)
  let ?w = "log (FopenEv path True) w"
  have ok: "conf_ok ?w" using assms(1) by simp
  from Some assms(2) obtain w1 where w1: "apply_settings C (file_settings content) ?w = Some w1"
    and w': "w' = log FcloseEv w1"
    by (auto simp: vnd_load_conf_def conf_lines_settings elim!: bind_SomeE)
  from apply_settings_run(2) [OF ok settings_bound w1] Some show ?thesis by (simp add: w')
qed

text \<open>
  C17. Loading a file does what the settings in it say, one after the other, to the port name,
  the patch file path and name and the delay, and opens and closes the file once; a file that
  cannot be opened changes nothing.
\<close>

theorem conf_load_applies_settings:
  assumes "conf_ok w" and "vnd_load_conf C E path w = Some w'"
  shows "conf_ok w' \<and> (case os_file E (trace w) path of
      None \<Rightarrow> w' = log (FopenEv path False) w
    | Some content \<Rightarrow> conf_view w' = fold (conf_set C) (file_settings content) (conf_view w)
        \<and> trace w' = trace w @ [FopenEv path True, FcloseEv])"
  using assms by (rule conf_load_runs)

text \<open>A file of ordinary lines is read line by line.\<close>

lemma take_line_whole:
  "10 \<notin> set l \<Longrightarrow> length l < n \<Longrightarrow> take_line n (l @ 10 # r) = (l @ [10], r)"
proof (induction l arbitrary: n)
  case Nil
  then show ?case by (cases n) auto
next
  case (Cons c l)
  then show ?case by (cases n) auto
qed

lemma take_line_cut: "10 \<notin> set l \<Longrightarrow> take_line (length l) (l @ r) = (l, r)"
  by (induction l) auto

lemma words_end: "d \<in> set delims \<Longrightarrow> words delims (s @ [d]) = words delims s"
proof (induction s)
  case (Cons c s)
  then show ?case
    using words_Cons [of delims c "s @ [d]"] words_Cons [of delims c s]
    by (cases "s = []") (auto simp del: words.simps(2))
qed simp

lemma setting_end: "setting (l @ [10]) = setting l"
proof -
  have "words CONF_DELIMITERS (l @ [10]) = words CONF_DELIMITERS l"
    by (rule words_end) (simp add: CONF_DELIMITERS_def)
  moreover have "words CONF_DELIMITERS [10] = []" by (simp add: CONF_DELIMITERS_def)
  ultimately show ?thesis by (cases l) (simp_all add: setting_def del: words.simps)
qed

lemma pieces_line:
  assumes "10 \<notin> set l" and "length l < CONF_MAX_LINE_LEN"
  shows "pieces (l @ 10 # r) = (l @ [10]) # pieces r"
  using take_line_whole [OF assms] by (simp add: pieces.simps [of "l @ 10 # r"] fgets_def)

lemma ordinary_lines:
  assumes "\<forall>l\<in>set ls. no_nul l \<and> 10 \<notin> set l \<and> length l < CONF_MAX_LINE_LEN"
  shows "file_settings (concat (map (\<lambda>l. l @ [10]) ls)) = List.map_filter setting ls"
  using assms
proof (induction ls)
  case Nil
  show ?case by (simp add: file_settings_def pieces.simps [of "[]"] fgets_def map_filter_simps)
next
  case (Cons l ls)
  have "piece_setting (l @ [10]) = setting l"
    using Cons.prems cstr_append_nul [of "l @ [10]" "[]"] by (simp add: piece_setting_def setting_end)
  then show ?case
    using Cons pieces_line [of l "concat (map (\<lambda>l. l @ [10]) ls)"]
    by (simp add: file_settings_def map_filter_simps split: option.splits)
qed

text \<open>
  A comment that does not fit the line buffer is not a comment to its end: its first 255
  bytes are skipped, and the rest of the line is read as a line of its own, so a setting in a
  long comment takes effect.
\<close>

theorem long_comment_is_parsed:
  assumes "length pad = 254" and "10 \<notin> set pad"
  shows "conf_lines C (CONF_COMMENT # pad @ tail) w = conf_lines C tail w"
proof -
  have "take_line (length (35 # pad)) ((35 # pad) @ tail) = (35 # pad, tail)"
    by (rule take_line_cut) (use assms(2) in simp)
  then have "fgets CONF_MAX_LINE_LEN (CONF_COMMENT # pad @ tail) = Some (CONF_COMMENT # pad, tail)"
    using assms(1) by (simp add: fgets_def)
  moreover have "conf_line C (CONF_COMMENT # pad) w = Some w" by (simp add: conf_line_def)
  ultimately show ?thesis by (simp add: conf_lines.simps [of C "35 # pad @ tail"])
qed

text \<open>One line that names a patch file, and a long comment that ends with it.\<close>

definition name_line :: "bytes \<Rightarrow> bytes" where
  "name_line v = entry_FwPatchFileName @ lit '' = '' @ v"

lemma words_plain:
  "s \<noteq> [] \<Longrightarrow> \<forall>c\<in>set s. c \<notin> set delims \<Longrightarrow> words delims s = [s]"
proof (induction s)
  case (Cons c s)
  then show ?case by (cases s) (auto simp: words_Cons simp del: words.simps(2))
qed simp

lemma name_line_setting:
  assumes "v \<noteq> []" and "\<forall>c\<in>set v. c \<notin> set CONF_DELIMITERS"
  shows "setting (name_line v) = Some (entry_FwPatchFileName, v)"
proof -
  obtain c t where v: "v = c # t" using assms(1) by (cases v) auto
  have "words CONF_DELIMITERS v = [v]" using assms by (rule words_plain)
  then have "words CONF_DELIMITERS (name_line v) = [entry_FwPatchFileName, v]"
    by (simp add: name_line_def conf_entries CONF_DELIMITERS_def)
  then show ?thesis by (simp add: setting_def name_line_def conf_entries)
qed

lemma idle_conf_ok: "conf_ok idle_hw"
  using default_path_string
  by (simp add: conf_ok_def idle_hw_def static_state_def c_array_def default_cfg_def)

lemma name_line_file:
  assumes "v \<noteq> []" and "\<forall>c\<in>set v. c \<notin> set CONF_DELIMITERS" and "no_nul v" and "length v < 230"
  shows "file_settings (name_line v @ [10]) = [(entry_FwPatchFileName, v)]"
proof -
  have "10 \<notin> set v" using assms(2) by (auto simp: CONF_DELIMITERS_def)
  then have "no_nul (name_line v) \<and> 10 \<notin> set (name_line v) \<and> length (name_line v) < CONF_MAX_LINE_LEN"
    using assms(3,4) by (simp add: name_line_def conf_entries)
  with ordinary_lines [of "[name_line v]"] name_line_setting [OF assms(1,2)] show ?thesis
    by (simp add: map_filter_simps)
qed

theorem long_comment_is_parsed_witness:
  "\<exists>w'. conf_lines default_cfg (CONF_COMMENT # replicate 254 45 @ name_line (lit ''evil'') @ [10]) idle_hw = Some w'
    \<and> cstr (fw_patchfile_name w') = lit ''evil''"
proof -
  have s: "file_settings (name_line (lit ''evil'') @ [10]) = [(entry_FwPatchFileName, lit ''evil'')]"
    by (rule name_line_file) (simp_all add: CONF_DELIMITERS_def)
  have nd: "\<not> overruns default_cfg (entry_FwPatchFileName, lit ''evil'')"
    by (simp add: overruns_def conf_entries)
  have b: "\<forall>s\<in>set [(entry_FwPatchFileName, lit ''evil'')]. length (snd s) < 256 \<and> no_nul (snd s)" by simp
  note r = apply_settings_run [OF idle_conf_ok b, of default_cfg]
  from r(1) nd obtain w' where w': "apply_settings default_cfg [(entry_FwPatchFileName, lit ''evil'')] idle_hw = Some w'"
    by auto
  from r(2) [OF w'] have "cv_name (conf_view w') = lit ''evil''"
    by (simp add: conf_set_def conf_entries)
  moreover have "conf_lines default_cfg (CONF_COMMENT # replicate 254 45 @ name_line (lit ''evil'') @ [10]) idle_hw = Some w'"
    using long_comment_is_parsed [of "replicate 254 45" default_cfg "name_line (lit ''evil'') @ [10]" idle_hw] w' s
    by (simp only: conf_lines_settings) simp
  ultimately show ?thesis by (auto simp: conf_view_def)
qed

theorem conf_load_defined_witness:
  "vnd_load_conf default_cfg (sample_env\<lparr>os_file := \<lambda>_ _. Some (name_line (replicate 128 65) @ [10])\<rparr>)
     (lit ''bt_vendor.conf'') idle_hw = None"
proof -
  let ?E = "sample_env\<lparr>os_file := \<lambda>_ _. Some (name_line (replicate 128 65) @ [10])\<rparr>"
  have "file_settings (name_line (replicate 128 65) @ [10]) = [(entry_FwPatchFileName, replicate 128 65)]"
    by (rule name_line_file) (simp_all add: CONF_DELIMITERS_def no_nul_def)
  moreover have "os_file ?E (trace idle_hw) (lit ''bt_vendor.conf'') = Some (name_line (replicate 128 65) @ [10])" by simp
  ultimately show ?thesis
    using conf_load_defined [OF idle_conf_ok, of ?E "lit ''bt_vendor.conf''" _ default_cfg]
    by (simp add: overruns_def)
qed

theorem conf_load_applies_settings_witness:
  "\<exists>w'. vnd_load_conf default_cfg (sample_env\<lparr>os_file := \<lambda>_ _. Some (name_line (lit ''bcm.hcd'') @ [10])\<rparr>)
       (lit ''bt_vendor.conf'') idle_hw = Some w'
    \<and> cstr (fw_patchfile_name w') = lit ''bcm.hcd'' \<and> cstr (fw_patchfile_path w') = lit ''/vendor/firmware/''"
proof -
  let ?E = "sample_env\<lparr>os_file := \<lambda>_ _. Some (name_line (lit ''bcm.hcd'') @ [10])\<rparr>"
  have s: "file_settings (name_line (lit ''bcm.hcd'') @ [10]) = [(entry_FwPatchFileName, lit ''bcm.hcd'')]"
    by (rule name_line_file) (simp_all add: CONF_DELIMITERS_def)
  have f: "os_file ?E tr p = Some (name_line (lit ''bcm.hcd'') @ [10])" for tr p by simp
  have "\<not> overruns default_cfg (entry_FwPatchFileName, lit ''bcm.hcd'')"
    by (simp add: overruns_def conf_entries)
  then obtain w' where w': "vnd_load_conf default_cfg ?E (lit ''bt_vendor.conf'') idle_hw = Some w'"
    using conf_load_total [OF idle_conf_ok f, of default_cfg "lit ''bt_vendor.conf''"] s by auto
  from conf_load_applies_settings [OF idle_conf_ok w'] s f
  have "conf_view w' = conf_set default_cfg (entry_FwPatchFileName, lit ''bcm.hcd'') (conf_view idle_hw)" by simp
  then have "cv_name (conf_view w') = lit ''bcm.hcd'' \<and> cv_path (conf_view w') = cv_path (conf_view idle_hw)"
    by (simp add: conf_set_def conf_entries)
  with w' default_path_string show ?thesis by (auto simp: conf_view_def)
qed

end
