(* ===== verification/Vendor.thy ===== *)
theory Vendor
  imports ConfigDefined HwLpm ScoProps HwEpilog Conf
begin

text \<open>
  bt_vendor_nordic.c: the interface the host stack loads, \<^verbatim>\<open>init\<close>, \<^verbatim>\<open>op\<close> and \<^verbatim>\<open>cleanup\<close>, and on
  top of it the library as a whole: a run is any sequence of interface calls, completion callbacks
  and expiries of the holding timer. Here the properties of the components are put together: the
  state invariant and the absence of undefined behaviour over any interleaving.
\<close>

section \<open>The interface\<close>

text \<open>An opcode of \<^verbatim>\<open>op\<close> together with what its \<^verbatim>\<open>param\<close> points to. The last constructor stands
  for every other opcode.\<close>

datatype vendor_request =
    BT_VND_OP_POWER_CTRL int
  | BT_VND_OP_FW_CFG
  | BT_VND_OP_SCO_CFG
  | BT_VND_OP_USERIAL_OPEN
  | BT_VND_OP_USERIAL_CLOSE
  | BT_VND_OP_GET_LPM_IDLE_TIMEOUT
  | BT_VND_OP_LPM_SET_MODE u8
  | BT_VND_OP_LPM_WAKE_SET_STATE u8
  | BT_VND_OP_SET_AUDIO_STATE u16
  | BT_VND_OP_EPILOG
  | BT_VND_OP_A2DP_OFFLOAD_START
  | BT_VND_OP_A2DP_OFFLOAD_STOP
  | BT_VND_OP_OTHER

text \<open>What an operation stores behind \<^verbatim>\<open>param\<close>.\<close>

datatype op_output = NoOutput | FdArray "int list" | IdleTimeout u32

definition userial_init_cfg :: tUSERIAL_CFG where
  "userial_init_cfg = \<lparr>uc_fmt = USERIAL_DATABITS_8 OR USERIAL_PARITY_NONE OR USERIAL_STOPBITS_1,
     uc_baud = USERIAL_BAUD_115200\<rparr>"

text \<open>\<^verbatim>\<open>p_cb != NULL\<close> is the first argument, the memory behind \<^verbatim>\<open>local_bdaddr\<close> the second.\<close>

definition vendor_init ::
  "buildcfg \<Rightarrow> bool \<Rightarrow> bytes \<Rightarrow> 'a hw_world_scheme \<Rightarrow> (int \<times> 'a hw_world_scheme) option" where
  "vendor_init C p_cb local_bdaddr w =
     (if \<not> p_cb then Some (- 1, w)
      else do {
        let w = userial_vendor_init C w;
        let w = upio_init C w;
        let w = w\<lparr>bt_vendor_cbacks := True\<rparr>;
        _ \<leftarrow> ensure (6 \<le> length local_bdaddr);
        Some (0, w\<lparr>vnd_local_bd_addr := take 6 local_bdaddr\<rparr>) })"

definition vendor_op ::
  "buildcfg \<Rightarrow> env \<Rightarrow> vendor_request \<Rightarrow> 'a hw_world_scheme \<Rightarrow> (int \<times> op_output \<times> 'a hw_world_scheme) option" where
  "vendor_op C E request w =
     (case request of
        BT_VND_OP_POWER_CTRL state \<Rightarrow>
          do { (_, w) \<leftarrow> upio_set_bluetooth_power E UPIO_BT_POWER_OFF w;
               if state = BT_VND_PWR_ON E
               then do { (_, w) \<leftarrow> upio_set_bluetooth_power E UPIO_BT_POWER_ON w; Some (0, NoOutput, w) }
               else Some (0, NoOutput, hw_lpm_set_wake_state C E FALSE w) }
      | BT_VND_OP_FW_CFG \<Rightarrow> do { w \<leftarrow> hw_config_start E w; Some (0, NoOutput, w) }
      | BT_VND_OP_SCO_CFG \<Rightarrow>
          (if SCO_CFG_INCLUDED C then do { w \<leftarrow> hw_sco_config C E w; Some (0, NoOutput, w) }
           else Some (- 1, NoOutput, w))
      | BT_VND_OP_USERIAL_OPEN \<Rightarrow>
          (let (fd, w) = userial_vendor_open C E userial_init_cfg w in
           if fd \<noteq> - 1 then Some (1, FdArray (replicate (CH_MAX E) fd), w) else Some (0, NoOutput, w))
      | BT_VND_OP_USERIAL_CLOSE \<Rightarrow> Some (0, NoOutput, userial_vendor_close C w)
      | BT_VND_OP_GET_LPM_IDLE_TIMEOUT \<Rightarrow>
          do { t \<leftarrow> hw_lpm_get_idle_timeout C w; Some (0, IdleTimeout t, w) }
      | BT_VND_OP_LPM_SET_MODE mode \<Rightarrow>
          do { (r, w) \<leftarrow> hw_lpm_enable C E mode w; Some (uint r, NoOutput, w) }
      | BT_VND_OP_LPM_WAKE_SET_STATE state \<Rightarrow>
          (let wake_assert = (if state = BT_VND_LPM_WAKE_ASSERT E then TRUE else FALSE)
           in Some (0, NoOutput, hw_lpm_set_wake_state C E wake_assert w))
      | BT_VND_OP_SET_AUDIO_STATE peer_codec \<Rightarrow>
          do { (r, w) \<leftarrow> hw_set_audio_state C E peer_codec w; Some (r, NoOutput, w) }
      | BT_VND_OP_EPILOG \<Rightarrow>
          (if \<not> HW_END_WITH_HCI_RESET C
           then do { w \<leftarrow> notify_if_cbacks (EpilogCbEv BT_VND_OP_RESULT_SUCCESS) w; Some (0, NoOutput, w) }
           else do { w \<leftarrow> hw_epilog_process E w; Some (0, NoOutput, w) })
      | BT_VND_OP_A2DP_OFFLOAD_START \<Rightarrow>
          Some (if BRCM_A2DP_OFFLOAD C then a2dp_execute E (trace w) True else 0, NoOutput, w)
      | BT_VND_OP_A2DP_OFFLOAD_STOP \<Rightarrow>
          Some (if BRCM_A2DP_OFFLOAD C then a2dp_execute E (trace w) False else 0, NoOutput, w)
      | BT_VND_OP_OTHER \<Rightarrow> Some (0, NoOutput, w))"

definition vendor_cleanup :: "buildcfg \<Rightarrow> 'a hw_world_scheme \<Rightarrow> 'a hw_world_scheme" where
  "vendor_cleanup C w = (let w = upio_cleanup C w in w\<lparr>bt_vendor_cbacks := False\<rparr>)"

section \<open>The library as a whole\<close>

text \<open>A completion callback is called through the pointer that was passed to \<^verbatim>\<open>xmit_cb\<close>.\<close>

definition completion ::
  "buildcfg \<Rightarrow> env \<Rightarrow> cback \<Rightarrow> evt \<Rightarrow> 'a hw_world_scheme \<Rightarrow> 'a hw_world_scheme option" where
  "completion C E cb e w =
     (case cb of
        CB_hw_config \<Rightarrow> hw_config_cback C E e w
      | CB_hw_lpm_ctrl \<Rightarrow> hw_lpm_ctrl_cback e w
      | CB_hw_epilog \<Rightarrow> hw_epilog_cback e w
      | _ \<Rightarrow> sco_callback C E cb e w)"

datatype lib_call =
  Init bool bytes | Op vendor_request | Completion cback evt | TimerExpires | Cleanup

definition lib_step ::
  "buildcfg \<Rightarrow> env \<Rightarrow> lib_call \<Rightarrow> 'a hw_world_scheme \<Rightarrow> 'a hw_world_scheme option" where
  "lib_step C E c w =
     (case c of
        Init p_cb a \<Rightarrow> map_option snd (vendor_init C p_cb a w)
      | Op request \<Rightarrow> map_option (snd \<circ> snd) (vendor_op C E request w)
      | Completion cb e \<Rightarrow> completion C E cb e w
      | TimerExpires \<Rightarrow> Some (proc_btwrite_timeout C E w)
      | Cleanup \<Rightarrow> Some (vendor_cleanup C w))"

section \<open>The invariant of the library's state\<close>

definition lib_wf :: "'a hw_world_scheme \<Rightarrow> bool" where
  "lib_wf w \<longleftrightarrow> upio_wf w \<and> chip_ok w \<and> length (vnd_local_bd_addr w) = 6 \<and> sco_ok w \<and> conf_ok w
     \<and> search_by_name w"

lemma wfD:
  assumes "lib_wf w"
  shows "upio_wf w" and "chip_ok w" and "length (vnd_local_bd_addr w) = 6" and "sco_ok w" and "conf_ok w"
    and "search_by_name w"
  using assms by (simp_all add: lib_wf_def)

text \<open>The path the library is built with fits its array and names something.\<close>

definition cfg_wf :: "buildcfg \<Rightarrow> bool" where
  "cfg_wf C \<longleftrightarrow> no_nul (FW_PATCHFILE_LOCATION C) \<and> length (FW_PATCHFILE_LOCATION C) < 256
     \<and> FW_PATCHFILE_LOCATION C \<noteq> []"

lemma zeros_terminated: "0 < n \<Longrightarrow> terminated (replicate n 0)"
  by (simp add: terminated_def)

lemma static_wf: "cfg_wf C \<Longrightarrow> lib_wf (static_state C)"
  by (simp add: lib_wf_def cfg_wf_def static_state_def upio_wf_def chip_ok_def sco_ok_def conf_ok_def search_by_name_def
        sco_param_init_def sco_i2spcm_param_init_def c_array_string zeros_terminated)

text \<open>The parts of the state the audio path does not write.\<close>

definition base_of where
  "base_of w = (bt_vendor_cbacks w, vnd_local_bd_addr w, fw_patchfile_path w, fw_patchfile_name w,
     upio_state w, rfkill_id w, rfkill_state_path w, lpm_proc_cb w, vnd_userial w, hw_cfg_cb w)"

lemma base_of_simps [simp]:
  "base_of (log e w) = base_of w" "base_of (w\<lparr>trace := t\<rparr>) = base_of w"
  "base_of (set_codec_params C E codec w) = base_of w"
  "base_of (sync_bus_params C w) = base_of w" "base_of (set_default_wbs_rate C w) = base_of w"
  by (simp_all add: base_of_def set_codec_params_def sync_bus_params_def set_default_wbs_rate_def Let_def
        split: prod.splits)

lemma base_wf: "base_of w' = base_of w \<Longrightarrow> sco_ok w' \<Longrightarrow> lib_wf w \<Longrightarrow> lib_wf w'"
  by (simp add: base_of_def lib_wf_def upio_wf_def chip_ok_def conf_ok_def search_by_name_def)

lemma frame_wf: "frame_of w' = frame_of w \<Longrightarrow> chip_ok w' \<Longrightarrow> lib_wf w \<Longrightarrow> lib_wf w'"
  by (simp add: frame_of_def lib_wf_def upio_wf_def sco_ok_def conf_ok_def search_by_name_def)

text \<open>What each operation keeps of it.\<close>

lemma alloc_base:
  "hc_alloc E n w = Some (r, w') \<Longrightarrow> base_of w' = base_of w \<and> sco_ok w' = sco_ok w"
  "alloc_if c E n w = Some (r, w') \<Longrightarrow> base_of w' = base_of w \<and> sco_ok w' = sco_ok w"
  by (auto simp: alloc_if_def elim!: hc_alloc_SomeE split: if_splits)

lemma send_base:
  "send_sco E opc ps cb b w = Some (ok, w') \<Longrightarrow> base_of w' = base_of w \<and> sco_ok w' = sco_ok w"
  by (auto simp: send_sco_def hc_xmit_Some elim!: bind_SomeE split: if_splits)

lemma notify_base:
  "notify_if_cbacks e w = Some w' \<Longrightarrow> base_of w' = base_of w \<and> sco_ok w' = sco_ok w"
  "dealloc_if_cbacks a w = Some w' \<Longrightarrow> base_of w' = base_of w \<and> sco_ok w' = sco_ok w"
  by (auto simp: if_cbacks_Some)

lemma i2spcm_base:
  assumes "hw_sco_i2spcm_config C E codec w = Some w'"
  shows "base_of w' = base_of w \<and> sco_ok w' = sco_ok w"
proof -
  obtain buf w1 ok w2 where "alloc_if (bt_vendor_cbacks w) E (HCI_CMD_PREAMBLE_SIZE + SCO_I2SPCM_PARAM_SIZE) w = Some (buf, w1)"
    and k: "(case buf of None \<Rightarrow> Some (False, w1)
          | Some b \<Rightarrow> (let w = set_codec_params C E codec w1 in
               send_sco E HCI_VSC_WRITE_I2SPCM_INTERFACE_PARAM (bt_sco_i2spcm_param w) CB_hw_sco_i2spcm_cfg b w)) = Some (ok, w2)"
    and n: "(if ok then Some w2 else notify (AudioStateCbEv BT_VND_OP_RESULT_FAIL) w2) = Some w'"
    using assms by (auto simp: hw_sco_i2spcm_config_def elim!: bind_SomeE split del: if_split)
  then have "base_of w1 = base_of w \<and> sco_ok w1 = sco_ok w" using alloc_base(2) by blast
  moreover have "base_of w2 = base_of w1 \<and> sco_ok w2 = sco_ok w1"
    using k send_base by (cases buf) (fastforce simp: Let_def)+
  moreover have "base_of w' = base_of w2 \<and> sco_ok w' = sco_ok w2" using n by (auto split: if_splits)
  ultimately show ?thesis by simp
qed

lemma sco_config_base:
  assumes "hw_sco_config C E w = Some w'"
  shows "base_of w' = base_of w \<and> sco_ok w' = sco_ok w"
proof -
  let ?v = "set_default_wbs_rate C (sync_bus_params C w)"
  obtain w2 where m: "(if bus_is_i2s C then hw_sco_i2spcm_config C E (SCO_CODEC_CVSD E) ?v else Some ?v) = Some w2"
    and f: "notify_if_cbacks (ScocfgCbEv BT_VND_OP_RESULT_SUCCESS) w2 = Some w'"
    using assms by (auto simp: hw_sco_config_def Let_def elim!: bind_SomeE split del: if_split)
  have "base_of w2 = base_of w \<and> sco_ok w2 = sco_ok w"
    using m i2spcm_base [of C E "SCO_CODEC_CVSD E" ?v w2] by (auto split: if_splits)
  with notify_base(1) [OF f] show ?thesis by simp
qed

lemma audio_state_base:
  assumes "hw_set_audio_state C E codec w = Some (r, w')"
  shows "base_of w' = base_of w \<and> sco_ok w' = sco_ok w"
proof (cases "SCO_CFG_INCLUDED C \<and> bt_vendor_cbacks w")
  case True
  with assms have "hw_set_SCO_codec E codec w = Some (r, w')" by (simp add: hw_set_audio_state_def)
  then show ?thesis
    using True by (elim set_SCO_codec_run conjE exE) (auto simp: sco_ok_def)
qed (use assms in \<open>auto simp: hw_set_audio_state_def split: if_splits\<close>)

lemma next_pcm_base:
  assumes "next_pcm_command E opc ps w = Some (ok, w')"
  shows "base_of w' = base_of w \<and> sco_ok w' = sco_ok w"
proof -
  obtain buf w1 where a: "alloc_if (bt_vendor_cbacks w) E (HCI_CMD_PREAMBLE_SIZE + length ps) w = Some (buf, w1)"
    and k: "(case buf of None \<Rightarrow> Some (False, w1) | Some b \<Rightarrow> send_sco E opc ps CB_hw_sco_i2spcm_cfg b w1) = Some (ok, w')"
    using assms by (auto simp: next_pcm_command_def elim!: bind_SomeE)
  from k send_base have "base_of w' = base_of w1 \<and> sco_ok w' = sco_ok w1" by (cases buf) fastforce+
  with alloc_base(2) [OF a] show ?thesis by simp
qed

lemma sco_callback_base:
  assumes "sco_callback C E cb e w = Some w'"
  shows "base_of w' = base_of w \<and> sco_ok w' = sco_ok w"
proof -
  have codec: "base_of w' = base_of w \<and> sco_ok w' = sco_ok w"
    if "hw_sco_i2spcm_config_from_command C E e codec w = Some w'" for codec
    using that by (auto simp: hw_sco_i2spcm_config_from_command_def elim!: bind_SomeE
        dest!: notify_base i2spcm_base split: if_splits)
  have cfg: "base_of w' = base_of w \<and> sco_ok w' = sco_ok w" if "hw_sco_i2spcm_cfg_cback C E e w = Some w'"
    using that by (auto simp: hw_sco_i2spcm_cfg_cback_def Let_def elim!: bind_SomeE
        dest!: notify_base next_pcm_base split: if_splits)
  from assms codec cfg show ?thesis
    by (auto simp: sco_callback_def hw_set_MSBC_codec_cback_def hw_set_CVSD_codec_cback_def split: cback.splits)
qed

lemma up_wf:
  assumes "up_world.more w' = up_world.more w" and "upio_wf w'" and "lib_wf w"
  shows "lib_wf w'"
  using assms by (cases w; cases w') (simp add: lib_wf_def chip_ok_def sco_ok_def conf_ok_def search_by_name_def)

lemma us_wf:
  assumes "us_world.more w' = us_world.more w" and "lib_wf w"
  shows "lib_wf w'"
proof (rule up_wf [OF _ _ assms(2)])
  show "up_world.more w' = up_world.more w" and "upio_wf w'"
    using assms by (cases w; cases w'; simp add: lib_wf_def upio_wf_def)+
qed

lemma upio_set_lib [simp]: "lib_wf w \<Longrightarrow> lib_wf (upio_set C E pio a p w)"
  by (rule up_wf [where w = w]) (auto simp: lib_wf_def)

lemma log_wf [simp]: "lib_wf (log e w) = lib_wf w"
  using us_wf [of "log e w" w] us_wf [of w "log e w"] by auto

lemma config_start_cfg:
  assumes "hw_config_start E w = Some w'"
  shows "frame_of w' = frame_of w" and "chip_name w' = chip_name w"
    and "cfg_of w' = HW_CFG_NONE \<or> cfg_of w' = HW_CFG_START" and "fw_fd_of w' = - 1"
proof -
  have "frame_of w' = frame_of w \<and> chip_name w' = chip_name w \<and> fw_fd_of w' = - 1
      \<and> (cfg_of w' = HW_CFG_NONE \<or> cfg_of w' = HW_CFG_START)"
  proof (cases "bt_vendor_cbacks w")
    case True
    then show ?thesis using start_run [OF assms] by (auto simp: view_def)
  next
    case False
    with assms show ?thesis
      by (auto simp: hw_config_start_def alloc_if_def if_cbacks_Some Let_def)
  qed
  then show "frame_of w' = frame_of w" and "chip_name w' = chip_name w"
    and "cfg_of w' = HW_CFG_NONE \<or> cfg_of w' = HW_CFG_START" and "fw_fd_of w' = - 1" by auto
qed

lemma config_cback_frame:
  assumes "hw_config_cback C E e w = Some w'"
  shows "frame_of w' = frame_of w \<and> (chip_ok w \<longrightarrow> chip_ok w')"
proof (cases "bt_vendor_cbacks w")
  case True
  then show ?thesis using cback_refines [OF assms] by blast
next
  case False
  with assms have "w' = set_cfg_state HW_CFG_NONE (close_fw w)"
    by (auto simp: hw_config_cback_def alloc_if_def hw_config_abort_def if_cbacks_Some elim!: bind_SomeE)
  then show ?thesis by (simp add: close_fw_def chip_ok_def)
qed

lemma lpm_enable_state:
  assumes "hw_lpm_enable C E on w = Some (ret, w')"
  shows "vnd_userial w' = vnd_userial w \<and> hw_cfg_cb w' = hw_cfg_cb w
    \<and> bt_vendor_cbacks w' = bt_vendor_cbacks w \<and> (lib_wf w \<longrightarrow> lib_wf w')"
  using assms
  by (auto simp: hw_lpm_enable_def alloc_if_def hc_xmit_Some if_cbacks_Some Let_def
        elim!: bind_SomeE hc_alloc_SomeE split: if_splits option.splits)

text \<open>Init establishes the invariant, and every call keeps it.\<close>

lemma init_wf:
  assumes "vendor_init C p_cb a w = Some (r, w')" and "lib_wf w"
  shows "lib_wf w'"
proof (cases p_cb)
  case True
  let ?v = "upio_init C (userial_vendor_init C w)"
  have u: "lib_wf (userial_vendor_init C w)"
    using assms(2) by (rule us_wf [rotated]) (simp add: userial_vendor_init_def)
  then have "lib_wf ?v"
    by (rule up_wf [rotated 2]) (use u in \<open>simp_all add: upio_init_def upio_wf_def lib_wf_def Let_def\<close>)
  then show ?thesis
    using assms(1) True
    by (auto simp: vendor_init_def lib_wf_def upio_wf_def chip_ok_def sco_ok_def conf_ok_def search_by_name_def elim!: bind_SomeE)
qed (use assms in \<open>simp add: vendor_init_def\<close>)

lemma cleanup_wf: "lib_wf w \<Longrightarrow> lib_wf (vendor_cleanup C w)"
proof -
  assume "lib_wf w"
  then have "lib_wf (upio_cleanup C w)"
    by (rule up_wf [rotated 2]) (use \<open>lib_wf w\<close> in \<open>simp_all add: upio_cleanup_def upio_wf_def lib_wf_def Let_def\<close>)
  then show ?thesis
    by (simp add: vendor_cleanup_def lib_wf_def upio_wf_def chip_ok_def sco_ok_def conf_ok_def search_by_name_def Let_def)
qed

lemma power_request_wf:
  assumes "vendor_op C E (BT_VND_OP_POWER_CTRL state) w = Some (r, out, w')" and "lib_wf w"
  shows "lib_wf w'"
proof -
  have power: "lib_wf v'" if "upio_set_bluetooth_power E on v = Some (q, v')" "lib_wf v"
    for on q and v v' :: "'a hw_world_scheme"
    using power_frame(4) [OF that(1)] power_wf [OF wfD(1) [OF that(2)] that(1)] that(2) by (rule up_wf)
  obtain q v where v: "upio_set_bluetooth_power E UPIO_BT_POWER_OFF w = Some (q, v)"
    and k: "(if state = BT_VND_PWR_ON E
       then do { (_, w) \<leftarrow> upio_set_bluetooth_power E UPIO_BT_POWER_ON v; Some (0, NoOutput, w) }
       else Some (0, NoOutput, hw_lpm_set_wake_state C E FALSE v)) = Some (r, out, w')"
    using assms(1) by (auto simp: vendor_op_def elim!: bind_SomeE split del: if_split)
  have "lib_wf v" using power [OF v assms(2)] .
  with k show ?thesis
    by (auto simp: hw_lpm_set_wake_state_def elim!: bind_SomeE split: if_splits dest: power)
qed

lemma op_wf:
  assumes "vendor_op C E request w = Some (r, out, w')" and "lib_wf w"
  shows "lib_wf w'"
proof (cases request)
  case (BT_VND_OP_POWER_CTRL state)
  with assms show ?thesis by (auto intro: power_request_wf)
next
  case BT_VND_OP_FW_CFG
  with assms(1) have "hw_config_start E w = Some w'" by (auto simp: vendor_op_def elim!: bind_SomeE)
  note start = config_start_cfg(1,2) [OF this]
  have "chip_ok w'" using start(2) wfD(2) [OF assms(2)] by (simp add: chip_ok_def)
  with start(1) show ?thesis using assms(2) by (rule frame_wf)
next
  case BT_VND_OP_SCO_CFG
  with assms show ?thesis
    by (auto simp: vendor_op_def elim!: bind_SomeE dest!: sco_config_base split: if_splits
        intro: base_wf wfD(4))
next
  case BT_VND_OP_USERIAL_OPEN
  obtain fd v where v: "userial_vendor_open C E userial_init_cfg w = (fd, v)" by fastforce
  then have "us_world.more v = us_world.more w" using open_more by blast
  then have "lib_wf v" using assms(2) by (rule us_wf)
  with assms(1) v BT_VND_OP_USERIAL_OPEN show ?thesis by (auto simp: vendor_op_def split: if_splits)
next
  case BT_VND_OP_USERIAL_CLOSE
  with assms show ?thesis by (auto simp: vendor_op_def frame_simps intro: us_wf)
next
  case (BT_VND_OP_LPM_SET_MODE mode)
  with assms show ?thesis by (auto simp: vendor_op_def elim!: bind_SomeE dest!: lpm_enable_state)
next
  case (BT_VND_OP_SET_AUDIO_STATE codec)
  with assms show ?thesis
    by (auto simp: vendor_op_def elim!: bind_SomeE dest!: audio_state_base intro: base_wf wfD(4))
next
  case BT_VND_OP_EPILOG
  have "lib_wf v" if "hw_epilog_process E w = Some v" for v
    using that assms(2)
    by (auto simp: hw_epilog_process_def alloc_if_def hc_xmit_Some if_cbacks_Some elim!: bind_SomeE hc_alloc_SomeE
        split: if_splits)
  with assms BT_VND_OP_EPILOG show ?thesis
    by (auto simp: vendor_op_def if_cbacks_Some elim!: bind_SomeE split: if_splits)
qed (use assms in \<open>auto simp: vendor_op_def hw_lpm_set_wake_state_def Let_def elim!: bind_SomeE
       intro!: upio_set_lib\<close>)

lemma completion_wf:
  assumes "completion C E cb e w = Some w'" and "lib_wf w"
  shows "lib_wf w'"
proof -
  have config: "lib_wf w'" if "hw_config_cback C E e w = Some w'"
    using config_cback_frame [OF that] assms(2) wfD(2) [OF assms(2)] by (auto intro: frame_wf)
  have sco: "lib_wf w'" if "sco_callback C E cb e w = Some w'"
    using sco_callback_base [OF that] assms(2) wfD(4) [OF assms(2)] by (auto intro: base_wf)
  have others: "lib_wf w'" if "hw_lpm_ctrl_cback e w = Some w' \<or> hw_epilog_cback e w = Some w'"
    using that assms(2)
    by (auto simp: hw_lpm_ctrl_cback_def hw_epilog_cback_def elim!: bind_SomeE split: if_splits)
  from assms(1) config sco others show ?thesis by (auto simp: completion_def split: cback.splits)
qed

lemma timer_wf: "lib_wf w \<Longrightarrow> lib_wf (proc_btwrite_timeout C E w)"
proof -
  assume w: "lib_wf w"
  then have "lib_wf (set_active FALSE w)"
    by (rule up_wf [rotated 2]) (use w in \<open>simp_all add: upio_wf_def lib_wf_def\<close>)
  then show ?thesis by (simp add: proc_btwrite_timeout_def Let_def)
qed

lemma step_wf: "lib_step C E c w = Some w' \<Longrightarrow> lib_wf w \<Longrightarrow> lib_wf w'"
  by (auto simp: lib_step_def split: lib_call.splits
      intro: init_wf op_wf completion_wf timer_wf cleanup_wf)

section \<open>Definedness\<close>

text \<open>The search for the radio switch meets a number without a node before its counter
  overflows.\<close>

definition finitely_many_radios :: "env \<Rightarrow> bool" where
  "finitely_many_radios E \<longleftrightarrow> (\<exists>n \<le> 2147483647. \<forall>tr. os_open E tr (rfkill_type_path n) O_RDONLY < 0)"

lemma scan_defined:
  assumes "\<forall>tr. os_open E tr (rfkill_type_path n) O_RDONLY < 0" and "n \<le> 2147483647"
  shows "k \<le> n \<Longrightarrow> rfkill_scan E k w \<noteq> None"
proof (induction "n - k" arbitrary: k w)
  case 0
  with assms show ?case
    by (simp add: rfkill_scan.simps [of E k] rfkill_probe_def sys_open_def Let_def)
next
  case (Suc j)
  then have "k \<le> 2147483647" and "rfkill_scan E (Suc k) v \<noteq> None" for v :: "'a up_world_scheme"
    using assms(2) Suc.hyps(1) [of "Suc k" v] by auto
  then show ?case
    by (subst rfkill_scan.simps) (auto split: prod.splits option.splits simp del: not_None_eq)
qed

lemma power_runs:
  assumes "finitely_many_radios E" and "upio_wf w"
  shows "\<exists>r w'. upio_set_bluetooth_power E on w = Some (r, w') \<and> upio_wf w'"
proof -
  obtain n where "\<forall>tr. os_open E tr (rfkill_type_path n) O_RDONLY < 0" "n \<le> 2147483647"
    using assms(1) by (auto simp: finitely_many_radios_def)
  then have "rfkill_scan E 0 w \<noteq> None" by (rule scan_defined) simp
  then obtain x where "upio_set_bluetooth_power E on w = Some x"
    using power_defined [OF assms(2)] by blast
  with power_wf [OF assms(2)] show ?thesis by (cases x) auto
qed

text \<open>What the library relies on in a call: an address of six bytes, the host stack's callbacks for
  the audio path, and an event that holds the answer which is read.\<close>

definition call_safe :: "buildcfg \<Rightarrow> env \<Rightarrow> 'a hw_world_scheme \<Rightarrow> lib_call \<Rightarrow> bool" where
  "call_safe C E w c \<longleftrightarrow>
     (case c of
        Init p_cb a \<Rightarrow> p_cb \<longrightarrow> 6 \<le> length a
      | Op request \<Rightarrow> request = BT_VND_OP_SCO_CFG \<longrightarrow> bt_vendor_cbacks w \<or> \<not> bus_is_i2s C \<or> \<not> SCO_CFG_INCLUDED C
      | Completion cb e \<Rightarrow> 6 \<le> length (ev_payload e) \<and> (cb = CB_hw_config \<longrightarrow> event_complete C E w e)
          \<and> (cb \<in> {CB_hw_sco_i2spcm_cfg, CB_hw_set_MSBC_codec, CB_hw_set_CVSD_codec} \<longrightarrow> bt_vendor_cbacks w)
      | _ \<Rightarrow> True)"

lemma sco_config_runs:
  assumes "bt_vendor_cbacks w \<or> \<not> bus_is_i2s C" and "sco_ok w"
  shows "\<exists>w'. hw_sco_config C E w = Some w'"
proof (cases "bus_is_i2s C")
  case True
  let ?v = "set_default_wbs_rate C (sync_bus_params C w)"
  have c: "bt_vendor_cbacks w" using True assms(1) by simp
  then obtain w2 where w2: "hw_sco_i2spcm_config C E (SCO_CODEC_CVSD E) ?v = Some w2"
    using i2spcm_config_defined [of ?v C E "SCO_CODEC_CVSD E"] assms(2) by auto
  then show ?thesis
    using True by (simp add: hw_sco_config_def notify_if_cbacks_def notify_def)
next
  case False
  then show ?thesis by (simp add: hw_sco_config_def notify_if_cbacks_def notify_def Let_def)
qed

lemma lpm_enable_runs: "\<exists>r w'. hw_lpm_enable C E mode w = Some (r, w')"
proof (cases "bt_vendor_cbacks w")
  case True
  then show ?thesis by (rule lpm_enable_defined)
qed (simp add: hw_lpm_enable_def alloc_if_def notify_if_cbacks_def)

lemma op_defined:
  assumes "lib_wf w" and "finitely_many_radios E" and "call_safe C E w (Op request)"
  shows "vendor_op C E request w \<noteq> None"
proof (cases request)
  case (BT_VND_OP_POWER_CTRL state)
  obtain r v where v: "upio_set_bluetooth_power E UPIO_BT_POWER_OFF w = Some (r, v)" "upio_wf v"
    using power_runs [OF assms(2) wfD(1) [OF assms(1)]] by blast
  obtain r' v' where "upio_set_bluetooth_power E UPIO_BT_POWER_ON v = Some (r', v')"
    using power_runs [OF assms(2) v(2)] by blast
  with v(1) BT_VND_OP_POWER_CTRL show ?thesis by (simp add: vendor_op_def)
next
  case BT_VND_OP_FW_CFG
  with start_defined [of E w] show ?thesis by (auto simp: vendor_op_def)
next
  case BT_VND_OP_SCO_CFG
  then show ?thesis
    using sco_config_runs [of w C E] wfD(4) [OF assms(1)] assms(3) by (auto simp: vendor_op_def call_safe_def)
next
  case BT_VND_OP_USERIAL_OPEN
  then show ?thesis by (simp add: vendor_op_def split: prod.splits)
next
  case BT_VND_OP_GET_LPM_IDLE_TIMEOUT
  then show ?thesis
    using wfD(2) [OF assms(1)] by (simp add: vendor_op_def hw_lpm_get_idle_timeout_def chip_ok_def)
next
  case (BT_VND_OP_LPM_SET_MODE mode)
  with lpm_enable_runs [of C E mode w] show ?thesis by (auto simp: vendor_op_def)
next
  case (BT_VND_OP_SET_AUDIO_STATE codec)
  then show ?thesis
    using set_SCO_codec_defined [of w E codec] by (auto simp: vendor_op_def hw_set_audio_state_def)
next
  case BT_VND_OP_EPILOG
  with epilog_defined [of E w] show ?thesis
    by (auto simp: vendor_op_def notify_if_cbacks_def notify_def)
qed (simp_all add: vendor_op_def)

lemma completion_defined:
  assumes "lib_wf w" and "sleep_remainder_smaller E" and "call_safe C E w (Completion cb e)"
  shows "completion C E cb e w \<noteq> None"
proof -
  have len: "6 \<le> length (ev_payload e)" using assms(3) by (simp add: call_safe_def)
  note wf = wfD [OF assms(1)]
  show ?thesis
  proof (cases cb)
    case CB_hw_config
    then show ?thesis
      using cback_defined [OF wf(2) assms(2) wf(3)] wf(6) assms(3) by (simp add: completion_def call_safe_def)
  next
    case CB_hw_lpm_ctrl
    then show ?thesis
      using evt_status_defined [OF len]
      by (simp add: completion_def hw_lpm_ctrl_cback_def notify_def hc_dealloc_def)
  next
    case CB_hw_epilog
    then show ?thesis
      using epilog_cback_defined [OF len] by (auto simp: completion_def)
  qed (use sco_callback_defined [OF _ wf(4) len, of cb C E] assms(3) in \<open>auto simp: completion_def call_safe_def\<close>)
qed

section \<open>Properties\<close>

text \<open>The states the library can be in: it has been loaded, and any calls were made.\<close>

inductive reachable :: "buildcfg \<Rightarrow> env \<Rightarrow> hw_world \<Rightarrow> bool"
  for C :: buildcfg and E :: env
where
  loaded: "reachable C E (static_state C)"
| called: "reachable C E w \<Longrightarrow> lib_step C E c w = Some w' \<Longrightarrow> reachable C E w'"

lemma reachable_wf: "reachable C E w \<Longrightarrow> cfg_wf C \<Longrightarrow> lib_wf w"
  by (induction rule: reachable.induct) (auto intro: static_wf step_wf)

text \<open>
  C22. In every state the library can reach, by any calls in any order in any environment, the
  three pins are there, the timer flag is a truth value, the radio switch has a path exactly when
  it has a number, the chip name is a terminated string of 32 bytes, the address has six bytes,
  the audio parameter arrays have their sizes, and the patch file path and name are terminated
  strings in their arrays.
\<close>

theorem library_invariant:
  assumes "reachable C E w" and "cfg_wf C"
  shows "lib_wf w"
  using assms by (rule reachable_wf)

lemma nordic_cfg_wf: "cfg_wf default_cfg" "cfg_wf nordic_cfg"
  by (simp_all add: cfg_wf_def default_cfg_def nordic_cfg_def)

definition started :: "buildcfg \<Rightarrow> hw_world" where
  "started C = (upio_init C (userial_vendor_init C (static_state C)))
     \<lparr>bt_vendor_cbacks := True, vnd_local_bd_addr := [1, 2, 3, 4, 5, 6]\<rparr>"

lemma started_init: "lib_step C E (Init True [1, 2, 3, 4, 5, 6]) (static_state C) = Some (started C)"
  by (simp add: lib_step_def vendor_init_def started_def Let_def)

lemma started_reachable: "reachable C E (started C)"
  using reachable.loaded started_init by (rule reachable.called)

lemma started_fields: "fd_of (started C) = - 1" "bt_vendor_cbacks (started C)"
  "cfg_of (started C) = HW_CFG_NONE" "rfkill_id (started C) = - 1"
  by (simp_all add: started_def upio_init_def userial_vendor_init_def static_state_def Let_def)

theorem library_invariant_witness:
  "\<exists>w. lib_step nordic_cfg sample_env (Op (BT_VND_OP_LPM_SET_MODE 1)) (started nordic_cfg) = Some w \<and> lib_wf w"
proof -
  obtain r w where "hw_lpm_enable nordic_cfg sample_env 1 (started nordic_cfg) = Some (r, w)"
    using lpm_enable_runs by blast
  then have w: "lib_step nordic_cfg sample_env (Op (BT_VND_OP_LPM_SET_MODE 1)) (started nordic_cfg) = Some w"
    by (simp add: lib_step_def vendor_op_def)
  with started_reachable have "reachable nordic_cfg sample_env w" by (rule reachable.called)
  from library_invariant [OF this nordic_cfg_wf(2)] w show ?thesis by blast
qed

text \<open>
  C9. In every reachable state a safe call has a defined result, which satisfies the invariant
  again: no access outside an object, no NULL pointer, no endless sleep, no counter overflow. A
  call is safe when the address has six bytes, the audio path has the host stack's callbacks,
  and an event holds the answer the current state reads.
\<close>

theorem safe_calls_defined:
  assumes "reachable C E w" and "cfg_wf C" and "call_safe C E w c"
    and "sleep_remainder_smaller E" and "finitely_many_radios E"
  shows "\<exists>w'. lib_step C E c w = Some w' \<and> lib_wf w'"
proof -
  have w: "lib_wf w" using assms(1,2) by (rule reachable_wf)
  have "lib_step C E c w \<noteq> None"
  proof (cases c)
    case (Init p_cb a)
    with assms(3) show ?thesis by (simp add: lib_step_def vendor_init_def call_safe_def)
  next
    case (Op request)
    with op_defined [OF w assms(5)] assms(3) show ?thesis by (simp add: lib_step_def)
  next
    case (Completion cb e)
    with completion_defined [OF w assms(4)] assms(3) show ?thesis by (simp add: lib_step_def)
  qed (simp_all add: lib_step_def)
  with step_wf [OF _ w] show ?thesis by blast
qed

definition no_radio_env :: env where
  "no_radio_env = sample_env\<lparr>os_open := \<lambda>tr p fl. if fl = O_RDONLY then - 1 else 7\<rparr>"

lemma no_radio_env_sane: "sleep_remainder_smaller no_radio_env" "finitely_many_radios no_radio_env"
  by (auto simp: no_radio_env_def finitely_many_radios_def sample_env_def sleep_remainder_smaller_def
      intro: exI [of _ 0])

theorem safe_calls_defined_witness:
  "\<exists>w'. lib_step default_cfg no_radio_env (Op (BT_VND_OP_POWER_CTRL 1)) (started default_cfg) = Some w' \<and> lib_wf w'"
  by (rule safe_calls_defined [OF started_reachable nordic_cfg_wf(1) _ no_radio_env_sane])
    (simp add: call_safe_def)

text \<open>
  Opening the port hands out its descriptor: on success the result is 1 and every one of the
  CH_MAX channels gets the descriptor the library records, set to 115200 both ways; otherwise the
  result is 0, nothing is stored and the port is recorded as closed.
\<close>

theorem open_fills_channels:
  assumes "vendor_op C E BT_VND_OP_USERIAL_OPEN w = Some (r, out, w')"
  shows "if fd_of w' = - 1 then r = 0 \<and> out = NoOutput
    else r = 1 \<and> out = FdArray (replicate (CH_MAX E) (fd_of w'))
      \<and> c_ispeed (termios_of w') = B115200 \<and> c_ospeed (termios_of w') = B115200"
proof -
  obtain fd v where v: "userial_vendor_open C E userial_init_cfg w = (fd, v)" by fastforce
  note fd = open_fd [OF v]
  have w': "w' = v" "r = (if fd = - 1 then 0 else 1)"
    "out = (if fd = - 1 then NoOutput else FdArray (replicate (CH_MAX E) fd))"
    using assms v by (auto simp: vendor_op_def split: if_splits)
  have "c_ispeed (termios_of v) = B115200 \<and> c_ospeed (termios_of v) = B115200" if "fd \<noteq> - 1"
  proof (cases rule: open_cases [of C E userial_init_cfg w])
    case refused
    with v that show ?thesis by simp
  next
    case no_device
    from open_no_device [OF no_device, of C userial_init_cfg] v that show ?thesis by simp
  next
    case (opened d q sb b fd')
    have "b = B115200" using opened(4) by (simp add: userial_init_cfg_def userial_to_tcio_baud_def)
    moreover obtain t where "termios_of (userial_setup_port E sb b
          (set_us_fd fd' (log (OpenEv (us_port_name (vnd_userial w)) O_RDWR fd') w)))
        = (cfmakeraw t)\<lparr>c_cflag := c_cflag (cfmakeraw t) OR (CRTSCTS OR ucast sb), c_ospeed := b, c_ispeed := b\<rparr>"
      using setup_port_termios by blast
    ultimately show ?thesis
      using open_success [OF opened, of C] v by (auto simp: Let_def frame_simps split: if_splits)
  qed
  with w' fd show ?thesis by simp
qed

theorem open_fills_channels_witness:
  "\<exists>w' fd. vendor_op default_cfg sample_env BT_VND_OP_USERIAL_OPEN (started default_cfg)
      = Some (1, FdArray [fd, fd, fd, fd], w') \<and> fd_of w' = fd \<and> fd \<noteq> - 1"
proof -
  let ?f = "uc_fmt userial_init_cfg"
  have f: "?f = 0x209" by (simp add: userial_init_cfg_def)
  have "fmt_data_bits ?f = Some CS8" "fmt_parity ?f = Some 0" "fmt_stop_bits ?f = Some 0"
    by (simp_all add: f fmt_data_bits_def fmt_parity_def fmt_stop_bits_def)
  moreover have "userial_to_tcio_baud (uc_baud userial_init_cfg) = (TRUE, B115200)"
    by (simp add: userial_init_cfg_def userial_to_tcio_baud_def)
  moreover have "os_open sample_env (trace (started default_cfg))
      (us_port_name (vnd_userial (started default_cfg))) O_RDWR = 7" by (simp add: sample_env_def)
  ultimately obtain w' where w': "userial_vendor_open default_cfg sample_env userial_init_cfg (started default_cfg) = (7, w')"
    by (auto simp: open_success Let_def)
  then have o: "vendor_op default_cfg sample_env BT_VND_OP_USERIAL_OPEN (started default_cfg)
      = Some (1, FdArray (replicate 4 7), w')" by (simp add: vendor_op_def sample_env_def)
  have "CH_MAX sample_env = 4" by (simp add: sample_env_def)
  with open_fills_channels [OF o] o open_fd [OF w'] show ?thesis by (auto simp: numeral_eq_Suc)
qed






end
