(* ===== verification/Session.thy ===== *)
theory Session
  imports Vendor
begin

text \<open>
  What the library holds while it is in use, over any interleaving of operations, completion
  callbacks and timer expiries between \<^verbatim>\<open>init\<close> and \<^verbatim>\<open>cleanup\<close>: command and event buffers, file
  descriptors and the idle timer.
\<close>

section \<open>Sessions\<close>

text \<open>The descriptors the library's state accounts for: the port, and the patch file while a
  configuration is under way.\<close>

definition held :: "'a hw_world_scheme \<Rightarrow> int multiset" where
  "held w = fds (fd_of w) + (if cfg_of w = HW_CFG_NONE then {#} else fds (fw_fd_of w))"

definition lib_ready :: "'a hw_world_scheme \<Rightarrow> bool" where
  "lib_ready w \<longleftrightarrow> lib_wf w \<and> bt_vendor_cbacks w \<and> (cfg_of w = HW_CFG_NONE \<or> fd_inv (view w))"

text \<open>A host stack as the library expects it: \<^verbatim>\<open>xmit_cb\<close> returns TRUE or FALSE, \<^verbatim>\<open>open\<close> returns -1 or
  a descriptor.\<close>

definition sane_host :: "env \<Rightarrow> bool" where
  "sane_host E \<longleftrightarrow> xmit_returns_bool E \<and> open_returns_fd E"

text \<open>The buffers of refused resets in a piece of the log. The start of a configuration and the
  epilog do not look at the answer to their reset, so that the buffer of a refused one is lost.\<close>

fun refused_resets :: "event list \<Rightarrow> nat multiset" where
  "refused_resets [] = {#}"
| "refused_resets (XmitEv opc b cb r # es) =
     (if opc = HCI_RESET \<and> r = FALSE then add_mset (hb_id b) (refused_resets es) else refused_resets es)"
| "refused_resets (e # es) = refused_resets es"

definition lost :: "lib_call \<Rightarrow> 'a os_scheme \<Rightarrow> 'a os_scheme \<Rightarrow> nat multiset" where
  "lost c w w' = (if c = Op BT_VND_OP_FW_CFG \<or> c = Op BT_VND_OP_EPILOG
     then refused_resets (drop (length (trace w)) (trace w')) else {#})"

lemma refused_resets_calm: "refused_resets (filter (\<lambda>e. \<not> calm e) s) = refused_resets s"
  by (induction s rule: refused_resets.induct) simp_all

lemma lost_effects:
  "effects w w' es \<Longrightarrow> c = Op BT_VND_OP_FW_CFG \<or> c = Op BT_VND_OP_EPILOG \<Longrightarrow> lost c w w' = refused_resets es"
  using refused_resets_calm by (auto simp: lost_def effects_def)

text \<open>The order of calls it keeps between \<^verbatim>\<open>init\<close> and \<^verbatim>\<open>cleanup\<close>: the port is not opened twice, a
  configuration is not started while one is under way, and a configuration callback answers a
  configuration command.\<close>

definition orderly :: "'a hw_world_scheme \<Rightarrow> lib_call \<Rightarrow> bool" where
  "orderly w c \<longleftrightarrow>
     (case c of
        Init _ _ \<Rightarrow> False
      | Cleanup \<Rightarrow> False
      | Op request \<Rightarrow> (request = BT_VND_OP_USERIAL_OPEN \<longrightarrow> fd_of w = - 1)
          \<and> (request = BT_VND_OP_FW_CFG \<longrightarrow> cfg_of w = HW_CFG_NONE)
      | Completion cb e \<Rightarrow> cb = CB_hw_config \<longrightarrow> cfg_of w \<noteq> HW_CFG_NONE
      | TimerExpires \<Rightarrow> True)"

text \<open>A sequence of such calls, with the buffers lost on the way.\<close>

inductive session ::
  "buildcfg \<Rightarrow> env \<Rightarrow> 'a hw_world_scheme \<Rightarrow> lib_call list \<Rightarrow> nat multiset \<Rightarrow> 'a hw_world_scheme \<Rightarrow> bool"
  for C :: buildcfg and E :: env and w :: "'a hw_world_scheme"
where
  idle: "session C E w [] {#} w"
| call: "session C E w cs L w1 \<Longrightarrow> orderly w1 c \<Longrightarrow> lib_step C E c w1 = Some w2 \<Longrightarrow>
    session C E w (cs @ [c]) (lost c w1 w2 + L) w2"

text \<open>The event buffers handed to the library.\<close>

fun delivered :: "lib_call list \<Rightarrow> nat multiset" where
  "delivered [] = {#}"
| "delivered (Completion cb e # cs) = add_mset (ev_id e) (delivered cs)"
| "delivered (c # cs) = delivered cs"

lemma delivered_append [simp]: "delivered (cs @ ds) = delivered cs + delivered ds"
  by (induction cs rule: delivered.induct) simp_all

section \<open>What a step accounts for\<close>

text \<open>Consuming the buffers B and losing the buffers L, with descriptors and timers as the state says
  before and after.\<close>

definition settles :: "nat multiset \<Rightarrow> nat multiset \<Rightarrow> 'a hw_world_scheme \<Rightarrow> 'a hw_world_scheme \<Rightarrow> bool" where
  "settles B L w w' \<longleftrightarrow> (\<forall>M N K. owns (B + M) w (L + M) w' \<and> holds_fds (held w + N) w (held w' + N) w'
     \<and> holds_timers (timers w + K) w (timers w' + K) w')"

abbreviation accounts :: "nat multiset \<Rightarrow> 'a hw_world_scheme \<Rightarrow> 'a hw_world_scheme \<Rightarrow> bool" where
  "accounts B \<equiv> settles B {#}"

lemma accounts_refl: "accounts {#} w w"
  by (simp add: settles_def owns_refl holds_fds_refl holds_timers_refl)

lemma settles_trans:
  assumes "settles A L w w1" and "settles B L' w1 w2"
  shows "settles (A + B) (L' + L) w w2"
  unfolding settles_def
proof (intro allI conjI)
  fix M N K
  have "owns (A + (B + M)) w (L + (B + M)) w1" "owns (B + (L + M)) w1 (L' + (L + M)) w2"
    using assms by (auto simp: settles_def)
  then have "owns (A + (B + M)) w (L' + (L + M)) w2" by (simp add: owns_trans add.left_commute)
  then show "owns (A + B + M) w (L' + L + M) w2" by (simp add: add.assoc)
  show "holds_fds (held w + N) w (held w2 + N) w2"
    using assms by (auto simp: settles_def intro: holds_fds_trans)
  show "holds_timers (timers w + K) w (timers w2 + K) w2"
    using assms by (auto simp: settles_def intro: holds_timers_trans)
qed

lemmas accounts_trans = settles_trans [where L = "{#}" and L' = "{#}", simplified]

text \<open>Steps that leave the descriptors and the timer recorded in the state alone.\<close>

lemma held_cong: "vnd_userial w' = vnd_userial w \<Longrightarrow> hw_cfg_cb w' = hw_cfg_cb w \<Longrightarrow> held w' = held w"
  by (simp add: held_def)

lemma settles_effects:
  assumes "effects w w' es" and "\<And>M. account own_step (B + M) es = Some (L + M)"
    and "\<And>N. account fd_step N es = Some N" and "held w' = held w"
    and "\<And>K. account timer_step K es = Some K" and "timers w' = timers w"
  shows "settles B L w w'"
  using assms by (auto simp: settles_def intro: effects_owns effects_fds effects_timers)

lemmas accounts_effects = settles_effects [where L = "{#}", simplified]

lemma accounts_neutral:
  assumes "effects w w' es" and "neutral es" and "held w' = held w" and "timers w' = timers w"
  shows "accounts {#} w w'"
  using assms by (intro accounts_effects [OF assms(1)]) (simp_all add: neutral_def)

text \<open>A pin request makes and deletes the timer as its new state says.\<close>

lemma accounts_tidy: "tidy w w' \<Longrightarrow> held w' = held w \<Longrightarrow> accounts {#} w w'"
  by (auto simp: settles_def tidy_def bracketed_accounts intro: effects_owns effects_fds effects_timers)

lemma start_accounts:
  assumes "hw_config_start E w = Some w'" and "bt_vendor_cbacks w" and "cfg_of w = HW_CFG_NONE"
  shows "settles {#} (lost (Op BT_VND_OP_FW_CFG) w w') w w'"
proof -
  note s = start_run [OF assms(1,2)]
  have held: "held w' = held w" and timers: "timers w' = timers w"
    using s assms(3) by (auto simp: held_def frame_of_def fds_def view_def timers_def)
  from s obtain es where es: "effects w w' es"
    and "(\<exists>z. es = [AllocEv z None, FwcfgCbEv BT_VND_OP_RESULT_FAIL])
      \<or> (\<exists>z b r. es = [AllocEv z (Some (hb_id b)), sent HCI_RESET b r])" by blast
  then show ?thesis
    unfolding lost_effects [OF es disjI1 [OF refl]]
    by (intro settles_effects [OF es]) (auto simp: held timers)
qed

lemma lpm_enable_accounts:
  assumes "hw_lpm_enable C E on w = Some (r, w')" and "bt_vendor_cbacks w" and "xmit_returns_bool E"
  shows "accounts {#} w w'"
proof -
  have held: "held w' = held w" using lpm_enable_state [OF assms(1)] by (auto intro: held_cong)
  from assms(1,2) show ?thesis
  proof (cases rule: lpm_enable_run)
    case (no_buffer z)
    show ?thesis by (rule accounts_effects [OF no_buffer(3)]) (simp_all add: held no_buffer(7))
  next
    case (command z b ps)
    let ?es = "[AllocEv z (Some (hb_id b))] @ ps @ [XmitEv HCI_VSC_WRITE_SLEEP_MODE b CB_hw_lpm_ctrl r]
      @ (if r = FALSE then [DeallocEv (hb_id b), LpmCbEv BT_VND_OP_RESULT_FAIL] else [])"
    have "account own_step M ?es = Some M" "account fd_step N ?es = Some N"
      "account timer_step (timers w + K) ?es = Some (timers w' + K)" for M N K
      using command(8) by (auto simp: account_append bracketed_accounts command(3))
    then show ?thesis
      using command(4) by (auto simp: settles_def held intro: effects_owns effects_fds effects_timers)
  qed
qed

lemma base_held:
  "base_of w' = base_of w \<Longrightarrow> held w' = held w \<and> timers w' = timers w \<and> bt_vendor_cbacks w' = bt_vendor_cbacks w"
  by (simp add: base_of_def held_def timers_def)

lemma sco_config_accounts:
  assumes "hw_sco_config C E w = Some w'" and "bt_vendor_cbacks w" and "sco_ok w"
  shows "accounts {#} w w'"
  using assms
proof (cases rule: sco_config_run)
  case (1 es)
  then have "neutral (es @ [ScocfgCbEv BT_VND_OP_RESULT_SUCCESS])" by (simp add: neutral_def account_append)
  with 1(1) show ?thesis
    by (rule accounts_neutral) (simp_all add: base_held [OF conjunct1 [OF sco_config_base [OF assms(1)]]])
qed

lemma audio_state_accounts:
  assumes "hw_set_audio_state C E codec w = Some (r, w')" and "bt_vendor_cbacks w"
  shows "accounts {#} w w'"
proof (cases "SCO_CFG_INCLUDED C")
  case True
  with assms have "hw_set_SCO_codec E codec w = Some (r, w')" by (simp add: hw_set_audio_state_def)
  then obtain ok es opc ps cb where es: "effects w w' es" and at: "attempt E opc ps cb ok es"
    using assms(2) by (rule set_SCO_codec_run)
  show ?thesis
    using es attempt_neutral [OF at]
    by (rule accounts_neutral) (simp_all add: base_held [OF conjunct1 [OF audio_state_base [OF assms(1)]]])
qed (use assms in \<open>auto simp: hw_set_audio_state_def intro: accounts_refl\<close>)

lemma epilog_accounts:
  assumes "hw_epilog_process E w = Some w'" and "bt_vendor_cbacks w"
  shows "settles {#} (lost (Op BT_VND_OP_EPILOG) w w') w w'"
  using assms
proof (cases rule: epilog_run)
  case (no_buffer z)
  show ?thesis
    unfolding lost_effects [OF no_buffer(2) disjI2 [OF refl]]
    by (intro settles_effects [OF no_buffer(2)]) (use no_buffer(3) in \<open>auto simp: held_def\<close>)
next
  case (command z b r tr)
  show ?thesis
    unfolding lost_effects [OF command(4) disjI2 [OF refl]]
    by (intro settles_effects [OF command(4)]) (use command(5) in \<open>auto simp: held_def\<close>)
qed

lemma power_accounts:
  assumes "upio_set_bluetooth_power E on w = Some (r, w')"
  shows "accounts {#} w w'" and "bt_vendor_cbacks w' = bt_vendor_cbacks w" and "hw_cfg_cb w' = hw_cfg_cb w"
proof -
  have more: "vnd_userial w' = vnd_userial w" "up_world.more w' = up_world.more w"
    using power_frame [OF assms] by auto
  then show c: "bt_vendor_cbacks w' = bt_vendor_cbacks w" and h: "hw_cfg_cb w' = hw_cfg_cb w"
    by (cases w; cases w'; simp)+
  obtain es where "effects w w' es" "neutral es" using power_balanced [OF assms] by (auto simp: balanced_def)
  moreover have "timers w' = timers w" using power_frame(2) [OF assms] by (simp add: timers_def)
  ultimately show "accounts {#} w w'" using held_cong [OF more(1) h] by (intro accounts_neutral)
qed

lemma wake_accounts: "accounts {#} w (hw_lpm_set_wake_state C E a w)"
  by (rule accounts_tidy) (auto simp: hw_lpm_set_wake_state_def upio_set_tidy intro: held_cong)

lemma timer_accounts: "accounts {#} w (proc_btwrite_timeout C E w)"
proof -
  have "accounts {#} w (set_active FALSE w)"
    by (rule accounts_neutral [of _ _ "[]"]) (simp_all add: effects_def neutral_def held_def timers_def)
  moreover have "accounts {#} (set_active FALSE w) (proc_btwrite_timeout C E w)"
    by (rule accounts_tidy) (simp_all add: proc_btwrite_timeout_def upio_set_tidy held_def)
  ultimately show ?thesis using accounts_trans by fastforce
qed

text \<open>The port is driven with calls that involve neither buffers nor timers.\<close>

fun is_port_call :: "event \<Rightarrow> bool" where
  "is_port_call (OpenEv _ _ _) = True"
| "is_port_call (CloseEv _) = True"
| "is_port_call (TcflushEv _) = True"
| "is_port_call (TcgetattrEv _) = True"
| "is_port_call (TcsetattrEv _ _) = True"
| "is_port_call (IoctlEv _ _ _) = True"
| "is_port_call _ = False"

definition port_calls :: "'a os_scheme \<Rightarrow> 'a os_scheme \<Rightarrow> bool" where
  "port_calls w w' \<longleftrightarrow> (\<exists>s. trace w' = trace w @ s \<and> list_all is_port_call s)"

lemma port_calls_log: "is_port_call e \<Longrightarrow> port_calls w v \<Longrightarrow> port_calls w (log e v)"
  by (auto simp: port_calls_def)

lemma port_calls_accounts:
  assumes "port_calls w w'"
  shows "owns M w M w'" and "holds_timers K w K w'"
proof -
  obtain s where s: "trace w' = trace w @ s" "\<forall>e\<in>set s. is_port_call e" using assms by (auto simp: port_calls_def list_all_iff)
  have n: "is_port_call e \<Longrightarrow> own_step M e = Some M \<and> timer_step K e = Some K" for e by (cases e) simp_all
  show "owns M w M w'" using s n by (intro owns_by_trace [OF s(1)] account_neutral) blast
  show "holds_timers K w K w'" using s n by (intro holds_timers_by_trace [OF s(1)] account_neutral) blast
qed

lemma open_calls: "userial_vendor_open C E p w = (r, w') \<Longrightarrow> port_calls w w'"
proof (cases rule: open_cases [of C E p w])
  case no_device
  then show "userial_vendor_open C E p w = (r, w') \<Longrightarrow> port_calls w w'"
    by (auto simp: userial_vendor_open_def sys_open_def Let_def port_calls_def
          split: option.splits prod.splits if_splits)
next
  case (opened d q sb b fd)
  let ?v = "set_us_fd fd (log (OpenEv (us_port_name (vnd_userial w)) O_RDWR fd) w)"
  have v: "port_calls w (userial_setup_port E sb b ?v)"
    using setup_port_trace [of E sb b ?v] by (auto simp: port_calls_def)
  moreover have "port_calls w (userial_ioctl_init_bt_wake C fd (userial_setup_port E sb b ?v))"
    using v by (auto simp: userial_ioctl_init_bt_wake_def Let_def intro!: port_calls_log)
  ultimately show "userial_vendor_open C E p w = (r, w') \<Longrightarrow> port_calls w w'"
    using open_success [OF opened, of C] by (auto simp: Let_def split: if_splits)
qed (auto simp: port_calls_def)

lemma close_calls: "port_calls w (userial_vendor_close C w)"
  by (auto simp: userial_vendor_close_def Let_def port_calls_def)

lemma us_held:
  assumes "us_world.more w' = us_world.more w"
  shows "held w' + fds (fd_of w) = held w + fds (fd_of w')" and "bt_vendor_cbacks w' = bt_vendor_cbacks w"
    and "hw_cfg_cb w' = hw_cfg_cb w" and "timers w' = timers w"
  using assms by (cases w; cases w'; simp add: held_def timers_def)+

lemma open_accounts:
  assumes "userial_vendor_open C E p w = (r, w')" and "open_returns_fd E" and "fd_of w = - 1"
  shows "accounts {#} w w'"
  unfolding settles_def
proof (intro allI conjI)
  fix M N K
  note calls = port_calls_accounts [OF open_calls [OF assms(1)]]
  show "owns ({#} + M) w ({#} + M) w'" using calls(1) by simp
  show "holds_timers (timers w + K) w (timers w' + K) w'"
    using calls(2) us_held(4) [OF open_more [OF assms(1)]] by simp
  have "held w' = held w + fds r"
    using us_held(1) [OF open_more [OF assms(1)]] open_fd [OF assms(1)] assms(3) by (simp add: fds_def)
  moreover have "holds_fds (held w + N) w (fds r + (held w + N)) w'"
    using open_holds_fds [OF assms(2,1), of "held w + N"] by (auto simp: fds_def split: if_splits)
  ultimately show "holds_fds (held w + N) w (held w' + N) w'" by (simp add: ac_simps)
qed

lemma close_accounts: "accounts {#} w (userial_vendor_close C w)"
proof (cases "fd_of w = - 1")
  case True
  then show ?thesis by (simp add: close_idle accounts_refl)
next
  case False
  let ?v = "userial_vendor_close C w"
  have "held ?v + fds (fd_of w) = held w"
    using us_held(1) [of ?v w] close_fd [of C w] by (simp add: frame_simps fds_def)
  then have h: "held w + N = add_mset (fd_of w) (held ?v + N)" for N
    using False by (auto simp: fds_def)
  show ?thesis
    unfolding settles_def
  proof (intro allI conjI)
    fix M N K
    note calls = port_calls_accounts [OF close_calls [of w C]]
    show "owns ({#} + M) w ({#} + M) ?v" using calls(1) by simp
    show "holds_timers (timers w + K) w (timers ?v + K) ?v"
      using calls(2) us_held(4) [of ?v w] by (simp add: frame_simps)
    show "holds_fds (held w + N) w (held ?v + N) ?v" unfolding h by (rule close_holds_fds [OF False])
  qed
qed

lemma config_accounts:
  assumes "hw_config_cback C E e w = Some w'" and "lib_ready w" and "sane_host E"
    and "cfg_of w \<noteq> HW_CFG_NONE"
  shows "accounts {#ev_id e#} w w'" and "fd_inv (view w')"
proof -
  have c: "bt_vendor_cbacks w" and i: "fd_inv (view w)" using assms(2,4) by (simp_all add: lib_ready_def)
  have E: "xmit_returns_bool E" "open_returns_fd E" using assms(3) by (simp_all add: sane_host_def)
  obtain es q where es: "effects w w' es" "fw_step C E (context_of w) e q (view w) es (view w')"
    using cback_refines(1) [OF assms(1) c] by blast
  have fd: "fd_of w' = fd_of w" and ti: "timers w' = timers w"
    using cback_refines(2) [OF assms(1) c] by (simp_all add: frame_of_def timers_def)
  note s = step_fds [OF es(2) E(2) i]
  then show i': "fd_inv (view w')" by blast
  have "held w = fds (fw_fd_of w) + fds (fd_of w)" "held w' = fds (fw_fd_of w') + fds (fd_of w)"
    using assms(4) i' by (auto simp: held_def fd fd_inv_def view_def fds_def)
  then have "account fd_step (held w + N) es = Some (held w' + N)" for N
    using s [of "fds (fd_of w) + N"] by (simp add: view_def add.assoc)
  then show "accounts {#ev_id e#} w w'"
    using effects_owns [OF es(1) step_owned [OF es(2) E(1)]] effects_fds [OF es(1)]
      effects_timers [OF es(1) step_timers [OF es(2)]] by (auto simp: settles_def ti)
qed

lemma reply_accounts:
  assumes "w' = log (DeallocEv (ev_id e)) (log q w) \<or> w' = log q (log (DeallocEv (ev_id e)) w)"
    and "is_notification q"
  shows "accounts {#ev_id e#} w w'"
proof -
  have es: "effects w w' [DeallocEv (ev_id e), q] \<or> effects w w' [q, DeallocEv (ev_id e)]"
    and fr: "held w' = held w" "timers w' = timers w"
    using assms by (cases q; auto simp: effects_def is_notification_def held_def)+
  have st: "own_step M q = Some M \<and> fd_step N q = Some N \<and> timer_step K q = Some K" for M N K
    using assms(2) by (cases q) (simp_all add: is_notification_def)
  from es show ?thesis by (elim disjE) (erule accounts_effects; simp add: st fr)+
qed

lemma sco_accounts:
  assumes "sco_callback C E cb e w = Some w'" and "bt_vendor_cbacks w" and "sco_ok w"
  shows "accounts {#ev_id e#} w w'"
  using assms
proof (cases rule: sco_callback_run)
  case (1 opc st es)
  show ?thesis
    by (rule accounts_effects [OF 1(3)])
      (simp_all add: carries_out_owns [OF 1(4)] carries_out_fds [OF 1(4)] carries_out_timers [OF 1(4)]
        base_held [OF conjunct1 [OF sco_callback_base [OF assms(1)]]])
qed

text \<open>What every operation but the start of a configuration and the epilog leaves.\<close>

definition keeps_accounts :: "'a hw_world_scheme \<Rightarrow> 'a hw_world_scheme \<Rightarrow> bool" where
  "keeps_accounts w w' \<longleftrightarrow>
     accounts {#} w w' \<and> bt_vendor_cbacks w' = bt_vendor_cbacks w \<and> hw_cfg_cb w' = hw_cfg_cb w"

lemma power_request_accounts:
  assumes "vendor_op C E (BT_VND_OP_POWER_CTRL state) w = Some (r, out, w')"
  shows "keeps_accounts w w'"
proof -
  obtain q v where v: "upio_set_bluetooth_power E UPIO_BT_POWER_OFF w = Some (q, v)"
    and l: "(if state = BT_VND_PWR_ON E
       then do { (_, w) \<leftarrow> upio_set_bluetooth_power E UPIO_BT_POWER_ON v; Some (0, NoOutput, w) }
       else Some (0, NoOutput, hw_lpm_set_wake_state C E FALSE v)) = Some (r, out, w')"
    using assms by (auto simp: vendor_op_def elim!: bind_SomeE split del: if_split)
  from l have "accounts {#} v w' \<and> bt_vendor_cbacks w' = bt_vendor_cbacks v \<and> hw_cfg_cb w' = hw_cfg_cb v"
    using wake_accounts [of v C E FALSE]
    by (auto dest: power_accounts simp: hw_lpm_set_wake_state_def elim!: bind_SomeE split: if_splits)
  with power_accounts [OF v] accounts_trans [of "{#}" w v "{#}" w'] show ?thesis by (auto simp: keeps_accounts_def)
qed

lemma epilog_request_accounts:
  assumes "vendor_op C E BT_VND_OP_EPILOG w = Some (r, out, w')" and "bt_vendor_cbacks w"
  shows "settles {#} (lost (Op BT_VND_OP_EPILOG) w w') w w' \<and> bt_vendor_cbacks w' \<and> hw_cfg_cb w' = hw_cfg_cb w"
proof -
  consider (reset) "hw_epilog_process E w = Some w'"
    | (report) "w' = log (EpilogCbEv BT_VND_OP_RESULT_SUCCESS) w"
    using assms by (auto simp: vendor_op_def if_cbacks_Some elim!: bind_SomeE split: if_splits)
  then show ?thesis
  proof cases
    case reset
    then have "\<exists>t. w' = w\<lparr>trace := t\<rparr>" using assms(2) by (auto elim: epilog_run)
    then show ?thesis using epilog_accounts [OF reset assms(2)] assms(2) by auto
  next
    case report
    then have e: "effects w w' [EpilogCbEv BT_VND_OP_RESULT_SUCCESS]"
      using effects_one [of "EpilogCbEv BT_VND_OP_RESULT_SUCCESS" w] by simp
    have "settles {#} (lost (Op BT_VND_OP_EPILOG) w w') w w'"
      unfolding lost_effects [OF e disjI2 [OF refl]]
      by (intro settles_effects [OF e]) (simp_all add: report held_def)
    then show ?thesis using assms(2) by (simp add: report)
  qed
qed

lemma op_keeps_accounts:
  assumes "vendor_op C E request w = Some (r, out, w')" and "bt_vendor_cbacks w" and "sco_ok w" and "sane_host E"
    and "request = BT_VND_OP_USERIAL_OPEN \<longrightarrow> fd_of w = - 1" and "request \<noteq> BT_VND_OP_FW_CFG"
    and "request \<noteq> BT_VND_OP_EPILOG"
  shows "keeps_accounts w w'"
proof -
  note E = assms(4) [unfolded sane_host_def] and keep = keeps_accounts_def
  show ?thesis
  proof (cases request)
    case (BT_VND_OP_POWER_CTRL state)
    with assms(1) show ?thesis by (simp add: power_request_accounts)
  next
    case BT_VND_OP_SCO_CFG
    with assms(1-3) show ?thesis
      by (auto simp: keep vendor_op_def base_of_def accounts_refl intro: sco_config_accounts
            elim!: bind_SomeE dest: sco_config_base split: if_splits)
  next
    case BT_VND_OP_USERIAL_OPEN
    then obtain fd where o: "userial_vendor_open C E userial_init_cfg w = (fd, w')"
      using assms(1) by (auto simp: vendor_op_def split: prod.splits if_splits)
    then show ?thesis
      using open_accounts [OF o] us_held(2,3) [OF open_more [OF o]] E assms(5) BT_VND_OP_USERIAL_OPEN
      by (auto simp: keep)
  next
    case BT_VND_OP_USERIAL_CLOSE
    then have "w' = userial_vendor_close C w" using assms(1) by (simp add: vendor_op_def)
    then show ?thesis
      using close_accounts [of w C] us_held(2,3) [of w' w] by (auto simp: keep frame_simps)
  next
    case (BT_VND_OP_LPM_SET_MODE mode)
    then obtain q where "hw_lpm_enable C E mode w = Some (q, w')"
      using assms(1) by (auto simp: vendor_op_def elim!: bind_SomeE)
    then show ?thesis
      using lpm_enable_state lpm_enable_accounts assms(2) E unfolding keep by blast
  next
    case (BT_VND_OP_LPM_WAKE_SET_STATE state)
    then show ?thesis
      using assms(1) wake_accounts [of w C E] by (auto simp: keep vendor_op_def hw_lpm_set_wake_state_def)
  next
    case (BT_VND_OP_SET_AUDIO_STATE codec)
    then have a: "hw_set_audio_state C E codec w = Some (r, w')"
      using assms(1) by (auto simp: vendor_op_def elim!: bind_SomeE)
    then show ?thesis
      using audio_state_accounts [OF a assms(2)] audio_state_base [OF a] by (auto simp: keep base_of_def)
  qed (use assms(1,6,7) in \<open>auto simp: keep vendor_op_def accounts_refl elim!: bind_SomeE\<close>)
qed

lemma op_accounts:
  assumes "vendor_op C E request w = Some (r, out, w')" and "lib_ready w" and "sane_host E"
    and "orderly w (Op request)"
  shows "settles {#} (lost (Op request) w w') w w' \<and> bt_vendor_cbacks w' \<and> (cfg_of w' = HW_CFG_NONE \<or> fd_inv (view w'))"
proof -
  have c: "bt_vendor_cbacks w" and k: "sco_ok w" and i: "cfg_of w = HW_CFG_NONE \<or> fd_inv (view w)"
    using assms(2) by (auto simp: lib_ready_def dest: wfD)
  consider (config) "request = BT_VND_OP_FW_CFG" | (epilog) "request = BT_VND_OP_EPILOG"
    | (other) "request \<noteq> BT_VND_OP_FW_CFG" "request \<noteq> BT_VND_OP_EPILOG" by blast
  then show ?thesis
  proof cases
    case config
    with assms(1) have s: "hw_config_start E w = Some w'" by (auto simp: vendor_op_def elim!: bind_SomeE)
    note f = config_start_cfg [OF s]
    from f c have "bt_vendor_cbacks w'" "fd_inv (view w')"
      by (auto simp: fd_inv_def view_def dest: frame_cbacks)
    moreover have "settles {#} (lost (Op request) w w') w w'"
      using start_accounts [OF s c] assms(4) config by (auto simp: orderly_def)
    ultimately show ?thesis by blast
  next
    case epilog
    from epilog_request_accounts [OF assms(1) [unfolded epilog] c] i show ?thesis
      by (simp add: epilog view_def)
  next
    case other
    then have "keeps_accounts w w'"
      using op_keeps_accounts [OF assms(1) c k assms(3)] assms(4) by (simp add: orderly_def)
    with c i other show ?thesis by (simp add: keeps_accounts_def view_def lost_def)
  qed
qed

lemma completion_accounts:
  assumes "completion C E cb e w = Some w'" and "lib_ready w" and "sane_host E"
    and "orderly w (Completion cb e)"
  shows "accounts {#ev_id e#} w w' \<and> bt_vendor_cbacks w' \<and> (cfg_of w' = HW_CFG_NONE \<or> fd_inv (view w'))"
proof -
  have c: "bt_vendor_cbacks w" and k: "sco_ok w" and i: "cfg_of w = HW_CFG_NONE \<or> fd_inv (view w)"
    using assms(2) by (auto simp: lib_ready_def dest: wfD)
  have same: ?thesis
    if "accounts {#ev_id e#} w w'" "bt_vendor_cbacks w' = bt_vendor_cbacks w" "hw_cfg_cb w' = hw_cfg_cb w"
    using that c i by (simp add: view_def)
  have reply: ?thesis if "\<exists>q. is_notification q
      \<and> (w' = log (DeallocEv (ev_id e)) (log q w) \<or> w' = log q (log (DeallocEv (ev_id e)) w))"
    using that reply_accounts [of w' e _ w] by (intro same) auto
  have sco: ?thesis if "sco_callback C E cb e w = Some w'"
    using sco_accounts [OF that c k] sco_callback_base [OF that] by (intro same) (auto simp: base_of_def)
  show ?thesis
  proof (cases cb)
    case CB_hw_config
    then have h: "hw_config_cback C E e w = Some w'" "cfg_of w \<noteq> HW_CFG_NONE"
      using assms(1,4) by (simp_all add: completion_def orderly_def)
    then show ?thesis
      using config_accounts [OF h(1) assms(2,3) h(2)] config_cback_frame [OF h(1)] c frame_cbacks by blast
  next
    case CB_hw_lpm_ctrl
    then obtain q where "w' = log (DeallocEv (ev_id e)) (log (LpmCbEv q) w)"
      using assms(1) lpm_ctrl_run [OF _ c, of e w'] by (auto simp: completion_def)
    then show ?thesis by (intro reply exI [of _ "LpmCbEv q"]) (simp add: is_notification_def)
  next
    case CB_hw_epilog
    then have "w' = log (EpilogCbEv BT_VND_OP_RESULT_SUCCESS) (log (DeallocEv (ev_id e)) w)"
      using assms(1) epilog_cback_run [OF _ c, of e w'] by (simp add: completion_def)
    then show ?thesis
      by (intro reply exI [of _ "EpilogCbEv BT_VND_OP_RESULT_SUCCESS"]) (simp add: is_notification_def)
  qed (use assms(1) sco in \<open>simp_all add: completion_def\<close>)
qed

lemma step_accounts:
  assumes "lib_step C E c w = Some w'" and "lib_ready w" and "sane_host E" and "orderly w c"
  shows "settles (delivered [c]) (lost c w w') w w' \<and> lib_ready w'"
proof -
  have "lib_wf w'" using step_wf [OF assms(1)] assms(2) by (simp add: lib_ready_def)
  moreover have "settles (delivered [c]) (lost c w w') w w' \<and> bt_vendor_cbacks w' \<and> (cfg_of w' = HW_CFG_NONE \<or> fd_inv (view w'))"
  proof (cases c)
    case (Op request)
    then obtain r out where "vendor_op C E request w = Some (r, out, w')"
      using assms(1) by (auto simp: lib_step_def)
    from op_accounts [OF this assms(2,3)] Op assms(4) show ?thesis by simp
  next
    case (Completion cb e)
    then show ?thesis using completion_accounts [of C E cb e w w'] assms by (simp add: lib_step_def lost_def)
  next
    case TimerExpires
    then have w': "w' = proc_btwrite_timeout C E w" using assms(1) by (simp add: lib_step_def)
    then have "bt_vendor_cbacks w' = bt_vendor_cbacks w" "hw_cfg_cb w' = hw_cfg_cb w"
      by (simp_all add: proc_btwrite_timeout_def Let_def)
    then show ?thesis
      using TimerExpires timer_accounts [of w C E] assms(2) by (simp add: w' lib_ready_def view_def lost_def)
  qed (use assms(4) in \<open>simp_all add: orderly_def\<close>)
  ultimately show ?thesis by (simp add: lib_ready_def)
qed

lemma session_step_accounts:
  assumes "session C E w cs L w'" and "lib_ready w" and "sane_host E"
  shows "lib_ready w' \<and> settles (delivered cs) L w w'"
  using assms(1)
proof (induction rule: session.induct)
  case idle
  from assms(2) show ?case by (simp add: accounts_refl)
next
  case (call cs L w1 c w2)
  then have s: "settles (delivered [c]) (lost c w1 w2) w1 w2 \<and> lib_ready w2" using step_accounts assms(3) by blast
  with call.IH have "settles (delivered cs + delivered [c]) (lost c w1 w2 + L) w w2" by (blast intro: settles_trans)
  with s show ?case by simp
qed

text \<open>Without the proc interface no step touches the timer recorded in the state.\<close>

lemma pin_timers: "\<not> BT_WAKE_VIA_PROC C \<Longrightarrow> timers (upio_set C E pio a p w) = timers w"
  by (simp add: pin_defs timers_def)

lemma active_timers [simp]: "timers (set_active a w) = timers w"
  by (simp add: timers_def)

lemma frame_timers: "frame_of w' = frame_of w \<Longrightarrow> timers w' = timers w"
  by (simp add: frame_of_def timers_def)

lemma lpm_enable_timers:
  assumes "hw_lpm_enable C E on w = Some (r, w')" and "\<not> BT_WAKE_VIA_PROC C"
  shows "timers w' = timers w"
  using assms
  by (auto simp: hw_lpm_enable_def alloc_if_def hc_xmit_Some if_cbacks_Some Let_def pin_timers
        elim!: bind_SomeE hc_alloc_SomeE split: if_splits option.splits)

lemma op_timers:
  assumes "vendor_op C E request w = Some (r, out, w')" and "bt_vendor_cbacks w" and "\<not> BT_WAKE_VIA_PROC C"
  shows "timers w' = timers w"
proof (cases request)
  case (BT_VND_OP_POWER_CTRL state)
  have power: "upio_set_bluetooth_power E on v = Some (q, v') \<Longrightarrow> timers v' = timers v"
    for on q and v v' :: "'a hw_world_scheme"
    by (simp add: timers_def power_frame(2))
  from assms(1) show ?thesis
    by (auto simp: BT_VND_OP_POWER_CTRL vendor_op_def hw_lpm_set_wake_state_def pin_timers [OF assms(3)] power
          elim!: bind_SomeE split: if_splits)
next
  case BT_VND_OP_FW_CFG
  then have "hw_config_start E w = Some w'" using assms(1) by (auto simp: vendor_op_def elim!: bind_SomeE)
  from start_run [OF this assms(2)] show ?thesis by (auto intro: frame_timers)
next
  case BT_VND_OP_SCO_CFG
  with assms(1) show ?thesis
    by (auto simp: vendor_op_def elim!: bind_SomeE dest!: sco_config_base base_held split: if_splits)
next
  case BT_VND_OP_USERIAL_OPEN
  then obtain fd where "userial_vendor_open C E userial_init_cfg w = (fd, w')"
    using assms(1) by (auto simp: vendor_op_def split: prod.splits if_splits)
  from us_held(4) [OF open_more [OF this]] show ?thesis .
next
  case BT_VND_OP_USERIAL_CLOSE
  then have "w' = userial_vendor_close C w" using assms(1) by (simp add: vendor_op_def)
  then show ?thesis using us_held(4) [of w' w] by (simp add: frame_simps)
next
  case (BT_VND_OP_LPM_SET_MODE mode)
  then obtain q where "hw_lpm_enable C E mode w = Some (q, w')"
    using assms(1) by (auto simp: vendor_op_def elim!: bind_SomeE)
  then show ?thesis using assms(3) by (rule lpm_enable_timers)
next
  case (BT_VND_OP_LPM_WAKE_SET_STATE state)
  then show ?thesis
    using assms(1) by (auto simp: vendor_op_def hw_lpm_set_wake_state_def pin_timers [OF assms(3)])
next
  case (BT_VND_OP_SET_AUDIO_STATE codec)
  then have "hw_set_audio_state C E codec w = Some (r, w')"
    using assms(1) by (auto simp: vendor_op_def elim!: bind_SomeE)
  from base_held [OF conjunct1 [OF audio_state_base [OF this]]] show ?thesis by simp
next
  case BT_VND_OP_EPILOG
  then consider "hw_epilog_process E w = Some w'" | "w' = log (EpilogCbEv BT_VND_OP_RESULT_SUCCESS) w"
    using assms(1,2) by (auto simp: vendor_op_def if_cbacks_Some elim!: bind_SomeE split: if_splits)
  then show ?thesis using assms(2) by cases (auto elim: epilog_run)
qed (use assms(1) in \<open>auto simp: vendor_op_def elim!: bind_SomeE\<close>)

lemma completion_timers:
  assumes "completion C E cb e w = Some w'" and "bt_vendor_cbacks w"
  shows "timers w' = timers w"
proof (cases cb)
  case CB_hw_config
  with assms(1) have "hw_config_cback C E e w = Some w'" by (simp add: completion_def)
  from cback_refines(2) [OF this assms(2)] show ?thesis by (rule frame_timers)
next
  case CB_hw_lpm_ctrl
  then show ?thesis using assms lpm_ctrl_run [OF _ assms(2), of e w'] by (auto simp: completion_def)
next
  case CB_hw_epilog
  then show ?thesis using assms epilog_cback_run [OF _ assms(2), of e w'] by (simp add: completion_def)
qed (use assms(1) in \<open>auto simp: completion_def dest!: sco_callback_base base_held\<close>)

lemma session_timers:
  assumes "session C E w cs L w'" and "lib_ready w" and "sane_host E" and "\<not> BT_WAKE_VIA_PROC C"
  shows "timers w' = timers w"
  using assms(1)
proof (induction rule: session.induct)
  case (call cs L w1 c w2)
  have "bt_vendor_cbacks w1" using session_step_accounts [OF call.hyps(1) assms(2,3)] by (simp add: lib_ready_def)
  with call.hyps(2,3) have "timers w2 = timers w1"
    by (cases c) (auto simp: lib_step_def orderly_def proc_btwrite_timeout_def pin_timers [OF assms(4)]
        intro: op_timers [OF _ _ assms(4)] completion_timers)
  with call.IH show ?case by simp
qed simp

section \<open>Properties\<close>

text \<open>
  C1. Between \<^verbatim>\<open>init\<close> and \<^verbatim>\<open>cleanup\<close>, in every interleaving of operations, completion callbacks and
  timer expiries in which the port is not opened twice, no configuration is started while one is
  under way, and the configuration callback is called for a configuration under way: every event
  buffer handed to the library is freed exactly once; every command buffer it allocates is handed
  over or freed exactly once, but for those of the resets the host refused at the start of a
  configuration or at the epilog, which stay with the library for good; the open descriptors are at
  every moment exactly the ones its state records, the port's and that of the patch file of a
  configuration under way, and so is the idle timer.
\<close>

theorem session_accounts:
  assumes "session C E w cs L w'" and "lib_ready w" and "sane_host E"
  shows "lib_ready w' \<and> owns (delivered cs + M) w (L + M) w' \<and> holds_fds (held w + N) w (held w' + N) w'
    \<and> holds_timers (timers w + K) w (timers w' + K) w'"
  using session_step_accounts [OF assms] by (simp add: settles_def)

lemma started_ready: "cfg_wf C \<Longrightarrow> lib_ready (started C)"
  using reachable_wf [OF started_reachable] by (simp add: lib_ready_def started_fields)

lemma held_started: "held (started C) = {#}" "timers (started C) = {#}"
  by (simp_all add: held_def started_fields fds_def)
    (simp add: timers_def started_def upio_init_def userial_vendor_init_def static_state_def Let_def)

lemma sample_host: "sane_host sample_env"
  by (simp add: sane_host_def)

lemma open_step:
  "\<exists>fd w'. userial_vendor_open C E userial_init_cfg w = (fd, w')
     \<and> lib_step C E (Op BT_VND_OP_USERIAL_OPEN) w = Some w' \<and> hw_cfg_cb w' = hw_cfg_cb w"
proof -
  obtain fd v where v: "userial_vendor_open C E userial_init_cfg w = (fd, v)" by fastforce
  with us_held(3) [OF open_more [OF v]] show ?thesis by (simp add: lib_step_def vendor_op_def)
qed

theorem session_accounts_witness:
  "\<exists>w'. session default_cfg sample_env (started default_cfg)
       [Op BT_VND_OP_USERIAL_OPEN, Op (BT_VND_OP_LPM_SET_MODE 1),
        Completion CB_hw_lpm_ctrl \<lparr>ev_id = 9, ev_payload = [14, 4, 1, 39, 252, 0]\<rparr>, Op BT_VND_OP_USERIAL_CLOSE] {#} w'
     \<and> held w' = {#} \<and> owns {#9#} (started default_cfg) {#} w' \<and> holds_fds {#} (started default_cfg) {#} w'
     \<and> holds_timers {#} (started default_cfg) (timers w') w'"
proof -
  let ?C = default_cfg and ?E = sample_env and ?w = "started default_cfg"
  let ?e = "\<lparr>ev_id = 9, ev_payload = [14, 4, 1, 39, 252, 0 :: u8]\<rparr>"
  obtain w1 where w1: "lib_step ?C ?E (Op BT_VND_OP_USERIAL_OPEN) ?w = Some w1" "hw_cfg_cb w1 = hw_cfg_cb ?w"
    using open_step by blast
  have "orderly ?w (Op BT_VND_OP_USERIAL_OPEN)" by (simp add: orderly_def started_fields)
  from session.call [OF session.idle this w1(1)]
  have s1: "session ?C ?E ?w ([] @ [Op BT_VND_OP_USERIAL_OPEN]) {#} w1" by (simp add: lost_def)
  obtain r w2 where "hw_lpm_enable ?C ?E 1 w1 = Some (r, w2)" using lpm_enable_runs by blast
  then have "lib_step ?C ?E (Op (BT_VND_OP_LPM_SET_MODE 1)) w1 = Some w2" by (simp add: lib_step_def vendor_op_def)
  from session.call [OF s1 _ this]
  have s2: "session ?C ?E ?w (([] @ [Op BT_VND_OP_USERIAL_OPEN]) @ [Op (BT_VND_OP_LPM_SET_MODE 1)]) {#} w2"
    by (simp add: orderly_def lost_def)
  obtain w3 where w3: "lib_step ?C ?E (Completion CB_hw_lpm_ctrl ?e) w2 = Some w3"
    by (cases "bt_vendor_cbacks w2")
      (auto simp: lib_step_def completion_def hw_lpm_ctrl_cback_def evt_status_def nth_opt_def notify_def hc_dealloc_def)
  from session.call [OF s2 _ w3]
  have s3: "session ?C ?E ?w ((([] @ [Op BT_VND_OP_USERIAL_OPEN]) @ [Op (BT_VND_OP_LPM_SET_MODE 1)])
      @ [Completion CB_hw_lpm_ctrl ?e]) {#} w3"
    by (simp add: orderly_def lost_def)
  let ?w' = "userial_vendor_close ?C w3"
  have "lib_step ?C ?E (Op BT_VND_OP_USERIAL_CLOSE) w3 = Some ?w'" by (simp add: lib_step_def vendor_op_def)
  from session.call [OF s3 _ this]
  have s4: "session ?C ?E ?w [Op BT_VND_OP_USERIAL_OPEN, Op (BT_VND_OP_LPM_SET_MODE 1),
      Completion CB_hw_lpm_ctrl ?e, Op BT_VND_OP_USERIAL_CLOSE] {#} ?w'"
    by (simp add: orderly_def lost_def)
  note result = session_accounts [OF s4 started_ready [OF nordic_cfg_wf(1)] sample_host, of "{#}" "{#}" "{#}"]
  have "held ?w' = {#}"
  proof -
    have "cfg_of w1 = HW_CFG_NONE" using w1(2) started_fields(3) by simp
    then have "cfg_of w3 = HW_CFG_NONE"
      using w3 lpm_enable_state [OF \<open>hw_lpm_enable ?C ?E 1 w1 = Some (r, w2)\<close>]
      by (auto simp: lib_step_def completion_def hw_lpm_ctrl_cback_def elim!: bind_SomeE split: if_splits)
    then show ?thesis
      using us_held(3) [of ?w' w3] close_fd [of ?C w3] by (simp add: held_def fds_def frame_simps)
  qed
  with s4 result show ?thesis by (auto simp: held_started)
qed

text \<open>
  C8. A whole life of the library leaves nothing behind, in every build: when between \<^verbatim>\<open>init\<close> and
  \<^verbatim>\<open>cleanup\<close> the port was not opened twice, no configuration was started while one was under way,
  and at the end the port is closed and no configuration is under way, then after \<^verbatim>\<open>cleanup\<close> every
  descriptor is closed, the idle timer is deleted, whatever the sleep mode was left at, and every
  buffer is freed or handed over, but for those of the resets the host refused at the start of a
  configuration or at the epilog.
\<close>

theorem cleanup_leaves_nothing:
  assumes "session C E (started C) cs L w" and "cfg_wf C" and "sane_host E"
    and "fd_of w = - 1" and "cfg_of w = HW_CFG_NONE" and "lib_step C E Cleanup w = Some w'"
  shows "owns (delivered cs) (started C) L w' \<and> holds_fds {#} (started C) {#} w'
    \<and> holds_timers {#} (started C) {#} w'"
proof -
  note ready = started_ready [OF assms(2)]
  have "settles (delivered cs) L (started C) w"
    using session_step_accounts [OF assms(1) ready assms(3)] by blast
  moreover have "held w = {#}" using assms(4,5) by (simp add: held_def fds_def)
  ultimately have "owns (delivered cs + {#}) (started C) (L + {#}) w" "holds_fds (held (started C) + {#}) (started C) ({#} + {#}) w"
    "holds_timers (timers (started C) + {#}) (started C) (timers w + {#}) w"
    by (simp_all only: settles_def)
  then have before: "owns (delivered cs) (started C) L w" "holds_fds {#} (started C) {#} w"
    "holds_timers {#} (started C) (timers w) w" by (simp_all add: held_started)
  have unused: "timers w = {#}" if "\<not> BT_WAKE_VIA_PROC C"
    using session_timers [OF assms(1) ready assms(3) that] by (simp add: held_started)
  have w': "w' = vendor_cleanup C w" using assms(6) by (simp add: lib_step_def)
  have "owns L w L w'" "holds_fds {#} w {#} w'" "holds_timers (timers w) w {#} w'"
    using unused by (auto simp: w' vendor_cleanup_def upio_cleanup_def timers_def Let_def owns_def holds_fds_def holds_timers_def)
  with before show ?thesis by (blast intro: owns_trans holds_fds_trans holds_timers_trans)
qed

lemma proc_cfg_wf: "cfg_wf proc_cfg"
  using nordic_cfg_wf(1) by (simp add: cfg_wf_def proc_cfg_def)

text \<open>A sleep mode request in a build that holds the level with a timer, and in the delivered one.\<close>

theorem cleanup_leaves_nothing_witness:
  "(\<exists>w w'. session proc_cfg sample_env (started proc_cfg) [Op (BT_VND_OP_LPM_SET_MODE 1)] {#} w
      \<and> lib_step proc_cfg sample_env Cleanup w = Some w' \<and> holds_timers {#} (started proc_cfg) {#} w')
    \<and> (\<exists>w w'. session default_cfg sample_env (started default_cfg) [Op (BT_VND_OP_LPM_SET_MODE 1)] {#} w
      \<and> lib_step default_cfg sample_env Cleanup w = Some w' \<and> holds_timers {#} (started default_cfg) {#} w')"
proof -
  have life: "\<exists>w w'. session C sample_env (started C) [Op (BT_VND_OP_LPM_SET_MODE 1)] {#} w
    \<and> lib_step C sample_env Cleanup w = Some w' \<and> holds_timers {#} (started C) {#} w'" if C: "cfg_wf C" for C
  proof -
    let ?w = "started C"
    obtain r w where r: "hw_lpm_enable C sample_env 1 ?w = Some (r, w)" using lpm_enable_runs by blast
    then have "lib_step C sample_env (Op (BT_VND_OP_LPM_SET_MODE 1)) ?w = Some w"
      by (simp add: lib_step_def vendor_op_def)
    from session.call [OF session.idle _ this] have s: "session C sample_env ?w [Op (BT_VND_OP_LPM_SET_MODE 1)] {#} w"
      by (simp add: orderly_def lost_def)
    have "fd_of w = - 1" "cfg_of w = HW_CFG_NONE"
      using lpm_enable_state [OF r] started_fields [of C] by simp_all
    moreover have "lib_step C sample_env Cleanup w = Some (vendor_cleanup C w)" by (simp add: lib_step_def)
    ultimately show ?thesis
      using cleanup_leaves_nothing [OF s C sample_host] s by blast
  qed
  show ?thesis using life [OF proc_cfg_wf] life [OF nordic_cfg_wf(1)] by blast
qed

text \<open>
  C37. Opening the port a second time leaks the first descriptor: after the second open and a
  close the port is recorded as closed, and the first descriptor is still open.
\<close>

theorem second_open_leaks_port:
  assumes "fd_of w = old" and "old \<noteq> - 1" and "open_returns_fd E"
    and "lib_step C E (Op BT_VND_OP_USERIAL_OPEN) w = Some w1"
    and "lib_step C E (Op BT_VND_OP_USERIAL_CLOSE) w1 = Some w2" and "held w = add_mset old M"
  shows "held w2 = M \<and> holds_fds (add_mset old M) w (add_mset old M) w2"
proof -
  note h = assms(6)
  obtain fd where v: "userial_vendor_open C E userial_init_cfg w = (fd, w1)"
    using assms(4) open_step [of C E w] by auto
  have w2: "w2 = userial_vendor_close C w1" using assms(5) by (simp add: lib_step_def vendor_op_def)
  have "us_world.more w2 = us_world.more w" using open_more [OF v] by (simp add: w2 frame_simps)
  then have "held w2 + fds old = held w + fds (fd_of w2)" using us_held(1) assms(1) by metis
  then have "held w2 = M" using h assms(2) close_fd [of C w1] by (simp add: w2 fds_def)
  moreover have "holds_fds (add_mset old M) w (add_mset old M) w2"
    unfolding w2 using assms(3) v holds_fds_refl open_fd [OF v] by (rule port.session_balanced)
  ultimately show "held w2 = M \<and> holds_fds (add_mset old M) w (add_mset old M) w2" by blast
qed

theorem second_open_leaks_port_witness:
  "\<exists>w1 w2. lib_step default_cfg sample_env (Op BT_VND_OP_USERIAL_OPEN) ((started default_cfg)\<lparr>vnd_userial := vnd_userial idle_hw\<rparr>) = Some w1
    \<and> lib_step default_cfg sample_env (Op BT_VND_OP_USERIAL_CLOSE) w1 = Some w2
    \<and> held w2 = {#} \<and> holds_fds {#0#} ((started default_cfg)\<lparr>vnd_userial := vnd_userial idle_hw\<rparr>) {#0#} w2"
proof -
  let ?w = "(started default_cfg)\<lparr>vnd_userial := vnd_userial idle_hw\<rparr>"
  have fd: "fd_of ?w = 0" by (simp add: idle_hw_def static_state_def)
  have h: "held ?w = {#0#}" using fd started_fields(3) [of default_cfg] by (simp add: held_def fds_def)
  obtain w1 where w1: "lib_step default_cfg sample_env (Op BT_VND_OP_USERIAL_OPEN) ?w = Some w1"
    using open_step by blast
  obtain w2 where w2: "lib_step default_cfg sample_env (Op BT_VND_OP_USERIAL_CLOSE) w1 = Some w2"
    by (simp add: lib_step_def vendor_op_def)
  from second_open_leaks_port [OF fd _ sample_env_sane(2) w1 w2 h] w1 w2 show ?thesis by auto
qed

end
