(* ===== verification/ConfigProps.thy ===== *)
theory ConfigProps
  imports ConfigDefined
begin

text \<open>The properties of the controller initialization, from the machine of FwProtocol and from
  the handlers of HwConfig.\<close>

section \<open>Properties\<close>

text \<open>
  C2. \<^verbatim>\<open>hw_config_cback\<close> implements the configuration protocol: whatever event arrives in
  whatever state, and whatever the callbacks, the file system and the clock do, the significant
  calls it makes, the speed it sets the port to and its change of state are one step of the abstract
  machine \<^verbatim>\<open>fw_step\<close>. All other state is as before: everything outside the configuration block but
  the two line speeds of the port, and these are the new speed when the step sets one and as before
  otherwise. The machine is driven by the event, the library's settings (address, patch directory,
  patch file name) and the answers of the environment: it gives up for a status only when the
  event carries one and for want of memory only where the allocator may refuse; a command has the
  parameters of its state and counts as accepted or refused as \<^verbatim>\<open>xmit_cb\<close> may answer; the file
  opened is the configured one or a match of the name in the event in a listing of the directory, and
  none is opened only when there is none; a record is sent with the content read from the file, and the
  download ends only when the RAM was launched or nothing could be read; the own address is
  written only when the controller reports none.
\<close>

theorem config_refines_protocol:
  assumes "hw_config_cback C E e w = Some w'" and "bt_vendor_cbacks w"
  shows "\<exists>es q. effects w w' es \<and> fw_step C E (context_of w) e q (view w) es (view w')
    \<and> speeds w' = retuned q (speeds w) \<and> frame_of w' = frame_of w"
  using cback_refines [OF assms] by blast

theorem config_refines_protocol_witness:
  "\<exists>w' es q. hw_config_cback default_cfg sample_env ok_evt reset_sent = Some w' \<and> effects reset_sent w' es
     \<and> fw_step default_cfg sample_env (context_of reset_sent) ok_evt q (view reset_sent) es (view w')
     \<and> view w' = (HW_CFG_SET_UART_BAUD_1, False, - 1) \<and> speeds w' = speeds reset_sent
     \<and> frame_of w' = frame_of reset_sent"
proof -
  obtain w' where w': "hw_config_cback default_cfg sample_env ok_evt reset_sent = Some w'"
    using reset_sent_event by fast
  from config_refines_protocol [OF w' reset_sent_ok(2)] obtain es q where es: "effects reset_sent w' es"
      "fw_step default_cfg sample_env (context_of reset_sent) ok_evt q (view reset_sent) es (view w')"
      "speeds w' = retuned q (speeds reset_sent)" "frame_of w' = frame_of reset_sent" by blast
  have v: "view reset_sent = (HW_CFG_START, False, - 1)" by (simp add: view_def reset_sent_def)
  have st: "evt_status ok_evt = Some 0" by (simp add: ok_evt_def evt_status_def nth_opt_def)
  from reset_answered [OF es(2) [unfolded v] sample_env_accepts st default_rate]
  have "view w' = (HW_CFG_SET_UART_BAUD_1, False, - 1)" "q = None" by simp_all
  with w' es show ?thesis by auto
qed

text \<open>
  C5. However many events are delivered to the configuration, in whatever order and with
  whatever content, each event buffer is freed exactly once, every command buffer is either
  handed over or freed, and none twice.
\<close>

theorem config_buffers_balanced:
  assumes "bt_vendor_cbacks w" and "xmit_returns_bool E"
    and "deliver (hw_config_cback C E) es w = Some w'"
  shows "owns (mset (map ev_id es) + M) w M w'"
  using assms by (intro config.deliver_owns) simp_all

theorem config_buffers_balanced_witness:
  "\<exists>w'. deliver (hw_config_cback default_cfg sample_env) [ok_evt] reset_sent = Some w'
     \<and> owns {#5#} reset_sent {#} w'"
proof -
  obtain w' where w': "deliver (hw_config_cback default_cfg sample_env) [ok_evt] reset_sent = Some w'"
    using reset_sent_event by fastforce
  with config_buffers_balanced [OF reset_sent_ok(2) sample_env_sane(1) w', of "{#}"] show ?thesis
    by (auto simp: ok_evt_def)
qed

lemma deliver_fds:
  assumes "deliver (hw_config_cback C E) es w = Some w'" and "bt_vendor_cbacks w"
    and "open_returns_fd E" and "fd_inv (view w)"
  shows "fd_inv (view w') \<and> holds_fds (fds (fw_fd_of w) + M) w (fds (fw_fd_of w') + M) w'"
proof -
  have "(fd_inv (view w') \<and> holds_fds (fds (fw_fd_of w) + M) w (fds (fw_fd_of w') + M) w')
      \<and> bt_vendor_cbacks w'"
    using assms(1,2)
  proof (induction rule: deliver_induct)
    case nil
    then show ?case using assms(4) by (auto intro: holds_fds_refl)
  next
    case (snoc es e w1 w2 s)
    from step_fds [OF snoc.hyps(5) assms(3)] snoc.IH
    have "fd_inv (view w2)" and "account fd_step (fds (fw_fd_of w1) + M) s = Some (fds (fw_fd_of w2) + M)"
      by (auto simp: view_def)
    then show ?case using snoc.IH snoc.hyps(4) holds_fds_trans effects_fds by blast
  qed
  then show ?thesis by simp
qed

text \<open>From the start on: the patch file is the only descriptor held.\<close>

lemma patch_file_held:
  assumes "bt_vendor_cbacks w" and "open_returns_fd E" and "hw_config_start E w = Some w0"
    and "deliver (hw_config_cback C E) es w0 = Some w'"
  shows "holds_fds M w (if fw_fd_of w' = - 1 then M else add_mset (fw_fd_of w') M) w'
    \<and> (fw_fd_of w' \<noteq> - 1 \<longrightarrow>
         cfg_of w' \<in> {HW_CFG_DL_MINIDRIVER, HW_CFG_DL_FW_PATCH, HW_CFG_SET_BD_ADDR})"
proof -
  note s = start_run [OF assms(3,1)]
  then have v: "fw_fd_of w0 = - 1" "fd_inv (view w0)" by (auto simp: view_def fd_inv_def)
  have "holds_fds M w M w0" using s effects_fds [of w w0 _ M M] by fastforce
  moreover have c: "bt_vendor_cbacks w0" using s assms(1) frame_cbacks by blast
  ultimately have "holds_fds M w (fds (fw_fd_of w') + M) w'" and inv: "fd_inv (view w')"
    using deliver_fds [OF assms(4) c assms(2) v(2), of M] v(1) holds_fds_trans
    by (auto simp: fds_def)
  moreover have "fds (fw_fd_of w') + M = (if fw_fd_of w' = - 1 then M else add_mset (fw_fd_of w') M)"
    by (simp add: fds_def)
  ultimately show ?thesis by (auto simp: fd_inv_def view_def)
qed

text \<open>
  C6. From the start of a configuration on, the library holds at most the descriptor of the
  patch file, and only in the three states that need it: while the file is downloaded and, after
  a refused download, until the address command is answered. In particular a configuration that
  has come to an end, successfully or not, has closed every file it opened.
\<close>

theorem config_closes_patch_file:
  assumes "bt_vendor_cbacks w" and "open_returns_fd E" and "hw_config_start E w = Some w0"
    and "deliver (hw_config_cback C E) es w0 = Some w'"
  shows "holds_fds M w (if fw_fd_of w' = - 1 then M else add_mset (fw_fd_of w') M) w'
    \<and> (fw_fd_of w' \<noteq> - 1 \<longrightarrow>
         cfg_of w' \<in> {HW_CFG_DL_MINIDRIVER, HW_CFG_DL_FW_PATCH, HW_CFG_SET_BD_ADDR})"
  using assms by (rule patch_file_held)

lemma idle_start: "\<exists>w0. hw_config_start sample_env idle_hw = Some w0"
  using start_defined [of sample_env idle_hw] by blast

theorem config_closes_patch_file_witness:
  "\<exists>w0 w'. hw_config_start patch_env idle_hw = Some w0
    \<and> deliver (hw_config_cback default_cfg patch_env) [ok_evt, ok_evt, name_evt] w0 = Some w'
    \<and> cfg_of w' = HW_CFG_DL_MINIDRIVER \<and> holds_fds {#} idle_hw {#7#} w'"
proof -
  obtain w0 w' where w0: "hw_config_start patch_env idle_hw = Some w0"
    and d: "deliver (hw_config_cback default_cfg patch_env) [ok_evt, ok_evt, name_evt] w0 = Some w'"
    and st: "cfg_of w' = HW_CFG_DL_MINIDRIVER" "fw_fd_of w' = 7" by (rule download_starts)
  from config_closes_patch_file [OF idle_hw_ready(1) patch_env_accepts(2) w0 d, of "{#}"]
  have "holds_fds {#} idle_hw {#7#} w'" by (simp add: st)
  with w0 d st show ?thesis by blast
qed

text \<open>
  C12. A configuration reports its result to the host stack exactly once: while it is under way
  nothing is reported, and the event that ends it is the one that reports.
\<close>

theorem config_reports_once:
  assumes "bt_vendor_cbacks w" and "hw_config_start E w = Some w0"
    and "deliver (hw_config_cback C E) (es @ [e]) w0 = Some w'"
    and "deliver (hw_config_cback C E) es w0 = Some w1" and "cfg_of w1 \<noteq> HW_CFG_NONE"
  shows "\<exists>q. reports (drop (length (trace w)) (trace w')) =
    (if cfg_of w' = HW_CFG_NONE then [FwcfgCbEv q] else [])"
proof -
  note s = start_run [OF assms(2,1)]
  have c: "bt_vendor_cbacks w0" using s assms(1) frame_cbacks by blast
  define silent where "silent v \<longleftrightarrow> (\<exists>t. effects w v t \<and> (cfg_of v \<noteq> HW_CFG_NONE \<longrightarrow> reports t = []))"
    for v :: "'a hw_world_scheme"
  have w1: "silent w1 \<and> bt_vendor_cbacks w1"
    using assms(4) c
  proof (induction rule: deliver_induct)
    case nil
    show ?case using s by (fastforce simp: silent_def idle_iff)
  next
    case (snoc es e v1 v2 t)
    show ?case
    proof (cases "cfg_of v2 = HW_CFG_NONE")
      case True
      then show ?thesis using snoc.IH snoc.hyps(4) effects_trans unfolding silent_def by blast
    next
      case False
      then have "cfg_of v1 \<noteq> HW_CFG_NONE" using idle_stays [OF snoc.hyps(5)] by (auto simp: idle_iff)
      moreover have "reports t = []" using step_reports [OF snoc.hyps(5)] False by (auto simp: idle_iff)
      ultimately show ?thesis using snoc.IH snoc.hyps(4) effects_trans unfolding silent_def by fastforce
    qed
  qed
  then obtain t where t: "effects w w1 t" "reports t = []" using assms(5) by (auto simp: silent_def)
  have e: "hw_config_cback C E e w1 = Some w'" using assms(3,4) by (simp add: deliver_append)
  from cback_refines(1) [OF e] w1 obtain u q where u: "effects w1 w' u"
    "fw_step C E (context_of w1) e q (view w1) u (view w')" by blast
  from step_reports [OF u(2)] obtain q where
    "reports u = (if fst (view w') = HW_CFG_NONE then [FwcfgCbEv q] else [])" by blast
  then show ?thesis
    using reports_effects [OF effects_trans [OF t(1) u(1)]] t(2) by (auto simp: idle_iff)
qed
lemma idle_start_state:
  assumes "hw_config_start sample_env idle_hw = Some w0"
  shows "view w0 = (HW_CFG_START, False, - 1)" and "chip_ok w0" and "length (vnd_local_bd_addr w0) = 6"
    and "bt_vendor_cbacks w0"
proof -
  have c: "bt_vendor_cbacks idle_hw" by (simp add: idle_hw_def)
  note s = start_run [OF assms c]
  have "hc_alloc_addr sample_env tr n \<noteq> None" for tr n by (simp add: sample_env_def)
  with s show "view w0 = (HW_CFG_START, False, - 1)" by auto
  have "chip_ok idle_hw" by (simp add: idle_hw_def static_state_def chip_ok_def terminated_def)
  with s show "chip_ok w0" by (simp add: chip_ok_def)
  have "frame_of w0 = frame_of idle_hw" using s by blast
  then show "length (vnd_local_bd_addr w0) = 6" and "bt_vendor_cbacks w0"
    using c frame_cbacks by (simp_all add: frame_of_def idle_hw_def)
qed

theorem config_reports_once_witness:
  "\<exists>w' q. reports (drop (length (trace idle_hw)) (trace w')) =
    (if cfg_of w' = HW_CFG_NONE then [FwcfgCbEv q] else [])
    \<and> (\<exists>w0. hw_config_start sample_env idle_hw = Some w0
         \<and> hw_config_cback default_cfg sample_env ok_evt w0 = Some w')"
proof -
  have c: "bt_vendor_cbacks idle_hw" by (simp add: idle_hw_def)
  obtain w0 where w0: "hw_config_start sample_env idle_hw = Some w0" using idle_start by blast
  note st = idle_start_state [OF w0]
  then have "cfg_of w0 = HW_CFG_START" by (simp add: view_def)
  then obtain w' where w': "hw_config_cback default_cfg sample_env ok_evt w0 = Some w'"
    using cback_defined [of w0 sample_env default_cfg ok_evt] st by (auto simp: ok_evt_def event_complete_def)
  have "cfg_of w0 \<noteq> HW_CFG_NONE" using \<open>cfg_of w0 = HW_CFG_START\<close> by simp
  with config_reports_once [OF c w0, of default_cfg "[]" ok_evt w' w0] w' w0 show ?thesis by auto
qed

text \<open>The states a run goes through.\<close>

primrec visited :: "(evt \<Rightarrow> 'w \<Rightarrow> 'w option) \<Rightarrow> evt list \<Rightarrow> 'w \<Rightarrow> 'w list" where
  "visited h [] w = []"
| "visited h (e # es) w = (case h e w of None \<Rightarrow> [] | Some w1 \<Rightarrow> w1 # visited h es w1)"

lemma visited_append:
  "deliver h es w = Some w1 \<Longrightarrow> visited h (es @ fs) w = visited h es w @ visited h fs w1"
  by (induction es arbitrary: w) (auto elim!: bind_SomeE)

lemma deliver_rank:
  assumes "deliver (hw_config_cback C E) es w = Some w'" and "bt_vendor_cbacks w"
    and "cfg_of w' \<noteq> HW_CFG_NONE"
  shows "length es + rank (view w') \<le> rank (view w)
    + length (filter (\<lambda>v. cfg_of v = HW_CFG_DL_FW_PATCH) (visited (hw_config_cback C E) es w))"
proof -
  have "(cfg_of w' \<noteq> HW_CFG_NONE \<longrightarrow> length es + rank (view w') \<le> rank (view w)
      + length (filter (\<lambda>v. cfg_of v = HW_CFG_DL_FW_PATCH) (visited (hw_config_cback C E) es w)))
    \<and> bt_vendor_cbacks w'"
    using assms(1,2)
  proof (induction rule: deliver_induct)
    case (snoc es e w1 w2 s)
    have "cfg_of w1 \<noteq> HW_CFG_NONE" if "cfg_of w2 \<noteq> HW_CFG_NONE"
      using idle_stays [OF snoc.hyps(5)] that by (auto simp: idle_iff)
    moreover have "rank (view w2) < rank (view w1) \<or>
        (cfg_of w2 = HW_CFG_DL_FW_PATCH \<and> rank (view w2) \<le> rank (view w1))"
      if "cfg_of w1 \<noteq> HW_CFG_NONE"
      using step_rank [OF snoc.hyps(5)] that by (auto simp: view_def)
    ultimately show ?case
      using snoc.IH snoc.hyps(3) visited_append [OF snoc.hyps(1), of "[e]"] by fastforce
  qed simp
  with assms(3) show ?thesis by simp
qed

text \<open>
  C13. The configuration makes progress: apart from the events that each transmit a record of
  the patch file, at most eleven events are consumed before it ends.
\<close>

theorem config_progress:
  assumes "bt_vendor_cbacks w" and "hw_config_start E w = Some w0"
    and "deliver (hw_config_cback C E) es w0 = Some w'" and "cfg_of w' \<noteq> HW_CFG_NONE"
  shows "length es \<le> 10 + length (filter (\<lambda>v. cfg_of v = HW_CFG_DL_FW_PATCH)
    (visited (hw_config_cback C E) es w0))"
proof -
  note s = start_run [OF assms(2,1)]
  have c: "bt_vendor_cbacks w0" using s assms(1) frame_cbacks by blast
  have "rank (view w0) \<le> 11" using s by auto
  moreover have "0 < rank (view w')" using assms(4) by (cases "cfg_of w'") (simp_all add: view_def)
  ultimately show ?thesis using deliver_rank [OF assms(3) c assms(4)] by linarith
qed

theorem config_progress_witness:
  "\<exists>w0 w'. hw_config_start patch_env idle_hw = Some w0
    \<and> deliver (hw_config_cback default_cfg patch_env) [ok_evt, ok_evt, name_evt] w0 = Some w'
    \<and> cfg_of w' = HW_CFG_DL_MINIDRIVER
    \<and> length [ok_evt, ok_evt, name_evt] \<le> 10 + length (filter (\<lambda>v. cfg_of v = HW_CFG_DL_FW_PATCH)
        (visited (hw_config_cback default_cfg patch_env) [ok_evt, ok_evt, name_evt] w0))"
proof -
  obtain w0 w' where w0: "hw_config_start patch_env idle_hw = Some w0"
    and d: "deliver (hw_config_cback default_cfg patch_env) [ok_evt, ok_evt, name_evt] w0 = Some w'"
    and st: "cfg_of w' = HW_CFG_DL_MINIDRIVER" by (rule download_starts)
  then have "cfg_of w' \<noteq> HW_CFG_NONE" by simp
  from config_progress [OF idle_hw_ready(1) w0 d this] w0 d st show ?thesis by blast
qed

text \<open>What the host stack may assume of a transmitted buffer.\<close>

definition sound_packet :: "env \<Rightarrow> u16 \<Rightarrow> hc_hdr \<Rightarrow> bool" where
  "sound_packet E opc b \<longleftrightarrow> hb_event b = MSG_STACK_TO_HC_HCI_CMD E \<and> hb_offset b = 0 \<and> hb_layer b = 0
     \<and> 3 \<le> unat (hb_len b) \<and> unat (hb_len b) \<le> length (hb_data b)
     \<and> opc = u16_of (hb_data b ! 0) (hb_data b ! 1)
     \<and> unat (hb_len b) \<le> 3 + unat (hb_data b ! 2)"

lemma wf_packet_sound:
  assumes "wf_packet E opc b"
  shows "sound_packet E opc b"
proof -
  from assms have t: "take 2 (hb_data b) = le16 opc" and l: "2 \<le> length (hb_data b)"
    by (auto simp: wf_packet_def)
  from l have "hb_data b ! 0 = take 2 (hb_data b) ! 0" "hb_data b ! 1 = take 2 (hb_data b) ! 1" by simp_all
  then have "u16_of (hb_data b ! 0) (hb_data b ! 1) = opc" unfolding t by (simp only: u16_of_le16)
  with assms show ?thesis by (auto simp: wf_packet_def sound_packet_def)
qed

lemma command_sound: "cfg_command E n opc ps b r \<Longrightarrow> sound_packet E opc b"
  by (simp add: cfg_command_def wf_packet_sound)

lemma record_sound:
  assumes "record_command E n rec opc b r" and "next_record E fd rec"
  shows "sound_packet E opc b"
proof -
  obtain hdr body where rec: "rec = hdr @ body" "length hdr = 3"
    and an: "read_answers E fd (unat (hdr ! 2)) (Some body)"
    using assms(2) by (auto simp: next_record_def)
  have le: "length body \<le> unat (hdr ! 2)"
    using an by (auto simp: read_answers_def map_option_case split: option.splits)
  have "unat (hdr ! 2) < 256" using unsigned_less [of "hdr ! 2", where ?'a = nat] by simp
  then have len: "length rec \<le> HCI_CMD_MAX_LEN" using rec le by simp
  have data: "hb_data b ! i = rec ! i" if "i < length rec" for i
    using assms(1) nth_take [OF that, of "hb_data b"] by (simp add: record_command_def)
  have "hb_data b ! 0 = rec ! 0" "hb_data b ! 1 = rec ! 1" "hb_data b ! 2 = hdr ! 2"
    using rec data [of 0] data [of 1] data [of 2] by (simp_all add: nth_append)
  with assms(1) rec le len show ?thesis by (auto simp: record_command_def sound_packet_def hdr_ok_def)
qed

lemma case_packets: "fw_case C E X e line n v es r v' \<Longrightarrow> XmitEv opc b cb q \<in> set es \<Longrightarrow> sound_packet E opc b"
  by (induction rule: fw_case.induct) (auto simp: closing_def dest: command_sound record_sound split: if_splits)

lemma step_packets: "fw_step C E X e line v es v' \<Longrightarrow> XmitEv opc b cb q \<in> set es \<Longrightarrow> sound_packet E opc b"
  by (induction rule: fw_step.induct) (auto simp: closing_def dest: case_packets split: if_splits)

lemma effects_xmit:
  "effects w w' es \<Longrightarrow> XmitEv opc b cb q \<in> set (drop (length (trace w)) (trace w')) \<Longrightarrow>
     XmitEv opc b cb q \<in> set es"
  by (auto simp: effects_def)

text \<open>
  C15. Every command the configuration transmits, the records of the patch file included, has a
  complete header, an opcode that agrees with the one announced to \<^verbatim>\<open>xmit_cb\<close>, and a length
  that covers its preamble, stays inside the buffer and does not exceed what its parameter length
  byte announces.
\<close>

theorem config_packets_sound:
  assumes "bt_vendor_cbacks w" and "hw_config_start E w = Some w0"
    and "deliver (hw_config_cback C E) es w0 = Some w'"
    and "XmitEv opc b cb r \<in> set (drop (length (trace w)) (trace w'))"
  shows "sound_packet E opc b"
proof -
  note s = start_run [OF assms(2,1)]
  have c: "bt_vendor_cbacks w0" using s assms(1) frame_cbacks by blast
  define sound where "sound v \<longleftrightarrow> (\<exists>t. effects w v t
      \<and> (\<forall>opc b cb r. XmitEv opc b cb r \<in> set t \<longrightarrow> sound_packet E opc b))" for v :: "'a hw_world_scheme"
  have w0: "sound w0" using s by (fastforce simp: sound_def dest: command_sound)
  have "sound w' \<and> bt_vendor_cbacks w'"
    using assms(3) c
  proof (induction rule: deliver_induct)
    case nil
    show ?case by (rule w0)
  next
    case (snoc es e w1 w2 t)
    then obtain u where "effects w w1 u" "\<forall>opc b cb r. XmitEv opc b cb r \<in> set u \<longrightarrow> sound_packet E opc b"
      by (auto simp: sound_def)
    with snoc.hyps(4) step_packets [OF snoc.hyps(5)] show ?case
      unfolding sound_def by (intro exI [of _ "u @ t"]) (auto intro: effects_trans)
  qed
  then obtain t where "effects w w' t" "XmitEv opc b cb r \<in> set t \<Longrightarrow> sound_packet E opc b"
    unfolding sound_def by blast
  with effects_xmit [OF this(1) assms(4)] show ?thesis by simp
qed

theorem config_packets_sound_witness:
  "\<exists>w0 w1 b. hw_config_start patch_env idle_hw = Some w0
    \<and> deliver (hw_config_cback default_cfg patch_env) [ok_evt] w0 = Some w1
    \<and> XmitEv HCI_VSC_UPDATE_BAUDRATE b CB_hw_config TRUE \<in> set (drop (length (trace idle_hw)) (trace w1))
    \<and> sound_packet patch_env HCI_VSC_UPDATE_BAUDRATE b"
proof -
  from two_answers [OF idle_hw_ready patch_env_accepts(1) patch_env_sleeps default_rate]
  obtain w0 w1 w2 b where w0: "hw_config_start patch_env idle_hw = Some w0"
    and w1: "hw_config_cback default_cfg patch_env ok_evt w0 = Some w1"
    and x: "sent HCI_VSC_UPDATE_BAUDRATE b TRUE \<in> set (drop (length (trace idle_hw)) (trace w1))" by blast
  from w1 have d: "deliver (hw_config_cback default_cfg patch_env) [ok_evt] w0 = Some w1" by simp
  from config_packets_sound [OF idle_hw_ready(1) w0 d x] w0 d x show ?thesis by blast
qed

section \<open>Refused commands\<close>




text \<open>
  C39. A start whose reset command the host stack refuses leaves the command buffer with the
  library, in a state that waits for the answer to a command nobody sent, and reports nothing.
\<close>

theorem refused_reset_is_lost:
  assumes "hw_config_start E w = Some w'" and "bt_vendor_cbacks w"
    and "\<forall>tr opc b cb. hc_xmit_result E tr opc b cb = FALSE" and "\<forall>tr n. hc_alloc_addr E tr n \<noteq> None"
  shows "\<exists>a. owns M w (add_mset a M) w' \<and> cfg_of w' = HW_CFG_START
    \<and> reports (drop (length (trace w)) (trace w')) = []"
proof -
  have "\<not> (\<exists>z. hc_alloc_addr E (trace w) z = None)" using assms(4) by blast
  with start_run [OF assms(1,2)] obtain z b r where v: "view w' = (HW_CFG_START, False, - 1)"
    and e: "effects w w' [AllocEv z (Some (hb_id b)), sent HCI_RESET b r]" by blast
  have "r = FALSE"
    using e assms(1-3)
    by (auto simp: hw_config_start_def send_cfg_def hc_xmit_Some alloc_if_def effects_def Let_def
          notify_if_cbacks_def elim!: bind_SomeE hc_alloc_SomeE split: option.splits)
  with e have "owns M w (add_mset (hb_id b) M) w'" by (intro effects_owns) auto
  with v reports_effects [OF e] show ?thesis by (auto simp: view_def)
qed

theorem refused_reset_is_lost_witness:
  "\<exists>w' a. hw_config_start refusing_env idle_hw = Some w' \<and> owns {#} idle_hw {#a#} w'"
proof -
  have c: "bt_vendor_cbacks idle_hw" by (simp add: idle_hw_def)
  obtain w' where w': "hw_config_start refusing_env idle_hw = Some w'"
    using start_defined by blast
  have "\<forall>tr opc b cb. hc_xmit_result refusing_env tr opc b cb = FALSE"
    "\<forall>tr n. hc_alloc_addr refusing_env tr n \<noteq> None"
    by (simp_all add: refusing_env_def sample_env_def)
  from refused_reset_is_lost [OF w' c this, of "{#}"] w' show ?thesis by blast
qed

end
