(* ===== verification/LineSpeed.thy ===== *)
theory LineSpeed
  imports ConfigDefined
begin

text \<open>
  The speed of the port during the controller initialization. Host and controller have to change
  speed together: the controller changes when it answers the command that names the new speed, and
  goes back to 115200 when it starts the downloaded firmware.
\<close>

section \<open>Speeds\<close>

text \<open>The speed at which the answer awaited in a state arrives: 115200 from a reset up to the answer
  that confirms the new speed, the configured speed from then on. First in bits per second, as the
  controller knows it, then as the port has to be set for it.\<close>

fun answer_rate :: "buildcfg \<Rightarrow> hw_state \<Rightarrow> u32" where
  "answer_rate C HW_CFG_START = 115200"
| "answer_rate C HW_CFG_SET_UART_CLOCK = 115200"
| "answer_rate C HW_CFG_SET_UART_BAUD_1 = 115200"
| "answer_rate C HW_CFG_SET_UART_BAUD_2 = 115200"
| "answer_rate C s = UART_TARGET_BAUD_RATE C"

definition line_speed_in :: "buildcfg \<Rightarrow> hw_state \<Rightarrow> tcio" where
  "line_speed_in C s =
     (if s \<in> {HW_CFG_START, HW_CFG_SET_UART_CLOCK, HW_CFG_SET_UART_BAUD_1, HW_CFG_SET_UART_BAUD_2}
      then B115200 else target_speed C)"

definition in_tune :: "buildcfg \<Rightarrow> 'a hw_world_scheme \<Rightarrow> bool" where
  "in_tune C w \<longleftrightarrow> speeds w = (line_speed_in C (cfg_of w), line_speed_in C (cfg_of w))"

lemma line_rate:
  "supported_rate (UART_TARGET_BAUD_RATE C) \<Longrightarrow> tcio_rate (line_speed_in C s) = answer_rate C s"
  by (cases s) (simp_all add: line_speed_in_def target_speed_def speed_for_rate)

section \<open>Every step keeps host and controller in tune\<close>

lemma case_in_tune:
  assumes "fw_case C E X e q n v es r v'" and "r \<noteq> FALSE"
  shows "retuned q (line_speed_in C (fst v), line_speed_in C (fst v)) = (line_speed_in C (fst v'), line_speed_in C (fst v'))"
  using assms by cases (auto simp: line_speed_in_def)

text \<open>A step that goes on, to the next state or to the reported success.\<close>

lemma step_in_tune:
  assumes "fw_step C E X e q v es v'" and "FwcfgCbEv BT_VND_OP_RESULT_FAIL \<notin> set es"
  shows "retuned q (line_speed_in C (fst v), line_speed_in C (fst v)) = (line_speed_in C (fst v'), line_speed_in C (fst v'))"
  using assms(1)
proof cases
  case (proceeds n t r)
  then show ?thesis by (blast intro: case_in_tune)
qed (use assms(2) in auto)

lemma failure_ends:
  assumes "fw_step C E X e q v es v'" and "fst v' \<noteq> HW_CFG_NONE"
  shows "FwcfgCbEv BT_VND_OP_RESULT_FAIL \<notin> set es"
proof
  obtain x where x: "reports es = (if fst v' = HW_CFG_NONE then [FwcfgCbEv x] else [])"
    using step_reports [OF assms(1)] by blast
  assume "FwcfgCbEv BT_VND_OP_RESULT_FAIL \<in> set es"
  then have "FwcfgCbEv BT_VND_OP_RESULT_FAIL \<in> set (reports es)" by (simp add: reports_def)
  with x assms(2) show False by simp
qed

definition went_on :: "'a hw_world_scheme \<Rightarrow> 'a hw_world_scheme \<Rightarrow> bool" where
  "went_on w w' \<longleftrightarrow> cfg_of w' \<noteq> HW_CFG_NONE
     \<or> FwcfgCbEv BT_VND_OP_RESULT_FAIL \<notin> set (drop (length (trace w)) (trace w'))"

lemma cback_in_tune:
  assumes "hw_config_cback C E e w = Some w'" and "bt_vendor_cbacks w" and "in_tune C w" and "went_on w w'"
  shows "in_tune C w'"
proof -
  from cback_refines(1) [OF assms(1,2)] obtain es q where es: "effects w w' es"
      "fw_step C E (context_of w) e q (view w) es (view w')" and sp: "speeds w' = retuned q (speeds w)" by blast
  have "FwcfgCbEv BT_VND_OP_RESULT_FAIL \<notin> set es"
    using assms(4) failure_ends [OF es(2)] es(1) by (auto simp: went_on_def effects_def view_def)
  from step_in_tune [OF es(2) this] show ?thesis using assms(3) sp by (simp add: in_tune_def view_def)
qed

section \<open>Properties\<close>

text \<open>
  C7. Host and controller never lose each other over the line speed: when the library is built
  with one of the thirteen rates the port supports and a configuration starts at 115200, then
  whatever events arrive, as long as it is under way the port runs at the rate, in bits per second, at
  which the controller sends the awaited answer: 115200 from each reset to the answer that confirms the
  new speed, and the configured \<^verbatim>\<open>UART_TARGET_BAUD_RATE\<close> otherwise, both before the patch download
  and after it.
\<close>

theorem config_keeps_speeds_together:
  assumes "supported_rate (UART_TARGET_BAUD_RATE C)" and "bt_vendor_cbacks w" and "speeds w = (B115200, B115200)"
    and "hw_config_start E w = Some w0" and "deliver (hw_config_cback C E) es w0 = Some w'" and "cfg_of w' \<noteq> HW_CFG_NONE"
  shows "tcio_rate (c_ispeed (termios_of w')) = answer_rate C (cfg_of w')
    \<and> tcio_rate (c_ospeed (termios_of w')) = answer_rate C (cfg_of w')"
proof -
  note s = start_run [OF assms(4,2)]
  then have c: "bt_vendor_cbacks w0" using assms(2) frame_cbacks by blast
  have t0: "cfg_of w0 \<noteq> HW_CFG_NONE \<longrightarrow> in_tune C w0"
    using s assms(3) by (auto simp: in_tune_def view_def line_speed_in_def)
  have "(cfg_of w' \<noteq> HW_CFG_NONE \<longrightarrow> in_tune C w') \<and> bt_vendor_cbacks w'"
    using assms(5) c
  proof (induction rule: deliver_induct)
    case nil
    show ?case by (rule t0)
  next
    case (snoc es e w1 w2 t)
    show ?case
    proof
      assume "cfg_of w2 \<noteq> HW_CFG_NONE"
      moreover from this have "cfg_of w1 \<noteq> HW_CFG_NONE" using idle_stays [OF snoc.hyps(5)] by (auto simp: view_def)
      ultimately show "in_tune C w2"
        using cback_in_tune [OF snoc.hyps(3,2)] snoc.IH by (simp add: went_on_def)
    qed
  qed
  with assms(6) have "in_tune C w'" by simp
  then show ?thesis using line_rate [OF assms(1)] by (simp add: in_tune_def speeds_def)
qed

text \<open>A world whose port has been opened at 115200.\<close>

definition open_hw :: hw_world where
  "open_hw = idle_hw\<lparr>vnd_userial := (vnd_userial idle_hw)\<lparr>us_termios := zero_termios\<lparr>c_ispeed := B115200, c_ospeed := B115200\<rparr>\<rparr>\<rparr>"

lemma open_hw_fields:
  "bt_vendor_cbacks open_hw" "speeds open_hw = (B115200, B115200)" "frame_of open_hw = frame_of idle_hw"
  "hw_cfg_cb open_hw = hw_cfg_cb idle_hw" "trace open_hw = []"
  by (simp_all add: open_hw_def speeds_def frame_of_def) (simp_all add: idle_hw_def static_state_def)

lemma open_hw_ready: "chip_ok open_hw" "length (vnd_local_bd_addr open_hw) = 6"
  by (simp_all add: open_hw_def idle_hw_def static_state_def chip_ok_def terminated_def)

lemma default_rate_supported: "UART_TARGET_BAUD_RATE default_cfg = 3000000" "supported_rate 3000000"
  by (simp_all add: default_cfg_def supported_rate_def line_speeds_def)

theorem config_keeps_speeds_together_witness:
  "\<exists>w0 w2. hw_config_start sample_env open_hw = Some w0
    \<and> deliver (hw_config_cback default_cfg sample_env) [ok_evt, ok_evt] w0 = Some w2
    \<and> cfg_of w2 = HW_CFG_READ_LOCAL_NAME \<and> tcio_rate (c_ispeed (termios_of w2)) = 3000000
    \<and> tcio_rate (c_ospeed (termios_of w2)) = 3000000"
proof -
  from two_answers [OF open_hw_fields(1) open_hw_ready sample_env_accepts sample_env_sane(3) default_rate]
  obtain w0 w1 w2 where w: "hw_config_start sample_env open_hw = Some w0"
      "hw_config_cback default_cfg sample_env ok_evt w0 = Some w1"
      "hw_config_cback default_cfg sample_env ok_evt w1 = Some w2"
    and c2: "cfg_of w2 = HW_CFG_READ_LOCAL_NAME" by blast
  then have d: "deliver (hw_config_cback default_cfg sample_env) [ok_evt, ok_evt] w0 = Some w2" by simp
  have "supported_rate (UART_TARGET_BAUD_RATE default_cfg)" "cfg_of w2 \<noteq> HW_CFG_NONE"
    using default_rate_supported c2 by simp_all
  from config_keeps_speeds_together [OF this(1) open_hw_fields(1,2) w(1) d this(2)] w d c2 default_rate_supported
  show ?thesis by auto
qed

end
