(* ===== verification/ConfigLive.thy ===== *)
theory ConfigLive
  imports ConfigProps LineSpeed
begin

text \<open>
  The configuration in a closed loop with a controller: the host stack accepts every command, the
  controller answers each one without an error, and the patch file has an end. Then the loop
  ends, and the configuration is reported as a success.
\<close>

section \<open>The closed loop\<close>

text \<open>The controller answers in the state the last command has left behind; the loop is given up
  after n answers.\<close>

fun configure_with ::
  "buildcfg \<Rightarrow> env \<Rightarrow> ('a hw_world_scheme \<Rightarrow> evt) \<Rightarrow> nat \<Rightarrow> 'a hw_world_scheme \<Rightarrow> 'a hw_world_scheme option" where
  "configure_with C E ans 0 w = Some w"
| "configure_with C E ans (Suc n) w =
     (if cfg_of w = HW_CFG_NONE then Some w
      else do { w \<leftarrow> hw_config_cback C E (ans w) w; configure_with C E ans n w })"

text \<open>A controller that answers every command completely and without an error, in all states with
  the frame of w.\<close>

definition cooperative :: "buildcfg \<Rightarrow> env \<Rightarrow> 'a hw_world_scheme \<Rightarrow> ('a hw_world_scheme \<Rightarrow> evt) \<Rightarrow> bool" where
  "cooperative C E w ans \<longleftrightarrow>
     (\<forall>v. frame_of v = frame_of w \<longrightarrow> event_complete C E v (ans v) \<and> evt_status (ans v) = Some 0)"

text \<open>The patch file ends: from the B-th call of \<^verbatim>\<open>read\<close> on, counted from the log tr, there is no
  further record header in it.\<close>

fun is_read :: "event \<Rightarrow> bool" where
  "is_read (ReadEv fd n bs) = True"
| "is_read _ = False"

definition reads :: "event list \<Rightarrow> nat" where
  "reads tr = length (filter is_read tr)"

definition file_ends :: "env \<Rightarrow> event list \<Rightarrow> nat \<Rightarrow> bool" where
  "file_ends E tr B \<longleftrightarrow>
     (\<forall>s fd n bs. B \<le> reads s \<longrightarrow> os_read E (tr @ s) fd n = Some bs \<longrightarrow> length bs < HCI_CMD_PREAMBLE_SIZE)"

lemma reads_simps [simp]:
  "reads [] = 0" "reads (s @ t) = reads s + reads t" "reads (e # s) = (if is_read e then Suc (reads s) else reads s)"
  by (simp_all add: reads_def)

section \<open>Steps with an accepting host\<close>

text \<open>The state that waits for the controller's own address is entered only when that address is
  used.\<close>

definition on_track :: "buildcfg \<Rightarrow> fw_view \<Rightarrow> bool" where
  "on_track C v \<longleftrightarrow> (fst v = HW_CFG_READ_BD_ADDR \<longrightarrow> USE_CONTROLLER_BDADDR C)"

lemma accepted_case:
  assumes "fw_case C E X e q n v es r v'" and "accepting_host E" and "fst v \<noteq> HW_CFG_NONE" and "on_track C v"
  shows "r = TRUE \<and> on_track C v'"
  using assms
  by cases (auto simp: on_track_def cfg_command_def record_command_def dest: answers_sane(3))

lemma accepted_step:
  assumes "fw_step C E X e q v es v'" and "accepting_host E" and "evt_status e = Some 0"
    and "fst v \<noteq> HW_CFG_NONE" and "on_track C v"
  shows "on_track C v'"
    and "reports es = (if fst v' = HW_CFG_NONE then [FwcfgCbEv BT_VND_OP_RESULT_SUCCESS] else [])"
proof -
  have "on_track C v' \<and>
    reports es = (if fst v' = HW_CFG_NONE then [FwcfgCbEv BT_VND_OP_RESULT_SUCCESS] else [])"
    using assms(1)
  proof cases
    case (proceeds n es' r)
    with accepted_case [OF proceeds(2) assms(2,4,5)] case_reports [OF proceeds(2)] show ?thesis by auto
  next
    case (aborts n es' s k fd)
    with accepted_case [OF aborts(3) assms(2,4,5)] show ?thesis by simp
  next
    case (no_buffer s k fd)
    with assms(2) show ?thesis using answers_sane(4) by blast
  next
    case (bad_status st s k fd)
    with assms(3) show ?thesis by simp
  qed
  then show "on_track C v'"
    and "reports es = (if fst v' = HW_CFG_NONE then [FwcfgCbEv BT_VND_OP_RESULT_SUCCESS] else [])" by auto
qed

section \<open>The patch file is used up\<close>

lemma record_reads:
  assumes "read_record E opc b w = Some (True, b', w')"
  shows "\<exists>bs t. os_read E (trace w) (fw_fd_of w) 3 = Some bs \<and> 3 \<le> length bs
    \<and> trace w' = trace w @ t \<and> 0 < reads t"
  using assms
  by (auto simp: read_record_def sys_read_def Let_def map_option_case elim!: bind_SomeE split: option.splits if_splits)

lemma download_reads:
  assumes "cfg_dl_fw_patch C E opc b w = Some (r, w')" and "hdr_ok E b" and "cfg_of w' = HW_CFG_DL_FW_PATCH"
  shows "\<exists>bs fd t. os_read E (trace w) fd 3 = Some bs \<and> 3 \<le> length bs \<and> trace w' = trace w @ t \<and> 0 < reads t"
proof -
  have fin: "False" if "finish_download C E b1 w1 = Some (r, w')" and "hdr_ok E b1" for b1 w1
    using finish_download_run [OF that] assms(3) by auto
  have fd: "0 \<le> fw_fd_of w"
    using assms(1,2) fin by (auto simp: cfg_dl_fw_patch_def split: if_splits)
  with assms(1) obtain full b1 w1 where rd: "read_record E opc b w = Some (full, b1, w1)"
    and k: "(if full then hc_xmit E (u16_of (hb_data b1 ! 0) (hb_data b1 ! 1)) b1 CB_hw_config w1
      else finish_download C E b1 (set_fw_fd (- 1) (log (CloseEv (fw_fd_of w1)) w1))) = Some (r, w')"
    by (auto simp: cfg_dl_fw_patch_def elim!: bind_SomeE split del: if_split)
  have full: "full"
    using k fin read_record_run [OF rd assms(2), THEN conjunct1] by (cases full) (auto simp: read_frame_def)
  then have x: "trace w' = trace w1 @ [XmitEv (u16_of (hb_data b1 ! 0) (hb_data b1 ! 1)) b1 CB_hw_config r]"
    using k by (auto simp: hc_xmit_Some)
  from record_reads [of E opc b w b1 w1] rd full obtain bs t where
    "os_read E (trace w) (fw_fd_of w) 3 = Some bs \<and> 3 \<le> length bs" "trace w1 = trace w @ t" "0 < reads t" by auto
  with x show ?thesis by auto
qed

text \<open>An event that leaves the configuration in the download state has read a record header.\<close>

lemma dispatch_reads:
  assumes "hw_config_dispatch C E e opc b w = Some (r, w')" and "hdr_ok E b"
    and "cfg_of w = HW_CFG_DL_MINIDRIVER \<or> cfg_of w = HW_CFG_DL_FW_PATCH" and "cfg_of w' = HW_CFG_DL_FW_PATCH"
  shows "\<exists>s bs fd t. os_read E (trace w @ s) fd 3 = Some bs \<and> 3 \<le> length bs
    \<and> trace w' = trace w @ s @ t \<and> 0 < reads t"
proof (cases "cfg_of w = HW_CFG_DL_FW_PATCH")
  case True
  with assms download_reads [of C E opc b w r w'] obtain bs fd t where
    "os_read E (trace w) fd 3 = Some bs" "3 \<le> length bs" "trace w' = trace w @ t" "0 < reads t"
    by (auto simp: hw_config_dispatch_def)
  then show ?thesis by (intro exI [of _ "[]"] exI [of _ bs] exI [of _ fd] exI [of _ t]) simp
next
  case False
  with assms obtain w1 where d: "ms_delay E 50 w = Some w1"
    and p: "cfg_dl_fw_patch C E opc b (set_cfg_state HW_CFG_DL_FW_PATCH w1) = Some (r, w')"
    by (auto simp: hw_config_dispatch_def cfg_dl_minidriver_def elim!: bind_SomeE)
  obtain s where "trace w1 = trace w @ s" using ms_delay_sleeps [OF d] by (auto simp: logs_only_def)
  with download_reads [OF p assms(2,4)] show ?thesis by auto
qed

lemma cback_reads:
  assumes "hw_config_cback C E e w = Some w'" and "cfg_of w' = HW_CFG_DL_FW_PATCH" and "bt_vendor_cbacks w"
  shows "\<exists>s bs fd t. os_read E (trace w @ s) fd 3 = Some bs \<and> 3 \<le> length bs
    \<and> trace w' = trace w @ s @ t \<and> 0 < reads t"
proof -
  obtain status :: u8 and opc buf w1 r w2 w3 where
      al: "alloc_if (status = 0 \<and> bt_vendor_cbacks w) E HCI_CMD_MAX_LEN w = Some (buf, w1)"
    and di: "(case buf of None \<Rightarrow> Some (FALSE, w1)
        | Some b \<Rightarrow> hw_config_dispatch C E e opc (set_hdr E 0 b) w1) = Some (r, w2)"
    and op: "evt_opcode e = Some opc" and de: "dealloc_if_cbacks (ev_id e) w2 = Some w3"
    and fi: "(if r = FALSE then hw_config_abort buf w3 else Some w3) = Some w'"
    using assms(1) by (auto simp: hw_config_cback_def elim!: bind_SomeE split del: if_split)
  have r: "r \<noteq> FALSE" using fi assms(2) by (auto simp: hw_config_abort_def elim!: bind_SomeE)
  then obtain b where b: "buf = Some b" using di by (cases buf) auto
  have a: "hc_alloc E HCI_CMD_MAX_LEN w = Some (Some b, w1)"
    using al b by (auto simp: alloc_if_def split: if_splits)
  have w': "w' = w3" using fi r by simp
  then have t3: "trace w' = trace w2 \<or> trace w' = trace w2 @ [DeallocEv (ev_id e)]" and c2: "cfg_of w2 = HW_CFG_DL_FW_PATCH"
    using de assms(2) by (auto simp: if_cbacks_Some split: if_splits)
  obtain al where t1: "trace w1 = trace w @ [al]" using a by (auto elim!: hc_alloc_SomeE)
  have d: "hw_config_dispatch C E e opc (set_hdr E 0 b) w1 = Some (r, w2)" using di b by simp
  have "length (hb_data b) = HCI_CMD_MAX_LEN" using alloc_run [OF a] by simp
  from simulates_dispatch [OF d _ _ op] this obtain es q where
    "fw_case C E (context_of w1) e q (hb_id b) (view w1) es r (view w2)" by (auto simp: simulates_def)
  then have "cfg_of w1 = HW_CFG_DL_MINIDRIVER \<or> cfg_of w1 = HW_CFG_DL_FW_PATCH"
    using c2 by cases (auto simp: view_def split: if_splits)
  from dispatch_reads [OF d _ this c2] obtain s bs fd t where
    "os_read E (trace w1 @ s) fd 3 = Some bs" "3 \<le> length bs" "trace w2 = trace w1 @ s @ t" "0 < reads t"
    by auto
  with t1 t3 show ?thesis
    by (intro exI [of _ "al # s"] exI [of _ bs] exI [of _ fd] exI [of _ "drop (length (trace w1 @ s)) (trace w')"]) auto
qed

section \<open>The configuration succeeds\<close>

text \<open>What holds between the start and the end, relative to the world in which it started.\<close>

definition under_way :: "buildcfg \<Rightarrow> 'a hw_world_scheme \<Rightarrow> 'a hw_world_scheme \<Rightarrow> event list \<Rightarrow> bool" where
  "under_way C w v s \<longleftrightarrow> trace v = trace w @ s \<and> frame_of v = frame_of w \<and> chip_ok v \<and> on_track C (view v) \<and> in_tune C v
     \<and> reports s = (if cfg_of v = HW_CFG_NONE then [FwcfgCbEv BT_VND_OP_RESULT_SUCCESS] else [])"

text \<open>One answer brings the configuration nearer to its end: down in the protocol, or forward in the
  patch file.\<close>

lemma answer_advances:
  assumes "under_way C w v s" and "cfg_of v \<noteq> HW_CFG_NONE" and "bt_vendor_cbacks w"
    and "length (vnd_local_bd_addr w) = 6" and "search_by_name w" and "sleep_remainder_smaller E"
    and "accepting_host E" and "cooperative C E w ans" and "file_ends E (trace w) B"
  shows "\<exists>v' t. hw_config_cback C E (ans v) v = Some v' \<and> under_way C w v' (s @ t)
    \<and> rank (view v') + (B - reads (s @ t)) < rank (view v) + (B - reads s)"
proof -
  note u = assms(1) [unfolded under_way_def]
  have f: "bt_vendor_cbacks v" "length (vnd_local_bd_addr v) = 6" "search_by_name v"
    using u assms(3-5) by (auto simp: frame_of_def search_by_name_def)
  have ans: "event_complete C E v (ans v)" "evt_status (ans v) = Some 0"
    using assms(8) u by (auto simp: cooperative_def)
  obtain v' where v': "hw_config_cback C E (ans v) v = Some v'"
    using cback_defined [OF _ assms(6) f(2) ans(1)] u f(3) by fast
  note cr = cback_refines [OF v' f(1)]
  obtain es t q where es: "fw_step C E (context_of v) (ans v) q (view v) es (view v')" and t: "trace v' = trace v @ t"
    and re: "reports t = reports es"
    using cr(1) reports_effects by (fastforce simp: effects_def)
  note st = accepted_step [OF es assms(7) ans(2)]
  have "FwcfgCbEv BT_VND_OP_RESULT_FAIL \<notin> set t"
  proof
    assume "FwcfgCbEv BT_VND_OP_RESULT_FAIL \<in> set t"
    then have "FwcfgCbEv BT_VND_OP_RESULT_FAIL \<in> set (reports t)" by (simp add: reports_def)
    moreover have "fst (view v) \<noteq> HW_CFG_NONE" "on_track C (view v)" using assms(2) u by (simp_all add: view_def)
    ultimately show False using re st(2) by (simp split: if_splits)
  qed
  then have "in_tune C v'"
    using cback_in_tune [OF v' f(1)] u t by (simp add: went_on_def)
  then have "under_way C w v' (s @ t)"
    using u cr(2,3) t st re assms(2) by (auto simp: under_way_def view_def)
  moreover have "rank (view v') + (B - reads (s @ t)) < rank (view v) + (B - reads s)"
  proof (cases "rank (view v') < rank (view v)")
    case True
    then show ?thesis by simp
  next
    case False
    then have "rank (view v') \<le> rank (view v)" and dl: "cfg_of v' = HW_CFG_DL_FW_PATCH"
      using step_rank [OF es] assms(2) by (auto simp: view_def)
    obtain s1 bs fd t1 where r: "os_read E (trace v @ s1) fd 3 = Some bs" "3 \<le> length bs"
      "trace v' = trace v @ s1 @ t1" "0 < reads t1"
      using cback_reads [OF v' dl f(1)] by blast
    have "\<not> B \<le> reads (s @ s1)"
    proof
      assume "B \<le> reads (s @ s1)"
      with assms(9) have "os_read E (trace w @ s @ s1) fd 3 = Some bs \<longrightarrow> length bs < HCI_CMD_PREAMBLE_SIZE"
        unfolding file_ends_def by blast
      with r(1,2) u show False by simp
    qed
    then show ?thesis using \<open>rank (view v') \<le> rank (view v)\<close> r(3,4) t by auto
  qed
  ultimately show ?thesis using v' by blast
qed

lemma loop_ends:
  assumes "bt_vendor_cbacks w" and "length (vnd_local_bd_addr w) = 6" and "search_by_name w"
    and "sleep_remainder_smaller E" and "accepting_host E" and "cooperative C E w ans"
    and "file_ends E (trace w) B"
  shows "under_way C w v s \<Longrightarrow> rank (view v) + (B - reads s) \<le> n \<Longrightarrow>
    \<exists>v' s'. configure_with C E ans n v = Some v' \<and> under_way C w v' s' \<and> cfg_of v' = HW_CFG_NONE"
proof (induction n arbitrary: v s)
  case 0
  then have "cfg_of v = HW_CFG_NONE" by (cases "cfg_of v") (auto simp: view_def split: if_splits)
  with 0 show ?case by auto
next
  case (Suc n)
  show ?case
  proof (cases "cfg_of v = HW_CFG_NONE")
    case False
    from answer_advances [OF Suc.prems(1) False assms] obtain v1 t where
      "hw_config_cback C E (ans v) v = Some v1" "under_way C w v1 (s @ t)"
      "rank (view v1) + (B - reads (s @ t)) < rank (view v) + (B - reads s)" by blast
    with Suc.IH [of v1 "s @ t"] Suc.prems(2) False show ?thesis by simp
  qed (use Suc.prems in auto)
qed

text \<open>The loop delivers a sequence of events.\<close>

lemma configure_deliver:
  "configure_with C E ans n w = Some w' \<Longrightarrow> \<exists>es. deliver (hw_config_cback C E) es w = Some w' \<and> length es \<le> n"
proof (induction n arbitrary: w)
  case 0
  then show ?case by (intro exI [of _ "[]"]) simp
next
  case (Suc n)
  show ?case
  proof (cases "cfg_of w = HW_CFG_NONE")
    case True
    with Suc.prems show ?thesis by (intro exI [of _ "[]"]) simp
  next
    case False
    with Suc.prems obtain w1 where w1: "hw_config_cback C E (ans w) w = Some w1"
      "configure_with C E ans n w1 = Some w'" by (auto elim!: bind_SomeE)
    with Suc.IH obtain es where "deliver (hw_config_cback C E) es w1 = Some w'" "length es \<le> n" by blast
    with w1(1) show ?thesis by (intro exI [of _ "ans w # es"]) simp
  qed
qed

text \<open>From the start to the report.\<close>

lemma start_to_success:
  assumes "bt_vendor_cbacks w" and "chip_ok w" and "length (vnd_local_bd_addr w) = 6" and "search_by_name w"
    and "sleep_remainder_smaller E" and "accepting_host E" and "cooperative C E w ans"
    and "file_ends E (trace w) B" and "speeds w = (B115200, B115200)"
    and "open_returns_fd E"
  shows "\<exists>w0 w'. hw_config_start E w = Some w0 \<and> configure_with C E ans (11 + B) w0 = Some w'
    \<and> cfg_of w' = HW_CFG_NONE
    \<and> reports (drop (length (trace w)) (trace w')) = [FwcfgCbEv BT_VND_OP_RESULT_SUCCESS]
    \<and> speeds w' = (target_speed C, target_speed C)
    \<and> frame_of w' = frame_of w \<and> chip_ok w' \<and> holds_fds M w M w'"
proof -
  obtain w0 where w0: "hw_config_start E w = Some w0" using start_defined by blast
  have "hc_alloc_addr E (trace w) n \<noteq> None" for n using assms(6) by (simp add: accepting_host_def)
  with start_run [OF w0 assms(1)] obtain z b r where
      f: "frame_of w0 = frame_of w" "chip_name w0 = chip_name w" and v: "view w0 = (HW_CFG_START, False, - 1)"
    and e: "effects w w0 [AllocEv z (Some (hb_id b)), sent HCI_RESET b r]" by blast
  from e obtain s where s: "trace w0 = trace w @ s" by (auto simp: effects_def)
  have "reports s = []" using reports_effects [OF e] s by simp
  then have "under_way C w w0 s"
    using assms(2,9) f s v start_run [OF w0 assms(1)]
    by (auto simp: under_way_def chip_ok_def on_track_def in_tune_def view_def line_speed_in_def)
  moreover have "rank (view w0) + (B - reads s) \<le> 11 + B" by (simp add: v)
  ultimately obtain w' s' where "configure_with C E ans (11 + B) w0 = Some w'" "under_way C w w' s'"
    "cfg_of w' = HW_CFG_NONE"
    using loop_ends [OF assms(1,3-8)] by blast
  moreover from configure_deliver [OF this(1)] obtain es where "deliver (hw_config_cback C E) es w0 = Some w'"
    by blast
  ultimately show ?thesis
    using w0 patch_file_held [OF assms(1,10) w0, of C es w' M] by (auto simp: under_way_def in_tune_def line_speed_in_def split: if_splits)
qed

text \<open>
  C3. A configuration comes to an end, with a success: when the port runs at 115200, the host
  stack has memory and accepts every command, the controller answers each one without an error, and
  the patch file holds no further record after B reads, then the start and at most 11 + B answers
  bring the library back to the idle state, every callback on the way is defined, the one report
  made is the success, the port runs at the configured speed, and every file opened on the way is
  closed.
\<close>

theorem config_succeeds:
  assumes "bt_vendor_cbacks w" and "chip_ok w" and "length (vnd_local_bd_addr w) = 6" and "search_by_name w"
    and "sleep_remainder_smaller E" and "accepting_host E" and "cooperative C E w ans"
    and "file_ends E (trace w) B" and "speeds w = (B115200, B115200)"
    and "open_returns_fd E"
  shows "\<exists>w0 w'. hw_config_start E w = Some w0 \<and> configure_with C E ans (11 + B) w0 = Some w'
    \<and> cfg_of w' = HW_CFG_NONE
    \<and> reports (drop (length (trace w)) (trace w')) = [FwcfgCbEv BT_VND_OP_RESULT_SUCCESS]
    \<and> speeds w' = (target_speed C, target_speed C) \<and> holds_fds M w M w'"
  using start_to_success [OF assms] by blast

lemma open_hw_searches: "search_by_name open_hw"
proof -
  have p: "fw_patchfile_path open_hw = fw_patchfile_path idle_hw" "fw_patchfile_name open_hw = fw_patchfile_name idle_hw"
    by (simp_all add: open_hw_def)
  show ?thesis using default_path_string by (simp add: search_by_name_def p)
qed

lemma patch_env_ends: "file_ends patch_env tr 0"
  by (simp add: patch_env_def sample_env_def file_ends_def)

lemma name_evt_cooperates: "cooperative default_cfg patch_env open_hw (\<lambda>_. name_evt)"
proof -
  have "fw_patchfile_path open_hw = fw_patchfile_path idle_hw" by (simp add: open_hw_def)
  then show ?thesis
    using name_evt_room name_evt_answers default_path_string
    by (auto simp: cooperative_def event_complete_def frame_of_def)
qed

theorem config_succeeds_witness:
  "\<exists>w0 w'. hw_config_start patch_env open_hw = Some w0
    \<and> configure_with default_cfg patch_env (\<lambda>_. name_evt) (11 + 0) w0 = Some w' \<and> cfg_of w' = HW_CFG_NONE
    \<and> reports (drop (length (trace open_hw)) (trace w')) = [FwcfgCbEv BT_VND_OP_RESULT_SUCCESS]
    \<and> speeds w' = (target_speed default_cfg, target_speed default_cfg)
    \<and> holds_fds {#} open_hw {#} w'"
  by (rule config_succeeds [OF open_hw_fields(1) open_hw_ready open_hw_searches patch_env_sleeps patch_env_accepts(1)
        name_evt_cooperates patch_env_ends open_hw_fields(2) patch_env_accepts(2)])

end
