(* ===== verification/Startup.thy ===== *)
theory Startup
  imports Session ConfigLive
begin

text \<open>
  The library as the host stack starts it: the port is opened and the controller initialized through
  the interface, from any state the library can be in after \<^verbatim>\<open>init\<close>. The interface, the serial
  port, the patch search, the download and the line speed work together here.
\<close>

lemma open_frame:
  assumes "vendor_op C E BT_VND_OP_USERIAL_OPEN w = Some (r, out, w')"
  shows "bt_vendor_cbacks w' = bt_vendor_cbacks w"
proof -
  obtain fd v where v: "userial_vendor_open C E userial_init_cfg w = (fd, v)" by fastforce
  then have "w' = v" using assms by (auto simp: vendor_op_def split: if_splits)
  with open_more [OF v] show ?thesis by (cases w; cases v; simp)
qed

lemma open_speeds:
  assumes "vendor_op C E BT_VND_OP_USERIAL_OPEN w = Some (1, out, w')"
  shows "speeds w' = (B115200, B115200)" and "out = FdArray (replicate (CH_MAX E) (fd_of w'))" and "fd_of w' \<noteq> - 1"
  using open_fills_channels [OF assms] by (auto simp: speeds_def split: if_splits)

text \<open>
  C4. The start of the library: in whatever state the library is after \<^verbatim>\<open>init\<close>, once the host stack
  has opened the port with success, has memory and accepts every command, and the controller answers
  without an error, the request for the controller's initialization and its answers, 11 and one for
  each read of the patch file, end in the idle state. One result was reported, the success; the
  channels handed out are still those of the open port, which runs at the configured speed; and the
  library's state is well formed and every other
  descriptor opened on the way is closed.
\<close>

theorem startup_succeeds:
  assumes "reachable C E w" and "cfg_wf C" and "bt_vendor_cbacks w"
    and "vendor_op C E BT_VND_OP_USERIAL_OPEN w = Some (1, out, w1)"
    and "sleep_remainder_smaller E" and "accepting_host E" and "cooperative C E w1 ans"
    and "file_ends E (trace w1) B" and "open_returns_fd E"
  shows "\<exists>w2 w3. vendor_op C E BT_VND_OP_FW_CFG w1 = Some (0, NoOutput, w2)
    \<and> configure_with C E ans (11 + B) w2 = Some w3 \<and> cfg_of w3 = HW_CFG_NONE
    \<and> reports (drop (length (trace w1)) (trace w3)) = [FwcfgCbEv BT_VND_OP_RESULT_SUCCESS]
    \<and> out = FdArray (replicate (CH_MAX E) (fd_of w3)) \<and> fd_of w3 \<noteq> - 1
    \<and> speeds w3 = (target_speed C, target_speed C) \<and> lib_wf w3 \<and> holds_fds M w1 M w3"
proof -
  have "lib_step C E (Op BT_VND_OP_USERIAL_OPEN) w = Some w1" using assms(4) by (simp add: lib_step_def)
  with assms(1) have "reachable C E w1" by (rule reachable.called)
  then have wf: "lib_wf w1" using assms(2) by (rule reachable_wf)
  have cb: "bt_vendor_cbacks w1" using open_frame [OF assms(4)] assms(3) by simp
  note port = open_speeds [OF assms(4)]
  from start_to_success [OF cb wfD(2,3,6) [OF wf] assms(5-8) port(1) assms(9), of M] obtain w2 w3 where
      w2: "hw_config_start E w1 = Some w2" "configure_with C E ans (11 + B) w2 = Some w3"
    and w3: "cfg_of w3 = HW_CFG_NONE" "speeds w3 = (target_speed C, target_speed C)"
      "reports (drop (length (trace w1)) (trace w3)) = [FwcfgCbEv BT_VND_OP_RESULT_SUCCESS]"
      "frame_of w3 = frame_of w1" "chip_ok w3" "holds_fds M w1 M w3"
    by auto
  have "lib_wf w3" using frame_wf [OF w3(4) w3(5) wf] .
  moreover have "fd_of w3 = fd_of w1" using w3(4) by (simp add: frame_of_def)
  ultimately show ?thesis using w2 w3 port by (auto simp: vendor_op_def)
qed

text \<open>A patch file with one record of two bytes, for a controller that gives the name of its chip.\<close>

definition record_env :: env where
  "record_env = patch_env\<lparr>os_read := \<lambda>tr fd n.
     Some (if reads tr = 0 then [0x4C, 0xFC, 2] else if reads tr = 1 then [1, 2] else [])\<rparr>"

lemma record_env_good:
  "sleep_remainder_smaller record_env" "accepting_host record_env" "file_ends record_env tr 2"
  "name_room default_cfg record_env (lit ''/vendor/firmware/'') name_evt" "open_returns_fd record_env"
proof -
  show "sleep_remainder_smaller record_env" "accepting_host record_env" "file_ends record_env tr 2" "open_returns_fd record_env"
    by (simp_all add: record_env_def patch_env_def sample_env_def sleep_remainder_smaller_def
        accepting_host_def file_ends_def open_returns_fd_def)
  show "name_room default_cfg record_env (lit ''/vendor/firmware/'') name_evt"
    using name_evt_room by (simp add: name_room_def patch_dir_ok_def record_env_def)
qed

lemma record_env_opens:
  "\<exists>w1. vendor_op default_cfg record_env BT_VND_OP_USERIAL_OPEN (started default_cfg) = Some (1, FdArray [7, 7, 7, 7], w1)
    \<and> fw_patchfile_path w1 = fw_patchfile_path idle_hw"
proof -
  let ?f = "uc_fmt userial_init_cfg" and ?w = "started default_cfg"
  have f: "?f = 0x209" by (simp add: userial_init_cfg_def)
  have "fmt_data_bits ?f = Some CS8" "fmt_parity ?f = Some 0" "fmt_stop_bits ?f = Some 0"
    by (simp_all add: f fmt_data_bits_def fmt_parity_def fmt_stop_bits_def)
  moreover have "userial_to_tcio_baud (uc_baud userial_init_cfg) = (TRUE, B115200)"
    by (simp add: userial_init_cfg_def userial_to_tcio_baud_def)
  moreover have "os_open record_env (trace ?w) (us_port_name (vnd_userial ?w)) O_RDWR = 7"
    by (simp add: record_env_def patch_env_def sample_env_def)
  ultimately obtain w1 where w1: "userial_vendor_open default_cfg record_env userial_init_cfg ?w = (7, w1)"
    by (auto simp: open_success Let_def)
  have "CH_MAX record_env = 4" by (simp add: record_env_def patch_env_def sample_env_def)
  then have "vendor_op default_cfg record_env BT_VND_OP_USERIAL_OPEN ?w = Some (1, FdArray [7, 7, 7, 7], w1)"
    using w1 by (simp add: vendor_op_def numeral_eq_Suc)
  moreover have "fw_patchfile_path w1 = fw_patchfile_path ?w"
    using open_more [OF w1] by (cases w1; cases ?w; simp)
  moreover have "fw_patchfile_path ?w = fw_patchfile_path idle_hw"
    by (simp add: started_def idle_hw_def upio_init_def userial_vendor_init_def static_state_def Let_def)
  ultimately show ?thesis by auto
qed

theorem startup_succeeds_witness:
  "\<exists>w1 w2 w3. vendor_op default_cfg record_env BT_VND_OP_USERIAL_OPEN (started default_cfg)
        = Some (1, FdArray [7, 7, 7, 7], w1)
    \<and> vendor_op default_cfg record_env BT_VND_OP_FW_CFG w1 = Some (0, NoOutput, w2)
    \<and> configure_with default_cfg record_env (\<lambda>_. name_evt) (11 + 2) w2 = Some w3 \<and> cfg_of w3 = HW_CFG_NONE
    \<and> reports (drop (length (trace w1)) (trace w3)) = [FwcfgCbEv BT_VND_OP_RESULT_SUCCESS]
    \<and> speeds w3 = (target_speed default_cfg, target_speed default_cfg)
    \<and> holds_fds {#7#} w1 {#7#} w3"
proof -
  obtain w1 where w1: "vendor_op default_cfg record_env BT_VND_OP_USERIAL_OPEN (started default_cfg)
      = Some (1, FdArray [7, 7, 7, 7], w1)" and p: "fw_patchfile_path w1 = fw_patchfile_path idle_hw"
    using record_env_opens by blast
  have "cooperative default_cfg record_env w1 (\<lambda>_. name_evt)"
    using record_env_good(4) name_evt_answers default_path_string p
    by (auto simp: cooperative_def event_complete_def frame_of_def)
  from startup_succeeds [OF started_reachable nordic_cfg_wf(1) started_fields(2) w1 record_env_good(1,2) this record_env_good(3,5)] w1
  show ?thesis by blast
qed

end
