(* ===== verification/PatchChoice.thy ===== *)
theory PatchChoice
  imports Conf ConfigDefined
begin

text \<open>
  The configuration file and the download together: the patch file that the file names is the one
  the controller initialization opens.
\<close>

lemma no_nul_patch: "no_nul path \<Longrightarrow> no_nul name \<Longrightarrow> no_nul (patch_string path name)"
  by (simp add: patch_string_def)

text \<open>With a name given, the search looks at no directory.\<close>

lemma findpatch_named:
  assumes "conf_ok w" and "cstr (fw_patchfile_path w) \<noteq> []" and "cstr (fw_patchfile_name w) \<noteq> []"
    and "hw_config_findpatch E blk w = Some (st, blk', w')"
  shows "st = TRUE" and "w' = w" and "terminated blk'"
    and "cstr blk' = patch_string (cstr (fw_patchfile_path w)) (cstr (fw_patchfile_name w))"
proof -
  let ?p = "patch_string (cstr (fw_patchfile_path w)) (cstr (fw_patchfile_name w))"
  have t: "terminated (fw_patchfile_path w)" "terminated (fw_patchfile_name w)" using assms(1) by (simp_all add: conf_ok_def)
  note j = join_path_run [OF t(1) refl assms(2) t(2) refl, of blk]
  have "strlen (fw_patchfile_name w) = Some (length (cstr (fw_patchfile_name w)))" using t(2) by (simp add: strlen_def)
  then have r: "join_path blk (fw_patchfile_path w) (fw_patchfile_name w) = Some blk'" and "st = TRUE" "w' = w"
    using assms(3,4) by (auto simp: hw_config_findpatch.simps elim!: bind_SomeE)
  then show "st = TRUE" "w' = w" by simp_all
  have b: "blk' = ?p @ 0 # drop (Suc (length ?p)) blk" using r unfolding j by (auto split: if_splits)
  have "no_nul ?p" by (intro no_nul_patch) simp_all
  then show "terminated blk'" "cstr blk' = ?p" unfolding b by simp_all
qed

text \<open>The calls that look for a file.\<close>

fun is_lookup :: "event \<Rightarrow> bool" where
  "is_lookup (OpenEv p fl fd) = True"
| "is_lookup (OpendirEv p ok) = True"
| "is_lookup _ = False"

text \<open>So the handler of the controller's name opens that file first.\<close>

lemma name_handler_opens:
  assumes "cfg_read_local_name C E e b w = Some (r, w')" and "conf_ok w"
    and "cstr (fw_patchfile_path w) \<noteq> []" and "cstr (fw_patchfile_name w) \<noteq> []"
  shows "\<exists>fd s. trace w' = trace w
      @ OpenEv (patch_string (cstr (fw_patchfile_path w)) (cstr (fw_patchfile_name w))) O_RDONLY fd # s
    \<and> list_all (\<lambda>e. \<not> is_lookup e) s"
proof -
  obtain off blk chip st path w1 q b1 w2 where
      f: "hw_config_findpatch E (drop off blk) (set_chip_name chip w) = Some (st, path, w1)"
    and o: "(if st = TRUE then open_patch_file E path b w1 else Some (FALSE, b, w1)) = Some (q, b1, w2)"
    and a: "(if q = FALSE then hw_config_set_bdaddr E b1 w2 else Some (q, w2)) = Some (r, w')"
    using assms(1)
    by (auto simp: cfg_read_local_name_def Let_def elim!: bind_SomeE split del: if_split)
  have "conf_ok (set_chip_name chip w)" using assms(2) by (simp add: conf_ok_def)
  note fn = findpatch_named [OF this _ _ f, simplified, OF assms(3,4)]
  have op: "open_patch_file E path b w1 = Some (q, b1, w2)" using o fn(1) by simp
  let ?p = "patch_string (cstr (fw_patchfile_path w)) (cstr (fw_patchfile_name w))"
  have t1: "trace w1 = trace w" using fn(2) by simp
  obtain fd s1 where s1: "trace w2 = trace w @ OpenEv ?p O_RDONLY fd # s1" "list_all (\<lambda>e. \<not> is_lookup e) s1"
    using op fn(4) t1
    by (auto simp: open_patch_file_def sys_open_def send_cfg_def hc_xmit_Some Let_def
        elim!: bind_SomeE split: if_splits)
  obtain s2 where s2: "trace w' = trace w2 @ s2" "list_all (\<lambda>e. \<not> is_lookup e) s2"
    using a by (auto simp: hw_config_set_bdaddr_def send_cfg_def hc_xmit_Some Let_def
        elim!: bind_SomeE split: if_splits)
  show ?thesis by (intro exI [of _ fd] exI [of _ "s1 @ s2"]) (use s1 s2 in simp)
qed

text \<open>The callback around the handler looks for nothing else.\<close>

lemma cback_opens:
  assumes "hw_config_cback C E e w = Some w'" and "bt_vendor_cbacks w" and "cfg_of w = HW_CFG_READ_LOCAL_NAME"
    and "evt_status e = Some 0" and "hc_alloc_addr E (trace w) (command_room E) \<noteq> None"
    and "conf_ok w" and "cstr (fw_patchfile_path w) \<noteq> []" and "cstr (fw_patchfile_name w) \<noteq> []"
  shows "\<exists>fd. filter is_lookup (drop (length (trace w)) (trace w'))
    = [OpenEv (patch_string (cstr (fw_patchfile_path w)) (cstr (fw_patchfile_name w))) O_RDONLY fd]"
proof -
  obtain buf w1 opc r w2 w3 where al: "alloc_if True E HCI_CMD_MAX_LEN w = Some (buf, w1)"
    and di: "(case buf of None \<Rightarrow> Some (FALSE, w1)
        | Some b \<Rightarrow> hw_config_dispatch C E e opc (set_hdr E 0 b) w1) = Some (r, w2)"
    and de: "dealloc_if_cbacks (ev_id e) w2 = Some w3"
    and fi: "(if r = FALSE then hw_config_abort buf w3 else Some w3) = Some w'"
    using assms(1,2,4) by (auto simp: hw_config_cback_def elim!: bind_SomeE split del: if_split)
  have a: "hc_alloc E HCI_CMD_MAX_LEN w = Some (buf, w1)" using al by (simp add: alloc_if_def)
  have "buf \<noteq> None" using alloc_address [OF a] assms(5) by (metis option.map_disc_iff)
  then obtain b where b: "buf = Some b" by blast
  note ar = alloc_run [OF a]
  have f1: "frame_of w1 = frame_of w" "cfg_of w1 = HW_CFG_READ_LOCAL_NAME" using ar assms(3) by simp_all
  have t1: "trace w1 = trace w @ [AllocEv (command_room E) (Some (hb_id b))]"
    using a b by (auto elim!: hc_alloc_SomeE)
  have p1: "conf_ok w1" "fw_patchfile_path w1 = fw_patchfile_path w" "fw_patchfile_name w1 = fw_patchfile_name w"
    using f1(1) assms(6) by (simp_all add: frame_of_def conf_ok_def)
  have "cfg_read_local_name C E e (set_hdr E 0 b) w1 = Some (r, w2)"
    using di b f1(2) by (simp add: hw_config_dispatch_def)
  from name_handler_opens [OF this p1(1)] p1(2,3) assms(7,8) obtain fd s where
    t2: "trace w2 = trace w1 @ OpenEv (patch_string (cstr (fw_patchfile_path w)) (cstr (fw_patchfile_name w))) O_RDONLY fd # s"
      "list_all (\<lambda>e. \<not> is_lookup e) s" by auto
  obtain s3 where t3: "trace w3 = trace w2 @ s3" "list_all (\<lambda>e. \<not> is_lookup e) s3"
    using de by (cases "bt_vendor_cbacks w2") (auto simp: if_cbacks_Some)
  obtain s4 where t4: "trace w' = trace w3 @ s4" "list_all (\<lambda>e. \<not> is_lookup e) s4"
    using fi by (auto simp: hw_config_abort_def close_fw_def elim!: bind_SomeE split: if_splits option.splits)
  show ?thesis
    using t1 t2 t3 t4 by (intro exI [of _ fd]) (simp add: list_all_iff filter_empty_conv)
qed

text \<open>The name in the event has a NUL from byte 32 on, and room for the path of that file behind
  the start of the chip name.\<close>

definition named_room :: "buildcfg \<Rightarrow> bytes \<Rightarrow> bytes \<Rightarrow> evt \<Rightarrow> bool" where
  "named_room C path name e \<longleftrightarrow>
     (let blk = drop 6 (ev_payload e); off = chip_offset C (map toupper (cstr blk))
      in 0 \<in> set (drop 32 blk) \<and> off + 31 \<le> length blk \<and> off + length (patch_string path name) < length blk)"

lemma named_handler_defined:
  assumes "bt_vendor_cbacks w" and "length (chip_name w) = LOCAL_NAME_BUFFER_LEN"
    and "length (vnd_local_bd_addr w) = 6" and "258 \<le> length (hb_data b)" and "hdr_ok E b"
    and "conf_ok w" and "cstr (fw_patchfile_path w) \<noteq> []" and "cstr (fw_patchfile_name w) \<noteq> []"
    and "named_room C (cstr (fw_patchfile_path w)) (cstr (fw_patchfile_name w)) e"
  shows "\<exists>r w'. cfg_read_local_name C E e b w = Some (r, w')"
proof -
  let ?blk = "drop 6 (ev_payload e)" and ?p = "cstr (fw_patchfile_path w)" and ?n = "cstr (fw_patchfile_name w)"
  define off where "off = chip_offset C (map toupper (cstr ?blk))"
  have room: "0 \<in> set (drop 32 ?blk)" "off + 31 \<le> length ?blk" "off + length (patch_string ?p ?n) < length ?blk"
    using assms(9) by (simp_all add: named_room_def Let_def off_def)
  obtain blk chip where i: "identify_chip C ?blk (chip_name w) = Some (off, blk, chip)" "length blk = length ?blk"
    using identify_chip_defined [OF room(1), of C off "chip_name w"] assms(2) room(2) off_def by auto
  define w0 where "w0 = set_chip_name chip w"
  have ok: "conf_ok w0" "fw_patchfile_path w0 = fw_patchfile_path w" "fw_patchfile_name w0 = fw_patchfile_name w"
    using assms(6) by (simp_all add: w0_def conf_ok_def)
  have t: "terminated (fw_patchfile_path w0)" "terminated (fw_patchfile_name w0)" using ok(1) by (simp_all add: conf_ok_def)
  have "length (patch_string ?p ?n) < length (drop off blk)" using room(3) i(2) by simp
  then obtain path where "join_path (drop off blk) (fw_patchfile_path w0) (fw_patchfile_name w0) = Some path"
    using join_path_run [OF t(1) refl _ t(2) refl, of "drop off blk"] assms(7) ok by auto
  then have f: "hw_config_findpatch E (drop off blk) w0 = Some (TRUE, path, w0)"
    using t(2) assms(8) ok(3) by (subst hw_config_findpatch.simps) (simp add: strlen_def)
  have c: "bt_vendor_cbacks w0" "length (vnd_local_bd_addr w0) = 6" using assms(1,3) by (simp_all add: w0_def)
  have "cstr (fw_patchfile_path w0) \<noteq> []" "cstr (fw_patchfile_name w0) \<noteq> []" using assms(7,8) ok by simp_all
  from findpatch_named(3) [OF ok(1) this f] have "terminated path" .
  from found_patch_defined [OF f this c assms(4,5)] obtain q b' w2
    where o: "open_patch_file E path b w0 = Some (q, b', w2)"
      "258 \<le> length (hb_data b')" "bt_vendor_cbacks w2" "length (vnd_local_bd_addr w2) = 6" by auto
  from set_bdaddr_defined [OF o(3,4,2), of E] show ?thesis
    using i(1) f o(1) by (auto simp: cfg_read_local_name_def w0_def Let_def)
qed

text \<open>
  C18. The patch file a configuration file names is the one that is downloaded: after the file was
  loaded, the settings in it (the last one of a kind counts) give a directory and a name, and when
  the controller's own name arrives without an error, and the command buffer for the next step is
  allocated, the configuration opens exactly that file in that directory and searches no
  directory. The controller's name must have room for it: a NUL from its byte 32 on, 31 bytes from
  the chip name on, and behind the start of the chip name more bytes than the path is long (for a
  name without that room see the theorems on overruns).
\<close>

theorem configured_patch_is_opened:
  fixes w w1 w2 :: "'a hw_world_scheme"
  assumes "conf_ok w" and "os_file E (trace w) file = Some content" and "vnd_load_conf C E file w = Some w1"
    and "v = fold (conf_set C) (file_settings content) (conf_view w)" and "cv_path v \<noteq> []" and "cv_name v \<noteq> []"
    and "frame_of w2 = frame_of w1" and "bt_vendor_cbacks w2" and "cfg_of w2 = HW_CFG_READ_LOCAL_NAME"
    and "length (chip_name w2) = LOCAL_NAME_BUFFER_LEN" and "length (vnd_local_bd_addr w2) = 6"
    and "evt_status e = Some 0" and "hc_alloc_addr E (trace w2) (command_room E) \<noteq> None"
    and "named_room C (cv_path v) (cv_name v) e"
  shows "\<exists>w' fd. hw_config_cback C E e w2 = Some w' \<and> filter is_lookup (drop (length (trace w2)) (trace w'))
    = [OpenEv (patch_string (cv_path v) (cv_name v)) O_RDONLY fd]"
proof -
  note load = conf_load_runs [OF assms(1,3), unfolded assms(2) option.case]
  have f: "fw_patchfile_path w2 = fw_patchfile_path w1" "fw_patchfile_name w2 = fw_patchfile_name w1"
    using assms(7) by (simp_all add: frame_of_def)
  have "v = conf_view w1" using load assms(4) by simp
  then have v: "cv_path v = cstr (fw_patchfile_path w2)" "cv_name v = cstr (fw_patchfile_name w2)"
    using \<open>v = conf_view w1\<close> f by (simp_all add: conf_view_def)
  have ok: "conf_ok w2" using load f by (simp add: conf_ok_def)
  have "6 \<le> length (ev_payload e)" using assms(12) by (auto simp: evt_status_def nth_opt_def split: if_splits)
  moreover have "\<exists>r w'. hw_config_dispatch C E e opc b u = Some (r, w')"
    if u: "frame_of u = frame_of w2" "hw_cfg_cb u = hw_cfg_cb w2" "bt_vendor_cbacks u"
      and b: "length (hb_data b) = HCI_CMD_MAX_LEN" "hdr_ok E b" for opc b and u :: "'a hw_world_scheme"
  proof -
    have "fw_patchfile_path u = fw_patchfile_path w2" "fw_patchfile_name u = fw_patchfile_name w2"
      "vnd_local_bd_addr u = vnd_local_bd_addr w2" using u(1) by (simp_all add: frame_of_def)
    with named_handler_defined [of u b E C e] ok assms(5,6,9-11,14) u b v show ?thesis
      by (simp add: hw_config_dispatch_def conf_ok_def)
  qed
  ultimately have "hw_config_cback C E e w2 \<noteq> None" by (rule cback_defined_if)
  then obtain w' where w': "hw_config_cback C E e w2 = Some w'" by fast
  then show ?thesis
    using cback_opens [OF w' assms(8,9,12,13) ok] assms(5,6) v by simp
qed

text \<open>A file that names a patch for the default directory.\<close>

definition conf_env :: env where
  "conf_env = sample_env\<lparr>os_file := \<lambda>_ _. Some (name_line (lit ''bcm.hcd'') @ [10])\<rparr>"

lemma conf_load_keeps:
  assumes "vnd_load_conf C E path w = Some w'"
  shows "bt_vendor_cbacks w' = bt_vendor_cbacks w" and "vnd_local_bd_addr w' = vnd_local_bd_addr w"
    and "hw_cfg_cb w' = hw_cfg_cb w"
proof -
  let ?same = "\<lambda>u v. bt_vendor_cbacks v = bt_vendor_cbacks u \<and> vnd_local_bd_addr v = vnd_local_bd_addr u
    \<and> hw_cfg_cb v = hw_cfg_cb u"
  have walk: "?same u v" if "conf_walk (conf_table C) k x u = Some v" for k x and u v :: "'a hw_world_scheme"
    using that
    by (auto simp: conf_walk_table userial_set_port_def hw_set_patch_file_path_def hw_set_patch_file_name_def
          hw_set_patch_settlement_delay_def elim!: bind_SomeE split: if_splits)
  have all: "apply_settings C ss u = Some v \<Longrightarrow> ?same u v" for ss and u v :: "'a hw_world_scheme"
  proof (induction ss arbitrary: u)
    case (Cons s ss)
    then obtain u1 where "conf_walk (conf_table C) (fst s) (snd s) u = Some u1" "apply_settings C ss u1 = Some v"
      by (auto elim!: bind_SomeE)
    with walk Cons.IH show ?case by fastforce
  qed simp
  have "?same w w'"
    using assms by (auto simp: vnd_load_conf_def conf_lines_settings elim!: bind_SomeE split: option.splits dest!: all)
  then show "bt_vendor_cbacks w' = bt_vendor_cbacks w" "vnd_local_bd_addr w' = vnd_local_bd_addr w"
    "hw_cfg_cb w' = hw_cfg_cb w" by auto
qed

lemma conf_env_file:
  "os_file conf_env tr p = Some (name_line (lit ''bcm.hcd'') @ [10])"
  "file_settings (name_line (lit ''bcm.hcd'') @ [10]) = [(entry_FwPatchFileName, lit ''bcm.hcd'')]"
  by (simp add: conf_env_def) (rule name_line_file, simp_all add: CONF_DELIMITERS_def)

lemma conf_env_loads: "\<exists>w1. vnd_load_conf default_cfg conf_env (lit ''bt_vendor.conf'') idle_hw = Some w1"
proof -
  have "\<not> overruns default_cfg (entry_FwPatchFileName, lit ''bcm.hcd'')" by (simp add: overruns_def conf_entries)
  then show ?thesis
    using conf_load_total [OF idle_conf_ok conf_env_file(1), of default_cfg "lit ''bt_vendor.conf''"]
    unfolding conf_env_file(2) by auto
qed

theorem configured_patch_is_opened_witness:
  "\<exists>w1 w' fd. vnd_load_conf default_cfg conf_env (lit ''bt_vendor.conf'') idle_hw = Some w1
    \<and> hw_config_cback default_cfg conf_env name_evt (set_cfg_state HW_CFG_READ_LOCAL_NAME w1) = Some w'
    \<and> filter is_lookup (drop (length (trace w1)) (trace w'))
        = [OpenEv (lit ''/vendor/firmware/bcm.hcd'') O_RDONLY fd]"
proof -
  obtain w1 where w1: "vnd_load_conf default_cfg conf_env (lit ''bt_vendor.conf'') idle_hw = Some w1"
    using conf_env_loads by blast
  let ?v = "conf_set default_cfg (entry_FwPatchFileName, lit ''bcm.hcd'') (conf_view idle_hw)"
    and ?w2 = "set_cfg_state HW_CFG_READ_LOCAL_NAME w1"
  have v: "?v = fold (conf_set default_cfg) (file_settings (name_line (lit ''bcm.hcd'') @ [10])) (conf_view idle_hw)"
    unfolding conf_env_file(2) by simp
  have p: "cv_path ?v = lit ''/vendor/firmware/''" "cv_name ?v = lit ''bcm.hcd''"
    using default_path_string by (simp_all add: conf_set_def conf_entries conf_view_def)
  have k: "bt_vendor_cbacks ?w2" "cfg_of ?w2 = HW_CFG_READ_LOCAL_NAME" "length (chip_name ?w2) = LOCAL_NAME_BUFFER_LEN"
    "length (vnd_local_bd_addr ?w2) = 6" "frame_of ?w2 = frame_of w1"
    using conf_load_keeps [OF w1] by (simp_all add: idle_hw_def static_state_def)
  have e: "evt_status name_evt = Some 0" by (simp add: name_evt_def evt_status_def nth_opt_def nth_append)
  have a: "hc_alloc_addr conf_env (trace ?w2) (command_room conf_env) \<noteq> None"
    by (simp add: conf_env_def sample_env_def)
  have r: "named_room default_cfg (cv_path ?v) (cv_name ?v) name_evt"
    unfolding p by (simp add: named_room_def chip_offset_def name_evt_def toupper_def cstr_def patch_string_def)
  have n: "cv_path ?v \<noteq> []" "cv_name ?v \<noteq> []" unfolding p by simp_all
  from configured_patch_is_opened [OF idle_conf_ok conf_env_file(1) w1 v n k(5,1,2,3,4) e a r] w1 p
  show ?thesis by (fastforce simp: patch_string_def)
qed

end
