(* ===== verification/WakeRace.thy ===== *)
theory WakeRace
  imports Upio
begin

text \<open>
  upio.c with its two threads. The holding timer notifies by a thread of its own
  (\<^verbatim>\<open>SIGEV_THREAD\<close>), and nothing locks the pin's state against it: a BT_WAKE request of the host stack
  and \<^verbatim>\<open>proc_btwrite_timeout\<close> interleave access by access. Here the BT_WAKE case of \<^verbatim>\<open>upio_set\<close> is cut
  into its accesses to shared variables and its calls.
\<close>

section \<open>A request, access by access\<close>

text \<open>Where a thread is: the next thing it does. A descriptor and the timer specification are
  local variables of the thread.\<close>

datatype wake_pc =
    Fire | Check | CheckActive | Record | Ioctl | Open | Write int | Mark int | Fill int
  | Settime int itimer | Notify int | Close int | Done

definition hold_spec :: "buildcfg \<Rightarrow> itimer" where
  "hold_spec C = ArmTimer (PROC_BTWRITE_TIMER_TIMEOUT_MS C div 1000)
     (1000000 * (PROC_BTWRITE_TIMER_TIMEOUT_MS C mod 1000))"

definition after_write :: "buildcfg \<Rightarrow> int \<Rightarrow> wake_pc" where
  "after_write C fd = (if BT_WAKE_VIA_PROC_NOTIFY_DEASSERT C then Notify fd else Close fd)"

fun wake_step ::
  "buildcfg \<Rightarrow> env \<Rightarrow> u8 \<Rightarrow> wake_pc \<Rightarrow> 'a up_world_scheme \<Rightarrow> wake_pc \<times> 'a up_world_scheme" where
  "wake_step C E action Fire w = (Check, set_active FALSE w)"
| "wake_step C E action Check w =
     (if pin UPIO_BT_WAKE w = action then (if BT_WAKE_VIA_PROC C then CheckActive else Done) else Record, w)"
| "wake_step C E action CheckActive w =
     (if btwrite_active (lpm_proc_cb w) = TRUE then Done else Record, w)"
| "wake_step C E action Record w =
     (if BT_WAKE_VIA_USERIAL_IOCTL C then Ioctl
      else if BT_WAKE_VIA_PROC C \<and> (BT_WAKE_VIA_PROC_NOTIFY_DEASSERT C \<or> action \<noteq> UPIO_DEASSERT) then Open
      else Done, set_pin UPIO_BT_WAKE action w)"
| "wake_step C E action Ioctl w =
     (Done, userial_vendor_ioctl C (if action = UPIO_ASSERT then USERIAL_OP_ASSERT_BT_WAKE
                                    else USERIAL_OP_DEASSERT_BT_WAKE) w)"
| "wake_step C E action Open w =
     (let (fd, w) = sys_open E (VENDOR_BTWRITE_PROC_NODE C) O_WRONLY w
      in (if fd < 0 then Done else Write fd, w))"
| "wake_step C E action (Write fd) w =
     (let buffer = (if BT_WAKE_VIA_PROC_NOTIFY_DEASSERT C \<and> action = UPIO_DEASSERT then CHR ''0'' else CHR ''1'');
          (ok, w) = sys_write E fd [of_char buffer] w
      in (if ok \<and> PROC_BTWRITE_TIMER_TIMEOUT_MS C \<noteq> 0
          then (if action = UPIO_ASSERT then Mark fd else Settime fd DisarmTimer)
          else after_write C fd, w))"
| "wake_step C E action (Mark fd) w = (Fill fd, set_active TRUE w)"
| "wake_step C E action (Fill fd) w =
     (Settime fd (if timer_created (lpm_proc_cb w) = TRUE then hold_spec C else IndeterminateTimer), w)"
| "wake_step C E action (Settime fd ts) w =
     (after_write C fd, log (TimerSettimeEv (timer_id (lpm_proc_cb w)) ts) w)"
| "wake_step C E action (Notify fd) w = (Close fd, set_active TRUE w)"
| "wake_step C E action (Close fd) w = (Done, log (CloseEv fd) w)"
| "wake_step C E action Done w = (Done, w)"

text \<open>How far a thread still has to go at most.\<close>

fun pc_rank :: "wake_pc \<Rightarrow> nat" where
  "pc_rank Fire = 11"
| "pc_rank Check = 10"
| "pc_rank CheckActive = 9"
| "pc_rank Record = 8"
| "pc_rank Ioctl = 1"
| "pc_rank Open = 7"
| "pc_rank (Write fd) = 6"
| "pc_rank (Mark fd) = 5"
| "pc_rank (Fill fd) = 4"
| "pc_rank (Settime fd ts) = 3"
| "pc_rank (Notify fd) = 2"
| "pc_rank (Close fd) = 1"
| "pc_rank Done = 0"

lemma wake_step_rank: "wake_step C E a p w = (p', w') \<Longrightarrow> pc_rank p' \<le> pc_rank p - 1"
  by (cases p) (auto simp: sys_simps after_write_def)

section \<open>A thread on its own\<close>

fun run_alone :: "('p \<Rightarrow> 'w \<Rightarrow> 'p \<times> 'w) \<Rightarrow> nat \<Rightarrow> 'p \<Rightarrow> 'w \<Rightarrow> 'p \<times> 'w" where
  "run_alone f 0 p w = (p, w)"
| "run_alone f (Suc n) p w = (let (p, w) = f p w in run_alone f n p w)"

lemma alone_done [simp]: "run_alone (wake_step C E a) n Done w = (Done, w)"
  by (induction n) simp_all

text \<open>Enough steps: the rest of a request depends on where the thread is, not on the number of
  steps granted.\<close>

lemma alone_close: "1 \<le> n \<Longrightarrow> run_alone (wake_step C E a) n (Close fd) w = (Done, log (CloseEv fd) w)"
  by (cases n) simp_all

lemma alone_after:
  "2 \<le> n \<Longrightarrow> run_alone (wake_step C E a) n (after_write C fd) w =
     (Done, log (CloseEv fd) (if BT_WAKE_VIA_PROC_NOTIFY_DEASSERT C then set_active TRUE w else w))"
  by (cases n) (auto simp: after_write_def alone_close)

lemma alone_settime:
  "3 \<le> n \<Longrightarrow> run_alone (wake_step C E a) n (Settime fd ts) w = run_alone (wake_step C E a) 2 (after_write C fd)
     (log (TimerSettimeEv (timer_id (lpm_proc_cb w)) ts) w)"
  by (cases n) (auto simp: alone_after)

lemma alone_mark:
  "5 \<le> n \<Longrightarrow> run_alone (wake_step C E UPIO_ASSERT) n (Mark fd) w =
     run_alone (wake_step C E UPIO_ASSERT) 2 (after_write C fd) (upio_start_stop_timer C UPIO_ASSERT w)"
  by (cases n; cases "n - 1")
    (auto simp: alone_settime alone_after upio_start_stop_timer_def hold_spec_def)

lemma alone_stop:
  "3 \<le> n \<Longrightarrow> a \<noteq> UPIO_ASSERT \<Longrightarrow> run_alone (wake_step C E a) n (Settime fd DisarmTimer) w =
     run_alone (wake_step C E a) 2 (after_write C fd) (upio_start_stop_timer C a w)"
  by (simp add: alone_settime upio_start_stop_timer_def)

lemma alone_write:
  assumes "6 \<le> n"
  shows "run_alone (wake_step C E a) n (Write fd) w =
    (let buffer = (if BT_WAKE_VIA_PROC_NOTIFY_DEASSERT C \<and> a = UPIO_DEASSERT then CHR ''0'' else CHR ''1'');
         (ok, w) = sys_write E fd [of_char buffer] w
     in run_alone (wake_step C E a) 2 (after_write C fd)
          (if ok \<and> PROC_BTWRITE_TIMER_TIMEOUT_MS C \<noteq> 0 then upio_start_stop_timer C a w else w))"
  using assms by (cases n) (auto simp: alone_mark alone_stop alone_after Let_def split: prod.splits)

lemma alone_ioctl:
  "1 \<le> n \<Longrightarrow> run_alone (wake_step C E a) n Ioctl w =
     (Done, userial_vendor_ioctl C (if a = UPIO_ASSERT then USERIAL_OP_ASSERT_BT_WAKE
                                    else USERIAL_OP_DEASSERT_BT_WAKE) w)"
  by (cases n) simp_all

lemma alone_open:
  "7 \<le> n \<Longrightarrow> run_alone (wake_step C E a) n Open w =
     (let (fd, w) = sys_open E (VENDOR_BTWRITE_PROC_NODE C) O_WRONLY w
      in if fd < 0 then (Done, w) else run_alone (wake_step C E a) 6 (Write fd) w)"
  by (cases n) (auto simp: alone_write Let_def split: prod.splits)

lemma alone_record:
  assumes "8 \<le> n" and "pin UPIO_BT_WAKE w \<noteq> a \<or> (BT_WAKE_VIA_PROC C \<and> btwrite_active (lpm_proc_cb w) \<noteq> TRUE)"
  shows "run_alone (wake_step C E a) n Record w = (Done, upio_set_bt_wake C E a w)"
proof -
  obtain m where m: "n = Suc m" "7 \<le> m" using assms(1) by (cases n) auto
  show ?thesis
    using assms(2) m
    by (auto simp: upio_set_bt_wake_def alone_ioctl alone_open alone_write alone_after Let_def
          split: prod.splits)
qed

lemma alone_request:
  assumes "10 \<le> n"
  shows "run_alone (wake_step C E a) n Check w = (Done, upio_set_bt_wake C E a w)"
proof -
  obtain m where m: "n = Suc (Suc m)" "8 \<le> m" using assms by (cases n; cases "n - 1") auto
  show ?thesis
  proof (cases "pin UPIO_BT_WAKE w = a \<and> (BT_WAKE_VIA_PROC C \<longrightarrow> btwrite_active (lpm_proc_cb w) = TRUE)")
    case True
    then show ?thesis using m by (simp add: upio_set_bt_wake_def)
  next
    case False
    then have "pin UPIO_BT_WAKE w \<noteq> a \<or> (BT_WAKE_VIA_PROC C \<and> btwrite_active (lpm_proc_cb w) \<noteq> TRUE)" by blast
    with m alone_record [OF _ this, of "Suc m"] alone_record [OF _ this, of m] show ?thesis by auto
  qed
qed

text \<open>
  C21. The cut is right: a thread that runs on its own, access by access, does exactly what the
  operation does, a request in at most ten steps and the timer's thread in at most eleven, in every
  build configuration and every environment.
\<close>

theorem wake_steps_make_request:
  "run_alone (wake_step C E a) 10 Check w = (Done, upio_set C E UPIO_BT_WAKE a p w)
    \<and> run_alone (wake_step C E UPIO_DEASSERT) 11 Fire w = (Done, proc_btwrite_timeout C E w)"
proof -
  have "run_alone (wake_step C E UPIO_DEASSERT) 11 Fire w = run_alone (wake_step C E UPIO_DEASSERT) 10 Check (set_active FALSE w)"
    by (simp add: numeral_eq_Suc)
  then show ?thesis by (simp add: alone_request proc_btwrite_timeout_def upio_set_def)
qed

section \<open>Two threads\<close>

text \<open>Two threads over one state: the schedule says which one takes the next step, True the
  first.\<close>

fun interleave ::
  "('p \<Rightarrow> 'w \<Rightarrow> 'p \<times> 'w) \<Rightarrow> ('q \<Rightarrow> 'w \<Rightarrow> 'q \<times> 'w) \<Rightarrow> bool list \<Rightarrow> 'p \<times> 'q \<times> 'w \<Rightarrow> 'p \<times> 'q \<times> 'w" where
  "interleave f g [] s = s"
| "interleave f g (True # bs) (p, q, w) = (let (p, w) = f p w in interleave f g bs (p, q, w))"
| "interleave f g (False # bs) (p, q, w) = (let (q, w) = g q w in interleave f g bs (p, q, w))"

text \<open>What a pair of threads owes to each other: every step of either one keeps the invariant and
  brings its thread closer to its end.\<close>

locale thread_pair =
  fixes f :: "'p \<Rightarrow> 'w \<Rightarrow> 'p \<times> 'w" and g :: "'q \<Rightarrow> 'w \<Rightarrow> 'q \<times> 'w"
    and inv :: "'p \<Rightarrow> 'q \<Rightarrow> 'w \<Rightarrow> bool" and rf :: "'p \<Rightarrow> nat" and rg :: "'q \<Rightarrow> nat"
  assumes first: "inv p q w \<Longrightarrow> f p w = (p', w') \<Longrightarrow> inv p' q w'"
    and second: "inv p q w \<Longrightarrow> g q w = (q', w') \<Longrightarrow> inv p q' w'"
    and first_rank: "f p w = (p', w') \<Longrightarrow> rf p' \<le> rf p - 1"
    and second_rank: "g q w = (q', w') \<Longrightarrow> rg q' \<le> rg q - 1"
begin

lemma interleave_keeps:
  assumes "inv p q w" and "interleave f g bs (p, q, w) = (p', q', w')"
  shows "inv p' q' w'"
  using assms
proof (induction bs arbitrary: p q w)
  case (Cons b bs)
  obtain p1 w1 where f: "f p w = (p1, w1)" by fastforce
  obtain q2 w2 where g: "g q w = (q2, w2)" by fastforce
  show ?case
  proof (cases b)
    case True
    with Cons.prems f show ?thesis using Cons.IH [OF first [OF Cons.prems(1) f]] by simp
  next
    case False
    with Cons.prems g show ?thesis using Cons.IH [OF second [OF Cons.prems(1) g]] by simp
  qed
qed simp

lemma interleave_ranks:
  assumes "interleave f g bs (p, q, w) = (p', q', w')"
  shows "rf p' \<le> rf p - count_list bs True" and "rg q' \<le> rg q - count_list bs False"
  using assms
proof (induction bs arbitrary: p q w)
  case (Cons b bs)
  {
    case 1
    show ?case
    proof (cases b)
      case True
      obtain p1 w1 where s: "f p w = (p1, w1)" by fastforce
      with True 1 Cons.IH(1) [of p1 q w1] first_rank [OF s] show ?thesis by simp
    next
      case False
      obtain q1 w1 where s: "g q w = (q1, w1)" by fastforce
      with False 1 Cons.IH(1) [of p q1 w1] show ?thesis by simp
    qed
  next
    case 2
    show ?case
    proof (cases b)
      case True
      obtain p1 w1 where s: "f p w = (p1, w1)" by fastforce
      with True 2 Cons.IH(2) [of p1 q w1] show ?thesis by simp
    next
      case False
      obtain q1 w1 where s: "g q w = (q1, w1)" by fastforce
      with False 2 Cons.IH(2) [of p q1 w1] second_rank [OF s] show ?thesis by simp
    qed
  }
qed simp_all

text \<open>A schedule that gives both threads their turns runs both to their ends.\<close>

lemma interleave_ends:
  assumes "rf p \<le> count_list bs True" and "rg q \<le> count_list bs False"
    and "interleave f g bs (p, q, w) = (p', q', w')"
  shows "rf p' = 0" and "rg q' = 0"
  using interleave_ranks [OF assms(3)] assms(1,2) by simp_all

end

section \<open>The request and the timer's thread\<close>

fun pc_fd :: "wake_pc \<Rightarrow> int multiset" where
  "pc_fd (Write fd) = {#fd#}"
| "pc_fd (Mark fd) = {#fd#}"
| "pc_fd (Fill fd) = {#fd#}"
| "pc_fd (Settime fd ts) = {#fd#}"
| "pc_fd (Notify fd) = {#fd#}"
| "pc_fd (Close fd) = {#fd#}"
| "pc_fd p = {#}"

text \<open>A thread that has recorded its request, or found it recorded.\<close>

definition recorded :: "wake_pc \<Rightarrow> bool" where
  "recorded p \<longleftrightarrow> p \<noteq> Fire \<and> p \<noteq> Check \<and> p \<noteq> Record"

text \<open>Which points a request for a level can reach.\<close>

fun pc_ok :: "buildcfg \<Rightarrow> u8 \<Rightarrow> wake_pc \<Rightarrow> bool" where
  "pc_ok C a (Mark fd) = (a = UPIO_ASSERT)"
| "pc_ok C a (Fill fd) = (a = UPIO_ASSERT)"
| "pc_ok C a (Notify fd) = BT_WAKE_VIA_PROC_NOTIFY_DEASSERT C"
| "pc_ok C a p = True"

definition will_arm :: "buildcfg \<Rightarrow> wake_pc \<Rightarrow> bool" where
  "will_arm C p \<longleftrightarrow> (\<exists>fd. p = Fill fd \<or> p = Settime fd (hold_spec C))"

definition has_timer :: "nat \<Rightarrow> 'a up_world_scheme \<Rightarrow> bool" where
  "has_timer i w \<longleftrightarrow> timer_created (lpm_proc_cb w) = TRUE \<and> timer_id (lpm_proc_cb w) = i"

definition race_inv ::
  "buildcfg \<Rightarrow> u8 \<Rightarrow> nat \<Rightarrow> event list \<Rightarrow> wake_pc \<Rightarrow> wake_pc \<Rightarrow> 'a up_world_scheme \<Rightarrow> bool" where
  "race_inv C a i tr p q w \<longleftrightarrow>
     length (upio_state w) = UPIO_MAX_COUNT \<and> has_timer i w
     \<and> p \<noteq> Fire \<and> pc_ok C a p \<and> pc_ok C UPIO_DEASSERT q
     \<and> (recorded p \<or> recorded q \<longrightarrow> pin UPIO_BT_WAKE w = a \<or> pin UPIO_BT_WAKE w = UPIO_DEASSERT)
     \<and> (\<exists>s. trace w = tr @ s
          \<and> (\<forall>M. account fd_step M s = Some (pc_fd p + pc_fd q + M))
          \<and> (\<not> BT_WAKE_VIA_PROC_NOTIFY_DEASSERT C \<and> q \<noteq> Fire \<and> btwrite_active (lpm_proc_cb w) = TRUE
              \<longrightarrow> will_arm C p \<or> TimerSettimeEv i (hold_spec C) \<in> set s))"

lemmas race_defs = race_inv_def recorded_def will_arm_def has_timer_def after_write_def

lemma ioctl_keeps:
  "upio_state (userial_vendor_ioctl C oper w) = upio_state w"
  "lpm_proc_cb (userial_vendor_ioctl C oper w) = lpm_proc_cb w"
  by (simp_all add: frame_simps)

lemma ioctl_fds: "\<exists>s. trace (userial_vendor_ioctl C oper w) = trace w @ s \<and> (\<forall>M. account fd_step M s = Some M)"
  by (cases oper) (simp_all add: userial_vendor_ioctl_def)

text \<open>What one step adds to the log, whoever takes it.\<close>

lemma step_trace:
  assumes "wake_step C E a p w = (p', w')"
  shows "\<exists>s. trace w' = trace w @ s \<and> (\<forall>M. account fd_step (pc_fd p + M) s = Some (pc_fd p' + M))"
  using assms ioctl_fds
  by (cases p) (auto simp: sys_simps after_write_def split: if_splits)

lemma step_state:
  assumes "wake_step C E a p w = (p', w')"
  shows "upio_state w' = (if p = Record then (upio_state w)[0 := a] else upio_state w)"
    and "timer_created (lpm_proc_cb w') = timer_created (lpm_proc_cb w)"
    and "timer_id (lpm_proc_cb w') = timer_id (lpm_proc_cb w)"
    and "pc_ok C a p \<Longrightarrow> pc_ok C a p'" and "p' \<noteq> Fire"
    and "recorded p' \<Longrightarrow> recorded p \<or> upio_state w' ! 0 = a \<or> p = Record"
  using assms
  by (cases p; auto simp: sys_simps after_write_def recorded_def ioctl_keeps split: if_splits)+

text \<open>Without the release being written, only a request for assertion marks the write active, on its
  way to arm the timer, and only the timer's thread takes the mark away, before anything else.\<close>

lemma step_arms:
  assumes "wake_step C E a p w = (p', w')" and "has_timer i w" and "pc_ok C a p"
    and "\<not> BT_WAKE_VIA_PROC_NOTIFY_DEASSERT C" and "btwrite_active (lpm_proc_cb w') = TRUE"
  shows "will_arm C p' \<or> (\<exists>t. trace w' = trace w @ t \<and> TimerSettimeEv i (hold_spec C) \<in> set t)
    \<or> btwrite_active (lpm_proc_cb w) = TRUE \<and> \<not> will_arm C p"
  using assms
  by (cases p) (auto simp: sys_simps after_write_def will_arm_def has_timer_def ioctl_keeps split: if_splits)

lemma step_keeps_mark:
  assumes "wake_step C E UPIO_DEASSERT q w = (q', w')" and "pc_ok C UPIO_DEASSERT q"
    and "\<not> BT_WAKE_VIA_PROC_NOTIFY_DEASSERT C" and "btwrite_active (lpm_proc_cb w') = TRUE"
  shows "btwrite_active (lpm_proc_cb w) = TRUE \<and> q \<noteq> Fire"
  using assms
  by (cases q) (auto simp: sys_simps after_write_def ioctl_keeps split: if_splits)

lemma race_first:
  assumes "race_inv C a i tr p q w" and st: "wake_step C E a p w = (p', w')"
  shows "race_inv C a i tr p' q w'"
proof -
  note ss = step_state [OF st]
  from assms(1) obtain s where len: "length (upio_state w) = UPIO_MAX_COUNT" and tm: "has_timer i w"
    and pc: "pc_ok C a p" "pc_ok C UPIO_DEASSERT q" "p \<noteq> Fire"
    and lv: "recorded p \<or> recorded q \<longrightarrow> pin UPIO_BT_WAKE w = a \<or> pin UPIO_BT_WAKE w = UPIO_DEASSERT"
    and s: "trace w = tr @ s" "\<forall>M. account fd_step M s = Some (pc_fd p + pc_fd q + M)"
    and arm: "\<not> BT_WAKE_VIA_PROC_NOTIFY_DEASSERT C \<and> q \<noteq> Fire \<and> btwrite_active (lpm_proc_cb w) = TRUE
      \<longrightarrow> will_arm C p \<or> TimerSettimeEv i (hold_spec C) \<in> set s"
    unfolding race_inv_def by blast
  obtain t where t: "trace w' = trace w @ t" "\<forall>M. account fd_step (pc_fd p + M) t = Some (pc_fd p' + M)"
    using step_trace [OF st] by blast
  have "account fd_step M (s @ t) = Some (pc_fd p' + pc_fd q + M)" for M
    using s(2) t(2) by (simp add: account_append add.assoc)
  moreover have "recorded p' \<or> recorded q \<longrightarrow> pin UPIO_BT_WAKE w' = a \<or> pin UPIO_BT_WAKE w' = UPIO_DEASSERT"
    using ss(1,6) lv len by auto
  moreover have "will_arm C p' \<or> TimerSettimeEv i (hold_spec C) \<in> set (s @ t)"
    if "\<not> BT_WAKE_VIA_PROC_NOTIFY_DEASSERT C" "q \<noteq> Fire" "btwrite_active (lpm_proc_cb w') = TRUE"
    using step_arms [OF st tm pc(1) that(1,3)] t(1) arm that by auto
  moreover have "length (upio_state w') = UPIO_MAX_COUNT" using ss(1) len by auto
  moreover have "has_timer i w'" using tm ss(2,3) by (simp add: has_timer_def)
  ultimately show ?thesis
    using ss(4) [OF pc(1)] ss(5) pc(2) s(1) t(1) unfolding race_inv_def by (metis append.assoc)
qed

lemma race_second:
  assumes "race_inv C a i tr p q w" and st: "wake_step C E UPIO_DEASSERT q w = (q', w')"
  shows "race_inv C a i tr p q' w'"
proof -
  note ss = step_state [OF st]
  from assms(1) obtain s where len: "length (upio_state w) = UPIO_MAX_COUNT" and tm: "has_timer i w"
    and pc: "pc_ok C a p" "pc_ok C UPIO_DEASSERT q" "p \<noteq> Fire"
    and lv: "recorded p \<or> recorded q \<longrightarrow> pin UPIO_BT_WAKE w = a \<or> pin UPIO_BT_WAKE w = UPIO_DEASSERT"
    and s: "trace w = tr @ s" "\<forall>M. account fd_step M s = Some (pc_fd p + pc_fd q + M)"
    and arm: "\<not> BT_WAKE_VIA_PROC_NOTIFY_DEASSERT C \<and> q \<noteq> Fire \<and> btwrite_active (lpm_proc_cb w) = TRUE
      \<longrightarrow> will_arm C p \<or> TimerSettimeEv i (hold_spec C) \<in> set s"
    unfolding race_inv_def by blast
  obtain t where t: "trace w' = trace w @ t" "\<forall>M. account fd_step (pc_fd q + M) t = Some (pc_fd q' + M)"
    using step_trace [OF st] by blast
  have "account fd_step M (s @ t) = Some (pc_fd p + pc_fd q' + M)" for M
    using s(2) t(2) [rule_format, of "pc_fd p + M"] by (simp add: account_append ac_simps)
  moreover have "recorded p \<or> recorded q' \<longrightarrow> pin UPIO_BT_WAKE w' = a \<or> pin UPIO_BT_WAKE w' = UPIO_DEASSERT"
    using ss(1,6) lv len by auto
  moreover have "will_arm C p \<or> TimerSettimeEv i (hold_spec C) \<in> set (s @ t)"
    if "\<not> BT_WAKE_VIA_PROC_NOTIFY_DEASSERT C" "btwrite_active (lpm_proc_cb w') = TRUE"
    using step_keeps_mark [OF st pc(2) that] arm that by auto
  moreover have "length (upio_state w') = UPIO_MAX_COUNT" using ss(1) len by auto
  moreover have "has_timer i w'" using tm ss(2,3) by (simp add: has_timer_def)
  ultimately show ?thesis
    using ss(4) [OF pc(2)] pc(1,3) s(1) t(1) unfolding race_inv_def by (metis append.assoc)
qed

interpretation wake_threads: thread_pair "wake_step C E a" "wake_step C E UPIO_DEASSERT"
    "race_inv C a i tr" pc_rank pc_rank
  by unfold_locales (fact race_first race_second wake_step_rank)+

section \<open>Properties\<close>

text \<open>The pins after LPM was switched on: the timer exists.\<close>

definition timed_up :: up_world where
  "timed_up = idle_up\<lparr>upio_state := [UPIO_ASSERT, UPIO_UNKNOWN, UPIO_ASSERT],
     lpm_proc_cb := \<lparr>btwrite_active = TRUE, timer_created = TRUE, timer_id = 1\<rparr>\<rparr>"

lemma rank_zero: "pc_rank p = 0 \<longleftrightarrow> p = Done"
  by (cases p) simp_all

text \<open>
  C19. However a BT_WAKE request and the thread of the holding timer interleave, once both have
  had their turns both have ended, each descriptor opened on the way is closed, and the pin is
  recorded at the level of one of the two. As long as a release is not written (the header's
  setting), no interleaving leaves a write marked as active unless its timer has been started.
\<close>

theorem wake_threads_settle:
  assumes "length (upio_state w) = UPIO_MAX_COUNT" and "timer_created (lpm_proc_cb w) = TRUE"
    and "10 \<le> count_list sched True" and "11 \<le> count_list sched False"
    and "interleave (wake_step C E a) (wake_step C E UPIO_DEASSERT) sched (Check, Fire, w) = (p, q, w')"
  shows "p = Done \<and> q = Done \<and> holds_fds M w M w'
    \<and> (pin UPIO_BT_WAKE w' = a \<or> pin UPIO_BT_WAKE w' = UPIO_DEASSERT)
    \<and> (\<not> BT_WAKE_VIA_PROC_NOTIFY_DEASSERT C \<and> btwrite_active (lpm_proc_cb w') = TRUE
        \<longrightarrow> TimerSettimeEv (timer_id (lpm_proc_cb w)) (hold_spec C) \<in> set (drop (length (trace w)) (trace w')))"
proof -
  let ?inv = "race_inv C a (timer_id (lpm_proc_cb w)) (trace w)"
  have "?inv Check Fire w"
    using assms(1,2) by (auto simp: race_defs intro!: exI [of _ "[]"])
  note k = wake_threads.interleave_keeps [OF this assms(5)]
  have d: "p = Done" "q = Done"
    using wake_threads.interleave_ends [OF _ _ assms(5)] assms(3,4) by (simp_all add: rank_zero)
  from k [unfolded d race_inv_def] show ?thesis
    by (auto simp: d holds_fds_def recorded_def will_arm_def)
qed

theorem wake_threads_settle_witness:
  "\<exists>w'. interleave (wake_step proc_cfg sample_env UPIO_ASSERT) (wake_step proc_cfg sample_env UPIO_DEASSERT)
      (concat (replicate 11 [True, False])) (Check, Fire, timed_up) = (Done, Done, w')
    \<and> holds_fds {#} timed_up {#} w'
    \<and> (pin UPIO_BT_WAKE w' = UPIO_ASSERT \<or> pin UPIO_BT_WAKE w' = UPIO_DEASSERT)
    \<and> (btwrite_active (lpm_proc_cb w') = TRUE
        \<longrightarrow> TimerSettimeEv 1 (hold_spec proc_cfg) \<in> set (drop (length (trace timed_up)) (trace w')))"
proof -
  let ?s = "concat (replicate 11 [True, False])"
  obtain p q w' where r: "interleave (wake_step proc_cfg sample_env UPIO_ASSERT)
      (wake_step proc_cfg sample_env UPIO_DEASSERT) ?s (Check, Fire, timed_up) = (p, q, w')"
    by (metis prod_cases3)
  have c: "10 \<le> count_list ?s True" "11 \<le> count_list ?s False" by (simp_all add: numeral_eq_Suc)
  have t: "length (upio_state timed_up) = UPIO_MAX_COUNT" "timer_created (lpm_proc_cb timed_up) = TRUE"
    by (simp_all add: timed_up_def idle_up_def)
  show ?thesis
    using wake_threads_settle [OF t c r, of "{#}"] r by (simp add: timed_up_def proc_cfg_def default_cfg_def)
qed

text \<open>The calls that reach the device: digits written to the node and orders to the timer.\<close>

fun is_wake_call :: "event \<Rightarrow> bool" where
  "is_wake_call (WriteEv fd bs ok) = True"
| "is_wake_call (TimerSettimeEv i ts) = True"
| "is_wake_call e = False"

text \<open>The request is recorded between the two steps in which the thread of the timer takes the mark
  away and records the release; the digits are written in one order, the orders to the timer in the
  other.\<close>

definition bad_schedule :: "bool list" where
  "bad_schedule = [False, True, True, True, False, False, False, False,
     True, True, True, True, True, True, True, False, False, False]"

text \<open>
  C35. Nothing locks the two threads against each other. When releases are written too, the holding
  timer fires while the host stack asserts BT_WAKE, and the request falls between the accesses of
  the timer's thread, the node is left at 1 and the timer stopped, while the pin is recorded as
  released and the write as active: every later release is taken for a repetition and ignored, so
  the chip is kept awake until the next assertion. In either order of the two without the
  interleaving, the digit written last and the timer agree: released and stopped, or asserted and
  running.
\<close>

theorem wake_race_keeps_chip_awake:
  assumes "BT_WAKE_VIA_PROC C" and "BT_WAKE_VIA_PROC_NOTIFY_DEASSERT C" and "\<not> BT_WAKE_VIA_USERIAL_IOCTL C"
    and "PROC_BTWRITE_TIMER_TIMEOUT_MS C \<noteq> 0"
    and "\<forall>tr. os_open E tr (VENDOR_BTWRITE_PROC_NODE C) O_WRONLY = fd" and "0 \<le> fd" and "\<forall>tr f b. os_write E tr f b"
    and "length (upio_state w) = UPIO_MAX_COUNT" and "has_timer i w"
    and "pin UPIO_BT_WAKE w = UPIO_ASSERT" and "btwrite_active (lpm_proc_cb w) = TRUE"
  shows "(\<exists>w'. interleave (wake_step C E UPIO_ASSERT) (wake_step C E UPIO_DEASSERT) bad_schedule (Check, Fire, w)
        = (Done, Done, w')
      \<and> filter is_wake_call (drop (length (trace w)) (trace w'))
        = [WriteEv fd (lit ''0'') True, WriteEv fd (lit ''1'') True,
           TimerSettimeEv i (hold_spec C), TimerSettimeEv i DisarmTimer]
      \<and> (\<forall>r. upio_set C E UPIO_BT_WAKE UPIO_DEASSERT r w' = w'))
    \<and> filter is_wake_call (drop (length (trace w))
          (trace (proc_btwrite_timeout C E (upio_set C E UPIO_BT_WAKE UPIO_ASSERT 1 w))))
        = [WriteEv fd (lit ''0'') True, TimerSettimeEv i DisarmTimer]
    \<and> filter is_wake_call (drop (length (trace w))
          (trace (upio_set C E UPIO_BT_WAKE UPIO_ASSERT 1 (proc_btwrite_timeout C E w))))
        = [WriteEv fd (lit ''0'') True, TimerSettimeEv i DisarmTimer,
           WriteEv fd (lit ''1'') True, TimerSettimeEv i (hold_spec C)]"
  using assms by (auto simp: bad_schedule_def sys_simps after_write_def has_timer_def upio_set_def upio_set_bt_wake_def proc_btwrite_timeout_def upio_start_stop_timer_def hold_spec_def)

theorem wake_race_keeps_chip_awake_witness:
  "\<exists>w'. interleave (wake_step (proc_cfg\<lparr>BT_WAKE_VIA_PROC_NOTIFY_DEASSERT := True\<rparr>) sample_env UPIO_ASSERT)
      (wake_step (proc_cfg\<lparr>BT_WAKE_VIA_PROC_NOTIFY_DEASSERT := True\<rparr>) sample_env UPIO_DEASSERT)
      bad_schedule (Check, Fire, timed_up) = (Done, Done, w')
    \<and> filter is_wake_call (trace w') = [WriteEv 7 (lit ''0'') True, WriteEv 7 (lit ''1'') True,
        TimerSettimeEv 1 (ArmTimer 8 0), TimerSettimeEv 1 DisarmTimer]
    \<and> upio_set (proc_cfg\<lparr>BT_WAKE_VIA_PROC_NOTIFY_DEASSERT := True\<rparr>) sample_env UPIO_BT_WAKE UPIO_DEASSERT 1 w' = w'"
  using wake_race_keeps_chip_awake [of "proc_cfg\<lparr>BT_WAKE_VIA_PROC_NOTIFY_DEASSERT := True\<rparr>" sample_env 7 timed_up 1]
  by (auto simp: proc_cfg_def default_cfg_def sample_env_def timed_up_def idle_up_def has_timer_def hold_spec_def)

end
