(* ===== verification/LpmRace.thy ===== *)
theory LpmRace
  imports WakeRace
begin

text \<open>
  upio.c with its two threads, second part: a sleep mode request of the host stack, which makes and
  deletes the holding timer, against the thread of that timer.
\<close>

section \<open>A sleep mode request, access by access\<close>

datatype lpm_pc =
    LTest | LRecord | LOpen | LCheck int | LDelete int | LUnmark int | LWrite int
  | LMissing int | LCreate int | LMark int | LClose int | LDone

abbreviation set_created :: "u8 \<Rightarrow> 'a up_world_scheme \<Rightarrow> 'a up_world_scheme" where
  "set_created c w \<equiv> w\<lparr>lpm_proc_cb := (lpm_proc_cb w)\<lparr>timer_created := c\<rparr>\<rparr>"

fun lpm_step ::
  "buildcfg \<Rightarrow> env \<Rightarrow> u8 \<Rightarrow> lpm_pc \<Rightarrow> 'a up_world_scheme \<Rightarrow> lpm_pc \<times> 'a up_world_scheme" where
  "lpm_step C E action LTest w = (if pin UPIO_LPM_MODE w = action then LDone else LRecord, w)"
| "lpm_step C E action LRecord w =
     (if BT_WAKE_VIA_PROC C then LOpen else LDone, set_pin UPIO_LPM_MODE action w)"
| "lpm_step C E action LOpen w =
     (let (fd, w) = sys_open E (VENDOR_LPM_PROC_NODE C) O_WRONLY w
      in (if fd < 0 then LDone else if action = UPIO_ASSERT then LWrite fd else LCheck fd, w))"
| "lpm_step C E action (LCheck fd) w =
     (if timer_created (lpm_proc_cb w) = TRUE then LDelete fd else LWrite fd, w)"
| "lpm_step C E action (LDelete fd) w = (LUnmark fd, log (TimerDeleteEv (timer_id (lpm_proc_cb w))) w)"
| "lpm_step C E action (LUnmark fd) w = (LWrite fd, set_created FALSE w)"
| "lpm_step C E action (LWrite fd) w =
     (let buffer = (if action = UPIO_ASSERT then CHR ''1'' else CHR ''0'');
          (ok, w) = sys_write E fd [of_char buffer] w
      in (if ok \<and> PROC_BTWRITE_TIMER_TIMEOUT_MS C \<noteq> 0 \<and> action = UPIO_ASSERT then LMissing fd else LClose fd, w))"
| "lpm_step C E action (LMissing fd) w =
     (if timer_created (lpm_proc_cb w) = FALSE then LCreate fd else LClose fd, w)"
| "lpm_step C E action (LCreate fd) w =
     (case os_timer_create E (trace w) of
        None \<Rightarrow> (LClose fd, log (TimerCreateEv None) w)
      | Some t \<Rightarrow> (LMark fd, log (TimerCreateEv (Some t)) (w\<lparr>lpm_proc_cb := (lpm_proc_cb w)\<lparr>timer_id := t\<rparr>\<rparr>)))"
| "lpm_step C E action (LMark fd) w = (LClose fd, set_created TRUE w)"
| "lpm_step C E action (LClose fd) w = (LDone, log (CloseEv fd) w)"
| "lpm_step C E action LDone w = (LDone, w)"

fun lpm_rank :: "lpm_pc \<Rightarrow> nat" where
  "lpm_rank LTest = 11"
| "lpm_rank LRecord = 10"
| "lpm_rank LOpen = 9"
| "lpm_rank (LCheck fd) = 8"
| "lpm_rank (LDelete fd) = 7"
| "lpm_rank (LUnmark fd) = 6"
| "lpm_rank (LWrite fd) = 5"
| "lpm_rank (LMissing fd) = 4"
| "lpm_rank (LCreate fd) = 3"
| "lpm_rank (LMark fd) = 2"
| "lpm_rank (LClose fd) = 1"
| "lpm_rank LDone = 0"

lemma lpm_step_rank: "lpm_step C E a p w = (p', w') \<Longrightarrow> lpm_rank p' \<le> lpm_rank p - 1"
  by (cases p) (auto simp: sys_simps split: option.splits)

section \<open>A request on its own\<close>

lemma alone_lpm_done [simp]: "run_alone (lpm_step C E a) n LDone w = (LDone, w)"
  by (induction n) simp_all

lemma alone_lpm_close: "1 \<le> n \<Longrightarrow> run_alone (lpm_step C E a) n (LClose fd) w = (LDone, log (CloseEv fd) w)"
  by (cases n) simp_all

lemma alone_lpm_create:
  assumes "3 \<le> n"
  shows "run_alone (lpm_step C E a) n (LCreate fd) w = (LDone, log (CloseEv fd) (create_btwrite_timer E w))"
proof -
  obtain m where "n = Suc (Suc m)" "1 \<le> m" using assms by (cases n; cases "n - 1") auto
  then show ?thesis by (auto simp: create_btwrite_timer_def alone_lpm_close log_def split: option.splits)
qed

lemma alone_lpm_write:
  assumes "5 \<le> n"
  shows "run_alone (lpm_step C E a) n (LWrite fd) w =
    (let (ok, w) = sys_write E fd [of_char (if a = UPIO_ASSERT then CHR ''1'' else CHR ''0'')] w;
         w = (if ok \<and> PROC_BTWRITE_TIMER_TIMEOUT_MS C \<noteq> 0 \<and> a = UPIO_ASSERT
                \<and> timer_created (lpm_proc_cb w) = FALSE then create_btwrite_timer E w else w)
     in (LDone, log (CloseEv fd) w))"
proof -
  obtain m where "n = Suc (Suc m)" "3 \<le> m" using assms by (cases n; cases "n - 1") auto
  then show ?thesis
    by (auto simp: alone_lpm_close alone_lpm_create Let_def split: prod.splits)
qed

lemma alone_lpm_delete:
  fixes w :: "'a up_world_scheme"
  assumes "8 \<le> n"
  shows "run_alone (lpm_step C E a) n (LCheck fd) w = run_alone (lpm_step C E a) 5 (LWrite fd)
    (if timer_created (lpm_proc_cb w) = TRUE
     then log (TimerDeleteEv (timer_id (lpm_proc_cb w))) (set_created FALSE w) else w)"
proof -
  obtain k where k: "n = Suc (Suc (Suc k))" "5 \<le> k"
    using assms by (cases n; cases "n - 1"; cases "n - 2") auto
  have c: "set_created FALSE (log e w) = log e (set_created FALSE w)" for e by (simp add: log_def)
  have rest: "run_alone (lpm_step C E a) l (LWrite fd) v = run_alone (lpm_step C E a) 5 (LWrite fd) v"
    if "5 \<le> l" for l and v :: "'a up_world_scheme"
    using that by (simp add: alone_lpm_write)
  show ?thesis
  proof (cases "timer_created (lpm_proc_cb w) = TRUE")
    case True
    then have "run_alone (lpm_step C E a) n (LCheck fd) w = run_alone (lpm_step C E a) k (LWrite fd)
        (set_created FALSE (log (TimerDeleteEv (timer_id (lpm_proc_cb w))) w))"
      unfolding k(1) by simp
    with True show ?thesis by (simp only: rest [OF k(2)] c if_True simp_thms)
  next
    case False
    then have "run_alone (lpm_step C E a) n (LCheck fd) w = run_alone (lpm_step C E a) (Suc (Suc k)) (LWrite fd) w"
      unfolding k(1) by (simp del: run_alone.simps add: run_alone.simps(2) [of _ "Suc (Suc k)"])
    with False show ?thesis by (simp only: rest [OF le_SucI [OF le_SucI [OF k(2)]]] if_False simp_thms)
  qed
qed

lemma alone_lpm_request:
  assumes "11 \<le> n"
  shows "run_alone (lpm_step C E a) n LTest w = (LDone, upio_set_lpm_mode C E a w)"
proof -
  obtain m where "n = Suc (Suc (Suc m))" "8 \<le> m"
    using assms by (cases n; cases "n - 1"; cases "n - 2") auto
  then show ?thesis
    by (auto simp: upio_set_lpm_mode_def alone_lpm_delete alone_lpm_write Let_def split: prod.splits)
qed

text \<open>A sleep mode request that runs on its own does what the operation does.\<close>

theorem sleep_steps_make_request:
  "run_alone (lpm_step C E a) 11 LTest w = (LDone, upio_set C E UPIO_LPM_MODE a p w)"
  by (simp add: alone_lpm_request upio_set_def)

section \<open>The request and the timer's thread\<close>

fun lpm_fd :: "lpm_pc \<Rightarrow> int multiset" where
  "lpm_fd (LCheck fd) = {#fd#}"
| "lpm_fd (LDelete fd) = {#fd#}"
| "lpm_fd (LUnmark fd) = {#fd#}"
| "lpm_fd (LWrite fd) = {#fd#}"
| "lpm_fd (LMissing fd) = {#fd#}"
| "lpm_fd (LCreate fd) = {#fd#}"
| "lpm_fd (LMark fd) = {#fd#}"
| "lpm_fd (LClose fd) = {#fd#}"
| "lpm_fd p = {#}"

text \<open>The timer there is: between the call and the flag, the flag is behind.\<close>

fun lpm_timers :: "lpm_pc \<Rightarrow> 'a up_world_scheme \<Rightarrow> nat multiset" where
  "lpm_timers (LUnmark fd) w = {#}"
| "lpm_timers (LMark fd) w = {#timer_id (lpm_proc_cb w)#}"
| "lpm_timers p w = timers w"

fun lpm_ok :: "lpm_pc \<Rightarrow> 'a up_world_scheme \<Rightarrow> bool" where
  "lpm_ok (LDelete fd) w = (timer_created (lpm_proc_cb w) = TRUE)"
| "lpm_ok (LUnmark fd) w = (timer_created (lpm_proc_cb w) = TRUE)"
| "lpm_ok (LCreate fd) w = (timer_created (lpm_proc_cb w) = FALSE)"
| "lpm_ok (LMark fd) w = (timer_created (lpm_proc_cb w) = FALSE)"
| "lpm_ok p w = True"

fun is_settime :: "event \<Rightarrow> bool" where
  "is_settime (TimerSettimeEv i ts) = True"
| "is_settime e = False"

text \<open>As long as releases are not written, the timer's thread reaches no call but the ioctl.\<close>

definition timer_pc :: "buildcfg \<Rightarrow> wake_pc \<Rightarrow> bool" where
  "timer_pc C q \<longleftrightarrow> pc_ok C UPIO_DEASSERT q
     \<and> (\<not> BT_WAKE_VIA_PROC_NOTIFY_DEASSERT C \<longrightarrow> q \<noteq> Open \<and> pc_fd q = {#})"

lemma ioctl_calls:
  "\<exists>s. trace (userial_vendor_ioctl C oper w) = trace w @ s \<and> list_all (\<lambda>e. \<not> is_timer e \<and> \<not> is_settime e) s"
  by (cases oper) (simp_all add: userial_vendor_ioctl_def)

lemma thread_calls:
  assumes "wake_step C E UPIO_DEASSERT q w = (q', w')" and "timer_pc C q"
  shows "timer_pc C q'"
    and "\<exists>t. trace w' = trace w @ t \<and> list_all (\<lambda>e. \<not> is_timer e) t
      \<and> (\<not> BT_WAKE_VIA_PROC_NOTIFY_DEASSERT C \<longrightarrow> list_all (\<lambda>e. \<not> is_settime e) t)"
  using assms ioctl_calls
  by (cases q; auto simp: timer_pc_def sys_simps after_write_def split: if_splits; fastforce simp: list_all_iff)+

lemma lpm_calls:
  assumes "lpm_step C E a p w = (p', w')" and "lpm_ok p w"
  shows "lpm_ok p' w'"
    and "\<exists>t. trace w' = trace w @ t \<and> list_all (\<lambda>e. \<not> is_settime e) t
      \<and> (\<forall>M. account fd_step (lpm_fd p + M) t = Some (lpm_fd p' + M))
      \<and> (\<forall>N. account timer_step (lpm_timers p w + N) t = Some (lpm_timers p' w' + N))"
    and "upio_state w' = (if p = LRecord then (upio_state w)[2 := a] else upio_state w)"
    and "p' = LTest \<or> p' = LRecord \<Longrightarrow> p = LTest"
    and "p = LTest \<Longrightarrow> p' = LDone \<Longrightarrow> pin UPIO_LPM_MODE w' = a"
  using assms
  by (cases p; auto simp: sys_simps timers_def split: if_splits option.splits)+

text \<open>What both threads keep, from the log tr and the timers K at the start.\<close>

definition sleep_inv ::
  "buildcfg \<Rightarrow> u8 \<Rightarrow> event list \<Rightarrow> nat multiset \<Rightarrow> lpm_pc \<Rightarrow> wake_pc \<Rightarrow> 'a up_world_scheme \<Rightarrow> bool" where
  "sleep_inv C a tr K p q w \<longleftrightarrow>
     length (upio_state w) = UPIO_MAX_COUNT \<and> lpm_ok p w \<and> timer_pc C q
     \<and> (p \<noteq> LTest \<and> p \<noteq> LRecord \<longrightarrow> pin UPIO_LPM_MODE w = a)
     \<and> (\<exists>s. trace w = tr @ s
          \<and> (\<forall>M. account fd_step M s = Some (lpm_fd p + pc_fd q + M))
          \<and> (\<forall>N. account timer_step (K + N) s = Some (lpm_timers p w + N))
          \<and> (\<not> BT_WAKE_VIA_PROC_NOTIFY_DEASSERT C \<longrightarrow> list_all (\<lambda>e. \<not> is_settime e) s))"

lemma sleep_first:
  assumes "sleep_inv C a tr K p q w" and st: "lpm_step C E a p w = (p', w')"
  shows "sleep_inv C a tr K p' q w'"
proof -
  from assms(1) obtain s where len: "length (upio_state w) = UPIO_MAX_COUNT" and ok: "lpm_ok p w" "timer_pc C q"
    and lv: "p \<noteq> LTest \<and> p \<noteq> LRecord \<longrightarrow> pin UPIO_LPM_MODE w = a"
    and s: "trace w = tr @ s" "\<forall>M. account fd_step M s = Some (lpm_fd p + pc_fd q + M)"
      "\<forall>N. account timer_step (K + N) s = Some (lpm_timers p w + N)"
      "\<not> BT_WAKE_VIA_PROC_NOTIFY_DEASSERT C \<longrightarrow> list_all (\<lambda>e. \<not> is_settime e) s"
    unfolding sleep_inv_def by blast
  note lc = lpm_calls [OF st ok(1)]
  from lc(2) obtain t where t: "trace w' = trace w @ t" "list_all (\<lambda>e. \<not> is_settime e) t"
    "\<forall>M. account fd_step (lpm_fd p + M) t = Some (lpm_fd p' + M)"
    "\<forall>N. account timer_step (lpm_timers p w + N) t = Some (lpm_timers p' w' + N)"
    by blast
  have "account fd_step M (s @ t) = Some (lpm_fd p' + pc_fd q + M)" for M
    using s(2) t(3) by (simp add: account_append add.assoc)
  moreover have "account timer_step (K + N) (s @ t) = Some (lpm_timers p' w' + N)" for N
    using s(3) t(4) by (simp add: account_append)
  moreover have "p' \<noteq> LTest \<and> p' \<noteq> LRecord \<longrightarrow> pin UPIO_LPM_MODE w' = a"
  proof (cases "p = LTest")
    case True
    then have "p' = LDone \<or> p' = LRecord" using st by (auto split: if_splits)
    with True lc(5) show ?thesis by auto
  next
    case False
    then show ?thesis using lc(3) lv len by (cases "p = LRecord") simp_all
  qed
  ultimately show ?thesis
    using lc(1,3) len ok(2) s(1,4) t(1,2) by (auto simp: sleep_inv_def intro!: exI [of _ "s @ t"])
qed

lemma sleep_second:
  assumes "sleep_inv C a tr K p q w" and st: "wake_step C E UPIO_DEASSERT q w = (q', w')"
  shows "sleep_inv C a tr K p q' w'"
proof -
  from assms(1) obtain s where len: "length (upio_state w) = UPIO_MAX_COUNT" and ok: "lpm_ok p w" "timer_pc C q"
    and lv: "p \<noteq> LTest \<and> p \<noteq> LRecord \<longrightarrow> pin UPIO_LPM_MODE w = a"
    and s: "trace w = tr @ s" "\<forall>M. account fd_step M s = Some (lpm_fd p + pc_fd q + M)"
      "\<forall>N. account timer_step (K + N) s = Some (lpm_timers p w + N)"
      "\<not> BT_WAKE_VIA_PROC_NOTIFY_DEASSERT C \<longrightarrow> list_all (\<lambda>e. \<not> is_settime e) s"
    unfolding sleep_inv_def by blast
  note ss = step_state [OF st] and tc = thread_calls [OF st ok(2)]
  from tc(2) obtain t where t: "trace w' = trace w @ t" "list_all (\<lambda>e. \<not> is_timer e) t"
    "\<not> BT_WAKE_VIA_PROC_NOTIFY_DEASSERT C \<longrightarrow> list_all (\<lambda>e. \<not> is_settime e) t" by blast
  have "account fd_step (pc_fd q + M) t = Some (pc_fd q' + M)" for M
    using step_trace [OF st] t(1) by auto
  from this [of "lpm_fd p + M" for M] have "account fd_step M (s @ t) = Some (lpm_fd p + pc_fd q' + M)" for M
    using s(2) by (simp add: account_append ac_simps)
  moreover have "timers w' = timers w" using ss(2,3) by (simp add: timers_def)
  then have "lpm_timers p w' = lpm_timers p w" using ss(3) by (cases p) simp_all
  then have "account timer_step (K + N) (s @ t) = Some (lpm_timers p w' + N)" for N
    using s(3) account_timerless [OF t(2)] by (simp add: account_append)
  moreover have "lpm_ok p w'" using ok(1) ss(2) by (cases p) simp_all
  moreover have "pin UPIO_LPM_MODE w' = pin UPIO_LPM_MODE w" using ss(1) by simp
  ultimately show ?thesis
    using ss(1) len tc(1) lv s(1,4) t(1,3) by (auto simp: sleep_inv_def intro!: exI [of _ "s @ t"])
qed

interpretation sleep_threads: thread_pair "lpm_step C E a" "wake_step C E UPIO_DEASSERT"
    "sleep_inv C a tr K" lpm_rank pc_rank
  by unfold_locales (fact sleep_first sleep_second lpm_step_rank wake_step_rank)+

section \<open>Properties\<close>

lemma lpm_rank_zero: "lpm_rank p = 0 \<longleftrightarrow> p = LDone"
  by (cases p) simp_all

text \<open>
  C20. However a sleep mode request and the thread of the holding timer interleave, once both have
  had their turns both have ended, the descriptors they opened are closed, the mode is recorded as
  requested, and the timer is there exactly if its flag says so: never created twice, never
  deleted twice. As long as releases are not written (the header's setting), the thread gives the
  timer no order, so it cannot meet a timer that the request has just deleted.
\<close>

theorem sleep_threads_settle:
  assumes "length (upio_state w) = UPIO_MAX_COUNT"
    and "11 \<le> count_list sched True" and "11 \<le> count_list sched False"
    and "interleave (lpm_step C E a) (wake_step C E UPIO_DEASSERT) sched (LTest, Fire, w) = (p, q, w')"
  shows "p = LDone \<and> q = Done \<and> pin UPIO_LPM_MODE w' = a \<and> holds_fds M w M w'
    \<and> holds_timers (timers w + N) w (timers w' + N) w'
    \<and> (\<not> BT_WAKE_VIA_PROC_NOTIFY_DEASSERT C \<longrightarrow>
        list_all (\<lambda>e. \<not> is_settime e) (drop (length (trace w)) (trace w')))"
proof -
  let ?inv = "sleep_inv C a (trace w) (timers w)"
  have "?inv LTest Fire w" using assms(1) by (simp add: sleep_inv_def timer_pc_def)
  note k = sleep_threads.interleave_keeps [OF this assms(4)]
  have d: "p = LDone" "q = Done"
    using sleep_threads.interleave_ends [OF _ _ assms(4)] assms(2,3) by (simp_all add: rank_zero lpm_rank_zero)
  from k [unfolded d sleep_inv_def] show ?thesis by (auto simp: d holds_fds_def holds_timers_def)
qed

theorem sleep_threads_settle_witness:
  "\<exists>w'. interleave (lpm_step proc_cfg sample_env UPIO_DEASSERT) (wake_step proc_cfg sample_env UPIO_DEASSERT)
      (concat (replicate 11 [True, False])) (LTest, Fire, timed_up) = (LDone, Done, w')
    \<and> pin UPIO_LPM_MODE w' = UPIO_DEASSERT \<and> holds_fds {#} timed_up {#} w'
    \<and> holds_timers {#1#} timed_up (timers w') w'
    \<and> list_all (\<lambda>e. \<not> is_settime e) (drop (length (trace timed_up)) (trace w'))"
proof -
  let ?s = "concat (replicate 11 [True, False])"
  obtain p q w' where r: "interleave (lpm_step proc_cfg sample_env UPIO_DEASSERT)
      (wake_step proc_cfg sample_env UPIO_DEASSERT) ?s (LTest, Fire, timed_up) = (p, q, w')"
    by (metis prod_cases3)
  have c: "11 \<le> count_list ?s True" "11 \<le> count_list ?s False" by (simp_all add: numeral_eq_Suc)
  have t: "length (upio_state timed_up) = UPIO_MAX_COUNT" "timers timed_up = {#1#}"
    by (simp_all add: timed_up_def idle_up_def timers_def)
  show ?thesis
    using sleep_threads_settle [OF t(1) c r, of "{#}" "{#}"] r t(2) by (simp add: proc_cfg_def default_cfg_def)
qed

text \<open>
  C36. Switching sleep mode off deletes the holding timer but leaves its number behind, and no BT_WAKE
  request looks whether there is a timer before it gives it an order: the next request that reaches
  the node calls \<^verbatim>\<open>timer_settime\<close> with the number of the deleted timer, an assertion moreover with a
  specification that was never written.
\<close>

theorem deleted_timer_is_ordered:
  assumes "BT_WAKE_VIA_PROC C" and "\<not> BT_WAKE_VIA_USERIAL_IOCTL C" and "PROC_BTWRITE_TIMER_TIMEOUT_MS C \<noteq> 0"
    and "\<forall>tr path. 0 \<le> os_open E tr path O_WRONLY" and "\<forall>tr f b. os_write E tr f b"
    and "length (upio_state w) = UPIO_MAX_COUNT" and "has_timer i w" and "pin UPIO_LPM_MODE w \<noteq> UPIO_DEASSERT"
    and "pin UPIO_BT_WAKE w \<noteq> a \<or> btwrite_active (lpm_proc_cb w) \<noteq> TRUE"
    and "BT_WAKE_VIA_PROC_NOTIFY_DEASSERT C \<or> a \<noteq> UPIO_DEASSERT"
  shows "filter (\<lambda>e. is_timer e \<or> is_settime e) (drop (length (trace w))
      (trace (upio_set C E UPIO_BT_WAKE a r (upio_set C E UPIO_LPM_MODE UPIO_DEASSERT r w))))
    = [TimerDeleteEv i, TimerSettimeEv i (if a = UPIO_ASSERT then IndeterminateTimer else DisarmTimer)]"
proof -
  have o: "\<not> os_open E tr path O_WRONLY < 0" for tr path using assms(4) by (simp add: not_less)
  obtain v where v: "upio_set C E UPIO_LPM_MODE UPIO_DEASSERT r w = v" by simp
  have "\<exists>fd b. trace v = trace w @ [OpenEv (VENDOR_LPM_PROC_NODE C) O_WRONLY fd, TimerDeleteEv i, WriteEv fd b True, CloseEv fd]"
    and "lpm_proc_cb v = (lpm_proc_cb w)\<lparr>timer_created := FALSE\<rparr>" and "pin UPIO_BT_WAKE v = pin UPIO_BT_WAKE w"
    using assms(1,5-8) v by (auto simp: upio_set_def upio_set_lpm_mode_def has_timer_def sys_simps o)
  moreover from this assms(7,9) have "pin UPIO_BT_WAKE v \<noteq> a \<or> btwrite_active (lpm_proc_cb v) \<noteq> TRUE"
    "timer_id (lpm_proc_cb v) = i" by (auto simp: has_timer_def)
  moreover from this assms(1-3,5,10) have "\<exists>fd b. trace (upio_set C E UPIO_BT_WAKE a r v) = trace v
      @ [OpenEv (VENDOR_BTWRITE_PROC_NODE C) O_WRONLY fd, WriteEv fd b True,
         TimerSettimeEv i (if a \<noteq> UPIO_ASSERT then DisarmTimer else if timer_created (lpm_proc_cb v) = TRUE
            then hold_spec C else IndeterminateTimer), CloseEv fd]"
    by (auto simp: upio_set_def upio_set_bt_wake_def sys_simps start_stop_trace hold_spec_def o)
  ultimately show ?thesis unfolding v by auto
qed

theorem deleted_timer_is_ordered_witness:
  "filter (\<lambda>e. is_timer e \<or> is_settime e) (drop (length (trace timed_up))
      (trace (upio_set proc_cfg sample_env UPIO_BT_WAKE UPIO_ASSERT 0
        (upio_set proc_cfg sample_env UPIO_LPM_MODE UPIO_DEASSERT 0
          (timed_up\<lparr>lpm_proc_cb := (lpm_proc_cb timed_up)\<lparr>btwrite_active := FALSE\<rparr>\<rparr>)))))
    = [TimerDeleteEv 1, TimerSettimeEv 1 IndeterminateTimer]"
  using deleted_timer_is_ordered [of proc_cfg sample_env
      "timed_up\<lparr>lpm_proc_cb := (lpm_proc_cb timed_up)\<lparr>btwrite_active := FALSE\<rparr>\<rparr>" 1 UPIO_ASSERT 0]
  by (simp add: proc_cfg_fields sample_env_def timed_up_def idle_up_def has_timer_def)

end
