(* ===== verification/Wire.thy ===== *)
theory Wire
  imports Prelude
begin

text \<open>
  Packed little-endian data: the memory of a C struct under \<^verbatim>\<open>#pragma pack(1)\<close> on the
  little-endian machines the library is built for. A type is given by a writer and a reader; the
  locale \<^verbatim>\<open>packed\<close> states what they owe each other, and every struct of the message header
  interprets it.
\<close>

section \<open>The contract\<close>

locale packed =
  fixes put :: "'a \<Rightarrow> bytes" and get :: "bytes \<Rightarrow> ('a \<times> bytes) option"
    and size :: nat and ok :: "'a \<Rightarrow> bool"
  assumes get_iff: "get bs = Some (a, s) \<longleftrightarrow> ok a \<and> bs = put a @ s"
    and put_length: "ok a \<Longrightarrow> length (put a) = size"
begin

lemma get_put: "ok a \<Longrightarrow> get (put a @ s) = Some (a, s)"
  by (simp add: get_iff)

lemma put_inject:
  assumes "ok a" and "ok b" and "put a @ s = put b @ t"
  shows "a = b \<and> s = t"
proof -
  have "Some (a, s) = Some (b, t)"
    using get_put [OF assms(1), of s] get_put [OF assms(2), of t] unfolding assms(3) by metis
  then show ?thesis by simp
qed

lemma get_short: "length bs < size \<Longrightarrow> get bs = None"
proof (rule ccontr)
  assume "length bs < size" and "get bs \<noteq> None"
  then obtain a s where "get bs = Some (a, s)" by auto
  then have "ok a" and "bs = put a @ s" by (simp_all add: get_iff)
  with \<open>length bs < size\<close> put_length show False by simp
qed

text \<open>Several of them one after the other, as in a C array.\<close>

primrec get_array :: "nat \<Rightarrow> bytes \<Rightarrow> ('a list \<times> bytes) option" where
  "get_array 0 bs = Some ([], bs)"
| "get_array (Suc n) bs = do { (a, bs) \<leftarrow> get bs; (as, bs) \<leftarrow> get_array n bs; Some (a # as, bs) }"

lemma get_array_iff:
  "get_array n bs = Some (as, s) \<longleftrightarrow> length as = n \<and> list_all ok as \<and> bs = concat (map put as) @ s"
proof (induction n arbitrary: bs as)
  case 0
  then show ?case by auto
next
  case (Suc n)
  then show ?case by (cases as) (auto simp: option_conv get_iff)
qed

lemma array_length: "list_all ok as \<Longrightarrow> length (concat (map put as)) = length as * size"
  by (induction as) (simp_all add: put_length)

end

section \<open>Scalars\<close>

definition u32_of :: "u8 \<Rightarrow> u8 \<Rightarrow> u8 \<Rightarrow> u8 \<Rightarrow> u32" where
  "u32_of b0 b1 b2 b3 = ucast b0 OR push_bit 8 (ucast b1) OR push_bit 16 (ucast b2) OR push_bit 24 (ucast b3)"

lemma le16_u16_of: "le16 (u16_of b0 b1) = [b0, b1]"
proof -
  have "ucast (ucast b0 OR push_bit 8 (ucast b1) :: u16) = b0"
    and "ucast (drop_bit 8 (ucast b0 OR push_bit 8 (ucast b1) :: u16)) = b1"
    by (rule bit_word_eqI; auto simp: bit_simps dest: bit_imp_le_length)+
  then show ?thesis by (simp add: le16_def u16_of_def ucast_add_push_bit)
qed

lemma u16_of_bytes: "u16_of (ucast (u :: u16)) (ucast (drop_bit 8 u)) = u"
  using u16_of_le16 [of u] by (simp add: le16_def)

lemma le32_u32_of: "le32 (u32_of b0 b1 b2 b3) = [b0, b1, b2, b3]"
proof -
  let ?w = "u32_of b0 b1 b2 b3"
  have "ucast ?w = b0" "ucast (drop_bit 8 ?w) = b1" "ucast (drop_bit 16 ?w) = b2" "ucast (drop_bit 24 ?w) = b3"
    unfolding u32_of_def by (rule bit_word_eqI; auto simp: bit_simps dest: bit_imp_le_length)+
  then show ?thesis by (simp add: le32_def)
qed

lemma u32_of_bytes:
  "u32_of (ucast (u :: u32)) (ucast (drop_bit 8 u)) (ucast (drop_bit 16 u)) (ucast (drop_bit 24 u)) = u"
proof (rule bit_word_eqI)
  fix n
  assume n: "n < LENGTH(32)"
  consider "n < 8" | "8 \<le> n" "n < 16" | "16 \<le> n" "n < 24" | "24 \<le> n" by linarith
  then show "bit (u32_of (ucast u) (ucast (drop_bit 8 u)) (ucast (drop_bit 16 u)) (ucast (drop_bit 24 u))) n = bit u n"
    using n by cases (auto simp: u32_of_def bit_simps)
qed

definition put8 :: "u8 \<Rightarrow> bytes" where "put8 x = [x]"

fun get8 :: "bytes \<Rightarrow> (u8 \<times> bytes) option" where
  "get8 (b # s) = Some (b, s)"
| "get8 s = None"

fun get16 :: "bytes \<Rightarrow> (u16 \<times> bytes) option" where
  "get16 (b0 # b1 # s) = Some (u16_of b0 b1, s)"
| "get16 s = None"

fun get32 :: "bytes \<Rightarrow> (u32 \<times> bytes) option" where
  "get32 (b0 # b1 # b2 # b3 # s) = Some (u32_of b0 b1 b2 b3, s)"
| "get32 s = None"

text \<open>\<^verbatim>\<open>bool\<close> is a byte, 1 for true; reading any other value than 0 and 1 has no defined result.\<close>

definition put_bool :: "bool \<Rightarrow> bytes" where "put_bool b = [if b then 1 else 0]"

fun get_bool :: "bytes \<Rightarrow> (bool \<times> bytes) option" where
  "get_bool (b # s) = (if b = 0 then Some (False, s) else if b = 1 then Some (True, s) else None)"
| "get_bool s = None"

definition get_bytes :: "nat \<Rightarrow> bytes \<Rightarrow> (bytes \<times> bytes) option" where
  "get_bytes n bs = (if n \<le> length bs then Some (take n bs, drop n bs) else None)"

interpretation w8: packed put8 get8 1 "\<lambda>_. True"
  by unfold_locales (auto simp: put8_def elim: get8.elims)

interpretation w16: packed le16 get16 2 "\<lambda>_. True"
proof
  fix bs s a
  have "get16 bs = Some (a, s) \<Longrightarrow> bs = le16 a @ s"
    by (cases bs rule: get16.cases) (auto simp: le16_u16_of)
  moreover have "get16 (le16 a @ s) = Some (a, s)" by (simp add: le16_def u16_of_bytes)
  ultimately show "get16 bs = Some (a, s) \<longleftrightarrow> True \<and> bs = le16 a @ s" by auto
qed simp

interpretation w32: packed le32 get32 4 "\<lambda>_. True"
proof
  fix bs s a
  have "get32 bs = Some (a, s) \<Longrightarrow> bs = le32 a @ s"
    by (cases bs rule: get32.cases) (auto simp: le32_u32_of)
  moreover have "get32 (le32 a @ s) = Some (a, s)" by (simp add: le32_def u32_of_bytes)
  ultimately show "get32 bs = Some (a, s) \<longleftrightarrow> True \<and> bs = le32 a @ s" by auto
qed simp

interpretation wbool: packed put_bool get_bool 1 "\<lambda>_. True"
  by unfold_locales (auto simp: put_bool_def elim: get_bool.elims split: if_splits)

interpretation wbytes: packed "\<lambda>x. x" "get_bytes n" n "\<lambda>x. length x = n"
  by unfold_locales (auto simp: get_bytes_def)

named_theorems wire_simps "definitions and readers of packed structs"
named_theorems wire_sizes "sizes of packed structs"

lemma array16:
  "w16.get_array n bs = Some (as, s) \<longleftrightarrow> length as = n \<and> bs = concat (map le16 as) @ s"
  "length (concat (map le16 as)) = length as * 2"
  using w16.get_array_iff [of n bs as s] w16.array_length [of as] by (simp_all add: list_all_iff)

lemmas [wire_simps] = array16(1)
lemmas [wire_sizes] = array16(2)
lemmas [wire_simps] = w8.get_iff w16.get_iff w32.get_iff wbool.get_iff wbytes.get_iff option_conv
lemmas [wire_sizes] = w8.put_length [OF TrueI] wbool.put_length [OF TrueI]

end
