(* ===== verification/Uipc.thy ===== *)
theory Uipc
  imports Wire
begin

text \<open>
  uipc_msg.h, first part: the messages the full stack and the light stack exchange over UIPC to
  manage the channel and to synchronise the transport, L2CAP and AVDTP. Every struct is a record, a
  union is a sum of its members, opcodes are datatypes with their codes. The header declares the data
  only: nothing under src/ stores or reads a message. What the declarations fix is the packed memory
  of each struct; it is given here by a writer and a reader that list the fields in their order,
  from which the sizes follow. The length of a BD_ADDR comes from bt_types.h, outside the repository:
  it is an argument.
\<close>

section \<open>Management\<close>

definition UIPC_VERSION_MAJOR :: u16 where "UIPC_VERSION_MAJOR = 1"
definition UIPC_VERSION_MINOR :: u16 where "UIPC_VERSION_MINOR = 0"

datatype uipc_status =
    UIPC_STATUS_SUCCESS
  | UIPC_STATUS_FAIL

fun uipc_status_code :: "uipc_status \<Rightarrow> u8" where
  "uipc_status_code UIPC_STATUS_SUCCESS = 0"
| "uipc_status_code UIPC_STATUS_FAIL = 1"

datatype uipc_opcode =
    UIPC_OPEN_REQ
  | UIPC_OPEN_RSP
  | UIPC_CLOSE_REQ
  | UIPC_CLOSE_RSP

fun uipc_code :: "uipc_opcode \<Rightarrow> u8" where
  "uipc_code UIPC_OPEN_REQ = 0"
| "uipc_code UIPC_OPEN_RSP = 1"
| "uipc_code UIPC_CLOSE_REQ = 2"
| "uipc_code UIPC_CLOSE_RSP = 3"

record tUIPC_OPEN_REQ =
  or_opcode :: u8

definition put_UIPC_OPEN_REQ :: "tUIPC_OPEN_REQ \<Rightarrow> bytes" where
  "put_UIPC_OPEN_REQ m = put8 (or_opcode m)"

definition get_UIPC_OPEN_REQ :: "bytes \<Rightarrow> (tUIPC_OPEN_REQ \<times> bytes) option" where
  "get_UIPC_OPEN_REQ bs =
     do { (opcode, bs) \<leftarrow> get8 bs;
          Some (\<lparr>or_opcode = opcode\<rparr>, bs) }"

interpretation uipc_open_req: packed put_UIPC_OPEN_REQ get_UIPC_OPEN_REQ "1" "\<lambda>_. True"
proof
  show "get_UIPC_OPEN_REQ bs = Some (m, s) \<longleftrightarrow> True \<and> bs = put_UIPC_OPEN_REQ m @ s" for bs m s
    by (cases m) (auto simp: get_UIPC_OPEN_REQ_def put_UIPC_OPEN_REQ_def wire_simps)
qed (simp add: put_UIPC_OPEN_REQ_def wire_sizes)

lemmas [wire_simps] = uipc_open_req.get_iff
lemmas [wire_sizes] = uipc_open_req.put_length [OF TrueI]

record tUIPC_OPEN_RSP =
  op_opcode :: u8
  op_status :: u8
  op_version_major :: u16
  op_version_minor :: u16
  op_num_streams :: u8

definition put_UIPC_OPEN_RSP :: "tUIPC_OPEN_RSP \<Rightarrow> bytes" where
  "put_UIPC_OPEN_RSP m = put8 (op_opcode m) @ put8 (op_status m) @ le16 (op_version_major m) @
     le16 (op_version_minor m) @ put8 (op_num_streams m)"

definition get_UIPC_OPEN_RSP :: "bytes \<Rightarrow> (tUIPC_OPEN_RSP \<times> bytes) option" where
  "get_UIPC_OPEN_RSP bs =
     do { (opcode, bs) \<leftarrow> get8 bs; (status, bs) \<leftarrow> get8 bs;
          (version_major, bs) \<leftarrow> get16 bs; (version_minor, bs) \<leftarrow> get16 bs;
          (num_streams, bs) \<leftarrow> get8 bs;
          Some (\<lparr>op_opcode = opcode, op_status = status, op_version_major = version_major,
                op_version_minor = version_minor, op_num_streams = num_streams\<rparr>, bs) }"

interpretation uipc_open_rsp: packed put_UIPC_OPEN_RSP get_UIPC_OPEN_RSP "7" "\<lambda>_. True"
proof
  show "get_UIPC_OPEN_RSP bs = Some (m, s) \<longleftrightarrow> True \<and> bs = put_UIPC_OPEN_RSP m @ s" for bs m s
    by (cases m) (auto simp: get_UIPC_OPEN_RSP_def put_UIPC_OPEN_RSP_def wire_simps)
qed (simp add: put_UIPC_OPEN_RSP_def wire_sizes)

lemmas [wire_simps] = uipc_open_rsp.get_iff
lemmas [wire_sizes] = uipc_open_rsp.put_length [OF TrueI]

record tUIPC_CLOSE_REQ =
  cr_opcode :: u8

definition put_UIPC_CLOSE_REQ :: "tUIPC_CLOSE_REQ \<Rightarrow> bytes" where
  "put_UIPC_CLOSE_REQ m = put8 (cr_opcode m)"

definition get_UIPC_CLOSE_REQ :: "bytes \<Rightarrow> (tUIPC_CLOSE_REQ \<times> bytes) option" where
  "get_UIPC_CLOSE_REQ bs =
     do { (opcode, bs) \<leftarrow> get8 bs;
          Some (\<lparr>cr_opcode = opcode\<rparr>, bs) }"

interpretation uipc_close_req: packed put_UIPC_CLOSE_REQ get_UIPC_CLOSE_REQ "1" "\<lambda>_. True"
proof
  show "get_UIPC_CLOSE_REQ bs = Some (m, s) \<longleftrightarrow> True \<and> bs = put_UIPC_CLOSE_REQ m @ s" for bs m s
    by (cases m) (auto simp: get_UIPC_CLOSE_REQ_def put_UIPC_CLOSE_REQ_def wire_simps)
qed (simp add: put_UIPC_CLOSE_REQ_def wire_sizes)

lemmas [wire_simps] = uipc_close_req.get_iff
lemmas [wire_sizes] = uipc_close_req.put_length [OF TrueI]

record tUIPC_CLOSE_RSP =
  cp_opcode :: u8

definition put_UIPC_CLOSE_RSP :: "tUIPC_CLOSE_RSP \<Rightarrow> bytes" where
  "put_UIPC_CLOSE_RSP m = put8 (cp_opcode m)"

definition get_UIPC_CLOSE_RSP :: "bytes \<Rightarrow> (tUIPC_CLOSE_RSP \<times> bytes) option" where
  "get_UIPC_CLOSE_RSP bs =
     do { (opcode, bs) \<leftarrow> get8 bs;
          Some (\<lparr>cp_opcode = opcode\<rparr>, bs) }"

interpretation uipc_close_rsp: packed put_UIPC_CLOSE_RSP get_UIPC_CLOSE_RSP "1" "\<lambda>_. True"
proof
  show "get_UIPC_CLOSE_RSP bs = Some (m, s) \<longleftrightarrow> True \<and> bs = put_UIPC_CLOSE_RSP m @ s" for bs m s
    by (cases m) (auto simp: get_UIPC_CLOSE_RSP_def put_UIPC_CLOSE_RSP_def wire_simps)
qed (simp add: put_UIPC_CLOSE_RSP_def wire_sizes)

lemmas [wire_simps] = uipc_close_rsp.get_iff
lemmas [wire_sizes] = uipc_close_rsp.put_length [OF TrueI]

definition IPC_LOG_MSG_LEN :: nat where "IPC_LOG_MSG_LEN = 100"

lemmas log_msg_len [simp] = IPC_LOG_MSG_LEN_def

record tUIPC_LOG_MSG =
  lg_trace_set_mask :: u32
  lg_msg :: bytes

definition put_UIPC_LOG_MSG :: "tUIPC_LOG_MSG \<Rightarrow> bytes" where
  "put_UIPC_LOG_MSG m = le32 (lg_trace_set_mask m) @ lg_msg m"

definition get_UIPC_LOG_MSG :: "bytes \<Rightarrow> (tUIPC_LOG_MSG \<times> bytes) option" where
  "get_UIPC_LOG_MSG bs =
     do { (trace_set_mask, bs) \<leftarrow> get32 bs; (msg, bs) \<leftarrow> get_bytes 100 bs;
          Some (\<lparr>lg_trace_set_mask = trace_set_mask, lg_msg = msg\<rparr>, bs) }"

definition UIPC_LOG_MSG_ok :: "tUIPC_LOG_MSG \<Rightarrow> bool" where
  "UIPC_LOG_MSG_ok m \<longleftrightarrow> length (lg_msg m) = 100"

interpretation uipc_log_msg: packed put_UIPC_LOG_MSG get_UIPC_LOG_MSG "104" "UIPC_LOG_MSG_ok"
proof
  show "get_UIPC_LOG_MSG bs = Some (m, s) \<longleftrightarrow> UIPC_LOG_MSG_ok m \<and> bs = put_UIPC_LOG_MSG m @ s" for bs m s
    by (cases m) (auto simp: get_UIPC_LOG_MSG_def put_UIPC_LOG_MSG_def UIPC_LOG_MSG_ok_def wire_simps)
qed (simp add: put_UIPC_LOG_MSG_def UIPC_LOG_MSG_ok_def wire_sizes)

lemmas [wire_simps] = uipc_log_msg.get_iff
lemmas [wire_sizes] = uipc_log_msg.put_length

section \<open>H5 synchronisation\<close>

datatype slip_opcode =
    SLIP_SYNC_TO_LITE_REQ
  | SLIP_SYNC_TO_LITE_RESP
  | SLIP_SYNC_TO_FULL_REQ
  | SLIP_SYNC_TO_FULL_RESP
  | SLIP_SYNC_NOTIFY

fun slip_code :: "slip_opcode \<Rightarrow> u8" where
  "slip_code SLIP_SYNC_TO_LITE_REQ = 0"
| "slip_code SLIP_SYNC_TO_LITE_RESP = 1"
| "slip_code SLIP_SYNC_TO_FULL_REQ = 2"
| "slip_code SLIP_SYNC_TO_FULL_RESP = 3"
| "slip_code SLIP_SYNC_NOTIFY = 4"

datatype slip_status =
    SLIP_SYNC_SUCCESS
  | SLIP_SYNC_FAILURE

fun slip_status_code :: "slip_status \<Rightarrow> u8" where
  "slip_status_code SLIP_SYNC_SUCCESS = 0"
| "slip_status_code SLIP_SYNC_FAILURE = 1"

record tSLIP_SYNC_INFO =
  sl_op_code :: u8
  sl_status :: u8
  sl_acl_pkt_size :: u16
  sl_state :: u8
  sl_lp_state :: u8
  sl_next_seqno :: u8
  sl_ack :: u8
  sl_sent_ack :: u8
  sl_sliding_window_size :: u8
  sl_oof_flow_control :: bool
  sl_data_integrity_type :: bool
  sl_rx_state :: u8

definition put_SLIP_SYNC_INFO :: "tSLIP_SYNC_INFO \<Rightarrow> bytes" where
  "put_SLIP_SYNC_INFO m = put8 (sl_op_code m) @ put8 (sl_status m) @ le16 (sl_acl_pkt_size m) @
     put8 (sl_state m) @ put8 (sl_lp_state m) @ put8 (sl_next_seqno m) @ put8 (sl_ack m) @
     put8 (sl_sent_ack m) @ put8 (sl_sliding_window_size m) @
     put_bool (sl_oof_flow_control m) @ put_bool (sl_data_integrity_type m) @
     put8 (sl_rx_state m)"

definition get_SLIP_SYNC_INFO :: "bytes \<Rightarrow> (tSLIP_SYNC_INFO \<times> bytes) option" where
  "get_SLIP_SYNC_INFO bs =
     do { (op_code, bs) \<leftarrow> get8 bs; (status, bs) \<leftarrow> get8 bs;
          (acl_pkt_size, bs) \<leftarrow> get16 bs; (state, bs) \<leftarrow> get8 bs;
          (lp_state, bs) \<leftarrow> get8 bs; (next_seqno, bs) \<leftarrow> get8 bs;
          (ack, bs) \<leftarrow> get8 bs; (sent_ack, bs) \<leftarrow> get8 bs;
          (sliding_window_size, bs) \<leftarrow> get8 bs;
          (oof_flow_control, bs) \<leftarrow> get_bool bs;
          (data_integrity_type, bs) \<leftarrow> get_bool bs;
          (rx_state, bs) \<leftarrow> get8 bs;
          Some (\<lparr>sl_op_code = op_code, sl_status = status, sl_acl_pkt_size = acl_pkt_size,
                sl_state = state, sl_lp_state = lp_state, sl_next_seqno = next_seqno,
                sl_ack = ack, sl_sent_ack = sent_ack,
                sl_sliding_window_size = sliding_window_size,
                sl_oof_flow_control = oof_flow_control,
                sl_data_integrity_type = data_integrity_type, sl_rx_state = rx_state\<rparr>, bs) }"

interpretation slip_sync_info: packed put_SLIP_SYNC_INFO get_SLIP_SYNC_INFO "13" "\<lambda>_. True"
proof
  show "get_SLIP_SYNC_INFO bs = Some (m, s) \<longleftrightarrow> True \<and> bs = put_SLIP_SYNC_INFO m @ s" for bs m s
    by (cases m) (auto simp: get_SLIP_SYNC_INFO_def put_SLIP_SYNC_INFO_def wire_simps)
qed (simp add: put_SLIP_SYNC_INFO_def wire_sizes)

lemmas [wire_simps] = slip_sync_info.get_iff
lemmas [wire_sizes] = slip_sync_info.put_length [OF TrueI]

section \<open>L2CAP synchronisation\<close>

datatype l2c_opcode =
    L2C_SYNC_TO_LITE_REQ
  | L2C_SYNC_TO_LITE_RESP
  | L2C_REMOVE_TO_LITE_REQ
  | L2C_REMOVE_TO_LITE_RESP
  | L2C_FLUSH_TO_FULL_IND

fun l2c_code :: "l2c_opcode \<Rightarrow> u8" where
  "l2c_code L2C_SYNC_TO_LITE_REQ = 0"
| "l2c_code L2C_SYNC_TO_LITE_RESP = 1"
| "l2c_code L2C_REMOVE_TO_LITE_REQ = 2"
| "l2c_code L2C_REMOVE_TO_LITE_RESP = 3"
| "l2c_code L2C_FLUSH_TO_FULL_IND = 4"

datatype l2c_status =
    L2C_SYNC_SUCCESS
  | L2C_SYNC_FAILURE

fun l2c_status_code :: "l2c_status \<Rightarrow> u8" where
  "l2c_status_code L2C_SYNC_SUCCESS = 0"
| "l2c_status_code L2C_SYNC_FAILURE = 1"

record tL2C_STREAM_INFO =
  si_local_cid :: u16
  si_remote_cid :: u16
  si_out_mtu :: u16
  si_handle :: u16
  si_link_xmit_quota :: u16
  si_is_flushable :: bool

definition put_L2C_STREAM_INFO :: "tL2C_STREAM_INFO \<Rightarrow> bytes" where
  "put_L2C_STREAM_INFO m = le16 (si_local_cid m) @ le16 (si_remote_cid m) @
     le16 (si_out_mtu m) @ le16 (si_handle m) @ le16 (si_link_xmit_quota m) @
     put_bool (si_is_flushable m)"

definition get_L2C_STREAM_INFO :: "bytes \<Rightarrow> (tL2C_STREAM_INFO \<times> bytes) option" where
  "get_L2C_STREAM_INFO bs =
     do { (local_cid, bs) \<leftarrow> get16 bs; (remote_cid, bs) \<leftarrow> get16 bs;
          (out_mtu, bs) \<leftarrow> get16 bs; (handle, bs) \<leftarrow> get16 bs;
          (link_xmit_quota, bs) \<leftarrow> get16 bs;
          (is_flushable, bs) \<leftarrow> get_bool bs;
          Some (\<lparr>si_local_cid = local_cid, si_remote_cid = remote_cid, si_out_mtu = out_mtu,
                si_handle = handle, si_link_xmit_quota = link_xmit_quota,
                si_is_flushable = is_flushable\<rparr>, bs) }"

interpretation l2c_stream_info: packed put_L2C_STREAM_INFO get_L2C_STREAM_INFO "11" "\<lambda>_. True"
proof
  show "get_L2C_STREAM_INFO bs = Some (m, s) \<longleftrightarrow> True \<and> bs = put_L2C_STREAM_INFO m @ s" for bs m s
    by (cases m) (auto simp: get_L2C_STREAM_INFO_def put_L2C_STREAM_INFO_def wire_simps)
qed (simp add: put_L2C_STREAM_INFO_def wire_sizes)

lemmas [wire_simps] = l2c_stream_info.get_iff
lemmas [wire_sizes] = l2c_stream_info.put_length [OF TrueI]

record tL2C_SYNC_TO_LITE_REQ =
  lq_op_code :: u8
  lq_light_xmit_quota :: u16
  lq_acl_data_size :: u16
  lq_non_flushable_pbf :: u16
  lq_multi_av_data_cong_start :: u8
  lq_multi_av_data_cong_end :: u8
  lq_multi_av_data_cong_discard :: u8
  lq_num_stream :: u8
  lq_stream :: tL2C_STREAM_INFO

definition put_L2C_SYNC_TO_LITE_REQ :: "tL2C_SYNC_TO_LITE_REQ \<Rightarrow> bytes" where
  "put_L2C_SYNC_TO_LITE_REQ m = put8 (lq_op_code m) @ le16 (lq_light_xmit_quota m) @
     le16 (lq_acl_data_size m) @ le16 (lq_non_flushable_pbf m) @
     put8 (lq_multi_av_data_cong_start m) @ put8 (lq_multi_av_data_cong_end m) @
     put8 (lq_multi_av_data_cong_discard m) @ put8 (lq_num_stream m) @
     put_L2C_STREAM_INFO (lq_stream m)"

definition get_L2C_SYNC_TO_LITE_REQ :: "bytes \<Rightarrow> (tL2C_SYNC_TO_LITE_REQ \<times> bytes) option" where
  "get_L2C_SYNC_TO_LITE_REQ bs =
     do { (op_code, bs) \<leftarrow> get8 bs; (light_xmit_quota, bs) \<leftarrow> get16 bs;
          (acl_data_size, bs) \<leftarrow> get16 bs;
          (non_flushable_pbf, bs) \<leftarrow> get16 bs;
          (multi_av_data_cong_start, bs) \<leftarrow> get8 bs;
          (multi_av_data_cong_end, bs) \<leftarrow> get8 bs;
          (multi_av_data_cong_discard, bs) \<leftarrow> get8 bs;
          (num_stream, bs) \<leftarrow> get8 bs;
          (stream, bs) \<leftarrow> get_L2C_STREAM_INFO bs;
          Some (\<lparr>lq_op_code = op_code, lq_light_xmit_quota = light_xmit_quota,
                lq_acl_data_size = acl_data_size, lq_non_flushable_pbf = non_flushable_pbf,
                lq_multi_av_data_cong_start = multi_av_data_cong_start,
                lq_multi_av_data_cong_end = multi_av_data_cong_end,
                lq_multi_av_data_cong_discard = multi_av_data_cong_discard,
                lq_num_stream = num_stream, lq_stream = stream\<rparr>, bs) }"

interpretation l2c_sync_to_lite_req: packed put_L2C_SYNC_TO_LITE_REQ get_L2C_SYNC_TO_LITE_REQ "22" "\<lambda>_. True"
proof
  show "get_L2C_SYNC_TO_LITE_REQ bs = Some (m, s) \<longleftrightarrow> True \<and> bs = put_L2C_SYNC_TO_LITE_REQ m @ s" for bs m s
    by (cases m) (auto simp: get_L2C_SYNC_TO_LITE_REQ_def put_L2C_SYNC_TO_LITE_REQ_def wire_simps)
qed (simp add: put_L2C_SYNC_TO_LITE_REQ_def wire_sizes)

lemmas [wire_simps] = l2c_sync_to_lite_req.get_iff
lemmas [wire_sizes] = l2c_sync_to_lite_req.put_length [OF TrueI]

record tL2C_SYNC_TO_LITE_RESP_STREAM =
  ls_lcid :: u16
  ls_status :: u8

definition put_L2C_SYNC_TO_LITE_RESP_STREAM :: "tL2C_SYNC_TO_LITE_RESP_STREAM \<Rightarrow> bytes" where
  "put_L2C_SYNC_TO_LITE_RESP_STREAM m = le16 (ls_lcid m) @ put8 (ls_status m)"

definition get_L2C_SYNC_TO_LITE_RESP_STREAM :: "bytes \<Rightarrow> (tL2C_SYNC_TO_LITE_RESP_STREAM \<times> bytes) option" where
  "get_L2C_SYNC_TO_LITE_RESP_STREAM bs =
     do { (lcid, bs) \<leftarrow> get16 bs; (status, bs) \<leftarrow> get8 bs;
          Some (\<lparr>ls_lcid = lcid, ls_status = status\<rparr>, bs) }"

interpretation l2c_sync_to_lite_resp_stream: packed put_L2C_SYNC_TO_LITE_RESP_STREAM get_L2C_SYNC_TO_LITE_RESP_STREAM "3" "\<lambda>_. True"
proof
  show "get_L2C_SYNC_TO_LITE_RESP_STREAM bs = Some (m, s) \<longleftrightarrow> True \<and> bs = put_L2C_SYNC_TO_LITE_RESP_STREAM m @ s" for bs m s
    by (cases m) (auto simp: get_L2C_SYNC_TO_LITE_RESP_STREAM_def put_L2C_SYNC_TO_LITE_RESP_STREAM_def wire_simps)
qed (simp add: put_L2C_SYNC_TO_LITE_RESP_STREAM_def wire_sizes)

lemmas [wire_simps] = l2c_sync_to_lite_resp_stream.get_iff
lemmas [wire_sizes] = l2c_sync_to_lite_resp_stream.put_length [OF TrueI]

record tL2C_SYNC_TO_LITE_RESP =
  lp_op_code :: u8
  lp_light_xmit_unacked :: u16
  lp_num_stream :: u8
  lp_stream :: tL2C_SYNC_TO_LITE_RESP_STREAM

definition put_L2C_SYNC_TO_LITE_RESP :: "tL2C_SYNC_TO_LITE_RESP \<Rightarrow> bytes" where
  "put_L2C_SYNC_TO_LITE_RESP m = put8 (lp_op_code m) @ le16 (lp_light_xmit_unacked m) @
     put8 (lp_num_stream m) @ put_L2C_SYNC_TO_LITE_RESP_STREAM (lp_stream m)"

definition get_L2C_SYNC_TO_LITE_RESP :: "bytes \<Rightarrow> (tL2C_SYNC_TO_LITE_RESP \<times> bytes) option" where
  "get_L2C_SYNC_TO_LITE_RESP bs =
     do { (op_code, bs) \<leftarrow> get8 bs; (light_xmit_unacked, bs) \<leftarrow> get16 bs;
          (num_stream, bs) \<leftarrow> get8 bs;
          (stream, bs) \<leftarrow> get_L2C_SYNC_TO_LITE_RESP_STREAM bs;
          Some (\<lparr>lp_op_code = op_code, lp_light_xmit_unacked = light_xmit_unacked,
                lp_num_stream = num_stream, lp_stream = stream\<rparr>, bs) }"

interpretation l2c_sync_to_lite_resp: packed put_L2C_SYNC_TO_LITE_RESP get_L2C_SYNC_TO_LITE_RESP "7" "\<lambda>_. True"
proof
  show "get_L2C_SYNC_TO_LITE_RESP bs = Some (m, s) \<longleftrightarrow> True \<and> bs = put_L2C_SYNC_TO_LITE_RESP m @ s" for bs m s
    by (cases m) (auto simp: get_L2C_SYNC_TO_LITE_RESP_def put_L2C_SYNC_TO_LITE_RESP_def wire_simps)
qed (simp add: put_L2C_SYNC_TO_LITE_RESP_def wire_sizes)

lemmas [wire_simps] = l2c_sync_to_lite_resp.get_iff
lemmas [wire_sizes] = l2c_sync_to_lite_resp.put_length [OF TrueI]

record tL2C_REMOVE_TO_LITE_REQ =
  rm_op_code :: u8
  rm_light_xmit_quota :: u16
  rm_num_stream :: u8
  rm_lcid :: u16

definition put_L2C_REMOVE_TO_LITE_REQ :: "tL2C_REMOVE_TO_LITE_REQ \<Rightarrow> bytes" where
  "put_L2C_REMOVE_TO_LITE_REQ m = put8 (rm_op_code m) @ le16 (rm_light_xmit_quota m) @
     put8 (rm_num_stream m) @ le16 (rm_lcid m)"

definition get_L2C_REMOVE_TO_LITE_REQ :: "bytes \<Rightarrow> (tL2C_REMOVE_TO_LITE_REQ \<times> bytes) option" where
  "get_L2C_REMOVE_TO_LITE_REQ bs =
     do { (op_code, bs) \<leftarrow> get8 bs; (light_xmit_quota, bs) \<leftarrow> get16 bs;
          (num_stream, bs) \<leftarrow> get8 bs; (lcid, bs) \<leftarrow> get16 bs;
          Some (\<lparr>rm_op_code = op_code, rm_light_xmit_quota = light_xmit_quota,
                rm_num_stream = num_stream, rm_lcid = lcid\<rparr>, bs) }"

interpretation l2c_remove_to_lite_req: packed put_L2C_REMOVE_TO_LITE_REQ get_L2C_REMOVE_TO_LITE_REQ "6" "\<lambda>_. True"
proof
  show "get_L2C_REMOVE_TO_LITE_REQ bs = Some (m, s) \<longleftrightarrow> True \<and> bs = put_L2C_REMOVE_TO_LITE_REQ m @ s" for bs m s
    by (cases m) (auto simp: get_L2C_REMOVE_TO_LITE_REQ_def put_L2C_REMOVE_TO_LITE_REQ_def wire_simps)
qed (simp add: put_L2C_REMOVE_TO_LITE_REQ_def wire_sizes)

lemmas [wire_simps] = l2c_remove_to_lite_req.get_iff
lemmas [wire_sizes] = l2c_remove_to_lite_req.put_length [OF TrueI]

type_synonym tL2C_REMOVE_TO_LITE_RESP = tL2C_SYNC_TO_LITE_RESP
type_synonym tL2C_FLUSH_TO_FULL_IND = tL2C_REMOVE_TO_LITE_REQ

section \<open>AVDTP synchronisation\<close>

datatype avdt_opcode =
    AVDT_SYNC_TO_LITE_REQ
  | AVDT_SYNC_TO_LITE_RESP
  | AVDT_RESYNC_TO_LITE_REQ
  | AVDT_RESYNC_TO_LITE_RESP
  | AVDT_SYNC_TO_FULL_REQ
  | AVDT_SYNC_TO_FULL_RESP
  | AVDT_REMOVE_TO_LITE_REQ
  | AVDT_REMOVE_TO_LITE_RESP
  | AVDT_SYNC_TO_BTC_LITE_REQ
  | AVDT_SYNC_TO_BTC_LITE_RESP

fun avdt_code :: "avdt_opcode \<Rightarrow> u8" where
  "avdt_code AVDT_SYNC_TO_LITE_REQ = 0"
| "avdt_code AVDT_SYNC_TO_LITE_RESP = 1"
| "avdt_code AVDT_RESYNC_TO_LITE_REQ = 2"
| "avdt_code AVDT_RESYNC_TO_LITE_RESP = 3"
| "avdt_code AVDT_SYNC_TO_FULL_REQ = 4"
| "avdt_code AVDT_SYNC_TO_FULL_RESP = 5"
| "avdt_code AVDT_REMOVE_TO_LITE_REQ = 6"
| "avdt_code AVDT_REMOVE_TO_LITE_RESP = 7"
| "avdt_code AVDT_SYNC_TO_BTC_LITE_REQ = 8"
| "avdt_code AVDT_SYNC_TO_BTC_LITE_RESP = 9"

datatype avdt_status =
    AVDT_SYNC_SUCCESS
  | AVDT_SYNC_FAILURE

fun avdt_status_code :: "avdt_status \<Rightarrow> u8" where
  "avdt_status_code AVDT_SYNC_SUCCESS = 0"
| "avdt_status_code AVDT_SYNC_FAILURE = 1"

record tAVDT_SYNC_TO_BTC_LITE_REQ_STREAM =
  bs_lcid :: u16
  bs_ssrc :: u32

definition put_AVDT_SYNC_TO_BTC_LITE_REQ_STREAM :: "tAVDT_SYNC_TO_BTC_LITE_REQ_STREAM \<Rightarrow> bytes" where
  "put_AVDT_SYNC_TO_BTC_LITE_REQ_STREAM m = le16 (bs_lcid m) @ le32 (bs_ssrc m)"

definition get_AVDT_SYNC_TO_BTC_LITE_REQ_STREAM :: "bytes \<Rightarrow> (tAVDT_SYNC_TO_BTC_LITE_REQ_STREAM \<times> bytes) option" where
  "get_AVDT_SYNC_TO_BTC_LITE_REQ_STREAM bs =
     do { (lcid, bs) \<leftarrow> get16 bs; (ssrc, bs) \<leftarrow> get32 bs;
          Some (\<lparr>bs_lcid = lcid, bs_ssrc = ssrc\<rparr>, bs) }"

interpretation avdt_sync_to_btc_lite_req_stream: packed put_AVDT_SYNC_TO_BTC_LITE_REQ_STREAM get_AVDT_SYNC_TO_BTC_LITE_REQ_STREAM "6" "\<lambda>_. True"
proof
  show "get_AVDT_SYNC_TO_BTC_LITE_REQ_STREAM bs = Some (m, s) \<longleftrightarrow> True \<and> bs = put_AVDT_SYNC_TO_BTC_LITE_REQ_STREAM m @ s" for bs m s
    by (cases m) (auto simp: get_AVDT_SYNC_TO_BTC_LITE_REQ_STREAM_def put_AVDT_SYNC_TO_BTC_LITE_REQ_STREAM_def wire_simps)
qed (simp add: put_AVDT_SYNC_TO_BTC_LITE_REQ_STREAM_def wire_sizes)

lemmas [wire_simps] = avdt_sync_to_btc_lite_req_stream.get_iff
lemmas [wire_sizes] = avdt_sync_to_btc_lite_req_stream.put_length [OF TrueI]

record tAVDT_SYNC_TO_BTC_LITE_REQ =
  bq_opcode :: u8
  bq_num_stream :: u8
  bq_stream :: tAVDT_SYNC_TO_BTC_LITE_REQ_STREAM

definition put_AVDT_SYNC_TO_BTC_LITE_REQ :: "tAVDT_SYNC_TO_BTC_LITE_REQ \<Rightarrow> bytes" where
  "put_AVDT_SYNC_TO_BTC_LITE_REQ m = put8 (bq_opcode m) @ put8 (bq_num_stream m) @
     put_AVDT_SYNC_TO_BTC_LITE_REQ_STREAM (bq_stream m)"

definition get_AVDT_SYNC_TO_BTC_LITE_REQ :: "bytes \<Rightarrow> (tAVDT_SYNC_TO_BTC_LITE_REQ \<times> bytes) option" where
  "get_AVDT_SYNC_TO_BTC_LITE_REQ bs =
     do { (opcode, bs) \<leftarrow> get8 bs; (num_stream, bs) \<leftarrow> get8 bs;
          (stream, bs) \<leftarrow> get_AVDT_SYNC_TO_BTC_LITE_REQ_STREAM bs;
          Some (\<lparr>bq_opcode = opcode, bq_num_stream = num_stream, bq_stream = stream\<rparr>, bs) }"

interpretation avdt_sync_to_btc_lite_req: packed put_AVDT_SYNC_TO_BTC_LITE_REQ get_AVDT_SYNC_TO_BTC_LITE_REQ "8" "\<lambda>_. True"
proof
  show "get_AVDT_SYNC_TO_BTC_LITE_REQ bs = Some (m, s) \<longleftrightarrow> True \<and> bs = put_AVDT_SYNC_TO_BTC_LITE_REQ m @ s" for bs m s
    by (cases m) (auto simp: get_AVDT_SYNC_TO_BTC_LITE_REQ_def put_AVDT_SYNC_TO_BTC_LITE_REQ_def wire_simps)
qed (simp add: put_AVDT_SYNC_TO_BTC_LITE_REQ_def wire_sizes)

lemmas [wire_simps] = avdt_sync_to_btc_lite_req.get_iff
lemmas [wire_sizes] = avdt_sync_to_btc_lite_req.put_length [OF TrueI]

record tAVDT_SYNC_TO_BTC_LITE_RESP =
  bp_opcode :: u8
  bp_status :: u8

definition put_AVDT_SYNC_TO_BTC_LITE_RESP :: "tAVDT_SYNC_TO_BTC_LITE_RESP \<Rightarrow> bytes" where
  "put_AVDT_SYNC_TO_BTC_LITE_RESP m = put8 (bp_opcode m) @ put8 (bp_status m)"

definition get_AVDT_SYNC_TO_BTC_LITE_RESP :: "bytes \<Rightarrow> (tAVDT_SYNC_TO_BTC_LITE_RESP \<times> bytes) option" where
  "get_AVDT_SYNC_TO_BTC_LITE_RESP bs =
     do { (opcode, bs) \<leftarrow> get8 bs; (status, bs) \<leftarrow> get8 bs;
          Some (\<lparr>bp_opcode = opcode, bp_status = status\<rparr>, bs) }"

interpretation avdt_sync_to_btc_lite_resp: packed put_AVDT_SYNC_TO_BTC_LITE_RESP get_AVDT_SYNC_TO_BTC_LITE_RESP "2" "\<lambda>_. True"
proof
  show "get_AVDT_SYNC_TO_BTC_LITE_RESP bs = Some (m, s) \<longleftrightarrow> True \<and> bs = put_AVDT_SYNC_TO_BTC_LITE_RESP m @ s" for bs m s
    by (cases m) (auto simp: get_AVDT_SYNC_TO_BTC_LITE_RESP_def put_AVDT_SYNC_TO_BTC_LITE_RESP_def wire_simps)
qed (simp add: put_AVDT_SYNC_TO_BTC_LITE_RESP_def wire_sizes)

lemmas [wire_simps] = avdt_sync_to_btc_lite_resp.get_iff
lemmas [wire_sizes] = avdt_sync_to_btc_lite_resp.put_length [OF TrueI]

record tAVDT_SCB_SYNC_INFO =
  sc_handle :: u8
  sc_peer_addr :: bytes
  sc_local_cid :: u16
  sc_peer_mtu :: u16
  sc_mux_tsid_media :: u8
  sc_media_seq :: u16

definition put_AVDT_SCB_SYNC_INFO :: "tAVDT_SCB_SYNC_INFO \<Rightarrow> bytes" where
  "put_AVDT_SCB_SYNC_INFO m = put8 (sc_handle m) @ sc_peer_addr m @ le16 (sc_local_cid m) @
     le16 (sc_peer_mtu m) @ put8 (sc_mux_tsid_media m) @ le16 (sc_media_seq m)"

definition get_AVDT_SCB_SYNC_INFO :: "nat \<Rightarrow> bytes \<Rightarrow> (tAVDT_SCB_SYNC_INFO \<times> bytes) option" where
  "get_AVDT_SCB_SYNC_INFO n bs =
     do { (handle, bs) \<leftarrow> get8 bs; (peer_addr, bs) \<leftarrow> get_bytes n bs;
          (local_cid, bs) \<leftarrow> get16 bs; (peer_mtu, bs) \<leftarrow> get16 bs;
          (mux_tsid_media, bs) \<leftarrow> get8 bs; (media_seq, bs) \<leftarrow> get16 bs;
          Some (\<lparr>sc_handle = handle, sc_peer_addr = peer_addr, sc_local_cid = local_cid,
                sc_peer_mtu = peer_mtu, sc_mux_tsid_media = mux_tsid_media,
                sc_media_seq = media_seq\<rparr>, bs) }"

definition AVDT_SCB_SYNC_INFO_ok :: "nat \<Rightarrow> tAVDT_SCB_SYNC_INFO \<Rightarrow> bool" where
  "AVDT_SCB_SYNC_INFO_ok n m \<longleftrightarrow> length (sc_peer_addr m) = n"

interpretation avdt_scb_sync_info: packed put_AVDT_SCB_SYNC_INFO "get_AVDT_SCB_SYNC_INFO n" "n + 8" "AVDT_SCB_SYNC_INFO_ok n"
proof
  show "get_AVDT_SCB_SYNC_INFO n bs = Some (m, s) \<longleftrightarrow> AVDT_SCB_SYNC_INFO_ok n m \<and> bs = put_AVDT_SCB_SYNC_INFO m @ s" for bs m s
    by (cases m) (auto simp: get_AVDT_SCB_SYNC_INFO_def put_AVDT_SCB_SYNC_INFO_def AVDT_SCB_SYNC_INFO_ok_def wire_simps)
qed (simp add: put_AVDT_SCB_SYNC_INFO_def AVDT_SCB_SYNC_INFO_ok_def wire_sizes)

lemmas [wire_simps] = avdt_scb_sync_info.get_iff
lemmas [wire_sizes] = avdt_scb_sync_info.put_length

record tAVDT_SYNC_INFO =
  ai_op_code :: u8
  ai_status :: u8
  ai_scb_info :: tAVDT_SCB_SYNC_INFO

definition put_AVDT_SYNC_INFO :: "tAVDT_SYNC_INFO \<Rightarrow> bytes" where
  "put_AVDT_SYNC_INFO m = put8 (ai_op_code m) @ put8 (ai_status m) @
     put_AVDT_SCB_SYNC_INFO (ai_scb_info m)"

definition get_AVDT_SYNC_INFO :: "nat \<Rightarrow> bytes \<Rightarrow> (tAVDT_SYNC_INFO \<times> bytes) option" where
  "get_AVDT_SYNC_INFO n bs =
     do { (op_code, bs) \<leftarrow> get8 bs; (status, bs) \<leftarrow> get8 bs;
          (scb_info, bs) \<leftarrow> get_AVDT_SCB_SYNC_INFO n bs;
          Some (\<lparr>ai_op_code = op_code, ai_status = status, ai_scb_info = scb_info\<rparr>, bs) }"

definition AVDT_SYNC_INFO_ok :: "nat \<Rightarrow> tAVDT_SYNC_INFO \<Rightarrow> bool" where
  "AVDT_SYNC_INFO_ok n m \<longleftrightarrow> AVDT_SCB_SYNC_INFO_ok n (ai_scb_info m)"

interpretation avdt_sync_info: packed put_AVDT_SYNC_INFO "get_AVDT_SYNC_INFO n" "n + 10" "AVDT_SYNC_INFO_ok n"
proof
  show "get_AVDT_SYNC_INFO n bs = Some (m, s) \<longleftrightarrow> AVDT_SYNC_INFO_ok n m \<and> bs = put_AVDT_SYNC_INFO m @ s" for bs m s
    by (cases m) (auto simp: get_AVDT_SYNC_INFO_def put_AVDT_SYNC_INFO_def AVDT_SYNC_INFO_ok_def wire_simps)
qed (simp add: put_AVDT_SYNC_INFO_def AVDT_SYNC_INFO_ok_def wire_sizes)

lemmas [wire_simps] = avdt_sync_info.get_iff
lemmas [wire_sizes] = avdt_sync_info.put_length

section \<open>Announced lengths and unions\<close>

definition UIPC_OPEN_REQ_MSGLEN :: nat where "UIPC_OPEN_REQ_MSGLEN = 1"
definition UIPC_OPEN_RSP_MSGLEN :: nat where "UIPC_OPEN_RSP_MSGLEN = 7"
definition UIPC_CLOSE_REQ_MSGLEN :: nat where "UIPC_CLOSE_REQ_MSGLEN = 1"
definition UIPC_CLOSE_RSP_MSGLEN :: nat where "UIPC_CLOSE_RSP_MSGLEN = 1"
definition UIPC_LOG_MSGLEN :: nat where "UIPC_LOG_MSGLEN = IPC_LOG_MSG_LEN + 4"

lemmas msglens [simp] = UIPC_OPEN_REQ_MSGLEN_def UIPC_OPEN_RSP_MSGLEN_def UIPC_CLOSE_REQ_MSGLEN_def
  UIPC_CLOSE_RSP_MSGLEN_def UIPC_LOG_MSGLEN_def

text \<open>A union has the size of its largest member; every union here also has a bare opcode as a
  member. A value says which member was stored last.\<close>

definition union_size :: "nat list \<Rightarrow> nat" where
  "union_size sizes = fold max sizes 1"

datatype tUIPC_MSG =
  open_req tUIPC_OPEN_REQ | open_resp tUIPC_OPEN_RSP | close_req tUIPC_CLOSE_REQ

definition UIPC_MGMT_MSG_MAXLEN :: nat where "UIPC_MGMT_MSG_MAXLEN = union_size [1, 7, 1]"

fun uipc_msg_opcode :: "tUIPC_MSG \<Rightarrow> u8" where
  "uipc_msg_opcode (open_req m) = or_opcode m"
| "uipc_msg_opcode (open_resp m) = op_opcode m"
| "uipc_msg_opcode (close_req m) = cr_opcode m"

datatype tL2C_SYNC_MSG =
    sync_req tL2C_SYNC_TO_LITE_REQ
  | sync_resp tL2C_SYNC_TO_LITE_RESP
  | remove_req tL2C_REMOVE_TO_LITE_REQ
  | remove_resp tL2C_REMOVE_TO_LITE_RESP
  | flush_ind tL2C_FLUSH_TO_FULL_IND

definition L2C_SYNC_MSG_SIZE :: nat where "L2C_SYNC_MSG_SIZE = union_size [22, 7, 6, 7, 6]"

fun l2c_msg_op_code :: "tL2C_SYNC_MSG \<Rightarrow> u8" where
  "l2c_msg_op_code (sync_req m) = lq_op_code m"
| "l2c_msg_op_code (sync_resp m) = lp_op_code m"
| "l2c_msg_op_code (remove_req m) = rm_op_code m"
| "l2c_msg_op_code (remove_resp m) = lp_op_code m"
| "l2c_msg_op_code (flush_ind m) = rm_op_code m"

datatype tAVDT_SYNC_MSG =
    sync_info tAVDT_SYNC_INFO
  | btc_sync_req tAVDT_SYNC_TO_BTC_LITE_REQ
  | btc_sync_resp tAVDT_SYNC_TO_BTC_LITE_RESP

definition AVDT_SYNC_MSG_SIZE :: "nat \<Rightarrow> nat" where "AVDT_SYNC_MSG_SIZE n = union_size [n + 10, 8, 2]"

fun avdt_msg_op_code :: "tAVDT_SYNC_MSG \<Rightarrow> u8" where
  "avdt_msg_op_code (sync_info m) = ai_op_code m"
| "avdt_msg_op_code (btc_sync_req m) = bq_opcode m"
| "avdt_msg_op_code (btc_sync_resp m) = bp_opcode m"

section \<open>Properties\<close>

lemma union_max [simp]: "UIPC_MGMT_MSG_MAXLEN = 7" "L2C_SYNC_MSG_SIZE = 22" "n + 10 \<le> AVDT_SYNC_MSG_SIZE n"
  "8 \<le> AVDT_SYNC_MSG_SIZE n" "2 \<le> AVDT_SYNC_MSG_SIZE n"
  by (simp_all add: UIPC_MGMT_MSG_MAXLEN_def L2C_SYNC_MSG_SIZE_def AVDT_SYNC_MSG_SIZE_def union_size_def)

text \<open>
  The announced lengths are the sizes of the packed structs: every management and log
  message is written in exactly its MSGLEN bytes, the longest management message is as long as
  their union, and from fewer bytes none of them can be read.
\<close>

theorem announced_lengths:
  "length (put_UIPC_OPEN_REQ a) = UIPC_OPEN_REQ_MSGLEN \<and> length (put_UIPC_OPEN_RSP b) = UIPC_OPEN_RSP_MSGLEN
    \<and> length (put_UIPC_CLOSE_REQ c) = UIPC_CLOSE_REQ_MSGLEN \<and> length (put_UIPC_CLOSE_RSP d) = UIPC_CLOSE_RSP_MSGLEN
    \<and> (UIPC_LOG_MSG_ok m \<longrightarrow> length (put_UIPC_LOG_MSG m) = UIPC_LOG_MSGLEN)
    \<and> UIPC_MGMT_MSG_MAXLEN = UIPC_OPEN_RSP_MSGLEN
    \<and> (length bs < UIPC_OPEN_RSP_MSGLEN \<longrightarrow> get_UIPC_OPEN_RSP bs = None)
    \<and> (length bs < UIPC_LOG_MSGLEN \<longrightarrow> get_UIPC_LOG_MSG bs = None)"
  using uipc_open_rsp.get_short [of bs] uipc_log_msg.get_short [of bs] by (simp add: wire_sizes)

theorem announced_lengths_witness:
  "length (put_UIPC_LOG_MSG \<lparr>lg_trace_set_mask = 1, lg_msg = replicate 100 0\<rparr>) = UIPC_LOG_MSGLEN
     \<and> get_UIPC_OPEN_RSP [1, 0, 1] = None"
  using announced_lengths [where m = "\<lparr>lg_trace_set_mask = 1, lg_msg = replicate 100 0\<rparr>" and bs = "[1, 0, 1]"]
  by (simp add: UIPC_LOG_MSG_ok_def)

end
