(* ===== verification/CodecParams.thy ===== *)
theory CodecParams
  imports Uipc
begin

text \<open>
  uipc_msg.h, second part: the values of the codec parameters, as tables indexed by the values or as datatypes
  with their codes.
\<close>

section \<open>Codec parameters\<close>

text \<open>The parameter values are indices: the entry at an index is the rate in kHz or kbit/s, the number
  of blocks or the number of subbands that its symbol names. Entry 0 of a bit rate table is the
  free format.\<close>

definition sbc_sampling :: "nat list" where
  "sbc_sampling = [16, 32, 44, 48]"

definition sbc_blocks :: "nat list" where
  "sbc_blocks = [4, 8, 12, 16]"

definition sbc_subbands :: "nat list" where
  "sbc_subbands = [4, 8]"

definition mp3_bitrates :: "nat list" where
  "mp3_bitrates = [0, 32, 40, 48, 56, 64, 80, 96, 112, 128, 160, 192, 224, 256, 320]"

definition mp3_sampling :: "nat list" where
  "mp3_sampling = [44, 48, 32]"

definition mp2_bitrates :: "nat list" where
  "mp2_bitrates = [0, 8, 16, 24, 32, 40, 48, 56, 64, 80, 96, 112, 128, 144, 160]"

definition mp2_sampling :: "nat list" where
  "mp2_sampling = [22, 24, 16]"

definition mp25_bitrates :: "nat list" where
  "mp25_bitrates = [0, 8, 16, 24, 32, 40, 48, 56, 64, 80, 96, 112, 128, 144, 160]"

definition mp25_sampling :: "nat list" where
  "mp25_sampling = [11, 12, 8]"

definition aac_sampling :: "nat list" where
  "aac_sampling = [96, 88, 64, 48, 44, 32, 24, 22, 16, 12, 11, 8]"

datatype sbc_channel =
    CODEC_INFO_SBC_CH_MONO
  | CODEC_INFO_SBC_CH_DUAL
  | CODEC_INFO_SBC_CH_STEREO
  | CODEC_INFO_SBC_CH_JS

fun sbc_channel_code :: "sbc_channel \<Rightarrow> u8" where
  "sbc_channel_code CODEC_INFO_SBC_CH_MONO = 0"
| "sbc_channel_code CODEC_INFO_SBC_CH_DUAL = 1"
| "sbc_channel_code CODEC_INFO_SBC_CH_STEREO = 2"
| "sbc_channel_code CODEC_INFO_SBC_CH_JS = 3"

datatype sbc_alloc =
    CODEC_INFO_SBC_ALLOC_LOUDNESS
  | CODEC_INFO_SBC_ALLOC_SNR

fun sbc_alloc_code :: "sbc_alloc \<Rightarrow> u8" where
  "sbc_alloc_code CODEC_INFO_SBC_ALLOC_LOUDNESS = 0"
| "sbc_alloc_code CODEC_INFO_SBC_ALLOC_SNR = 1"

datatype mpeg_version =
    CODEC_INFO_MP25_ID
  | CODEC_INFO_RESERVE
  | CODEC_INFO_MP2_ID
  | CODEC_INFO_MP3_ID

fun mpeg_version_code :: "mpeg_version \<Rightarrow> u8" where
  "mpeg_version_code CODEC_INFO_MP25_ID = 0"
| "mpeg_version_code CODEC_INFO_RESERVE = 1"
| "mpeg_version_code CODEC_INFO_MP2_ID = 2"
| "mpeg_version_code CODEC_INFO_MP3_ID = 3"

datatype mp3_mode =
    CODEC_INFO_MP3_MODE_STEREO
  | CODEC_INFO_MP3_MODE_JS
  | CODEC_INFO_MP3_MODE_DUAL
  | CODEC_INFO_MP3_MODE_SINGLE

fun mp3_mode_code :: "mp3_mode \<Rightarrow> u8" where
  "mp3_mode_code CODEC_INFO_MP3_MODE_STEREO = 0"
| "mp3_mode_code CODEC_INFO_MP3_MODE_JS = 1"
| "mp3_mode_code CODEC_INFO_MP3_MODE_DUAL = 2"
| "mp3_mode_code CODEC_INFO_MP3_MODE_SINGLE = 3"

datatype aac_channels =
    CODEC_INFO_AAC_1_CH
  | CODEC_INFO_AAC_2_CH
  | CODEC_INFO_AAC_3_CH
  | CODEC_INFO_AAC_4_CH
  | CODEC_INFO_AAC_5_CH
  | CODEC_INFO_AAC_6_CH
  | CODEC_INFO_AAC_7_CH

fun aac_channels_code :: "aac_channels \<Rightarrow> u8" where
  "aac_channels_code CODEC_INFO_AAC_1_CH = 1"
| "aac_channels_code CODEC_INFO_AAC_2_CH = 2"
| "aac_channels_code CODEC_INFO_AAC_3_CH = 3"
| "aac_channels_code CODEC_INFO_AAC_4_CH = 4"
| "aac_channels_code CODEC_INFO_AAC_5_CH = 5"
| "aac_channels_code CODEC_INFO_AAC_6_CH = 6"
| "aac_channels_code CODEC_INFO_AAC_7_CH = 7"

section \<open>Frame headers and limits\<close>

text \<open>The header fields of a frame: protection by a checksum, channel mode, and the coding method of a joint stereo frame (intensity and MS stereo).\<close>

datatype mp3_protection =
    CODEC_INFO_MP3_PROTECTION_ON
  | CODEC_INFO_MP3_PROTECTION_OFF

fun mp3_protection_code :: "mp3_protection \<Rightarrow> u8" where
  "mp3_protection_code CODEC_INFO_MP3_PROTECTION_ON = 0"
| "mp3_protection_code CODEC_INFO_MP3_PROTECTION_OFF = 1"

datatype mp3_mode_ext =
    CODEC_INFO_MP3_MODE_EXT_OFF_OFF
  | CODEC_INFO_MP3_MODE_EXT_ON_OFF
  | CODEC_INFO_MP3_MODE_EXT_OFF_ON
  | CODEC_INFO_MP3_MODE_EXT_ON_ON

fun mp3_mode_ext_code :: "mp3_mode_ext \<Rightarrow> u8" where
  "mp3_mode_ext_code CODEC_INFO_MP3_MODE_EXT_OFF_OFF = 0"
| "mp3_mode_ext_code CODEC_INFO_MP3_MODE_EXT_ON_OFF = 1"
| "mp3_mode_ext_code CODEC_INFO_MP3_MODE_EXT_OFF_ON = 2"
| "mp3_mode_ext_code CODEC_INFO_MP3_MODE_EXT_ON_ON = 3"

datatype mp2_protection =
    CODEC_INFO_MP2_PROTECTION_ON
  | CODEC_INFO_MP2_PROTECTION_OFF

fun mp2_protection_code :: "mp2_protection \<Rightarrow> u8" where
  "mp2_protection_code CODEC_INFO_MP2_PROTECTION_ON = 0"
| "mp2_protection_code CODEC_INFO_MP2_PROTECTION_OFF = 1"

datatype mp2_mode =
    CODEC_INFO_MP2_MODE_STEREO
  | CODEC_INFO_MP2_MODE_JS
  | CODEC_INFO_MP2_MODE_DUAL
  | CODEC_INFO_MP2_MODE_SINGLE

fun mp2_mode_code :: "mp2_mode \<Rightarrow> u8" where
  "mp2_mode_code CODEC_INFO_MP2_MODE_STEREO = 0"
| "mp2_mode_code CODEC_INFO_MP2_MODE_JS = 1"
| "mp2_mode_code CODEC_INFO_MP2_MODE_DUAL = 2"
| "mp2_mode_code CODEC_INFO_MP2_MODE_SINGLE = 3"

datatype mp2_mode_ext =
    CODEC_INFO_MP2_MODE_EXT_OFF_OFF
  | CODEC_INFO_MP2_MODE_EXT_ON_OFF
  | CODEC_INFO_MP2_MODE_EXT_OFF_ON
  | CODEC_INFO_MP2_MODE_EXT_ON_ON

fun mp2_mode_ext_code :: "mp2_mode_ext \<Rightarrow> u8" where
  "mp2_mode_ext_code CODEC_INFO_MP2_MODE_EXT_OFF_OFF = 0"
| "mp2_mode_ext_code CODEC_INFO_MP2_MODE_EXT_ON_OFF = 1"
| "mp2_mode_ext_code CODEC_INFO_MP2_MODE_EXT_OFF_ON = 2"
| "mp2_mode_ext_code CODEC_INFO_MP2_MODE_EXT_ON_ON = 3"

datatype mp25_protection =
    CODEC_INFO_MP25_PROTECTION_ON
  | CODEC_INFO_MP25_PROTECTION_OFF

fun mp25_protection_code :: "mp25_protection \<Rightarrow> u8" where
  "mp25_protection_code CODEC_INFO_MP25_PROTECTION_ON = 0"
| "mp25_protection_code CODEC_INFO_MP25_PROTECTION_OFF = 1"

datatype mp25_mode =
    CODEC_INFO_MP25_MODE_STEREO
  | CODEC_INFO_MP25_MODE_JS
  | CODEC_INFO_MP25_MODE_DUAL
  | CODEC_INFO_MP25_MODE_SINGLE

fun mp25_mode_code :: "mp25_mode \<Rightarrow> u8" where
  "mp25_mode_code CODEC_INFO_MP25_MODE_STEREO = 0"
| "mp25_mode_code CODEC_INFO_MP25_MODE_JS = 1"
| "mp25_mode_code CODEC_INFO_MP25_MODE_DUAL = 2"
| "mp25_mode_code CODEC_INFO_MP25_MODE_SINGLE = 3"

datatype mp25_mode_ext =
    CODEC_INFO_MP25_MODE_EXT_OFF_OFF
  | CODEC_INFO_MP25_MODE_EXT_ON_OFF
  | CODEC_INFO_MP25_MODE_EXT_OFF_ON
  | CODEC_INFO_MP25_MODE_EXT_ON_ON

fun mp25_mode_ext_code :: "mp25_mode_ext \<Rightarrow> u8" where
  "mp25_mode_ext_code CODEC_INFO_MP25_MODE_EXT_OFF_OFF = 0"
| "mp25_mode_ext_code CODEC_INFO_MP25_MODE_EXT_ON_OFF = 1"
| "mp25_mode_ext_code CODEC_INFO_MP25_MODE_EXT_OFF_ON = 2"
| "mp25_mode_ext_code CODEC_INFO_MP25_MODE_EXT_ON_ON = 3"

definition CODEC_INFO_MP2_SAMPLE_PER_FRAME :: nat where "CODEC_INFO_MP2_SAMPLE_PER_FRAME = 576"

definition CODEC_INFO_MP25_SAMPLE_PER_FRAME :: nat where "CODEC_INFO_MP25_SAMPLE_PER_FRAME = 576"

definition CODEC_INFO_AAC_SF_IDX_RESERVE :: nat where "CODEC_INFO_AAC_SF_IDX_RESERVE = 12"

text \<open>The highest bit rate of a sampling frequency, in bits per second and channel.\<close>

datatype aac_max_rate =
    CODEC_INFO_AAC_BR_RATE_48K
  | CODEC_INFO_AAC_BR_RATE_44K
  | CODEC_INFO_AAC_BR_RATE_32K

fun aac_bit_rate :: "aac_max_rate \<Rightarrow> u32" where
  "aac_bit_rate CODEC_INFO_AAC_BR_RATE_48K = 288000"
| "aac_bit_rate CODEC_INFO_AAC_BR_RATE_44K = 264600"
| "aac_bit_rate CODEC_INFO_AAC_BR_RATE_32K = 192000"

section \<open>Facts\<close>

text \<open>Every code names one value, the reserved sampling index is the first one behind the table, and the
  highest AAC bit rates are six bits per sample.\<close>

lemma mp3_mode_inject [simp]: "mp3_mode_code a = mp3_mode_code b \<longleftrightarrow> a = b"
  by (cases a; cases b) simp_all

lemma mp2_mode_inject [simp]: "mp2_mode_code a = mp2_mode_code b \<longleftrightarrow> a = b"
  by (cases a; cases b) simp_all

lemma mp25_mode_inject [simp]: "mp25_mode_code a = mp25_mode_code b \<longleftrightarrow> a = b"
  by (cases a; cases b) simp_all

lemma mp3_mode_ext_inject [simp]: "mp3_mode_ext_code a = mp3_mode_ext_code b \<longleftrightarrow> a = b"
  by (cases a; cases b) simp_all

lemma mp2_mode_ext_inject [simp]: "mp2_mode_ext_code a = mp2_mode_ext_code b \<longleftrightarrow> a = b"
  by (cases a; cases b) simp_all

lemma mp25_mode_ext_inject [simp]: "mp25_mode_ext_code a = mp25_mode_ext_code b \<longleftrightarrow> a = b"
  by (cases a; cases b) simp_all

lemma aac_limits:
  "CODEC_INFO_AAC_SF_IDX_RESERVE = length aac_sampling"
  "map aac_bit_rate [CODEC_INFO_AAC_BR_RATE_48K, CODEC_INFO_AAC_BR_RATE_44K, CODEC_INFO_AAC_BR_RATE_32K]
     = map (\<lambda>r. 6 * r) [48000, 44100, 32000]"
  by (simp_all add: CODEC_INFO_AAC_SF_IDX_RESERVE_def aac_sampling_def)

end
