(* ===== verification/UipcAudio.thy ===== *)
theory UipcAudio
  imports CodecParams
begin

text \<open>
  uipc_msg.h, third part: the audio messages, that is the control of A2DP streams, the codec
  configuration (its parameters are in CodecParams), routes, mixing and the equalizer. The opcodes of the two light stacks share one
  numbering.
\<close>

section \<open>Stream control\<close>

datatype av_opcode =
    BTA_AV_SYNC_TO_LITE_REQ
  | BTA_AV_SYNC_TO_LITE_RESP
  | BTA_AV_STR_START_TO_LITE_REQ
  | BTA_AV_STR_START_TO_LITE_RESP
  | BTA_AV_STR_STOP_TO_LITE_REQ
  | BTA_AV_STR_STOP_TO_LITE_RESP
  | BTA_AV_STR_CLEANUP_TO_LITE_REQ
  | BTA_AV_STR_CLEANUP_TO_LITE_RESP
  | BTA_AV_STR_SUSPEND_TO_LITE_REQ
  | BTA_AV_STR_SUSPEND_TO_LITE_RESP
  | BTA_AV_SYNC_ERROR_RESP
  | A2DP_START_REQ
  | A2DP_START_RESP
  | A2DP_STOP_REQ
  | A2DP_STOP_RESP
  | A2DP_CLEANUP_REQ
  | A2DP_CLEANUP_RESP
  | A2DP_SUSPEND_REQ
  | A2DP_SUSPEND_RESP
  | A2DP_JITTER_DONE_IND
  | AUDIO_CODEC_CONFIG_REQ
  | AUDIO_CODEC_CONFIG_RESP
  | AUDIO_CODEC_SET_BITRATE_REQ
  | AUDIO_CODEC_FLUSH_REQ
  | AUDIO_ROUTE_CONFIG_REQ
  | AUDIO_ROUTE_CONFIG_RESP
  | AUDIO_MIX_CONFIG_REQ
  | AUDIO_MIX_CONFIG_RESP
  | AUDIO_BURST_FRAMES_IND
  | AUDIO_BURST_END_IND
  | AUDIO_EQ_MODE_CONFIG_REQ
  | AUDIO_SCALE_CONFIG_REQ
  | AUDIO_SUB_ROUTE_REQ
  | AUDIO_SUB_ROUTE_RESP

fun av_code :: "av_opcode \<Rightarrow> u8" where
  "av_code BTA_AV_SYNC_TO_LITE_REQ = 0"
| "av_code BTA_AV_SYNC_TO_LITE_RESP = 1"
| "av_code BTA_AV_STR_START_TO_LITE_REQ = 2"
| "av_code BTA_AV_STR_START_TO_LITE_RESP = 3"
| "av_code BTA_AV_STR_STOP_TO_LITE_REQ = 4"
| "av_code BTA_AV_STR_STOP_TO_LITE_RESP = 5"
| "av_code BTA_AV_STR_CLEANUP_TO_LITE_REQ = 6"
| "av_code BTA_AV_STR_CLEANUP_TO_LITE_RESP = 7"
| "av_code BTA_AV_STR_SUSPEND_TO_LITE_REQ = 8"
| "av_code BTA_AV_STR_SUSPEND_TO_LITE_RESP = 9"
| "av_code BTA_AV_SYNC_ERROR_RESP = 10"
| "av_code A2DP_START_REQ = 11"
| "av_code A2DP_START_RESP = 12"
| "av_code A2DP_STOP_REQ = 13"
| "av_code A2DP_STOP_RESP = 14"
| "av_code A2DP_CLEANUP_REQ = 15"
| "av_code A2DP_CLEANUP_RESP = 16"
| "av_code A2DP_SUSPEND_REQ = 17"
| "av_code A2DP_SUSPEND_RESP = 18"
| "av_code A2DP_JITTER_DONE_IND = 41"
| "av_code AUDIO_CODEC_CONFIG_REQ = 19"
| "av_code AUDIO_CODEC_CONFIG_RESP = 20"
| "av_code AUDIO_CODEC_SET_BITRATE_REQ = 21"
| "av_code AUDIO_CODEC_FLUSH_REQ = 22"
| "av_code AUDIO_ROUTE_CONFIG_REQ = 23"
| "av_code AUDIO_ROUTE_CONFIG_RESP = 24"
| "av_code AUDIO_MIX_CONFIG_REQ = 25"
| "av_code AUDIO_MIX_CONFIG_RESP = 26"
| "av_code AUDIO_BURST_FRAMES_IND = 27"
| "av_code AUDIO_BURST_END_IND = 28"
| "av_code AUDIO_EQ_MODE_CONFIG_REQ = 29"
| "av_code AUDIO_SCALE_CONFIG_REQ = 30"
| "av_code AUDIO_SUB_ROUTE_REQ = 51"
| "av_code AUDIO_SUB_ROUTE_RESP = 52"

record tA2DP_START_REQ =
  a1_opcode :: u8
  a1_lcid :: u16
  a1_curr_mtu :: u16

definition put_A2DP_START_REQ :: "tA2DP_START_REQ \<Rightarrow> bytes" where
  "put_A2DP_START_REQ m = put8 (a1_opcode m) @ le16 (a1_lcid m) @ le16 (a1_curr_mtu m)"

definition get_A2DP_START_REQ :: "bytes \<Rightarrow> (tA2DP_START_REQ \<times> bytes) option" where
  "get_A2DP_START_REQ bs =
     do { (opcode, bs) \<leftarrow> get8 bs; (lcid, bs) \<leftarrow> get16 bs;
          (curr_mtu, bs) \<leftarrow> get16 bs;
          Some (\<lparr>a1_opcode = opcode, a1_lcid = lcid, a1_curr_mtu = curr_mtu\<rparr>, bs) }"

interpretation a2dp_start_req: packed put_A2DP_START_REQ get_A2DP_START_REQ "5" "\<lambda>_. True"
proof
  show "get_A2DP_START_REQ bs = Some (m, s) \<longleftrightarrow> True \<and> bs = put_A2DP_START_REQ m @ s" for bs m s
    by (cases m) (auto simp: get_A2DP_START_REQ_def put_A2DP_START_REQ_def wire_simps)
qed (simp add: put_A2DP_START_REQ_def wire_sizes)

lemmas [wire_simps] = a2dp_start_req.get_iff
lemmas [wire_sizes] = a2dp_start_req.put_length [OF TrueI]

record tA2DP_STOP_REQ =
  a2_opcode :: u8
  a2_lcid :: u16

definition put_A2DP_STOP_REQ :: "tA2DP_STOP_REQ \<Rightarrow> bytes" where
  "put_A2DP_STOP_REQ m = put8 (a2_opcode m) @ le16 (a2_lcid m)"

definition get_A2DP_STOP_REQ :: "bytes \<Rightarrow> (tA2DP_STOP_REQ \<times> bytes) option" where
  "get_A2DP_STOP_REQ bs =
     do { (opcode, bs) \<leftarrow> get8 bs; (lcid, bs) \<leftarrow> get16 bs;
          Some (\<lparr>a2_opcode = opcode, a2_lcid = lcid\<rparr>, bs) }"

interpretation a2dp_stop_req: packed put_A2DP_STOP_REQ get_A2DP_STOP_REQ "3" "\<lambda>_. True"
proof
  show "get_A2DP_STOP_REQ bs = Some (m, s) \<longleftrightarrow> True \<and> bs = put_A2DP_STOP_REQ m @ s" for bs m s
    by (cases m) (auto simp: get_A2DP_STOP_REQ_def put_A2DP_STOP_REQ_def wire_simps)
qed (simp add: put_A2DP_STOP_REQ_def wire_sizes)

lemmas [wire_simps] = a2dp_stop_req.get_iff
lemmas [wire_sizes] = a2dp_stop_req.put_length [OF TrueI]

record tA2DP_SUSPEND_REQ =
  a3_opcode :: u8
  a3_lcid :: u16

definition put_A2DP_SUSPEND_REQ :: "tA2DP_SUSPEND_REQ \<Rightarrow> bytes" where
  "put_A2DP_SUSPEND_REQ m = put8 (a3_opcode m) @ le16 (a3_lcid m)"

definition get_A2DP_SUSPEND_REQ :: "bytes \<Rightarrow> (tA2DP_SUSPEND_REQ \<times> bytes) option" where
  "get_A2DP_SUSPEND_REQ bs =
     do { (opcode, bs) \<leftarrow> get8 bs; (lcid, bs) \<leftarrow> get16 bs;
          Some (\<lparr>a3_opcode = opcode, a3_lcid = lcid\<rparr>, bs) }"

interpretation a2dp_suspend_req: packed put_A2DP_SUSPEND_REQ get_A2DP_SUSPEND_REQ "3" "\<lambda>_. True"
proof
  show "get_A2DP_SUSPEND_REQ bs = Some (m, s) \<longleftrightarrow> True \<and> bs = put_A2DP_SUSPEND_REQ m @ s" for bs m s
    by (cases m) (auto simp: get_A2DP_SUSPEND_REQ_def put_A2DP_SUSPEND_REQ_def wire_simps)
qed (simp add: put_A2DP_SUSPEND_REQ_def wire_sizes)

lemmas [wire_simps] = a2dp_suspend_req.get_iff
lemmas [wire_sizes] = a2dp_suspend_req.put_length [OF TrueI]

record tA2DP_CLEANUP_REQ =
  a4_opcode :: u8
  a4_lcid :: u16
  a4_curr_mtu :: u16

definition put_A2DP_CLEANUP_REQ :: "tA2DP_CLEANUP_REQ \<Rightarrow> bytes" where
  "put_A2DP_CLEANUP_REQ m = put8 (a4_opcode m) @ le16 (a4_lcid m) @ le16 (a4_curr_mtu m)"

definition get_A2DP_CLEANUP_REQ :: "bytes \<Rightarrow> (tA2DP_CLEANUP_REQ \<times> bytes) option" where
  "get_A2DP_CLEANUP_REQ bs =
     do { (opcode, bs) \<leftarrow> get8 bs; (lcid, bs) \<leftarrow> get16 bs;
          (curr_mtu, bs) \<leftarrow> get16 bs;
          Some (\<lparr>a4_opcode = opcode, a4_lcid = lcid, a4_curr_mtu = curr_mtu\<rparr>, bs) }"

interpretation a2dp_cleanup_req: packed put_A2DP_CLEANUP_REQ get_A2DP_CLEANUP_REQ "5" "\<lambda>_. True"
proof
  show "get_A2DP_CLEANUP_REQ bs = Some (m, s) \<longleftrightarrow> True \<and> bs = put_A2DP_CLEANUP_REQ m @ s" for bs m s
    by (cases m) (auto simp: get_A2DP_CLEANUP_REQ_def put_A2DP_CLEANUP_REQ_def wire_simps)
qed (simp add: put_A2DP_CLEANUP_REQ_def wire_sizes)

lemmas [wire_simps] = a2dp_cleanup_req.get_iff
lemmas [wire_sizes] = a2dp_cleanup_req.put_length [OF TrueI]

record tA2DP_GENERIC_RESP =
  a5_opcode :: u8
  a5_lcid :: u16

definition put_A2DP_GENERIC_RESP :: "tA2DP_GENERIC_RESP \<Rightarrow> bytes" where
  "put_A2DP_GENERIC_RESP m = put8 (a5_opcode m) @ le16 (a5_lcid m)"

definition get_A2DP_GENERIC_RESP :: "bytes \<Rightarrow> (tA2DP_GENERIC_RESP \<times> bytes) option" where
  "get_A2DP_GENERIC_RESP bs =
     do { (opcode, bs) \<leftarrow> get8 bs; (lcid, bs) \<leftarrow> get16 bs;
          Some (\<lparr>a5_opcode = opcode, a5_lcid = lcid\<rparr>, bs) }"

interpretation a2dp_generic_resp: packed put_A2DP_GENERIC_RESP get_A2DP_GENERIC_RESP "3" "\<lambda>_. True"
proof
  show "get_A2DP_GENERIC_RESP bs = Some (m, s) \<longleftrightarrow> True \<and> bs = put_A2DP_GENERIC_RESP m @ s" for bs m s
    by (cases m) (auto simp: get_A2DP_GENERIC_RESP_def put_A2DP_GENERIC_RESP_def wire_simps)
qed (simp add: put_A2DP_GENERIC_RESP_def wire_sizes)

lemmas [wire_simps] = a2dp_generic_resp.get_iff
lemmas [wire_sizes] = a2dp_generic_resp.put_length [OF TrueI]

section \<open>Codec messages\<close>

datatype audio_codec =
    AUDIO_CODEC_NONE
  | AUDIO_CODEC_SBC_ENC
  | AUDIO_CODEC_SBC_DEC
  | AUDIO_CODEC_MP3_ENC
  | AUDIO_CODEC_MP3_DEC
  | AUDIO_CODEC_AAC_ENC
  | AUDIO_CODEC_AAC_DEC
  | AUDIO_CODEC_AAC_PLUS_ENC
  | AUDIO_CODEC_AAC_PLUS_DEC
  | AUDIO_CODEC_MP2_ENC
  | AUDIO_CODEC_MP2_DEC
  | AUDIO_CODEC_MP2_5_ENC
  | AUDIO_CODEC_MP2_5_DEC

fun audio_codec_type :: "audio_codec \<Rightarrow> u16" where
  "audio_codec_type AUDIO_CODEC_NONE = 0x0"
| "audio_codec_type AUDIO_CODEC_SBC_ENC = 0x1"
| "audio_codec_type AUDIO_CODEC_SBC_DEC = 0x2"
| "audio_codec_type AUDIO_CODEC_MP3_ENC = 0x4"
| "audio_codec_type AUDIO_CODEC_MP3_DEC = 0x8"
| "audio_codec_type AUDIO_CODEC_AAC_ENC = 0x10"
| "audio_codec_type AUDIO_CODEC_AAC_DEC = 0x20"
| "audio_codec_type AUDIO_CODEC_AAC_PLUS_ENC = 0x40"
| "audio_codec_type AUDIO_CODEC_AAC_PLUS_DEC = 0x80"
| "audio_codec_type AUDIO_CODEC_MP2_ENC = 0x100"
| "audio_codec_type AUDIO_CODEC_MP2_DEC = 0x200"
| "audio_codec_type AUDIO_CODEC_MP2_5_ENC = 0x400"
| "audio_codec_type AUDIO_CODEC_MP2_5_DEC = 0x800"

record tCODEC_INFO_SBC =
  cs_sampling_freq :: u8
  cs_channel_mode :: u8
  cs_block_length :: u8
  cs_num_subbands :: u8
  cs_alloc_method :: u8
  cs_bitpool_size :: u8

definition put_CODEC_INFO_SBC :: "tCODEC_INFO_SBC \<Rightarrow> bytes" where
  "put_CODEC_INFO_SBC m = put8 (cs_sampling_freq m) @ put8 (cs_channel_mode m) @
     put8 (cs_block_length m) @ put8 (cs_num_subbands m) @ put8 (cs_alloc_method m) @
     put8 (cs_bitpool_size m)"

definition get_CODEC_INFO_SBC :: "bytes \<Rightarrow> (tCODEC_INFO_SBC \<times> bytes) option" where
  "get_CODEC_INFO_SBC bs =
     do { (sampling_freq, bs) \<leftarrow> get8 bs; (channel_mode, bs) \<leftarrow> get8 bs;
          (block_length, bs) \<leftarrow> get8 bs; (num_subbands, bs) \<leftarrow> get8 bs;
          (alloc_method, bs) \<leftarrow> get8 bs; (bitpool_size, bs) \<leftarrow> get8 bs;
          Some (\<lparr>cs_sampling_freq = sampling_freq, cs_channel_mode = channel_mode,
                cs_block_length = block_length, cs_num_subbands = num_subbands,
                cs_alloc_method = alloc_method, cs_bitpool_size = bitpool_size\<rparr>, bs) }"

interpretation codec_info_sbc: packed put_CODEC_INFO_SBC get_CODEC_INFO_SBC "6" "\<lambda>_. True"
proof
  show "get_CODEC_INFO_SBC bs = Some (m, s) \<longleftrightarrow> True \<and> bs = put_CODEC_INFO_SBC m @ s" for bs m s
    by (cases m) (auto simp: get_CODEC_INFO_SBC_def put_CODEC_INFO_SBC_def wire_simps)
qed (simp add: put_CODEC_INFO_SBC_def wire_sizes)

lemmas [wire_simps] = codec_info_sbc.get_iff
lemmas [wire_sizes] = codec_info_sbc.put_length [OF TrueI]

record tCODEC_INFO_MP3 =
  c3_ch_mode :: u8
  c3_sampling_freq :: u8
  c3_bitrate_index :: u8

definition put_CODEC_INFO_MP3 :: "tCODEC_INFO_MP3 \<Rightarrow> bytes" where
  "put_CODEC_INFO_MP3 m = put8 (c3_ch_mode m) @ put8 (c3_sampling_freq m) @
     put8 (c3_bitrate_index m)"

definition get_CODEC_INFO_MP3 :: "bytes \<Rightarrow> (tCODEC_INFO_MP3 \<times> bytes) option" where
  "get_CODEC_INFO_MP3 bs =
     do { (ch_mode, bs) \<leftarrow> get8 bs; (sampling_freq, bs) \<leftarrow> get8 bs;
          (bitrate_index, bs) \<leftarrow> get8 bs;
          Some (\<lparr>c3_ch_mode = ch_mode, c3_sampling_freq = sampling_freq,
                c3_bitrate_index = bitrate_index\<rparr>, bs) }"

interpretation codec_info_mp3: packed put_CODEC_INFO_MP3 get_CODEC_INFO_MP3 "3" "\<lambda>_. True"
proof
  show "get_CODEC_INFO_MP3 bs = Some (m, s) \<longleftrightarrow> True \<and> bs = put_CODEC_INFO_MP3 m @ s" for bs m s
    by (cases m) (auto simp: get_CODEC_INFO_MP3_def put_CODEC_INFO_MP3_def wire_simps)
qed (simp add: put_CODEC_INFO_MP3_def wire_sizes)

lemmas [wire_simps] = codec_info_mp3.get_iff
lemmas [wire_sizes] = codec_info_mp3.put_length [OF TrueI]

record tCODEC_INFO_MP2 =
  c2_ch_mode :: u8
  c2_sampling_freq :: u8
  c2_bitrate_index :: u8

definition put_CODEC_INFO_MP2 :: "tCODEC_INFO_MP2 \<Rightarrow> bytes" where
  "put_CODEC_INFO_MP2 m = put8 (c2_ch_mode m) @ put8 (c2_sampling_freq m) @
     put8 (c2_bitrate_index m)"

definition get_CODEC_INFO_MP2 :: "bytes \<Rightarrow> (tCODEC_INFO_MP2 \<times> bytes) option" where
  "get_CODEC_INFO_MP2 bs =
     do { (ch_mode, bs) \<leftarrow> get8 bs; (sampling_freq, bs) \<leftarrow> get8 bs;
          (bitrate_index, bs) \<leftarrow> get8 bs;
          Some (\<lparr>c2_ch_mode = ch_mode, c2_sampling_freq = sampling_freq,
                c2_bitrate_index = bitrate_index\<rparr>, bs) }"

interpretation codec_info_mp2: packed put_CODEC_INFO_MP2 get_CODEC_INFO_MP2 "3" "\<lambda>_. True"
proof
  show "get_CODEC_INFO_MP2 bs = Some (m, s) \<longleftrightarrow> True \<and> bs = put_CODEC_INFO_MP2 m @ s" for bs m s
    by (cases m) (auto simp: get_CODEC_INFO_MP2_def put_CODEC_INFO_MP2_def wire_simps)
qed (simp add: put_CODEC_INFO_MP2_def wire_sizes)

lemmas [wire_simps] = codec_info_mp2.get_iff
lemmas [wire_sizes] = codec_info_mp2.put_length [OF TrueI]

record tCODEC_INFO_MP2_5 =
  c25_ch_mode :: u8
  c25_sampling_freq :: u8
  c25_bitrate_index :: u8

definition put_CODEC_INFO_MP2_5 :: "tCODEC_INFO_MP2_5 \<Rightarrow> bytes" where
  "put_CODEC_INFO_MP2_5 m = put8 (c25_ch_mode m) @ put8 (c25_sampling_freq m) @
     put8 (c25_bitrate_index m)"

definition get_CODEC_INFO_MP2_5 :: "bytes \<Rightarrow> (tCODEC_INFO_MP2_5 \<times> bytes) option" where
  "get_CODEC_INFO_MP2_5 bs =
     do { (ch_mode, bs) \<leftarrow> get8 bs; (sampling_freq, bs) \<leftarrow> get8 bs;
          (bitrate_index, bs) \<leftarrow> get8 bs;
          Some (\<lparr>c25_ch_mode = ch_mode, c25_sampling_freq = sampling_freq,
                c25_bitrate_index = bitrate_index\<rparr>, bs) }"

interpretation codec_info_mp2_5: packed put_CODEC_INFO_MP2_5 get_CODEC_INFO_MP2_5 "3" "\<lambda>_. True"
proof
  show "get_CODEC_INFO_MP2_5 bs = Some (m, s) \<longleftrightarrow> True \<and> bs = put_CODEC_INFO_MP2_5 m @ s" for bs m s
    by (cases m) (auto simp: get_CODEC_INFO_MP2_5_def put_CODEC_INFO_MP2_5_def wire_simps)
qed (simp add: put_CODEC_INFO_MP2_5_def wire_sizes)

lemmas [wire_simps] = codec_info_mp2_5.get_iff
lemmas [wire_sizes] = codec_info_mp2_5.put_length [OF TrueI]

record tCODEC_INFO_AAC =
  ca_sampling_freq :: u16
  ca_channel_mode :: u8
  ca_bitrate :: u32
  ca_sbr_profile :: u32

definition put_CODEC_INFO_AAC :: "tCODEC_INFO_AAC \<Rightarrow> bytes" where
  "put_CODEC_INFO_AAC m = le16 (ca_sampling_freq m) @ put8 (ca_channel_mode m) @
     le32 (ca_bitrate m) @ le32 (ca_sbr_profile m)"

definition get_CODEC_INFO_AAC :: "bytes \<Rightarrow> (tCODEC_INFO_AAC \<times> bytes) option" where
  "get_CODEC_INFO_AAC bs =
     do { (sampling_freq, bs) \<leftarrow> get16 bs; (channel_mode, bs) \<leftarrow> get8 bs;
          (bitrate, bs) \<leftarrow> get32 bs; (sbr_profile, bs) \<leftarrow> get32 bs;
          Some (\<lparr>ca_sampling_freq = sampling_freq, ca_channel_mode = channel_mode, ca_bitrate = bitrate,
                ca_sbr_profile = sbr_profile\<rparr>, bs) }"

interpretation codec_info_aac: packed put_CODEC_INFO_AAC get_CODEC_INFO_AAC "11" "\<lambda>_. True"
proof
  show "get_CODEC_INFO_AAC bs = Some (m, s) \<longleftrightarrow> True \<and> bs = put_CODEC_INFO_AAC m @ s" for bs m s
    by (cases m) (auto simp: get_CODEC_INFO_AAC_def put_CODEC_INFO_AAC_def wire_simps)
qed (simp add: put_CODEC_INFO_AAC_def wire_sizes)

lemmas [wire_simps] = codec_info_aac.get_iff
lemmas [wire_sizes] = codec_info_aac.put_length [OF TrueI]

record tAUDIO_CODEC_CONFIG_REQ =
  cc_opcode :: u8
  cc_codec_type :: u16
  cc_codec_info :: bytes

definition put_AUDIO_CODEC_CONFIG_REQ :: "tAUDIO_CODEC_CONFIG_REQ \<Rightarrow> bytes" where
  "put_AUDIO_CODEC_CONFIG_REQ m = put8 (cc_opcode m) @ le16 (cc_codec_type m) @ cc_codec_info m"

definition get_AUDIO_CODEC_CONFIG_REQ :: "bytes \<Rightarrow> (tAUDIO_CODEC_CONFIG_REQ \<times> bytes) option" where
  "get_AUDIO_CODEC_CONFIG_REQ bs =
     do { (opcode, bs) \<leftarrow> get8 bs; (codec_type, bs) \<leftarrow> get16 bs;
          (codec_info, bs) \<leftarrow> get_bytes 11 bs;
          Some (\<lparr>cc_opcode = opcode, cc_codec_type = codec_type, cc_codec_info = codec_info\<rparr>, bs) }"

definition AUDIO_CODEC_CONFIG_REQ_ok :: "tAUDIO_CODEC_CONFIG_REQ \<Rightarrow> bool" where
  "AUDIO_CODEC_CONFIG_REQ_ok m \<longleftrightarrow> length (cc_codec_info m) = 11"

interpretation audio_codec_config_req: packed put_AUDIO_CODEC_CONFIG_REQ get_AUDIO_CODEC_CONFIG_REQ "14" "AUDIO_CODEC_CONFIG_REQ_ok"
proof
  show "get_AUDIO_CODEC_CONFIG_REQ bs = Some (m, s) \<longleftrightarrow> AUDIO_CODEC_CONFIG_REQ_ok m \<and> bs = put_AUDIO_CODEC_CONFIG_REQ m @ s" for bs m s
    by (cases m) (auto simp: get_AUDIO_CODEC_CONFIG_REQ_def put_AUDIO_CODEC_CONFIG_REQ_def AUDIO_CODEC_CONFIG_REQ_ok_def wire_simps)
qed (simp add: put_AUDIO_CODEC_CONFIG_REQ_def AUDIO_CODEC_CONFIG_REQ_ok_def wire_sizes)

lemmas [wire_simps] = audio_codec_config_req.get_iff
lemmas [wire_sizes] = audio_codec_config_req.put_length

datatype audio_config_status =
    AUDIO_CONFIG_SUCCESS
  | AUDIO_CONFIG_NOT_SUPPORTED
  | AUDIO_CONFIG_FAIL_OUT_OF_MEMORY
  | AUDIO_CONFIG_FAIL_CODEC_USED
  | AUDIO_CONFIG_FAIL_ROUTE

fun audio_config_code :: "audio_config_status \<Rightarrow> u8" where
  "audio_config_code AUDIO_CONFIG_SUCCESS = 0"
| "audio_config_code AUDIO_CONFIG_NOT_SUPPORTED = 1"
| "audio_config_code AUDIO_CONFIG_FAIL_OUT_OF_MEMORY = 2"
| "audio_config_code AUDIO_CONFIG_FAIL_CODEC_USED = 3"
| "audio_config_code AUDIO_CONFIG_FAIL_ROUTE = 4"

record tAUDIO_CODEC_CONFIG_RESP =
  cr5_opcode :: u8
  cr5_status :: u8

definition put_AUDIO_CODEC_CONFIG_RESP :: "tAUDIO_CODEC_CONFIG_RESP \<Rightarrow> bytes" where
  "put_AUDIO_CODEC_CONFIG_RESP m = put8 (cr5_opcode m) @ put8 (cr5_status m)"

definition get_AUDIO_CODEC_CONFIG_RESP :: "bytes \<Rightarrow> (tAUDIO_CODEC_CONFIG_RESP \<times> bytes) option" where
  "get_AUDIO_CODEC_CONFIG_RESP bs =
     do { (opcode, bs) \<leftarrow> get8 bs; (status, bs) \<leftarrow> get8 bs;
          Some (\<lparr>cr5_opcode = opcode, cr5_status = status\<rparr>, bs) }"

interpretation audio_codec_config_resp: packed put_AUDIO_CODEC_CONFIG_RESP get_AUDIO_CODEC_CONFIG_RESP "2" "\<lambda>_. True"
proof
  show "get_AUDIO_CODEC_CONFIG_RESP bs = Some (m, s) \<longleftrightarrow> True \<and> bs = put_AUDIO_CODEC_CONFIG_RESP m @ s" for bs m s
    by (cases m) (auto simp: get_AUDIO_CODEC_CONFIG_RESP_def put_AUDIO_CODEC_CONFIG_RESP_def wire_simps)
qed (simp add: put_AUDIO_CODEC_CONFIG_RESP_def wire_sizes)

lemmas [wire_simps] = audio_codec_config_resp.get_iff
lemmas [wire_sizes] = audio_codec_config_resp.put_length [OF TrueI]

record tAUDIO_CODEC_SET_BITRATE_REQ =
  cb_opcode :: u8
  cb_codec_type :: u16
  cb_codec_bitrate :: bytes

definition put_AUDIO_CODEC_SET_BITRATE_REQ :: "tAUDIO_CODEC_SET_BITRATE_REQ \<Rightarrow> bytes" where
  "put_AUDIO_CODEC_SET_BITRATE_REQ m = put8 (cb_opcode m) @ le16 (cb_codec_type m) @
     cb_codec_bitrate m"

definition get_AUDIO_CODEC_SET_BITRATE_REQ :: "bytes \<Rightarrow> (tAUDIO_CODEC_SET_BITRATE_REQ \<times> bytes) option" where
  "get_AUDIO_CODEC_SET_BITRATE_REQ bs =
     do { (opcode, bs) \<leftarrow> get8 bs; (codec_type, bs) \<leftarrow> get16 bs;
          (codec_bitrate, bs) \<leftarrow> get_bytes 4 bs;
          Some (\<lparr>cb_opcode = opcode, cb_codec_type = codec_type, cb_codec_bitrate = codec_bitrate\<rparr>, bs) }"

definition AUDIO_CODEC_SET_BITRATE_REQ_ok :: "tAUDIO_CODEC_SET_BITRATE_REQ \<Rightarrow> bool" where
  "AUDIO_CODEC_SET_BITRATE_REQ_ok m \<longleftrightarrow> length (cb_codec_bitrate m) = 4"

interpretation audio_codec_set_bitrate_req: packed put_AUDIO_CODEC_SET_BITRATE_REQ get_AUDIO_CODEC_SET_BITRATE_REQ "7" "AUDIO_CODEC_SET_BITRATE_REQ_ok"
proof
  show "get_AUDIO_CODEC_SET_BITRATE_REQ bs = Some (m, s) \<longleftrightarrow> AUDIO_CODEC_SET_BITRATE_REQ_ok m \<and> bs = put_AUDIO_CODEC_SET_BITRATE_REQ m @ s" for bs m s
    by (cases m) (auto simp: get_AUDIO_CODEC_SET_BITRATE_REQ_def put_AUDIO_CODEC_SET_BITRATE_REQ_def AUDIO_CODEC_SET_BITRATE_REQ_ok_def wire_simps)
qed (simp add: put_AUDIO_CODEC_SET_BITRATE_REQ_def AUDIO_CODEC_SET_BITRATE_REQ_ok_def wire_sizes)

lemmas [wire_simps] = audio_codec_set_bitrate_req.get_iff
lemmas [wire_sizes] = audio_codec_set_bitrate_req.put_length

section \<open>Routes, mixing, equalizer\<close>

datatype audio_route_src =
    AUDIO_ROUTE_SRC_FMRX
  | AUDIO_ROUTE_SRC_I2S
  | AUDIO_ROUTE_SRC_ADC
  | AUDIO_ROUTE_SRC_HOST
  | AUDIO_ROUTE_SRC_PTU
  | AUDIO_ROUTE_SRC_BTSNK
  | AUDIO_ROUTE_SRC_NONE

fun audio_route_src_code :: "audio_route_src \<Rightarrow> u8" where
  "audio_route_src_code AUDIO_ROUTE_SRC_FMRX = 0"
| "audio_route_src_code AUDIO_ROUTE_SRC_I2S = 1"
| "audio_route_src_code AUDIO_ROUTE_SRC_ADC = 2"
| "audio_route_src_code AUDIO_ROUTE_SRC_HOST = 3"
| "audio_route_src_code AUDIO_ROUTE_SRC_PTU = 4"
| "audio_route_src_code AUDIO_ROUTE_SRC_BTSNK = 5"
| "audio_route_src_code AUDIO_ROUTE_SRC_NONE = 0x80"

datatype audio_route_mix =
    AUDIO_ROUTE_MIX_NONE
  | AUDIO_ROUTE_MIX_HOST
  | AUDIO_ROUTE_MIX_PCM
  | AUDIO_ROUTE_MIX_CHIRP
  | AUDIO_ROUTE_MIX_I2S
  | AUDIO_ROUTE_MIX_ADC
  | AUDIO_ROUTE_MIX_RESERVED

fun audio_route_mix_code :: "audio_route_mix \<Rightarrow> u8" where
  "audio_route_mix_code AUDIO_ROUTE_MIX_NONE = 0"
| "audio_route_mix_code AUDIO_ROUTE_MIX_HOST = 1"
| "audio_route_mix_code AUDIO_ROUTE_MIX_PCM = 2"
| "audio_route_mix_code AUDIO_ROUTE_MIX_CHIRP = 3"
| "audio_route_mix_code AUDIO_ROUTE_MIX_I2S = 4"
| "audio_route_mix_code AUDIO_ROUTE_MIX_ADC = 5"
| "audio_route_mix_code AUDIO_ROUTE_MIX_RESERVED = 6"

datatype audio_route_out =
    AUDIO_ROUTE_OUT_NONE
  | AUDIO_ROUTE_OUT_BTA2DP
  | AUDIO_ROUTE_OUT_FMTX
  | AUDIO_ROUTE_OUT_BTSCO
  | AUDIO_ROUTE_OUT_HOST
  | AUDIO_ROUTE_OUT_DAC
  | AUDIO_ROUTE_OUT_I2S
  | AUDIO_ROUTE_OUT_BTA2DP_DAC
  | AUDIO_ROUTE_OUT_BTA2DP_I2S
  | AUDIO_ROUTE_OUT_BTSCO_DAC
  | AUDIO_ROUTE_OUT_BTSCO_I2S
  | AUDIO_ROUTE_OUT_HOST_BTA2DP
  | AUDIO_ROUTE_OUT_HOST_BTSCO
  | AUDIO_ROUTE_OUT_HOST_DAC
  | AUDIO_ROUTE_OUT_HOST_I2S
  | AUDIO_ROUTE_OUT_DAC_I2S
  | AUDIO_ROUTE_OUT_RESERVED_2

fun audio_route_out_code :: "audio_route_out \<Rightarrow> u16" where
  "audio_route_out_code AUDIO_ROUTE_OUT_NONE = 0x0"
| "audio_route_out_code AUDIO_ROUTE_OUT_BTA2DP = 0x1"
| "audio_route_out_code AUDIO_ROUTE_OUT_FMTX = 0x2"
| "audio_route_out_code AUDIO_ROUTE_OUT_BTSCO = 0x4"
| "audio_route_out_code AUDIO_ROUTE_OUT_HOST = 0x8"
| "audio_route_out_code AUDIO_ROUTE_OUT_DAC = 0x10"
| "audio_route_out_code AUDIO_ROUTE_OUT_I2S = 0x20"
| "audio_route_out_code AUDIO_ROUTE_OUT_BTA2DP_DAC = 0x40"
| "audio_route_out_code AUDIO_ROUTE_OUT_BTA2DP_I2S = 0x80"
| "audio_route_out_code AUDIO_ROUTE_OUT_BTSCO_DAC = 0x100"
| "audio_route_out_code AUDIO_ROUTE_OUT_BTSCO_I2S = 0x200"
| "audio_route_out_code AUDIO_ROUTE_OUT_HOST_BTA2DP = 0x400"
| "audio_route_out_code AUDIO_ROUTE_OUT_HOST_BTSCO = 0x800"
| "audio_route_out_code AUDIO_ROUTE_OUT_HOST_DAC = 0x1000"
| "audio_route_out_code AUDIO_ROUTE_OUT_HOST_I2S = 0x2000"
| "audio_route_out_code AUDIO_ROUTE_OUT_DAC_I2S = 0x4000"
| "audio_route_out_code AUDIO_ROUTE_OUT_RESERVED_2 = 0x8000"

datatype audio_route_sf =
    AUDIO_ROUTE_SF_8K
  | AUDIO_ROUTE_SF_16K
  | AUDIO_ROUTE_SF_32K
  | AUDIO_ROUTE_SF_44_1K
  | AUDIO_ROUTE_SF_48K
  | AUDIO_ROUTE_SF_11K
  | AUDIO_ROUTE_SF_12K
  | AUDIO_ROUTE_SF_22K
  | AUDIO_ROUTE_SF_24K
  | AUDIO_ROUTE_SF_NA

fun audio_route_sf_code :: "audio_route_sf \<Rightarrow> u8" where
  "audio_route_sf_code AUDIO_ROUTE_SF_8K = 0"
| "audio_route_sf_code AUDIO_ROUTE_SF_16K = 1"
| "audio_route_sf_code AUDIO_ROUTE_SF_32K = 2"
| "audio_route_sf_code AUDIO_ROUTE_SF_44_1K = 3"
| "audio_route_sf_code AUDIO_ROUTE_SF_48K = 4"
| "audio_route_sf_code AUDIO_ROUTE_SF_11K = 5"
| "audio_route_sf_code AUDIO_ROUTE_SF_12K = 6"
| "audio_route_sf_code AUDIO_ROUTE_SF_22K = 7"
| "audio_route_sf_code AUDIO_ROUTE_SF_24K = 8"
| "audio_route_sf_code AUDIO_ROUTE_SF_NA = 0xFF"

datatype audio_route_eq =
    AUDIO_ROUTE_EQ_BASS_BOOST
  | AUDIO_ROUTE_EQ_CLASSIC
  | AUDIO_ROUTE_EQ_JAZZ
  | AUDIO_ROUTE_EQ_LIVE
  | AUDIO_ROUTE_EQ_NORMAL
  | AUDIO_ROUTE_EQ_ROCK
  | AUDIO_ROUTE_EQ_BYPASS
  | AUDIO_ROUTE_DIGITAL_VOLUME_CONTROL
  | AUDIO_ROUTE_EQ_CONFIG_GAIN

fun audio_route_eq_code :: "audio_route_eq \<Rightarrow> u8" where
  "audio_route_eq_code AUDIO_ROUTE_EQ_BASS_BOOST = 0"
| "audio_route_eq_code AUDIO_ROUTE_EQ_CLASSIC = 1"
| "audio_route_eq_code AUDIO_ROUTE_EQ_JAZZ = 2"
| "audio_route_eq_code AUDIO_ROUTE_EQ_LIVE = 3"
| "audio_route_eq_code AUDIO_ROUTE_EQ_NORMAL = 4"
| "audio_route_eq_code AUDIO_ROUTE_EQ_ROCK = 5"
| "audio_route_eq_code AUDIO_ROUTE_EQ_BYPASS = 6"
| "audio_route_eq_code AUDIO_ROUTE_DIGITAL_VOLUME_CONTROL = 7"
| "audio_route_eq_code AUDIO_ROUTE_EQ_CONFIG_GAIN = 0xFF"

definition MAX_AUDIO_ROUTE_SRC :: nat where "MAX_AUDIO_ROUTE_SRC = 6"
definition MAX_AUDIO_ROUTE_MIX :: nat where "MAX_AUDIO_ROUTE_MIX = 7"
definition MAX_AUDIO_SINGLE_ROUTE_OUT :: nat where "MAX_AUDIO_SINGLE_ROUTE_OUT = 6"
definition MAX_AUDIO_MULTI_ROUTE_OUT :: nat where "MAX_AUDIO_MULTI_ROUTE_OUT = 16"

lemmas route_maxima [simp] = MAX_AUDIO_ROUTE_SRC_def MAX_AUDIO_ROUTE_MIX_def
  MAX_AUDIO_SINGLE_ROUTE_OUT_def MAX_AUDIO_MULTI_ROUTE_OUT_def

record tAUDIO_ROUTE_CONFIG_REQ =
  ro_opcode :: u8
  ro_src :: u8
  ro_src_sf :: u8
  ro_out :: u8
  ro_out_codec_sf :: u8
  ro_out_i2s_sf :: u8
  ro_eq_mode :: u8

definition put_AUDIO_ROUTE_CONFIG_REQ :: "tAUDIO_ROUTE_CONFIG_REQ \<Rightarrow> bytes" where
  "put_AUDIO_ROUTE_CONFIG_REQ m = put8 (ro_opcode m) @ put8 (ro_src m) @ put8 (ro_src_sf m) @
     put8 (ro_out m) @ put8 (ro_out_codec_sf m) @ put8 (ro_out_i2s_sf m) @ put8 (ro_eq_mode m)"

definition get_AUDIO_ROUTE_CONFIG_REQ :: "bytes \<Rightarrow> (tAUDIO_ROUTE_CONFIG_REQ \<times> bytes) option" where
  "get_AUDIO_ROUTE_CONFIG_REQ bs =
     do { (opcode, bs) \<leftarrow> get8 bs; (src, bs) \<leftarrow> get8 bs;
          (src_sf, bs) \<leftarrow> get8 bs; (out, bs) \<leftarrow> get8 bs;
          (out_codec_sf, bs) \<leftarrow> get8 bs; (out_i2s_sf, bs) \<leftarrow> get8 bs;
          (eq_mode, bs) \<leftarrow> get8 bs;
          Some (\<lparr>ro_opcode = opcode, ro_src = src, ro_src_sf = src_sf, ro_out = out,
                ro_out_codec_sf = out_codec_sf, ro_out_i2s_sf = out_i2s_sf,
                ro_eq_mode = eq_mode\<rparr>, bs) }"

interpretation audio_route_config_req: packed put_AUDIO_ROUTE_CONFIG_REQ get_AUDIO_ROUTE_CONFIG_REQ "7" "\<lambda>_. True"
proof
  show "get_AUDIO_ROUTE_CONFIG_REQ bs = Some (m, s) \<longleftrightarrow> True \<and> bs = put_AUDIO_ROUTE_CONFIG_REQ m @ s" for bs m s
    by (cases m) (auto simp: get_AUDIO_ROUTE_CONFIG_REQ_def put_AUDIO_ROUTE_CONFIG_REQ_def wire_simps)
qed (simp add: put_AUDIO_ROUTE_CONFIG_REQ_def wire_sizes)

lemmas [wire_simps] = audio_route_config_req.get_iff
lemmas [wire_sizes] = audio_route_config_req.put_length [OF TrueI]

record tAUDIO_ROUTE_CONFIG_RESP =
  rr_opcode :: u8
  rr_status :: u8

definition put_AUDIO_ROUTE_CONFIG_RESP :: "tAUDIO_ROUTE_CONFIG_RESP \<Rightarrow> bytes" where
  "put_AUDIO_ROUTE_CONFIG_RESP m = put8 (rr_opcode m) @ put8 (rr_status m)"

definition get_AUDIO_ROUTE_CONFIG_RESP :: "bytes \<Rightarrow> (tAUDIO_ROUTE_CONFIG_RESP \<times> bytes) option" where
  "get_AUDIO_ROUTE_CONFIG_RESP bs =
     do { (opcode, bs) \<leftarrow> get8 bs; (status, bs) \<leftarrow> get8 bs;
          Some (\<lparr>rr_opcode = opcode, rr_status = status\<rparr>, bs) }"

interpretation audio_route_config_resp: packed put_AUDIO_ROUTE_CONFIG_RESP get_AUDIO_ROUTE_CONFIG_RESP "2" "\<lambda>_. True"
proof
  show "get_AUDIO_ROUTE_CONFIG_RESP bs = Some (m, s) \<longleftrightarrow> True \<and> bs = put_AUDIO_ROUTE_CONFIG_RESP m @ s" for bs m s
    by (cases m) (auto simp: get_AUDIO_ROUTE_CONFIG_RESP_def put_AUDIO_ROUTE_CONFIG_RESP_def wire_simps)
qed (simp add: put_AUDIO_ROUTE_CONFIG_RESP_def wire_sizes)

lemmas [wire_simps] = audio_route_config_resp.get_iff
lemmas [wire_sizes] = audio_route_config_resp.put_length [OF TrueI]

record tCHIRP_CONFIG =
  ch_amp :: "u16 list"
  ch_tone :: "u16 list"
  ch_mark :: "u16 list"
  ch_space :: "u16 list"

definition put_CHIRP_CONFIG :: "tCHIRP_CONFIG \<Rightarrow> bytes" where
  "put_CHIRP_CONFIG m = concat (map le16 (ch_amp m)) @ concat (map le16 (ch_tone m)) @
     concat (map le16 (ch_mark m)) @ concat (map le16 (ch_space m))"

definition get_CHIRP_CONFIG :: "bytes \<Rightarrow> (tCHIRP_CONFIG \<times> bytes) option" where
  "get_CHIRP_CONFIG bs =
     do { (amp, bs) \<leftarrow> w16.get_array 2 bs;
          (tone, bs) \<leftarrow> w16.get_array 2 bs;
          (mark, bs) \<leftarrow> w16.get_array 2 bs;
          (space, bs) \<leftarrow> w16.get_array 2 bs;
          Some (\<lparr>ch_amp = amp, ch_tone = tone, ch_mark = mark, ch_space = space\<rparr>, bs) }"

definition CHIRP_CONFIG_ok :: "tCHIRP_CONFIG \<Rightarrow> bool" where
  "CHIRP_CONFIG_ok m \<longleftrightarrow> length (ch_amp m) = 2 \<and> length (ch_tone m) = 2 \<and> length (ch_mark m) = 2 \<and> length (ch_space m) = 2"

interpretation chirp_config: packed put_CHIRP_CONFIG get_CHIRP_CONFIG "16" "CHIRP_CONFIG_ok"
proof
  show "get_CHIRP_CONFIG bs = Some (m, s) \<longleftrightarrow> CHIRP_CONFIG_ok m \<and> bs = put_CHIRP_CONFIG m @ s" for bs m s
    by (cases m) (auto simp: get_CHIRP_CONFIG_def put_CHIRP_CONFIG_def CHIRP_CONFIG_ok_def wire_simps)
qed (simp add: put_CHIRP_CONFIG_def CHIRP_CONFIG_ok_def wire_sizes)

lemmas [wire_simps] = chirp_config.get_iff
lemmas [wire_sizes] = chirp_config.put_length

record tMIX_SCALE_CONFIG =
  ms_pri_l :: u8
  ms_mix_l :: u8
  ms_pri_r :: u8
  ms_mix_r :: u8

definition put_MIX_SCALE_CONFIG :: "tMIX_SCALE_CONFIG \<Rightarrow> bytes" where
  "put_MIX_SCALE_CONFIG m = put8 (ms_pri_l m) @ put8 (ms_mix_l m) @ put8 (ms_pri_r m) @
     put8 (ms_mix_r m)"

definition get_MIX_SCALE_CONFIG :: "bytes \<Rightarrow> (tMIX_SCALE_CONFIG \<times> bytes) option" where
  "get_MIX_SCALE_CONFIG bs =
     do { (pri_l, bs) \<leftarrow> get8 bs; (mix_l, bs) \<leftarrow> get8 bs;
          (pri_r, bs) \<leftarrow> get8 bs; (mix_r, bs) \<leftarrow> get8 bs;
          Some (\<lparr>ms_pri_l = pri_l, ms_mix_l = mix_l, ms_pri_r = pri_r, ms_mix_r = mix_r\<rparr>, bs) }"

interpretation mix_scale_config: packed put_MIX_SCALE_CONFIG get_MIX_SCALE_CONFIG "4" "\<lambda>_. True"
proof
  show "get_MIX_SCALE_CONFIG bs = Some (m, s) \<longleftrightarrow> True \<and> bs = put_MIX_SCALE_CONFIG m @ s" for bs m s
    by (cases m) (auto simp: get_MIX_SCALE_CONFIG_def put_MIX_SCALE_CONFIG_def wire_simps)
qed (simp add: put_MIX_SCALE_CONFIG_def wire_sizes)

lemmas [wire_simps] = mix_scale_config.get_iff
lemmas [wire_sizes] = mix_scale_config.put_length [OF TrueI]

record tEQ_GAIN_CONFIG =
  eq_audio_l_g0 :: u32
  eq_audio_l_g1 :: u32
  eq_audio_l_g2 :: u32
  eq_audio_l_g3 :: u32
  eq_audio_l_g4 :: u32
  eq_audio_l_gl :: u32
  eq_audio_r_g0 :: u32
  eq_audio_r_g1 :: u32
  eq_audio_r_g2 :: u32
  eq_audio_r_g3 :: u32
  eq_audio_r_g4 :: u32
  eq_audio_r_gl :: u32

definition put_EQ_GAIN_CONFIG :: "tEQ_GAIN_CONFIG \<Rightarrow> bytes" where
  "put_EQ_GAIN_CONFIG m = le32 (eq_audio_l_g0 m) @ le32 (eq_audio_l_g1 m) @
     le32 (eq_audio_l_g2 m) @ le32 (eq_audio_l_g3 m) @ le32 (eq_audio_l_g4 m) @
     le32 (eq_audio_l_gl m) @ le32 (eq_audio_r_g0 m) @ le32 (eq_audio_r_g1 m) @
     le32 (eq_audio_r_g2 m) @ le32 (eq_audio_r_g3 m) @ le32 (eq_audio_r_g4 m) @
     le32 (eq_audio_r_gl m)"

definition get_EQ_GAIN_CONFIG :: "bytes \<Rightarrow> (tEQ_GAIN_CONFIG \<times> bytes) option" where
  "get_EQ_GAIN_CONFIG bs =
     do { (audio_l_g0, bs) \<leftarrow> get32 bs; (audio_l_g1, bs) \<leftarrow> get32 bs;
          (audio_l_g2, bs) \<leftarrow> get32 bs; (audio_l_g3, bs) \<leftarrow> get32 bs;
          (audio_l_g4, bs) \<leftarrow> get32 bs; (audio_l_gl, bs) \<leftarrow> get32 bs;
          (audio_r_g0, bs) \<leftarrow> get32 bs; (audio_r_g1, bs) \<leftarrow> get32 bs;
          (audio_r_g2, bs) \<leftarrow> get32 bs; (audio_r_g3, bs) \<leftarrow> get32 bs;
          (audio_r_g4, bs) \<leftarrow> get32 bs; (audio_r_gl, bs) \<leftarrow> get32 bs;
          Some (\<lparr>eq_audio_l_g0 = audio_l_g0, eq_audio_l_g1 = audio_l_g1, eq_audio_l_g2 = audio_l_g2,
                eq_audio_l_g3 = audio_l_g3, eq_audio_l_g4 = audio_l_g4,
                eq_audio_l_gl = audio_l_gl, eq_audio_r_g0 = audio_r_g0,
                eq_audio_r_g1 = audio_r_g1, eq_audio_r_g2 = audio_r_g2,
                eq_audio_r_g3 = audio_r_g3, eq_audio_r_g4 = audio_r_g4,
                eq_audio_r_gl = audio_r_gl\<rparr>, bs) }"

interpretation eq_gain_config: packed put_EQ_GAIN_CONFIG get_EQ_GAIN_CONFIG "48" "\<lambda>_. True"
proof
  show "get_EQ_GAIN_CONFIG bs = Some (m, s) \<longleftrightarrow> True \<and> bs = put_EQ_GAIN_CONFIG m @ s" for bs m s
    by (cases m) (auto simp: get_EQ_GAIN_CONFIG_def put_EQ_GAIN_CONFIG_def wire_simps)
qed (simp add: put_EQ_GAIN_CONFIG_def wire_sizes)

lemmas [wire_simps] = eq_gain_config.get_iff
lemmas [wire_sizes] = eq_gain_config.put_length [OF TrueI]

record tAUDIO_MIX_CONFIG_REQ =
  mq_opcode :: u8
  mq_mix_src :: u8
  mq_mix_src_sf :: u8
  mq_mix_scale :: tMIX_SCALE_CONFIG
  mq_chirp_config :: tCHIRP_CONFIG

definition put_AUDIO_MIX_CONFIG_REQ :: "tAUDIO_MIX_CONFIG_REQ \<Rightarrow> bytes" where
  "put_AUDIO_MIX_CONFIG_REQ m = put8 (mq_opcode m) @ put8 (mq_mix_src m) @
     put8 (mq_mix_src_sf m) @ put_MIX_SCALE_CONFIG (mq_mix_scale m) @
     put_CHIRP_CONFIG (mq_chirp_config m)"

definition get_AUDIO_MIX_CONFIG_REQ :: "bytes \<Rightarrow> (tAUDIO_MIX_CONFIG_REQ \<times> bytes) option" where
  "get_AUDIO_MIX_CONFIG_REQ bs =
     do { (opcode, bs) \<leftarrow> get8 bs; (mix_src, bs) \<leftarrow> get8 bs;
          (mix_src_sf, bs) \<leftarrow> get8 bs;
          (mix_scale, bs) \<leftarrow> get_MIX_SCALE_CONFIG bs;
          (chirp_config, bs) \<leftarrow> get_CHIRP_CONFIG bs;
          Some (\<lparr>mq_opcode = opcode, mq_mix_src = mix_src, mq_mix_src_sf = mix_src_sf,
                mq_mix_scale = mix_scale, mq_chirp_config = chirp_config\<rparr>, bs) }"

definition AUDIO_MIX_CONFIG_REQ_ok :: "tAUDIO_MIX_CONFIG_REQ \<Rightarrow> bool" where
  "AUDIO_MIX_CONFIG_REQ_ok m \<longleftrightarrow> CHIRP_CONFIG_ok (mq_chirp_config m)"

interpretation audio_mix_config_req: packed put_AUDIO_MIX_CONFIG_REQ get_AUDIO_MIX_CONFIG_REQ "23" "AUDIO_MIX_CONFIG_REQ_ok"
proof
  show "get_AUDIO_MIX_CONFIG_REQ bs = Some (m, s) \<longleftrightarrow> AUDIO_MIX_CONFIG_REQ_ok m \<and> bs = put_AUDIO_MIX_CONFIG_REQ m @ s" for bs m s
    by (cases m) (auto simp: get_AUDIO_MIX_CONFIG_REQ_def put_AUDIO_MIX_CONFIG_REQ_def AUDIO_MIX_CONFIG_REQ_ok_def wire_simps)
qed (simp add: put_AUDIO_MIX_CONFIG_REQ_def AUDIO_MIX_CONFIG_REQ_ok_def wire_sizes)

lemmas [wire_simps] = audio_mix_config_req.get_iff
lemmas [wire_sizes] = audio_mix_config_req.put_length

record tAUDIO_MIX_CONFIG_RESP =
  mp_opcode :: u8
  mp_status :: u8

definition put_AUDIO_MIX_CONFIG_RESP :: "tAUDIO_MIX_CONFIG_RESP \<Rightarrow> bytes" where
  "put_AUDIO_MIX_CONFIG_RESP m = put8 (mp_opcode m) @ put8 (mp_status m)"

definition get_AUDIO_MIX_CONFIG_RESP :: "bytes \<Rightarrow> (tAUDIO_MIX_CONFIG_RESP \<times> bytes) option" where
  "get_AUDIO_MIX_CONFIG_RESP bs =
     do { (opcode, bs) \<leftarrow> get8 bs; (status, bs) \<leftarrow> get8 bs;
          Some (\<lparr>mp_opcode = opcode, mp_status = status\<rparr>, bs) }"

interpretation audio_mix_config_resp: packed put_AUDIO_MIX_CONFIG_RESP get_AUDIO_MIX_CONFIG_RESP "2" "\<lambda>_. True"
proof
  show "get_AUDIO_MIX_CONFIG_RESP bs = Some (m, s) \<longleftrightarrow> True \<and> bs = put_AUDIO_MIX_CONFIG_RESP m @ s" for bs m s
    by (cases m) (auto simp: get_AUDIO_MIX_CONFIG_RESP_def put_AUDIO_MIX_CONFIG_RESP_def wire_simps)
qed (simp add: put_AUDIO_MIX_CONFIG_RESP_def wire_sizes)

lemmas [wire_simps] = audio_mix_config_resp.get_iff
lemmas [wire_sizes] = audio_mix_config_resp.put_length [OF TrueI]

record tAUDIO_BURST_FRAMES_IND =
  bf_opcode :: u8
  bf_burst_size :: u32

definition put_AUDIO_BURST_FRAMES_IND :: "tAUDIO_BURST_FRAMES_IND \<Rightarrow> bytes" where
  "put_AUDIO_BURST_FRAMES_IND m = put8 (bf_opcode m) @ le32 (bf_burst_size m)"

definition get_AUDIO_BURST_FRAMES_IND :: "bytes \<Rightarrow> (tAUDIO_BURST_FRAMES_IND \<times> bytes) option" where
  "get_AUDIO_BURST_FRAMES_IND bs =
     do { (opcode, bs) \<leftarrow> get8 bs; (burst_size, bs) \<leftarrow> get32 bs;
          Some (\<lparr>bf_opcode = opcode, bf_burst_size = burst_size\<rparr>, bs) }"

interpretation audio_burst_frames_ind: packed put_AUDIO_BURST_FRAMES_IND get_AUDIO_BURST_FRAMES_IND "5" "\<lambda>_. True"
proof
  show "get_AUDIO_BURST_FRAMES_IND bs = Some (m, s) \<longleftrightarrow> True \<and> bs = put_AUDIO_BURST_FRAMES_IND m @ s" for bs m s
    by (cases m) (auto simp: get_AUDIO_BURST_FRAMES_IND_def put_AUDIO_BURST_FRAMES_IND_def wire_simps)
qed (simp add: put_AUDIO_BURST_FRAMES_IND_def wire_sizes)

lemmas [wire_simps] = audio_burst_frames_ind.get_iff
lemmas [wire_sizes] = audio_burst_frames_ind.put_length [OF TrueI]

record tAUDIO_BURST_END_IND =
  be_opcode :: u8

definition put_AUDIO_BURST_END_IND :: "tAUDIO_BURST_END_IND \<Rightarrow> bytes" where
  "put_AUDIO_BURST_END_IND m = put8 (be_opcode m)"

definition get_AUDIO_BURST_END_IND :: "bytes \<Rightarrow> (tAUDIO_BURST_END_IND \<times> bytes) option" where
  "get_AUDIO_BURST_END_IND bs =
     do { (opcode, bs) \<leftarrow> get8 bs;
          Some (\<lparr>be_opcode = opcode\<rparr>, bs) }"

interpretation audio_burst_end_ind: packed put_AUDIO_BURST_END_IND get_AUDIO_BURST_END_IND "1" "\<lambda>_. True"
proof
  show "get_AUDIO_BURST_END_IND bs = Some (m, s) \<longleftrightarrow> True \<and> bs = put_AUDIO_BURST_END_IND m @ s" for bs m s
    by (cases m) (auto simp: get_AUDIO_BURST_END_IND_def put_AUDIO_BURST_END_IND_def wire_simps)
qed (simp add: put_AUDIO_BURST_END_IND_def wire_sizes)

lemmas [wire_simps] = audio_burst_end_ind.get_iff
lemmas [wire_sizes] = audio_burst_end_ind.put_length [OF TrueI]

record tAUDIO_CODEC_FLUSH_REQ =
  fl_opcode :: u8

definition put_AUDIO_CODEC_FLUSH_REQ :: "tAUDIO_CODEC_FLUSH_REQ \<Rightarrow> bytes" where
  "put_AUDIO_CODEC_FLUSH_REQ m = put8 (fl_opcode m)"

definition get_AUDIO_CODEC_FLUSH_REQ :: "bytes \<Rightarrow> (tAUDIO_CODEC_FLUSH_REQ \<times> bytes) option" where
  "get_AUDIO_CODEC_FLUSH_REQ bs =
     do { (opcode, bs) \<leftarrow> get8 bs;
          Some (\<lparr>fl_opcode = opcode\<rparr>, bs) }"

interpretation audio_codec_flush_req: packed put_AUDIO_CODEC_FLUSH_REQ get_AUDIO_CODEC_FLUSH_REQ "1" "\<lambda>_. True"
proof
  show "get_AUDIO_CODEC_FLUSH_REQ bs = Some (m, s) \<longleftrightarrow> True \<and> bs = put_AUDIO_CODEC_FLUSH_REQ m @ s" for bs m s
    by (cases m) (auto simp: get_AUDIO_CODEC_FLUSH_REQ_def put_AUDIO_CODEC_FLUSH_REQ_def wire_simps)
qed (simp add: put_AUDIO_CODEC_FLUSH_REQ_def wire_sizes)

lemmas [wire_simps] = audio_codec_flush_req.get_iff
lemmas [wire_sizes] = audio_codec_flush_req.put_length [OF TrueI]

record tAUDIO_EQ_MODE_CONFIG_REQ =
  em_opcode :: u8
  em_eq_mode :: u8
  em_filter_gain :: tEQ_GAIN_CONFIG

definition put_AUDIO_EQ_MODE_CONFIG_REQ :: "tAUDIO_EQ_MODE_CONFIG_REQ \<Rightarrow> bytes" where
  "put_AUDIO_EQ_MODE_CONFIG_REQ m = put8 (em_opcode m) @ put8 (em_eq_mode m) @
     put_EQ_GAIN_CONFIG (em_filter_gain m)"

definition get_AUDIO_EQ_MODE_CONFIG_REQ :: "bytes \<Rightarrow> (tAUDIO_EQ_MODE_CONFIG_REQ \<times> bytes) option" where
  "get_AUDIO_EQ_MODE_CONFIG_REQ bs =
     do { (opcode, bs) \<leftarrow> get8 bs; (eq_mode, bs) \<leftarrow> get8 bs;
          (filter_gain, bs) \<leftarrow> get_EQ_GAIN_CONFIG bs;
          Some (\<lparr>em_opcode = opcode, em_eq_mode = eq_mode, em_filter_gain = filter_gain\<rparr>, bs) }"

interpretation audio_eq_mode_config_req: packed put_AUDIO_EQ_MODE_CONFIG_REQ get_AUDIO_EQ_MODE_CONFIG_REQ "50" "\<lambda>_. True"
proof
  show "get_AUDIO_EQ_MODE_CONFIG_REQ bs = Some (m, s) \<longleftrightarrow> True \<and> bs = put_AUDIO_EQ_MODE_CONFIG_REQ m @ s" for bs m s
    by (cases m) (auto simp: get_AUDIO_EQ_MODE_CONFIG_REQ_def put_AUDIO_EQ_MODE_CONFIG_REQ_def wire_simps)
qed (simp add: put_AUDIO_EQ_MODE_CONFIG_REQ_def wire_sizes)

lemmas [wire_simps] = audio_eq_mode_config_req.get_iff
lemmas [wire_sizes] = audio_eq_mode_config_req.put_length [OF TrueI]

record tAUDIO_SCALE_CONFIG_REQ =
  sq_opcode :: u8
  sq_mix_scale :: tMIX_SCALE_CONFIG

definition put_AUDIO_SCALE_CONFIG_REQ :: "tAUDIO_SCALE_CONFIG_REQ \<Rightarrow> bytes" where
  "put_AUDIO_SCALE_CONFIG_REQ m = put8 (sq_opcode m) @ put_MIX_SCALE_CONFIG (sq_mix_scale m)"

definition get_AUDIO_SCALE_CONFIG_REQ :: "bytes \<Rightarrow> (tAUDIO_SCALE_CONFIG_REQ \<times> bytes) option" where
  "get_AUDIO_SCALE_CONFIG_REQ bs =
     do { (opcode, bs) \<leftarrow> get8 bs;
          (mix_scale, bs) \<leftarrow> get_MIX_SCALE_CONFIG bs;
          Some (\<lparr>sq_opcode = opcode, sq_mix_scale = mix_scale\<rparr>, bs) }"

interpretation audio_scale_config_req: packed put_AUDIO_SCALE_CONFIG_REQ get_AUDIO_SCALE_CONFIG_REQ "5" "\<lambda>_. True"
proof
  show "get_AUDIO_SCALE_CONFIG_REQ bs = Some (m, s) \<longleftrightarrow> True \<and> bs = put_AUDIO_SCALE_CONFIG_REQ m @ s" for bs m s
    by (cases m) (auto simp: get_AUDIO_SCALE_CONFIG_REQ_def put_AUDIO_SCALE_CONFIG_REQ_def wire_simps)
qed (simp add: put_AUDIO_SCALE_CONFIG_REQ_def wire_sizes)

lemmas [wire_simps] = audio_scale_config_req.get_iff
lemmas [wire_sizes] = audio_scale_config_req.put_length [OF TrueI]

section \<open>The codec union\<close>

datatype tCODEC_INFO =
    sbc tCODEC_INFO_SBC
  | mp3 tCODEC_INFO_MP3
  | mp2 tCODEC_INFO_MP2
  | mp2_5 tCODEC_INFO_MP2_5
  | aac tCODEC_INFO_AAC

definition CODEC_INFO_SIZE :: nat where "CODEC_INFO_SIZE = union_size [6, 3, 3, 3, 11]"

lemma codec_info_size [simp]: "CODEC_INFO_SIZE = 11"
  by (simp add: CODEC_INFO_SIZE_def union_size_def)

section \<open>Properties\<close>

text \<open>Codes that identify: a finite type whose listed codes are distinct.\<close>

lemma inj_by_list: "\<forall>a. a \<in> set xs \<Longrightarrow> distinct (map f xs) \<Longrightarrow> inj f"
  by (metis distinct_map inj_on_subset subsetI)

lemma management_codes: "inj uipc_code" "inj slip_code" "inj l2c_code" "inj avdt_code"
proof -
  show "inj uipc_code"
    by (rule inj_by_list [of "[UIPC_OPEN_REQ, UIPC_OPEN_RSP, UIPC_CLOSE_REQ, UIPC_CLOSE_RSP]"])
      (simp_all add: uipc_opcode.nchotomy)
  show "inj slip_code"
    by (rule inj_by_list [of "[SLIP_SYNC_TO_LITE_REQ, SLIP_SYNC_TO_LITE_RESP, SLIP_SYNC_TO_FULL_REQ,
          SLIP_SYNC_TO_FULL_RESP, SLIP_SYNC_NOTIFY]"])
      (simp_all add: slip_opcode.nchotomy)
  show "inj l2c_code"
    by (rule inj_by_list [of "[L2C_SYNC_TO_LITE_REQ, L2C_SYNC_TO_LITE_RESP, L2C_REMOVE_TO_LITE_REQ,
          L2C_REMOVE_TO_LITE_RESP, L2C_FLUSH_TO_FULL_IND]"])
      (simp_all add: l2c_opcode.nchotomy)
  show "inj avdt_code"
    by (rule inj_by_list [of "[AVDT_SYNC_TO_LITE_REQ, AVDT_SYNC_TO_LITE_RESP, AVDT_RESYNC_TO_LITE_REQ,
          AVDT_RESYNC_TO_LITE_RESP, AVDT_SYNC_TO_FULL_REQ, AVDT_SYNC_TO_FULL_RESP, AVDT_REMOVE_TO_LITE_REQ,
          AVDT_REMOVE_TO_LITE_RESP, AVDT_SYNC_TO_BTC_LITE_REQ, AVDT_SYNC_TO_BTC_LITE_RESP]"])
      (simp_all add: avdt_opcode.nchotomy)
qed

definition av_opcodes :: "av_opcode list" where
  "av_opcodes =
     [BTA_AV_SYNC_TO_LITE_REQ, BTA_AV_SYNC_TO_LITE_RESP, BTA_AV_STR_START_TO_LITE_REQ,
      BTA_AV_STR_START_TO_LITE_RESP, BTA_AV_STR_STOP_TO_LITE_REQ, BTA_AV_STR_STOP_TO_LITE_RESP,
      BTA_AV_STR_CLEANUP_TO_LITE_REQ, BTA_AV_STR_CLEANUP_TO_LITE_RESP, BTA_AV_STR_SUSPEND_TO_LITE_REQ,
      BTA_AV_STR_SUSPEND_TO_LITE_RESP, BTA_AV_SYNC_ERROR_RESP, A2DP_START_REQ, A2DP_START_RESP,
      A2DP_STOP_REQ, A2DP_STOP_RESP, A2DP_CLEANUP_REQ, A2DP_CLEANUP_RESP, A2DP_SUSPEND_REQ,
      A2DP_SUSPEND_RESP, A2DP_JITTER_DONE_IND, AUDIO_CODEC_CONFIG_REQ, AUDIO_CODEC_CONFIG_RESP,
      AUDIO_CODEC_SET_BITRATE_REQ, AUDIO_CODEC_FLUSH_REQ, AUDIO_ROUTE_CONFIG_REQ, AUDIO_ROUTE_CONFIG_RESP,
      AUDIO_MIX_CONFIG_REQ, AUDIO_MIX_CONFIG_RESP, AUDIO_BURST_FRAMES_IND, AUDIO_BURST_END_IND,
      AUDIO_EQ_MODE_CONFIG_REQ, AUDIO_SCALE_CONFIG_REQ, AUDIO_SUB_ROUTE_REQ, AUDIO_SUB_ROUTE_RESP]"

lemma av_codes: "inj av_code"
proof (rule inj_by_list)
  show "\<forall>a. a \<in> set av_opcodes"
  proof
    fix a
    show "a \<in> set av_opcodes" by (cases a) (simp_all add: av_opcodes_def)
  qed
  show "distinct (map av_code av_opcodes)" by (simp add: av_opcodes_def)
qed

text \<open>
  An opcode identifies its message within its message group: no two opcodes of the
  management, H5, L2CAP, AVDTP or audio groups have the same code, although both light stacks
  number their audio messages in one space.
\<close>

theorem opcodes_identify_messages:
  "inj uipc_code \<and> inj slip_code \<and> inj l2c_code \<and> inj avdt_code \<and> inj av_code"
  by (simp add: management_codes av_codes)

text \<open>
  The output field of a route request is one byte, the route codes are 16-bit masks: each
  of the single outputs and of the first two combinations is carried unchanged, every later
  combination is sent as 0, the code for no output.
\<close>

theorem route_request_drops_combinations:
  assumes "ro_out m = ucast (audio_route_out_code r)"
  shows "put_AUDIO_ROUTE_CONFIG_REQ m ! 3
      = (if audio_route_out_code r < 0x100 then ucast (audio_route_out_code r)
         else ucast (audio_route_out_code AUDIO_ROUTE_OUT_NONE))
    \<and> (r \<noteq> AUDIO_ROUTE_OUT_NONE \<and> audio_route_out_code r < 0x100
        \<longrightarrow> put_AUDIO_ROUTE_CONFIG_REQ m ! 3 \<noteq> 0)"
  using assms by (cases r) (simp_all add: put_AUDIO_ROUTE_CONFIG_REQ_def put8_def)

theorem route_request_drops_combinations_witness:
  "put_AUDIO_ROUTE_CONFIG_REQ \<lparr>ro_opcode = 23, ro_src = 1, ro_src_sf = 4, ro_out = 0, ro_out_codec_sf = 4,
     ro_out_i2s_sf = 4, ro_eq_mode = 6\<rparr> ! 3 = ucast (audio_route_out_code AUDIO_ROUTE_OUT_NONE)"
  using route_request_drops_combinations [of "\<lparr>ro_opcode = 23, ro_src = 1, ro_src_sf = 4, ro_out = 0,
      ro_out_codec_sf = 4, ro_out_i2s_sf = 4, ro_eq_mode = 6\<rparr>" AUDIO_ROUTE_OUT_DAC_I2S] by simp

text \<open>The indices of the bit rate tables are 0 to 14, as the comments of the codec structs say, and
  the rates rise with the index; the two half-rate codecs have the same table.\<close>

lemma bitrate_tables:
  "length mp3_bitrates = 15" "length mp2_bitrates = 15" "mp25_bitrates = mp2_bitrates"
  "sorted_wrt (<) mp3_bitrates" "sorted_wrt (<) mp2_bitrates" "sorted_wrt (>) aac_sampling"
  by (simp_all add: mp3_bitrates_def mp2_bitrates_def mp25_bitrates_def aac_sampling_def)

end
