(* ===== verification/Spec2Isabelle.thy ===== *)
theory Spec2Isabelle
  imports Startup PatchChoice LpmRace UipcAudio
begin

text \<open>
  Verification of libbt, the Bluetooth vendor library of the Nordic/Broadcom UART controllers
  (src/libbt). The library sits between the host stack's HCI layer and the controller: it powers
  the chip, opens the serial port, initializes the controller (line speed, firmware patch, device
  address), drives its low power pins and configures the SCO audio path.

  \<^bold>\<open>How the program is put together.\<close> The host stack loads bt_vendor_nordic.c and calls \<^verbatim>\<open>init\<close>
  with a table of callbacks, then \<^verbatim>\<open>op\<close> with an opcode, then \<^verbatim>\<open>cleanup\<close>. \<^verbatim>\<open>op\<close> dispatches to
  upio.c (power, pins), userial_vendor.c (port) and hardware.c (everything that talks HCI).
  hardware.c never waits for the controller: it allocates a command buffer from the stack, hands
  it over through \<^verbatim>\<open>xmit_cb\<close> with a completion callback, and goes on when that callback is called
  with the controller's event. Between two calls the whole state of the library is in static
  variables. A timer thread of upio.c releases BT_WAKE.

  \<^bold>\<open>How it is modelled.\<close> A state is a record, one layer per file: \<^verbatim>\<open>os\<close> (the log of the calls that
  left the library), \<^verbatim>\<open>us_world\<close> (userial_vendor.c), \<^verbatim>\<open>up_world\<close> (upio.c), \<^verbatim>\<open>vnd_world\<close>
  (bt_vendor_nordic.c) and \<^verbatim>\<open>hw_world\<close> (hardware.c), each extending the one before, so that an
  operation of a lower file is applied to the full state as it is. Every operation takes the build
  configuration \<^verbatim>\<open>C\<close> (a field per macro that selects code or gives a value) and the environment
  \<^verbatim>\<open>E\<close> (the answers of the operating system and of the host stack, functions of the history of
  calls, so any behaviour of theirs is covered by a theorem for all \<^verbatim>\<open>E\<close>). Every call that leaves
  the library is appended to the log with its arguments and its result. Operations are
  written in the option monad: \<^verbatim>\<open>None\<close> is undefined behaviour of C (an access outside an object, a
  NULL pointer, the overflow of a signed counter, a loop that does not end); error codes are
  ordinary results. Machine integers are words, memory blocks are byte lists of the object's size,
  and a store beyond the end has no result.

  \<^bold>\<open>Theories.\<close>
  \<^item> Prelude: machine types, the theorem collections, facts on options, lists, words.
  \<^item> CLib: memory blocks and the C string functions the code calls.
  \<^item> BuildConfig: bt_vendor_nordic.h, userial_vendor.h, vnd_nordic.txt.
  \<^item> Platform: the boundary, that is \<^verbatim>\<open>env\<close>, the logged events, and the termios data.
  \<^item> Resources: who owns a buffer, a descriptor or a timer, as an account read off the log; the locales
    \<^verbatim>\<open>event_handler\<close> (a completion callback frees its event once and leaks no command) and
    \<^verbatim>\<open>neutral_operation\<close> (an operation keeps no buffer). A timer may be created only when none is
    running and deleted only when it is.
  \<^item> Userial: userial_vendor.c; the locale \<^verbatim>\<open>port_lifecycle\<close>, interpreted on open and close.
  \<^item> Upio: upio.c; the locale \<^verbatim>\<open>pin_driver\<close>, interpreted on the LPM and the BT_WAKE pin.
  \<^item> WakeRace: a BT_WAKE request and the thread of the holding timer access by access (\<^verbatim>\<open>wake_step\<close>),
    against \<^verbatim>\<open>upio_set\<close> and \<^verbatim>\<open>proc_btwrite_timeout\<close>, and their interleavings; the locale
    \<^verbatim>\<open>thread_pair\<close>, interpreted on the two threads.
  \<^item> LpmRace: the same for a sleep mode request (\<^verbatim>\<open>lpm_step\<close>), which makes and deletes the timer; and the
    order given to a deleted timer.
  \<^item> Callbacks: the callback table, HC_BT_HDR buffers, the STREAM macros.
  \<^item> HwFw: the state of hardware.c, \<^verbatim>\<open>look_up_fw_settlement_delay\<close>, \<^verbatim>\<open>ms_delay\<close>,
    \<^verbatim>\<open>line_speed_to_userial_baud\<close>, \<^verbatim>\<open>hw_strncmp\<close>, \<^verbatim>\<open>hw_config_findpatch\<close>.
  \<^item> HwConfig: \<^verbatim>\<open>hw_config_start\<close> and \<^verbatim>\<open>hw_config_cback\<close>, one definition per case of the switch.
  \<^item> ChipName: the loop that capitalises the controller's name and the chip name cut out of it, in
    builds with and without the option for the BCM4343.
  \<^item> FwProtocol, ConfigDefined, ConfigProps: the abstract protocol \<^verbatim>\<open>fw_step\<close>. It is indexed by the event
    it answers, by the settings of the library (\<^verbatim>\<open>fw_context\<close>) and by the speed the step sets the port to,
    if any; every choice of a step is bound to the event, to the settings or to what the environment
    may answer. Every event handled by \<^verbatim>\<open>hw_config_cback\<close> is proved to be one of its steps, which leaves
    everything but the configuration block and the line speeds alone (\<^verbatim>\<open>frame_of\<close>). From it follow: each
    buffer freed or handed over once, the patch file closed, one report, bounded progress,
    sound packets; where the configuration is defined and where it is not.
  \<^item> LineSpeed: the speed of the port in each state of the configuration, against the rate in bits per
    second at which the controller answers there.
  \<^item> ConfigLive: \<^verbatim>\<open>configure_with\<close> closes the loop with a controller that answers every command, and
    the configuration is proved to come to its end and to report success.
  \<^item> HwLpm, HwSco, HwEpilog: the rest of hardware.c, and ScoProps: each audio callback carries out
    a step of \<^verbatim>\<open>sco_plan\<close>, a whole set-up, the bus parameters.
  \<^item> Conf: conf.c and the actions of hardware.c it dispatches to, against the list of settings a
    file contains.
  \<^item> PatchChoice: conf.c and the download together, from the name in the configuration file to the
    file that \<^verbatim>\<open>hw_config_cback\<close> opens.
  \<^item> Vendor: \<^verbatim>\<open>init\<close>, \<^verbatim>\<open>op\<close>, \<^verbatim>\<open>cleanup\<close> of bt_vendor_nordic.c, and the library as a whole:
    \<^verbatim>\<open>lib_step\<close> is one call into it, and a state is \<^verbatim>\<open>reachable\<close> by any interleaving of them. The
    invariant and the absence of undefined behaviour under \<^verbatim>\<open>call_safe\<close>.
  \<^item> Session: the runs between \<^verbatim>\<open>init\<close> and \<^verbatim>\<open>cleanup\<close>, with the accounts of buffers, descriptors and
    the timer for any interleaving of orderly calls, and what cleanup leaves behind. A session counts the
    buffers of the resets that the host refused at the start of a configuration and at the epilog
    (\<^verbatim>\<open>lost\<close>), which the library never frees.
  \<^item> Startup: opening the port and initializing the controller through \<^verbatim>\<open>op\<close>, from any reachable state
    to the reported success.
  \<^item> Wire, Uipc, CodecParams, UipcAudio: the data of uipc_msg.h. The header declares messages that no file
    under src/ stores or reads; the structs are records, the opcodes and parameters datatypes or tables.
    The packed memory of a struct is given by a writer and a reader made from its declaration, which
    interpret the locale \<^verbatim>\<open>packed\<close>; they serve for the sizes and stand for no code.

  \<^bold>\<open>Loops and bounds.\<close> No definition of the code takes fuel. The search for the rfkill switch recurses to the
  largest \<^verbatim>\<open>int\<close> (a counter overflow beyond it has no result); the configuration file is read
  until its bytes are used up; the retry loop of \<^verbatim>\<open>nanosleep\<close> is a partial function in the option
  monad, proved to end when the remainder the system hands back gets smaller
  (\<^verbatim>\<open>sleep_remainder_smaller\<close>). The other loops are structural. The closed loop \<^verbatim>\<open>configure_with\<close>
  counts the controller's answers: the states of a configuration that downloads a patch need eleven
  besides one per record read, and every answer but the one to a record lowers \<^verbatim>\<open>rank\<close>, so with
  a file that ends after B reads 11 + B answers are enough. \<^verbatim>\<open>run_alone\<close> grants a thread ten or eleven
  steps, the longest way through \<^verbatim>\<open>wake_step\<close> and \<^verbatim>\<open>lpm_step\<close> (\<^verbatim>\<open>pc_rank\<close>, \<^verbatim>\<open>lpm_rank\<close>).

  \<^bold>\<open>Assumptions on the environment.\<close> \<^verbatim>\<open>sleep_remainder_smaller\<close>: an interrupted sleep leaves less
  to sleep. \<^verbatim>\<open>finitely_many_radios\<close>: at some point no further rfkill node can be opened.
  \<^verbatim>\<open>sane_host\<close>: \<^verbatim>\<open>xmit_cb\<close> answers TRUE or FALSE, open returns a descriptor or -1. \<^verbatim>\<open>accepting_host\<close>, \<^verbatim>\<open>cooperative\<close>, \<^verbatim>\<open>file_ends\<close>: for the completion of a
  configuration only, the host stack has memory and takes every command, the controller answers
  without an error, the patch file has an end. The theorems on sessions also take their calls to be \<^verbatim>\<open>orderly\<close>: the port is not
  opened twice, no configuration is started while one is under way, and a configuration callback
  answers a command of a configuration. The theorem on line speeds takes \<^verbatim>\<open>UART_TARGET_BAUD_RATE\<close> to
  be one of the thirteen supported rates (\<^verbatim>\<open>supported_rate\<close>), and the one on a configured patch takes the
  controller's name to leave room for the path (\<^verbatim>\<open>named_room\<close>). What happens otherwise is stated by the
  theorems on errors. \<^verbatim>\<open>target_speed\<close>, the speed a configuration ends with, is the device speed whose
  rate is the configured one, and 115200 when there is none.

  \<^bold>\<open>What the code does differently from what it means to.\<close> These are theorems too:
  the capitalising loop runs past the event for a name that fills its field; the
  search for a patch file clears and writes memory behind the name field; a refused reset is lost; a refused
  address is reported as success; a target speed that is none of the thirteen known ones is told to
  the controller while the port stays at 115200; a second open leaks the first descriptor; a sleep mode request
  that failed is suppressed from then on; data bits and parity never reach the port; on a PCM bus
  a later configuration takes the wide-band rate for the narrow-band one; the tail of a long
  comment is taken for a setting; the holding timer is armed with unwritten memory when it was
  never created, and ordered by its old number after it was deleted; a race between a BT_WAKE request and the timer's thread can leave the chip awake.

  \<^bold>\<open>Not modelled.\<close> Log output. The a2dp offload module (an external library, a function of the
  environment). Scheduling inside an operation other than
  a BT_WAKE or sleep mode request: operations, callbacks and timer expiries interleave
  as wholes, and a callback is never called from inside \<^verbatim>\<open>xmit_cb\<close>. Weak memory. The build scripts, whose
  macros are the fields of \<^verbatim>\<open>buildcfg\<close>. The unit tests and mocks under src/unit_test and src/mocks:
  they exercise a library of the host stack whose sources are not in the repository.
\<close>

end
